(* ===== verification/Prelude.thy ===== *)
theory Prelude
  imports Main "HOL-Library.Word"
begin

text \<open>
  Shared ground of the development: the types every component uses (bytes, Go strings,
  connection identities), the functions of the Go standard library that the source calls on
  strings (\<open>strings\<close>, \<open>strconv\<close>, \<open>fmt\<close>'s \<open>%d\<close> and \<open>%x\<close>), the map operation behind a
  \<open>for k, v := range m { if ... { delete(m, k) } }\<close> loop, and the generic lemmas on them.

  A Go string is a byte sequence; it is an HOL \<open>string\<close>, a list of 8-bit characters, so
  \<open>length\<close> counts bytes as Go's \<open>len\<close> does. A Go map is a partial function; ranging over
  one visits the keys in an unspecified order, which is an explicit argument wherever the
  order can be seen.
\<close>

named_theorems relay_defs "the operations of the relay's server state"
named_theorems msg_simps "constructors of wire messages"

type_synonym byte = "8 word"
type_synonym bytes = "byte list"
type_synonym conn_id = nat

section \<open>Go strings\<close>

text \<open>\<open>strings.HasPrefix\<close>, \<open>strings.HasSuffix\<close>, \<open>strings.TrimPrefix\<close> and \<open>strings.TrimSuffix\<close>.\<close>

definition has_prefix :: "string \<Rightarrow> string \<Rightarrow> bool" where
  "has_prefix s p \<longleftrightarrow> length p \<le> length s \<and> take (length p) s = p"

definition has_suffix :: "string \<Rightarrow> string \<Rightarrow> bool" where
  "has_suffix s p \<longleftrightarrow> length p \<le> length s \<and> drop (length s - length p) s = p"

definition trim_prefix :: "string \<Rightarrow> string \<Rightarrow> string" where
  "trim_prefix s p = (if has_prefix s p then drop (length p) s else s)"

definition trim_suffix :: "string \<Rightarrow> string \<Rightarrow> string" where
  "trim_suffix s p = (if has_suffix s p then take (length s - length p) s else s)"

text \<open>\<open>strings.Contains\<close>.\<close>

fun str_contains :: "string \<Rightarrow> string \<Rightarrow> bool" where
  "str_contains [] sub = (sub = [])"
| "str_contains (c # s) sub = (has_prefix (c # s) sub \<or> str_contains s sub)"

text \<open>\<open>strings.TrimSpace\<close> and \<open>strings.Fields\<close>, on the ASCII white space of Go's
  \<open>unicode.IsSpace\<close> (tab, line feed, vertical tab, form feed, carriage return, blank).\<close>

definition go_space :: "char \<Rightarrow> bool" where
  "go_space c \<longleftrightarrow> (of_char c :: nat) \<in> {9, 10, 11, 12, 13, 32}"

definition trim_space :: "string \<Rightarrow> string" where
  "trim_space s = rev (dropWhile go_space (rev (dropWhile go_space s)))"

text \<open>\<open>strings.Split\<close> on a one-character separator: always at least one field.\<close>

fun go_split :: "char \<Rightarrow> string \<Rightarrow> string list" where
  "go_split d [] = [[]]"
| "go_split d (c # s) =
     (if c = d then [] # go_split d s
      else case go_split d s of [] \<Rightarrow> [[c]] | f # fs \<Rightarrow> (c # f) # fs)"

text \<open>\<open>strings.Fields\<close>: the maximal runs of characters that are not space; \<open>cur\<close> is the
  run being read.\<close>

fun go_fields_from :: "string \<Rightarrow> string \<Rightarrow> string list" where
  "go_fields_from cur [] = (if cur = [] then [] else [cur])"
| "go_fields_from cur (c # s) =
     (if go_space c then (if cur = [] then go_fields_from [] s else cur # go_fields_from [] s)
      else go_fields_from (cur @ [c]) s)"

definition go_fields :: "string \<Rightarrow> string list" where
  "go_fields s = go_fields_from [] s"

text \<open>\<open>strings.Join\<close>.\<close>

fun go_join :: "string \<Rightarrow> string list \<Rightarrow> string" where
  "go_join sep [] = []"
| "go_join sep [x] = x"
| "go_join sep (x # y # xs) = x @ sep @ go_join sep (y # xs)"

lemma has_prefix_append [simp]: "has_prefix (p @ s) p"
  by (simp add: has_prefix_def)

lemma has_prefix_iff: "has_prefix s p \<longleftrightarrow> (\<exists>t. s = p @ t)"
  unfolding has_prefix_def by (metis append_eq_conv_conj append_take_drop_id length_take
      min_def nat_le_linear)

lemma str_contains_append_left: "str_contains s sub \<Longrightarrow> str_contains (p @ s) sub"
  by (induction p) auto

lemma str_contains_has_prefix: "has_prefix s sub \<Longrightarrow> str_contains s sub"
  by (cases s) (auto simp: has_prefix_def)

lemma str_contains_iff: "str_contains s sub \<longleftrightarrow> (\<exists>p t. s = p @ sub @ t)"
proof
  show "str_contains s sub \<Longrightarrow> \<exists>p t. s = p @ sub @ t"
  proof (induction s)
    case (Cons c s)
    then show ?case
      by (auto simp: has_prefix_iff) (metis append_Cons append_Nil)+
  qed auto
next
  assume "\<exists>p t. s = p @ sub @ t"
  then obtain p t where "s = p @ (sub @ t)" by auto
  then show "str_contains s sub"
    by (simp add: str_contains_append_left str_contains_has_prefix)
qed

lemma str_contains_middle [simp]: "str_contains (p @ sub @ t) sub"
  by (auto simp: str_contains_iff)

lemma str_contains_prefix [simp]: "str_contains (sub @ t) sub"
  using str_contains_middle [of "[]"] by simp

lemma go_split_not_Nil [simp]: "go_split d s \<noteq> []"
  by (cases s) (auto split: list.splits)

lemma go_split_no_sep: "d \<notin> set s \<Longrightarrow> go_split d s = [s]"
  by (induction s) auto

lemma go_split_fields: "f \<in> set (go_split d s) \<Longrightarrow> d \<notin> set f"
  by (induction s arbitrary: f) (auto split: if_splits list.splits)

lemma go_split_cons: "d \<notin> set f \<Longrightarrow> go_split d (f @ d # s) = f # go_split d s"
  by (induction f) auto

lemma go_join_Cons_head: "go_join sep ((c # x) # xs) = c # go_join sep (x # xs)"
  by (cases xs) auto

lemma go_join_split: "go_join [d] (go_split d s) = s"
proof (induction s)
  case (Cons c s)
  then show ?case
    by (cases "go_split d s") (auto simp: neq_Nil_conv go_join_Cons_head split: list.splits)
qed simp

lemma go_split_join:
  "xs \<noteq> [] \<Longrightarrow> (\<forall>x\<in>set xs. d \<notin> set x) \<Longrightarrow> go_split d (go_join [d] xs) = xs"
  by (induction "[d]" xs rule: go_join.induct) (auto simp: go_split_no_sep go_split_cons)

text \<open>Words joined by blanks are its fields.\<close>

lemma go_fields_word: "\<forall>c\<in>set s. \<not> go_space c \<Longrightarrow> go_fields_from cur (s @ t) = go_fields_from (cur @ s) t"
  by (induction s arbitrary: cur) auto

lemma go_fields_join:
  "\<forall>w\<in>set ws. w \<noteq> '''' \<and> (\<forall>c\<in>set w. \<not> go_space c) \<Longrightarrow> go_fields (go_join '' '' ws) = ws"
  unfolding go_fields_def
proof (induction ws rule: induct_list012)
  case (2 w)
  then show ?case using go_fields_word [of w "[]" "[]"] by simp
next
  case (3 w v ws)
  then show ?case using go_fields_word [of w "[]" "'' '' @ go_join '' '' (v # ws)"] by (simp add: go_space_def)
qed simp

lemma go_space_Nil_trim [simp]: "trim_space [] = []"
  by (simp add: trim_space_def)

lemma trim_space_id:
  "s = [] \<or> (\<not> go_space (hd s) \<and> \<not> go_space (last s)) \<Longrightarrow> trim_space s = s"
proof (cases s rule: rev_cases)
  case (snoc t c)
  assume "s = [] \<or> (\<not> go_space (hd s) \<and> \<not> go_space (last s))"
  then have "\<not> go_space c" and "dropWhile go_space s = s"
    using snoc by (auto simp: dropWhile_eq_self_iff)
  then show ?thesis using snoc by (simp add: trim_space_def)
qed simp

section \<open>Numbers as text\<close>

text \<open>\<open>fmt.Sprintf("%d")\<close> and \<open>strconv.Itoa\<close>.\<close>

definition digit_char :: "nat \<Rightarrow> char" where
  "digit_char d = char_of (48 + d)"

function nat_digits :: "nat \<Rightarrow> string" where
  "nat_digits n = (if n < 10 then [digit_char n] else nat_digits (n div 10) @ [digit_char (n mod 10)])"
  by pat_completeness auto
termination
  by (relation "measure id") auto

declare nat_digits.simps [simp del]

definition go_itoa :: "int \<Rightarrow> string" where
  "go_itoa i = (if i < 0 then ''-'' @ nat_digits (nat (- i)) else nat_digits (nat i))"

text \<open>\<open>strconv.Atoi\<close> on a 64-bit platform: an optional sign, at least one digit, and the
  value in the range of a Go \<open>int\<close>; \<open>None\<close> is its error.\<close>

definition digit_val :: "char \<Rightarrow> nat option" where
  "digit_val c = (let n = (of_char c :: nat) in if 48 \<le> n \<and> n \<le> 57 then Some (n - 48) else None)"

fun digits_from :: "nat \<Rightarrow> string \<Rightarrow> nat option" where
  "digits_from acc [] = Some acc"
| "digits_from acc (c # s) =
     (case digit_val c of None \<Rightarrow> None | Some d \<Rightarrow> digits_from (10 * acc + d) s)"

definition go_int_range :: "int \<Rightarrow> bool" where
  "go_int_range i \<longleftrightarrow> - (2 ^ 63) \<le> i \<and> i < 2 ^ 63"

definition go_atoi :: "string \<Rightarrow> int option" where
  "go_atoi s =
     (let (neg, ds) = (case s of [] \<Rightarrow> (False, [])
                       | c # t \<Rightarrow> if c = CHR ''-'' then (True, t) else if c = CHR ''+'' then (False, t) else (False, s))
      in if ds = [] then None
         else case digits_from 0 ds of
                None \<Rightarrow> None
              | Some n \<Rightarrow> (let i = (if neg then - int n else int n) in if go_int_range i then Some i else None))"

lemma digit_val_char [simp]: "d < 10 \<Longrightarrow> digit_val (digit_char d) = Some d"
  by (auto simp: digit_val_def digit_char_def of_char_of take_bit_nat_eq_self)

lemma digits_from_append:
  "digits_from acc (s @ t) = (case digits_from acc s of None \<Rightarrow> None | Some n \<Rightarrow> digits_from n t)"
  by (induction acc s rule: digits_from.induct) (auto split: option.splits)

lemma digits_from_nat_digits: "digits_from 0 (nat_digits n) = Some n"
proof (induction n rule: nat_digits.induct)
  case (1 n)
  show ?case
  proof (cases "n < 10")
    case True
    then show ?thesis by (subst nat_digits.simps) simp
  next
    case False
    with 1 show ?thesis by (subst nat_digits.simps) (simp add: digits_from_append)
  qed
qed

lemma nat_digits_not_Nil [simp]: "nat_digits n \<noteq> []"
  by (subst nat_digits.simps) simp

lemma nat_digits_digits: "c \<in> set (nat_digits n) \<Longrightarrow> 48 \<le> (of_char c :: nat) \<and> of_char c \<le> (57 :: nat)"
proof (induction n rule: nat_digits.induct)
  case (1 n)
  have d: "48 \<le> (of_char (digit_char d) :: nat) \<and> of_char (digit_char d) \<le> (57 :: nat)" if "d < 10" for d
    using that by (simp add: digit_char_def of_char_of take_bit_nat_eq_self)
  show ?case
  proof (cases "n < 10")
    case True
    then show ?thesis using 1(2) d by (subst (asm) nat_digits.simps) simp
  next
    case False
    then show ?thesis using 1 d [of "n mod 10"] by (subst (asm) (2) nat_digits.simps) auto
  qed
qed

lemma go_atoi_itoa: "go_int_range i \<Longrightarrow> go_atoi (go_itoa i) = Some i"
proof (cases "i < 0")
  case True
  assume "go_int_range i"
  then show ?thesis using True by (simp add: go_atoi_def go_itoa_def digits_from_nat_digits)
next
  case False
  assume "go_int_range i"
  obtain c s where cs: "nat_digits (nat i) = c # s" by (cases "nat_digits (nat i)") auto
  then have "c \<noteq> CHR ''-''" "c \<noteq> CHR ''+''" using nat_digits_digits [of c "nat i"] by auto
  then show ?thesis using False \<open>go_int_range i\<close> digits_from_nat_digits [of "nat i"] cs by (simp add: go_atoi_def go_itoa_def)
qed

section \<open>Go machine integers\<close>

text \<open>Go's \<open>int\<close> and \<open>int64\<close> are 64-bit two's complement and wrap on overflow.\<close>

definition wrap64 :: "int \<Rightarrow> int" where
  "wrap64 i = (i + 2 ^ 63) mod 2 ^ 64 - 2 ^ 63"

lemma wrap64_id: "go_int_range i \<Longrightarrow> wrap64 i = i"
  by (simp add: wrap64_def go_int_range_def)

lemma wrap64_range: "go_int_range (wrap64 i)"
proof -
  have "0 \<le> (i + 2 ^ 63) mod 2 ^ 64" and "(i + 2 ^ 63) mod (2 ^ 64 :: int) < 2 ^ 64"
    by simp_all
  then show ?thesis by (simp add: wrap64_def go_int_range_def)
qed

section \<open>Go maps\<close>

text \<open>
  \<open>map_drop P m\<close> is the map left by \<open>for _, v := range m { if P(v) { delete(m, k) } }\<close>;
  the result does not depend on the order of the range.
\<close>

definition map_drop :: "('v \<Rightarrow> bool) \<Rightarrow> ('k \<rightharpoonup> 'v) \<Rightarrow> ('k \<rightharpoonup> 'v)" where
  "map_drop P m = (\<lambda>k. case m k of None \<Rightarrow> None | Some v \<Rightarrow> if P v then None else Some v)"

lemma map_drop_Some [simp]: "map_drop P m k = Some v \<longleftrightarrow> m k = Some v \<and> \<not> P v"
  by (auto simp: map_drop_def split: option.splits)

lemma map_drop_None: "map_drop P m k = None \<longleftrightarrow> (\<forall>v. m k = Some v \<longrightarrow> P v)"
  by (auto simp: map_drop_def split: option.splits)

lemma map_drop_empty [simp]: "map_drop P Map.empty = Map.empty"
  by (simp add: map_drop_def)

lemma map_drop_nothing: "(\<And>k v. m k = Some v \<Longrightarrow> \<not> P v) \<Longrightarrow> map_drop P m = m"
  by (rule ext) (auto simp: map_drop_def split: option.splits)

text \<open>A map with one key per element of a finite set: the union of the parts is finite.\<close>

lemma finite_keys_update: "finite {k. \<exists>v. m k = Some v \<and> P v} \<Longrightarrow> finite {k. \<exists>v. (m(a \<mapsto> b)) k = Some v \<and> P v}"
  by (rule finite_subset [of _ "insert a {k. \<exists>v. m k = Some v \<and> P v}"]) auto

end
