(* ===== verification/Codecs.thy ===== *)
theory Codecs
  imports Prelude
begin

text \<open>
  Encodings. The interface every encoder and decoder of the program satisfies is the locale
  \<open>codec\<close>: decoding an encoded value gives it back, so the encoding is injective on the
  values it accepts. Here it is interpreted on the lower-case hexadecimal of \<open>fmt\<close>'s \<open>%x\<close>
  (request ids, pair codes, tokens) and on the four-byte big-endian header length of the
  relay's write queue (\<open>sendRawHeaderAndBinary\<close> and \<open>startWriter\<close> in relay_client.go).
\<close>

section \<open>The contract of an encoding\<close>

locale codec =
  fixes enc :: "'a \<Rightarrow> 'b" and dec :: "'b \<Rightarrow> 'a option" and valid :: "'a \<Rightarrow> bool"
  assumes dec_enc: "valid x \<Longrightarrow> dec (enc x) = Some x"
begin

lemma enc_inj: "valid x \<Longrightarrow> valid y \<Longrightarrow> enc x = enc y \<Longrightarrow> x = y"
  using dec_enc by (metis option.inject)

lemma enc_inj_on: "inj_on enc {x. valid x}"
  by (auto intro: inj_onI enc_inj)

lemma dec_many: "(\<forall>x\<in>set xs. valid x) \<Longrightarrow> map (dec \<circ> enc) xs = map Some xs"
  by (auto simp: dec_enc)

end

section \<open>Hexadecimal\<close>

definition hex_digit :: "nat \<Rightarrow> char" where
  "hex_digit d = char_of (if d < 10 then 48 + d else 87 + d)"

definition hex_byte :: "byte \<Rightarrow> string" where
  "hex_byte b = [hex_digit (unat b div 16), hex_digit (unat b mod 16)]"

text \<open>\<open>fmt.Sprintf("%x", b)\<close> and \<open>hex.EncodeToString(b)\<close> on a byte slice.\<close>

definition hex_of_bytes :: "bytes \<Rightarrow> string" where
  "hex_of_bytes bs = concat (map hex_byte bs)"

definition hex_val :: "char \<Rightarrow> nat option" where
  "hex_val c = (let n = (of_char c :: nat)
     in if 48 \<le> n \<and> n \<le> 57 then Some (n - 48) else if 97 \<le> n \<and> n \<le> 102 then Some (n - 87) else None)"

fun bytes_of_hex :: "string \<Rightarrow> bytes option" where
  "bytes_of_hex [] = Some []"
| "bytes_of_hex [c] = None"
| "bytes_of_hex (c # d # s) =
     (case (hex_val c, hex_val d, bytes_of_hex s) of
        (Some x, Some y, Some bs) \<Rightarrow> Some (word_of_nat (16 * x + y) # bs)
      | _ \<Rightarrow> None)"

lemma hex_val_digit [simp]: "d < 16 \<Longrightarrow> hex_val (hex_digit d) = Some d"
  by (auto simp: hex_val_def hex_digit_def Let_def of_char_of take_bit_nat_eq_self)

lemma unat_byte_lt [simp]: "unat (b :: byte) < 256"
  using unsigned_less [of b, where ?'a = nat] by simp

lemma bytes_of_hex_byte:
  "bytes_of_hex (hex_byte b @ s) = map_option (\<lambda>bs. b # bs) (bytes_of_hex s)"
proof -
  have "unat b div 16 < 16" using unat_byte_lt [of b] by (simp add: less_mult_imp_div_less)
  then show ?thesis
    by (auto simp: hex_byte_def split: option.splits)
qed

lemma bytes_of_hex_of_bytes: "bytes_of_hex (hex_of_bytes bs) = Some bs"
  by (induction bs) (auto simp: hex_of_bytes_def bytes_of_hex_byte)

interpretation hex: codec hex_of_bytes bytes_of_hex "\<lambda>_. True"
  by unfold_locales (rule bytes_of_hex_of_bytes)

lemma length_hex_of_bytes [simp]: "length (hex_of_bytes bs) = 2 * length bs"
  by (induction bs) (auto simp: hex_of_bytes_def hex_byte_def)

section \<open>The four-byte header length\<close>

text \<open>
  \<open>frame[1] = byte(hl >> 24)\<close> \<dots> \<open>frame[4] = byte(hl)\<close>, and its reader
  \<open>int(frame[1])<<24 | int(frame[2])<<16 | int(frame[3])<<8 | int(frame[4])\<close>. The bytes
  are combined with addition: the four shifted bytes have no bit in common.
\<close>

definition be32_enc :: "nat \<Rightarrow> bytes" where
  "be32_enc n = [word_of_nat (n div 2 ^ 24), word_of_nat (n div 2 ^ 16),
                 word_of_nat (n div 2 ^ 8), word_of_nat n]"

fun be32_dec :: "bytes \<Rightarrow> nat option" where
  "be32_dec (a # b # c # d # _) =
     Some (unat a * 2 ^ 24 + unat b * 2 ^ 16 + unat c * 2 ^ 8 + unat d)"
| "be32_dec _ = None"

lemma length_be32_enc [simp]: "length (be32_enc n) = 4"
  by (simp add: be32_enc_def)

lemma unat_of_nat_byte: "unat (word_of_nat n :: byte) = n mod 256"
  by (simp add: unat_of_nat)

lemma be32_dec_enc_append: "n < 2 ^ 32 \<Longrightarrow> be32_dec (be32_enc n @ rest) = Some n"
proof -
  assume n: "n < 2 ^ 32"
  define p where "p = n div 2 ^ 8"
  define q where "q = n div 2 ^ 16"
  define r where "r = n div 2 ^ 24"
  have q: "q = p div 256" and r: "r = q div 256"
    by (simp_all add: p_def q_def r_def div_mult2_eq [symmetric])
  have small: "r < 256"
    using n by (simp add: r_def less_mult_imp_div_less)
  moreover have "n = 256 * p + n mod 256"
    by (simp add: p_def)
  moreover have "p = 256 * q + p mod 256" and "q = 256 * r + q mod 256"
    unfolding q r by simp_all
  ultimately have "r mod 256 * 2 ^ 24 + q mod 256 * 2 ^ 16 + p mod 256 * 2 ^ 8 + n mod 256 = n"
    by simp
  then show ?thesis
    using small unfolding p_def q_def r_def by (simp add: be32_enc_def unat_of_nat_byte)
qed

interpretation be32: codec be32_enc be32_dec "\<lambda>n. n < 2 ^ 32"
  by unfold_locales (use be32_dec_enc_append [of _ "[]"] in simp)

end
