(* ===== verification/Protocol.thy ===== *)
theory Protocol
  imports Codecs
begin

text \<open>
  The wire protocol (protocol.go): the message every peer sends, the constructors of replies,
  request ids and the relay URL. The JSON encoding itself is the standard library's; a message
  travels as the value it encodes. A field that a Go composite literal leaves out has its zero
  value, which \<open>empty_message\<close> spells out.

  \<open>Results\<close> maps a target to the result it answered. A sub-result's own \<open>Results\<close> is not
  kept (the source never reads one), so a sub-result is the parent record \<open>message0\<close>.
\<close>

section \<open>Messages\<close>

record message0 =
  m_type :: string
  m_id :: string
  m_target :: string
  m_token :: string
  m_name :: string
  m_cmd :: string
  m_timeout :: int
  m_stream :: bool
  m_ok :: "bool option"
  m_stdout :: string
  m_stderr :: string
  m_exit_code :: int
  m_duration_ms :: int
  m_error :: string
  m_stream_name :: string
  m_data :: string
  m_code :: string
  m_hostname :: string
  m_require_activation_key :: bool
  m_activation_key :: string
  m_src_path :: string
  m_dst_path :: string
  m_content :: string
  m_mode :: string
  m_chunked :: bool
  m_seq :: int
  m_total_chunks :: int
  m_total_size :: int
  m_final :: bool
  m_chunk_size_bytes :: int
  m_parallel_streams :: int
  m_binary_chunk :: bool
  m_compressed :: bool
  m_stdin_data :: string
  m_targets :: "string list"
  m_tokens :: "string \<rightharpoonup> string"
  m_parallel :: int
  m_tunnel_id :: string
  m_remote_addr :: string
  m_daemon_version :: string

record message = message0 +
  m_results :: "(string \<rightharpoonup> message0) option"

definition empty_message :: message where
  "empty_message = \<lparr>m_type = '''', m_id = '''', m_target = '''', m_token = '''', m_name = '''',
     m_cmd = '''', m_timeout = 0, m_stream = False, m_ok = None, m_stdout = '''', m_stderr = '''',
     m_exit_code = 0, m_duration_ms = 0, m_error = '''', m_stream_name = '''', m_data = '''',
     m_code = '''', m_hostname = '''', m_require_activation_key = False, m_activation_key = '''',
     m_src_path = '''', m_dst_path = '''', m_content = '''', m_mode = '''', m_chunked = False,
     m_seq = 0, m_total_chunks = 0, m_total_size = 0, m_final = False, m_chunk_size_bytes = 0,
     m_parallel_streams = 0, m_binary_chunk = False, m_compressed = False, m_stdin_data = '''',
     m_targets = [], m_tokens = Map.empty, m_parallel = 0, m_tunnel_id = '''', m_remote_addr = '''',
     m_daemon_version = '''', m_results = None\<rparr>"

text \<open>A websocket frame: a text frame that decodes to a message, a text frame that is not
  JSON, or a binary frame.\<close>

datatype wsframe = Json message | BadJson string | Binary bytes

section \<open>Reply constructors\<close>

text \<open>\<open>Version\<close> is the build's version string, an argument here.\<close>

definition streamEndOK :: "string \<Rightarrow> string \<Rightarrow> int \<Rightarrow> int \<Rightarrow> message" where
  "streamEndOK version mid exitCode durationMs = empty_message\<lparr>m_type := ''stream_end'', m_id := mid,
     m_ok := Some (exitCode = 0), m_exit_code := exitCode, m_duration_ms := durationMs,
     m_daemon_version := version\<rparr>"

definition streamEndErr :: "string \<Rightarrow> string \<Rightarrow> string \<Rightarrow> message" where
  "streamEndErr version mid errMsg = empty_message\<lparr>m_type := ''stream_end'', m_id := mid,
     m_ok := Some False, m_error := errMsg, m_daemon_version := version\<rparr>"

definition okResult :: "string \<Rightarrow> string \<Rightarrow> string \<Rightarrow> string \<Rightarrow> int \<Rightarrow> int \<Rightarrow> message" where
  "okResult version mid stdout stderr exitCode durationMs = empty_message\<lparr>m_type := ''result'',
     m_id := mid, m_ok := Some True, m_stdout := stdout, m_stderr := stderr,
     m_exit_code := exitCode, m_duration_ms := durationMs, m_daemon_version := version\<rparr>"

definition errResult :: "string \<Rightarrow> string \<Rightarrow> message" where
  "errResult mid msg = empty_message\<lparr>m_type := ''result'', m_id := mid, m_ok := Some False, m_error := msg\<rparr>"

definition stampVersion :: "string \<Rightarrow> message \<Rightarrow> message" where
  "stampVersion version m = m\<lparr>m_daemon_version := version\<rparr>"

lemmas [msg_simps] = empty_message_def streamEndOK_def streamEndErr_def okResult_def errResult_def
  stampVersion_def

section \<open>Request ids\<close>

text \<open>
  \<open>newID\<close> reads 16 random bytes and prints them in hexadecimal. The random source is a
  sequence of blocks, and draw \<open>k\<close> reads block \<open>k\<close>. What the code relies on is that the
  blocks drawn so far differ from one another: \<open>fresh_entropy e n\<close> says so of the first
  \<open>n\<close> draws (not of all draws, since there are only \<open>2 ^ 128\<close> blocks).
\<close>

type_synonym entropy = "nat \<Rightarrow> bytes"

definition fresh_entropy :: "entropy \<Rightarrow> nat \<Rightarrow> bool" where
  "fresh_entropy e n \<longleftrightarrow> inj_on e {..<n} \<and> (\<forall>k. length (e k) = 16)"

definition newID :: "entropy \<Rightarrow> nat \<Rightarrow> string" where
  "newID e k = hex_of_bytes (e k)"

lemma newID_eq: "fresh_entropy e n \<Longrightarrow> i < n \<Longrightarrow> j < n \<Longrightarrow> newID e i = newID e j \<longleftrightarrow> i = j"
  by (auto simp: newID_def fresh_entropy_def dest: hex.enc_inj [OF TrueI TrueI] inj_onD)

lemma newID_length: "fresh_entropy e n \<Longrightarrow> length (newID e k) = 32"
  by (simp add: newID_def fresh_entropy_def)

lemma newID_not_Nil: "fresh_entropy e n \<Longrightarrow> newID e k \<noteq> []"
  using newID_length [of e n k] by auto

lemma fresh_entropy_mono: "fresh_entropy e n \<Longrightarrow> k \<le> n \<Longrightarrow> fresh_entropy e k"
  by (auto simp: fresh_entropy_def intro: inj_on_subset)

text \<open>A concrete source for the witnesses: the low byte of block \<open>k\<close> is \<open>k\<close>.\<close>

definition demo_entropy :: entropy where
  "demo_entropy k = replicate 15 0 @ [word_of_nat k]"

lemma fresh_demo_entropy: "n \<le> 256 \<Longrightarrow> fresh_entropy demo_entropy n"
  by (auto simp: fresh_entropy_def demo_entropy_def inj_on_def word_of_nat_eq_iff take_bit_nat_eq_self)

section \<open>The relay URL\<close>

definition wsURL :: "string \<Rightarrow> string" where
  "wsURL raw =
     (if 7 \<le> length raw \<and> take 7 raw = ''http://'' then ''ws://'' @ drop 7 raw
      else if 8 \<le> length raw \<and> take 8 raw = ''https://'' then ''wss://'' @ drop 8 raw
      else if 5 \<le> length raw \<and> take 5 raw = ''ws://'' then raw
      else if 6 \<le> length raw \<and> take 6 raw = ''wss://'' then raw
      else ''ws://'' @ raw)"

lemma has_prefix_ws: "has_prefix s ''ws://'' \<longleftrightarrow> 5 \<le> length s \<and> take 5 s = ''ws://''"
  and has_prefix_wss: "has_prefix s ''wss://'' \<longleftrightarrow> 6 \<le> length s \<and> take 6 s = ''wss://''"
  by (simp_all add: has_prefix_def eval_nat_numeral)

lemma wsURL_scheme: "has_prefix (wsURL raw) ''ws://'' \<or> has_prefix (wsURL raw) ''wss://''"
  unfolding has_prefix_ws has_prefix_wss by (simp add: wsURL_def)

lemma wsURL_idem: "wsURL (wsURL raw) = wsURL raw"
proof -
  have w: "wsURL (''ws://'' @ t) = ''ws://'' @ t" and s: "wsURL (''wss://'' @ t) = ''wss://'' @ t" for t
    by (simp_all add: wsURL_def)
  from wsURL_scheme [of raw] show ?thesis
    unfolding has_prefix_iff using w s by metis
qed

end
