(* ===== verification/RelayQueue.thy ===== *)
theory RelayQueue
  imports Codecs
begin

text \<open>
  The asynchronous write queue of a relay connection (relay_client.go). A connection starts
  its queue when a chunked transfer is forwarded to it; frames are then put into a channel of
  128 entries that a background goroutine drains onto the socket.

  The record \<open>wqueue\<close> is the part of \<open>relayClient\<close> the queue needs, over a type of channel
  entries and a type of websocket frames. It is used twice: with byte-slice entries, exactly
  as the code lays them out (\<open>[2][4-byte length][header][binary]\<close> and so on), and with
  entries that are lists of frames, the abstract queue that the model of the relay uses
  (theory RelayState). The refinement lemmas relate the two through \<open>decode_frame\<close>, the
  decoder of the writer goroutine.

  \<open>wq_net\<close> is the error that writing to the socket reports now (\<open>None\<close>: it succeeds), so
  every operation covers both outcomes. The writer goroutine is the operation
  \<open>writer_step\<close>, one received entry per step; the connection's mutex makes each entry's
  frames contiguous on the wire.
\<close>

section \<open>State\<close>

record ('e, 'f) wqueue =
  wq_open :: bool \<comment> \<open>\<open>writeQueue != nil\<close>\<close>
  wq_started :: bool \<comment> \<open>\<open>writeOnce\<close> has run\<close>
  wq_chan :: "'e list" \<comment> \<open>entries buffered in the channel\<close>
  wq_err :: "string option" \<comment> \<open>\<open>writeErr\<close>\<close>
  wq_dead :: bool \<comment> \<open>the writer failed and only drains the channel\<close>
  wq_net :: "string option" \<comment> \<open>what a write to the socket reports\<close>
  wire :: "'f list" \<comment> \<open>frames written to the socket, oldest first\<close>

datatype rawframe = RText bytes | RBin bytes

definition queue_capacity :: nat where
  "queue_capacity = 128"

definition conn_write :: "'f list \<Rightarrow> ('e, 'f, 'x) wqueue_scheme \<Rightarrow> string option \<times> ('e, 'f, 'x) wqueue_scheme" where
  "conn_write fs q = (case wq_net q of None \<Rightarrow> (None, q\<lparr>wire := wire q @ fs\<rparr>) | Some e \<Rightarrow> (Some e, q))"

section \<open>The writer's entries as bytes\<close>

definition enc_binary :: "bytes \<Rightarrow> bytes" where
  "enc_binary data = 1 # data"

definition enc_text :: "bytes \<Rightarrow> bytes" where
  "enc_text data = 0 # data"

definition enc_pair :: "bytes \<Rightarrow> bytes \<Rightarrow> bytes" where
  "enc_pair header binary = 2 # be32_enc (length header) @ header @ binary"

text \<open>The writer's reading of an entry; \<open>None\<close> is the panic of a slice out of range.\<close>

definition decode_frame :: "bytes \<Rightarrow> rawframe list option" where
  "decode_frame frame =
     (case frame of
        [] \<Rightarrow> Some [RText []]
      | t # body \<Rightarrow>
          if t = 2 then
            (case be32_dec body of
               None \<Rightarrow> None
             | Some hl \<Rightarrow>
                 (let rest = drop 4 body
                  in if hl \<le> length rest then Some [RText (take hl rest), RBin (drop hl rest)] else None))
          else if t = 1 then Some [RBin body]
          else if t = 0 then Some [RText body]
          else Some [RText frame])"

lemma decode_enc_binary [simp]: "decode_frame (enc_binary d) = Some [RBin d]"
  by (simp add: decode_frame_def enc_binary_def)

lemma decode_enc_text [simp]: "decode_frame (enc_text d) = Some [RText d]"
  by (simp add: decode_frame_def enc_text_def)

lemma decode_enc_pair: "length h < 2 ^ 32 \<Longrightarrow> decode_frame (enc_pair h b) = Some [RText h, RBin b]"
  by (simp add: decode_frame_def enc_pair_def be32_dec_enc_append)

interpretation frame_pair: codec "\<lambda>(h, b). enc_pair h b"
    "\<lambda>e. case decode_frame e of Some [RText h, RBin b] \<Rightarrow> Some (h, b) | _ \<Rightarrow> None"
    "\<lambda>(h, b). length h < 2 ^ 32"
  by unfold_locales (auto simp: decode_enc_pair)

section \<open>Operations of relay\_client.go\<close>

definition startWriter :: "('e, 'f, 'x) wqueue_scheme \<Rightarrow> ('e, 'f, 'x) wqueue_scheme" where
  "startWriter q =
     (if wq_started q then q else q\<lparr>wq_started := True, wq_open := True, wq_chan := []\<rparr>)"

definition closeWriter :: "('e, 'f, 'x) wqueue_scheme \<Rightarrow> ('e, 'f, 'x) wqueue_scheme" where
  "closeWriter q = q\<lparr>wq_open := False\<rparr>"

text \<open>The common shape of the three senders: with an open queue, a non-blocking channel send
  that reports \<open>writeErr\<close>; if the queue is closed or full, a synchronous write.\<close>

definition queue_or_write ::
    "'e \<Rightarrow> 'f list \<Rightarrow> ('e, 'f, 'x) wqueue_scheme \<Rightarrow> string option \<times> ('e, 'f, 'x) wqueue_scheme" where
  "queue_or_write entry fs q =
     (if wq_open q \<and> length (wq_chan q) < queue_capacity
      then (wq_err q, q\<lparr>wq_chan := wq_chan q @ [entry]\<rparr>)
      else conn_write fs q)"

definition sendRawBytes :: "bytes \<Rightarrow> (bytes, rawframe, 'x) wqueue_scheme \<Rightarrow> string option \<times> (bytes, rawframe, 'x) wqueue_scheme" where
  "sendRawBytes data = queue_or_write (enc_binary data) [RBin data]"

definition sendRawJSON :: "bytes \<Rightarrow> (bytes, rawframe, 'x) wqueue_scheme \<Rightarrow> string option \<times> (bytes, rawframe, 'x) wqueue_scheme" where
  "sendRawJSON data = queue_or_write (enc_text data) [RText data]"

definition sendRawHeaderAndBinary ::
    "bytes \<Rightarrow> bytes \<Rightarrow> (bytes, rawframe, 'x) wqueue_scheme \<Rightarrow> string option \<times> (bytes, rawframe, 'x) wqueue_scheme" where
  "sendRawHeaderAndBinary header binary = queue_or_write (enc_pair header binary) [RText header, RBin binary]"

text \<open>One turn of the writer goroutine: receive an entry and write its frames; on an error
  record it and drain.\<close>

definition writer_step :: "('e \<Rightarrow> 'f list) \<Rightarrow> ('e, 'f, 'x) wqueue_scheme \<Rightarrow> ('e, 'f, 'x) wqueue_scheme" where
  "writer_step dec q =
     (case wq_chan q of
        [] \<Rightarrow> q
      | e # es \<Rightarrow>
          (let q' = q\<lparr>wq_chan := es\<rparr>
           in if wq_dead q then q'
              else case conn_write (dec e) q' of
                     (None, q'') \<Rightarrow> q''
                   | (Some err, q'') \<Rightarrow> q''\<lparr>wq_err := Some err, wq_dead := True\<rparr>))"

lemmas queue_defs = queue_or_write_def conn_write_def startWriter_def closeWriter_def writer_step_def

section \<open>Abstract queue and refinement\<close>

text \<open>The abstract queue holds lists of frames; \<open>send_unit\<close> is the abstract sender.\<close>

definition send_unit :: "'f list \<Rightarrow> ('f list, 'f, 'x) wqueue_scheme \<Rightarrow> string option \<times> ('f list, 'f, 'x) wqueue_scheme" where
  "send_unit fs = queue_or_write fs fs"

definition decoded :: "bytes \<Rightarrow> rawframe list" where
  "decoded e = (case decode_frame e of Some fs \<Rightarrow> fs | None \<Rightarrow> [])"

definition abs_queue :: "(bytes, rawframe) wqueue \<Rightarrow> (rawframe list, rawframe) wqueue" where
  "abs_queue q = \<lparr>wq_open = wq_open q, wq_started = wq_started q, wq_chan = map decoded (wq_chan q),
     wq_err = wq_err q, wq_dead = wq_dead q, wq_net = wq_net q, wire = wire q\<rparr>"

lemma abs_queue_or_write:
  "decoded entry = fs \<Longrightarrow>
   map_prod id abs_queue (queue_or_write entry fs q) = queue_or_write fs fs (abs_queue q)"
  by (simp add: abs_queue_def queue_defs split: option.splits)

lemma sendRawBytes_refines:
  "map_prod id abs_queue (sendRawBytes d q) = send_unit [RBin d] (abs_queue q)"
  unfolding sendRawBytes_def send_unit_def by (rule abs_queue_or_write) (simp add: decoded_def)

lemma sendRawJSON_refines:
  "map_prod id abs_queue (sendRawJSON d q) = send_unit [RText d] (abs_queue q)"
  unfolding sendRawJSON_def send_unit_def by (rule abs_queue_or_write) (simp add: decoded_def)

lemma sendRawHeaderAndBinary_refines:
  "length h < 2 ^ 32 \<Longrightarrow>
   map_prod id abs_queue (sendRawHeaderAndBinary h b q) = send_unit [RText h, RBin b] (abs_queue q)"
  unfolding sendRawHeaderAndBinary_def send_unit_def
  by (rule abs_queue_or_write) (simp add: decoded_def decode_enc_pair)

lemma startWriter_refines: "abs_queue (startWriter q) = startWriter (abs_queue q)"
  by (simp add: abs_queue_def startWriter_def)

lemma closeWriter_refines: "abs_queue (closeWriter q) = closeWriter (abs_queue q)"
  by (simp add: abs_queue_def closeWriter_def)

lemma writer_step_refines: "abs_queue (writer_step decoded q) = writer_step id (abs_queue q)"
  by (simp add: abs_queue_def queue_defs Let_def split: list.splits option.splits)

section \<open>Order of delivery\<close>

text \<open>
  The contract a client of the queue relies on: what has been sent, on the wire or still
  queued, is the sequence of sends in order. It is stated for any sender with a background
  step, and holds of the relay's queue as long as every send finds room.
\<close>

locale ordered_sender =
  fixes send :: "'m \<Rightarrow> 's \<Rightarrow> 's" and run :: "'s \<Rightarrow> 's"
    and stream :: "'s \<Rightarrow> 'f list" and frames :: "'m \<Rightarrow> 'f list"
    and ok :: "'s \<Rightarrow> bool" and room :: "'s \<Rightarrow> bool"
  assumes send_stream: "ok s \<Longrightarrow> room s \<Longrightarrow> stream (send m s) = stream s @ frames m"
    and run_stream: "ok s \<Longrightarrow> stream (run s) = stream s"
    and ok_send: "ok s \<Longrightarrow> room s \<Longrightarrow> ok (send m s)"
    and ok_run: "ok s \<Longrightarrow> ok (run s)"
begin

text \<open>A schedule: \<open>Some m\<close> sends, \<open>None\<close> lets the background step run.\<close>

primrec exec :: "'m option list \<Rightarrow> 's \<Rightarrow> 's" where
  "exec [] s = s"
| "exec (a # as) s = exec as (case a of None \<Rightarrow> run s | Some m \<Rightarrow> send m s)"

primrec never_full :: "'m option list \<Rightarrow> 's \<Rightarrow> bool" where
  "never_full [] s = True"
| "never_full (a # as) s =
     (case a of None \<Rightarrow> never_full as (run s) | Some m \<Rightarrow> room s \<and> never_full as (send m s))"

lemma exec_ok: "ok s \<Longrightarrow> never_full as s \<Longrightarrow> ok (exec as s)"
  by (induction as arbitrary: s) (auto simp: ok_send ok_run split: option.splits)

lemma exec_stream:
  "ok s \<Longrightarrow> never_full as s \<Longrightarrow>
   stream (exec as s) = stream s @ concat (map frames (List.map_filter id as))"
  by (induction as arbitrary: s)
     (auto simp: send_stream run_stream ok_send ok_run map_filter_def split: option.splits)

lemma run_many_stream: "ok s \<Longrightarrow> ok ((run ^^ n) s) \<and> stream ((run ^^ n) s) = stream s"
  by (induction n) (auto simp: run_stream ok_run)

end

definition q_ok :: "('f list, 'f, 'x) wqueue_scheme \<Rightarrow> bool" where
  "q_ok q \<longleftrightarrow> wq_net q = None \<and> \<not> wq_dead q"

text \<open>A send finds room when it can be queued, or when nothing is queued before it.\<close>

definition q_room :: "('f list, 'f, 'x) wqueue_scheme \<Rightarrow> bool" where
  "q_room q \<longleftrightarrow> (wq_open q \<and> length (wq_chan q) < queue_capacity) \<or> wq_chan q = []"

definition q_stream :: "('f list, 'f, 'x) wqueue_scheme \<Rightarrow> 'f list" where
  "q_stream q = wire q @ concat (wq_chan q)"

lemma send_unit_stream: "q_ok q \<Longrightarrow> q_room q \<Longrightarrow> q_stream (snd (send_unit fs q)) = q_stream q @ fs"
  by (auto simp: q_ok_def q_room_def q_stream_def send_unit_def queue_defs)

lemma writer_step_stream: "q_ok q \<Longrightarrow> q_stream (writer_step id q) = q_stream q"
  by (auto simp: q_ok_def q_stream_def queue_defs Let_def split: list.splits)

lemma send_unit_ok: "q_ok q \<Longrightarrow> q_ok (snd (send_unit fs q))"
  by (auto simp: q_ok_def send_unit_def queue_defs)

lemma writer_step_ok: "q_ok q \<Longrightarrow> q_ok (writer_step id q)"
  by (auto simp: q_ok_def queue_defs Let_def split: list.splits)

interpretation relayq: ordered_sender "\<lambda>fs q. snd (send_unit fs q)" "writer_step id" q_stream id q_ok q_room
  by unfold_locales (simp_all add: send_unit_stream writer_step_stream send_unit_ok writer_step_ok)

text \<open>Draining: after as many turns as there are entries, everything is on the wire.\<close>

lemma writer_step_chan: "wq_chan (writer_step dec q) = tl (wq_chan q)"
  by (auto simp: queue_defs Let_def split: list.splits option.splits)

lemma writer_steps_chan: "wq_chan ((writer_step dec ^^ n) q) = drop n (wq_chan q)"
  by (induction n) (auto simp: writer_step_chan drop_Suc tl_drop)

lemma drained_wire:
  "q_ok q \<Longrightarrow> length (wq_chan q) \<le> n \<Longrightarrow> wire ((writer_step id ^^ n) q) = q_stream q"
  using relayq.run_many_stream [of q n] by (simp add: q_stream_def [of "(_ ^^ _) _"] writer_steps_chan)

lemma queue_bounded:
  "length (wq_chan q) \<le> queue_capacity \<Longrightarrow> length (wq_chan (snd (queue_or_write e fs q))) \<le> queue_capacity"
  by (auto simp: queue_defs split: option.splits)

end
