(* ===== verification/ActivationKeys.thy ===== *)
theory ActivationKeys
  imports Prelude
begin

text \<open>
  The activation key store (activation_keys.go): the relay's list of keys that a joining
  daemon may present, cached in memory and re-read from \<open>activation-keys.json\<close> when the
  file's modification time or size changed.

  The file is \<open>None\<close> when \<open>os.Stat\<close> fails, else its stat and what reading it yields. Saving
  goes through an environment that says whether the directory and the write succeed and which
  stat the written file has.
\<close>

section \<open>State\<close>

datatype file_read = ReadError | Malformed | KeyList "string list"

record key_file =
  kf_mtime :: int
  kf_size :: int
  kf_data :: file_read

record activationKeyStore =
  cached :: "string list"
  modTime :: int
  fileSize :: int

record save_env =
  se_dir_error :: "string option" \<comment> \<open>\<open>ensureConfigDir\<close>\<close>
  se_write_error :: "string option" \<comment> \<open>\<open>os.WriteFile\<close>\<close>
  se_mtime :: int
  se_size :: int

definition new_key_store :: activationKeyStore where
  "new_key_store = \<lparr>cached = [], modTime = 0, fileSize = 0\<rparr>"

section \<open>Operations\<close>

definition key_reload :: "key_file option \<Rightarrow> activationKeyStore \<Rightarrow> activationKeyStore" where
  "key_reload f s =
     (case f of
        None \<Rightarrow> s\<lparr>cached := []\<rparr>
      | Some info \<Rightarrow>
          if kf_mtime info = modTime s \<and> kf_size info = fileSize s then s
          else case kf_data info of
                 ReadError \<Rightarrow> s
               | Malformed \<Rightarrow> s\<lparr>cached := [], modTime := kf_mtime info, fileSize := kf_size info\<rparr>
               | KeyList keys \<Rightarrow> s\<lparr>cached := keys, modTime := kf_mtime info, fileSize := kf_size info\<rparr>)"

definition isValid :: "string \<Rightarrow> key_file option \<Rightarrow> activationKeyStore \<Rightarrow> bool \<times> activationKeyStore" where
  "isValid key f s =
     (if key = '''' then (False, s)
      else let s' = key_reload f s in (List.member (cached s') key, s'))"

definition list_keys :: "key_file option \<Rightarrow> activationKeyStore \<Rightarrow> string list \<times> activationKeyStore" where
  "list_keys f s = (let s' = key_reload f s in (cached s', s'))"

definition saveActivationKeys :: "save_env \<Rightarrow> string list \<Rightarrow> string + key_file" where
  "saveActivationKeys env keys =
     (case se_dir_error env of Some e \<Rightarrow> Inl e
      | None \<Rightarrow> (case se_write_error env of Some e \<Rightarrow> Inl e
        | None \<Rightarrow> Inr \<lparr>kf_mtime = se_mtime env, kf_size = se_size env, kf_data = KeyList keys\<rparr>))"

text \<open>Both updates return the error, if any, the file left on disk and the store.\<close>

definition addActivationKey ::
    "save_env \<Rightarrow> string \<Rightarrow> key_file option \<Rightarrow> activationKeyStore \<Rightarrow> string option \<times> key_file option \<times> activationKeyStore" where
  "addActivationKey env key f s =
     (let (keys, s') = list_keys f s
      in if List.member keys key then (None, f, s')
         else case saveActivationKeys env (keys @ [key]) of
                Inl e \<Rightarrow> (Some e, f, s')
              | Inr f' \<Rightarrow> (None, Some f', s'))"

definition removeActivationKey ::
    "save_env \<Rightarrow> string \<Rightarrow> key_file option \<Rightarrow> activationKeyStore \<Rightarrow> string option \<times> key_file option \<times> activationKeyStore" where
  "removeActivationKey env key f s =
     (let (keys, s') = list_keys f s
      in case saveActivationKeys env (filter (\<lambda>k. k \<noteq> key) keys) of
           Inl e \<Rightarrow> (Some e, f, s')
         | Inr f' \<Rightarrow> (None, Some f', s'))"

lemmas key_defs = key_reload_def isValid_def list_keys_def saveActivationKeys_def
  addActivationKey_def removeActivationKey_def

section \<open>What the cache promises\<close>

text \<open>The keys a file lists: a malformed file counts as empty, as in the code.\<close>

definition file_keys :: "key_file option \<Rightarrow> string list" where
  "file_keys f = (case f of None \<Rightarrow> [] | Some i \<Rightarrow> (case kf_data i of KeyList ks \<Rightarrow> ks | _ \<Rightarrow> []))"

text \<open>The store agrees with a file when an unchanged stat means unchanged contents. The
  stat is all \<open>reload\<close> looks at, so this is exactly what the skip relies on.\<close>

definition in_sync :: "key_file option \<Rightarrow> activationKeyStore \<Rightarrow> bool" where
  "in_sync f s \<longleftrightarrow>
     (\<forall>i. f = Some i \<longrightarrow> kf_data i \<noteq> ReadError \<and>
        (kf_mtime i = modTime s \<and> kf_size i = fileSize s \<longrightarrow> cached s = file_keys f))"

lemma key_reload_cached: "in_sync f s \<Longrightarrow> cached (key_reload f s) = file_keys f"
  by (auto simp: key_reload_def in_sync_def file_keys_def split: option.splits file_read.splits)

lemma key_reload_in_sync: "in_sync f s \<Longrightarrow> in_sync f (key_reload f s)"
  by (auto simp: key_reload_def in_sync_def file_keys_def split: option.splits file_read.splits)

lemma key_reload_idem: "key_reload f (key_reload f s) = key_reload f s"
  by (auto simp: key_reload_def split: option.splits file_read.splits)

lemma in_sync_new_file:
  "kf_data i \<noteq> ReadError \<Longrightarrow> kf_mtime i \<noteq> modTime s \<or> kf_size i \<noteq> fileSize s \<Longrightarrow> in_sync (Some i) s"
  by (auto simp: in_sync_def)

lemma isValid_iff_listed: "in_sync f s \<Longrightarrow> fst (isValid key f s) \<longleftrightarrow> key \<noteq> '''' \<and> key \<in> set (file_keys f)"
  by (auto simp: isValid_def Let_def key_reload_cached)

lemma addActivationKey_keys:
  "in_sync f s \<Longrightarrow> addActivationKey env key f s = (None, f', s') \<Longrightarrow>
   set (file_keys f') = insert key (set (file_keys f))"
  by (auto simp: addActivationKey_def list_keys_def saveActivationKeys_def key_reload_cached Let_def
      split: if_splits sum.splits option.splits) (auto simp: file_keys_def)

lemma removeActivationKey_keys:
  "in_sync f s \<Longrightarrow> removeActivationKey env key f s = (None, f', s') \<Longrightarrow>
   file_keys f' = filter (\<lambda>k. k \<noteq> key) (file_keys f)"
  by (auto simp: removeActivationKey_def list_keys_def saveActivationKeys_def key_reload_cached Let_def
      split: sum.splits option.splits) (auto simp: file_keys_def)

end
