(* ===== verification/RelayState.thy ===== *)
theory RelayState
  imports Protocol RelayQueue ActivationKeys
begin

text \<open>
  The relay server's state (relay.go, relay_client.go) and the primitive operations its
  handlers are built from. Pointers to \<open>relayClient\<close> are connection identities; the structs
  they point to live in \<open>rs_rcs\<close>, and every frame written to a connection is kept on its
  \<open>wire\<close>. The goroutine that runs \<open>handleWS\<close> for a connection is its entry in \<open>rs_ctxs\<close>:
  the local variables of that function, and where in its loop it waits (\<open>ws_phase\<close>).
\<close>

section \<open>State\<close>

record chunk_route =
  cr_target :: conn_id
  cr_reqID :: string

record relay_client = "(wsframe list, wsframe) wqueue" +
  rc_name :: string
  rc_token :: string
  rc_chunkRoutes :: "string \<rightharpoonup> chunk_route"
  rc_lastBinaryRoute :: "chunk_route option"

record pending_request =
  pr_serverID :: string
  pr_clientConn :: conn_id

record sub_target_info =
  st_multiID :: string
  st_targetName :: string

record multi_entry =
  me_clientConn :: conn_id
  me_clientID :: string
  me_results :: "string \<rightharpoonup> message0"
  me_order :: "string list"
  me_remaining :: int
  me_timer :: "int option" \<comment> \<open>the armed timer's duration in seconds\<close>

record pair_listener =
  pl_conn :: conn_id
  pl_requireActivationKey :: bool

record tunnel_session =
  ts_clientConn :: conn_id
  ts_daemonConn :: conn_id

text \<open>Where a connection's goroutine waits: at the top of its read loop, in the second read of
  a binary chunk, between the fan-out of \<open>handleExecuteMulti\<close> and the line that sets
  \<open>remaining\<close>, or on its way out.\<close>

datatype ws_phase = Reading | AwaitBinary message | ArmMulti string int int | Closing

record ws_ctx =
  wc_authenticated :: bool
  wc_registered :: bool
  wc_phase :: ws_phase

record relay_server =
  rs_secret :: string
  rs_secretExempt :: "string set"
  rs_clients :: "string \<rightharpoonup> conn_id"
  rs_pending :: "string \<rightharpoonup> pending_request"
  rs_pairListeners :: "string \<rightharpoonup> pair_listener"
  rs_multiPending :: "string \<rightharpoonup> multi_entry"
  rs_subToMulti :: "string \<rightharpoonup> sub_target_info"
  rs_tunnels :: "string \<rightharpoonup> tunnel_session"
  rs_rcs :: "conn_id \<Rightarrow> relay_client"
  rs_ctxs :: "conn_id \<rightharpoonup> ws_ctx"
  rs_next :: conn_id
  rs_entropy :: entropy
  rs_draws :: nat
  rs_keys :: activationKeyStore
  rs_keyFile :: "key_file option"

definition new_relay_client :: relay_client where
  "new_relay_client = \<lparr>wq_open = False, wq_started = False, wq_chan = [], wq_err = None,
     wq_dead = False, wq_net = None, wire = [], rc_name = '''', rc_token = '''',
     rc_chunkRoutes = Map.empty, rc_lastBinaryRoute = None\<rparr>"

text \<open>\<open>NewRelayServer\<close>, with the process-wide key store and random source.\<close>

definition NewRelayServer :: "entropy \<Rightarrow> key_file option \<Rightarrow> relay_server" where
  "NewRelayServer e kf = \<lparr>rs_secret = '''', rs_secretExempt = {}, rs_clients = Map.empty,
     rs_pending = Map.empty, rs_pairListeners = Map.empty, rs_multiPending = Map.empty,
     rs_subToMulti = Map.empty, rs_tunnels = Map.empty, rs_rcs = (\<lambda>_. new_relay_client),
     rs_ctxs = Map.empty, rs_next = 0, rs_entropy = e, rs_draws = 0, rs_keys = new_key_store,
     rs_keyFile = kf\<rparr>"

text \<open>\<open>splitCSV\<close> and \<open>newRelayFromEnv\<close>: the values of \<open>RELAY_SECRET\<close> and
  \<open>RELAY_SECRET_EXEMPT\<close> are arguments (empty when unset).\<close>

definition splitCSV :: "string \<Rightarrow> string list" where
  "splitCSV s = filter (\<lambda>f. f \<noteq> '''') (map trim_space (go_split (CHR '','') s))"

definition newRelayFromEnv :: "string \<Rightarrow> string \<Rightarrow> entropy \<Rightarrow> key_file option \<Rightarrow> relay_server" where
  "newRelayFromEnv sec exempt e kf =
     (let rs = (NewRelayServer e kf)\<lparr>rs_secret := sec\<rparr>
      in if exempt \<noteq> '''' then rs\<lparr>rs_secretExempt := set (splitCSV exempt)\<rparr> else rs)"

lemma newRelay_fields [simp]:
  "rs_rcs (newRelayFromEnv sec exempt e kf) = (\<lambda>_. new_relay_client)"
  "rs_ctxs (newRelayFromEnv sec exempt e kf) = Map.empty"
  "rs_secret (newRelayFromEnv sec exempt e kf) = sec"
  "rs_clients (newRelayFromEnv sec exempt e kf) = Map.empty"
  "rs_pending (newRelayFromEnv sec exempt e kf) = Map.empty"
  "rs_multiPending (newRelayFromEnv sec exempt e kf) = Map.empty"
  "rs_subToMulti (newRelayFromEnv sec exempt e kf) = Map.empty"
  "rs_pairListeners (newRelayFromEnv sec exempt e kf) = Map.empty"
  "rs_tunnels (newRelayFromEnv sec exempt e kf) = Map.empty"
  "rs_next (newRelayFromEnv sec exempt e kf) = 0" "rs_draws (newRelayFromEnv sec exempt e kf) = 0"
  "rs_entropy (newRelayFromEnv sec exempt e kf) = e"
  by (simp_all add: newRelayFromEnv_def NewRelayServer_def Let_def)

section \<open>Primitive operations\<close>

text \<open>\<open>tokenEqual\<close>: \<open>subtle.ConstantTimeCompare\<close> is 1 exactly on equal byte slices.\<close>

definition tokenEqual :: "string \<Rightarrow> string \<Rightarrow> bool" where
  "tokenEqual a b \<longleftrightarrow> a = b"

definition upd_rc :: "conn_id \<Rightarrow> (relay_client \<Rightarrow> relay_client) \<Rightarrow> relay_server \<Rightarrow> relay_server" where
  "upd_rc c f s = s\<lparr>rs_rcs := (rs_rcs s)(c := f (rs_rcs s c))\<rparr>"

text \<open>\<open>send\<close>: a synchronous JSON write. \<open>rc_send\<close> keeps its error, \<open>tell\<close> is a call that
  ignores it.\<close>

definition rc_send :: "conn_id \<Rightarrow> message \<Rightarrow> relay_server \<Rightarrow> string option \<times> relay_server" where
  "rc_send c m s =
     (fst (conn_write [Json m] (rs_rcs s c)), upd_rc c (\<lambda>rc. snd (conn_write [Json m] rc)) s)"

definition tell :: "conn_id \<Rightarrow> message \<Rightarrow> relay_server \<Rightarrow> relay_server" where
  "tell c m s = upd_rc c (\<lambda>rc. snd (conn_write [Json m] rc)) s"

text \<open>The queued senders of relay\_client.go, on the abstract queue.\<close>

definition rc_send_unit :: "conn_id \<Rightarrow> wsframe list \<Rightarrow> relay_server \<Rightarrow> string option \<times> relay_server" where
  "rc_send_unit c fs s =
     (fst (send_unit fs (rs_rcs s c)), upd_rc c (\<lambda>rc. snd (send_unit fs rc)) s)"

definition draw_id :: "relay_server \<Rightarrow> string \<times> relay_server" where
  "draw_id s = (newID (rs_entropy s) (rs_draws s), s\<lparr>rs_draws := Suc (rs_draws s)\<rparr>)"

definition cleanupPending :: "string \<Rightarrow> relay_server \<Rightarrow> relay_server" where
  "cleanupPending reqID s = s\<lparr>rs_pending := (rs_pending s)(reqID := None)\<rparr>"

definition set_ctx :: "conn_id \<Rightarrow> (ws_ctx \<Rightarrow> ws_ctx) \<Rightarrow> relay_server \<Rightarrow> relay_server" where
  "set_ctx c f s = s\<lparr>rs_ctxs := (rs_ctxs s)(c := map_option f (rs_ctxs s c))\<rparr>"

definition set_phase :: "conn_id \<Rightarrow> ws_phase \<Rightarrow> relay_server \<Rightarrow> relay_server" where
  "set_phase c p = set_ctx c (wc_phase_update (\<lambda>_. p))"

definition error_msg :: "string \<Rightarrow> message" where
  "error_msg e = empty_message\<lparr>m_type := ''error'', m_error := e\<rparr>"

lemmas [msg_simps] = error_msg_def

section \<open>What the primitives change\<close>

lemma tell_fields [simp]:
  "rs_secret (tell c m s) = rs_secret s" "rs_secretExempt (tell c m s) = rs_secretExempt s"
  "rs_clients (tell c m s) = rs_clients s" "rs_pending (tell c m s) = rs_pending s"
  "rs_pairListeners (tell c m s) = rs_pairListeners s"
  "rs_multiPending (tell c m s) = rs_multiPending s" "rs_subToMulti (tell c m s) = rs_subToMulti s"
  "rs_tunnels (tell c m s) = rs_tunnels s" "rs_ctxs (tell c m s) = rs_ctxs s"
  "rs_next (tell c m s) = rs_next s" "rs_entropy (tell c m s) = rs_entropy s"
  "rs_draws (tell c m s) = rs_draws s" "rs_keys (tell c m s) = rs_keys s"
  "rs_keyFile (tell c m s) = rs_keyFile s"
  by (simp_all add: tell_def upd_rc_def)

lemma conn_write_fields [simp]:
  "rc_name (snd (conn_write fs rc)) = rc_name rc" "rc_token (snd (conn_write fs rc)) = rc_token rc"
  "rc_chunkRoutes (snd (conn_write fs rc)) = rc_chunkRoutes rc"
  "rc_lastBinaryRoute (snd (conn_write fs rc)) = rc_lastBinaryRoute rc"
  "wq_net (snd (conn_write fs rc)) = wq_net rc" "wq_open (snd (conn_write fs rc)) = wq_open rc"
  "wq_chan (snd (conn_write fs rc)) = wq_chan rc"
  by (simp_all add: conn_write_def split: option.splits)

lemma conn_write_wire:
  "wire (snd (conn_write fs rc)) = (if wq_net rc = None then wire rc @ fs else wire rc)"
  by (simp add: conn_write_def split: option.splits)

lemma conn_write_err [simp]: "fst (conn_write fs rc) = wq_net rc"
  by (simp add: conn_write_def split: option.splits)

lemma send_unit_fields [simp]:
  "rc_name (snd (send_unit fs rc)) = rc_name rc" "rc_token (snd (send_unit fs rc)) = rc_token rc"
  "rc_chunkRoutes (snd (send_unit fs rc)) = rc_chunkRoutes rc"
  "rc_lastBinaryRoute (snd (send_unit fs rc)) = rc_lastBinaryRoute rc"
  "wq_net (snd (send_unit fs rc)) = wq_net rc"
  by (simp_all add: send_unit_def queue_or_write_def)

lemma rc_send_fst [simp]: "fst (rc_send c m s) = wq_net (rs_rcs s c)"
  by (simp add: rc_send_def)

lemma rc_send_snd [simp]: "snd (rc_send c m s) = tell c m s"
  by (simp add: rc_send_def tell_def)

lemma rc_send_eq: "rc_send c m s = (wq_net (rs_rcs s c), tell c m s)"
  by (simp add: rc_send_def tell_def)

lemma rcs_tell: "rs_rcs (tell c m s) d = (if d = c then snd (conn_write [Json m] (rs_rcs s c)) else rs_rcs s d)"
  by (simp add: tell_def upd_rc_def)

lemma rcs_tell_fields [simp]:
  "rc_name (rs_rcs (tell c m s) d) = rc_name (rs_rcs s d)"
  "rc_token (rs_rcs (tell c m s) d) = rc_token (rs_rcs s d)"
  "rc_chunkRoutes (rs_rcs (tell c m s) d) = rc_chunkRoutes (rs_rcs s d)"
  "rc_lastBinaryRoute (rs_rcs (tell c m s) d) = rc_lastBinaryRoute (rs_rcs s d)"
  "wq_net (rs_rcs (tell c m s) d) = wq_net (rs_rcs s d)"
  "wq_chan (rs_rcs (tell c m s) d) = wq_chan (rs_rcs s d)"
  by (simp_all add: rcs_tell)

lemma wire_tell:
  "wire (rs_rcs (tell c m s) d) =
     wire (rs_rcs s d) @ (if d = c \<and> wq_net (rs_rcs s c) = None then [Json m] else [])"
  by (simp add: rcs_tell conn_write_wire)

lemma set_ctx_fields [simp]:
  "rs_secret (set_ctx c f s) = rs_secret s" "rs_secretExempt (set_ctx c f s) = rs_secretExempt s"
  "rs_clients (set_ctx c f s) = rs_clients s" "rs_pending (set_ctx c f s) = rs_pending s"
  "rs_pairListeners (set_ctx c f s) = rs_pairListeners s"
  "rs_multiPending (set_ctx c f s) = rs_multiPending s" "rs_subToMulti (set_ctx c f s) = rs_subToMulti s"
  "rs_tunnels (set_ctx c f s) = rs_tunnels s" "rs_rcs (set_ctx c f s) = rs_rcs s"
  "rs_next (set_ctx c f s) = rs_next s" "rs_entropy (set_ctx c f s) = rs_entropy s"
  "rs_draws (set_ctx c f s) = rs_draws s" "rs_keys (set_ctx c f s) = rs_keys s"
  "rs_keyFile (set_ctx c f s) = rs_keyFile s"
  by (simp_all add: set_ctx_def)

lemma set_phase_fields [simp]:
  "rs_secret (set_phase c p s) = rs_secret s" "rs_secretExempt (set_phase c p s) = rs_secretExempt s"
  "rs_clients (set_phase c p s) = rs_clients s" "rs_pending (set_phase c p s) = rs_pending s"
  "rs_pairListeners (set_phase c p s) = rs_pairListeners s"
  "rs_multiPending (set_phase c p s) = rs_multiPending s" "rs_subToMulti (set_phase c p s) = rs_subToMulti s"
  "rs_tunnels (set_phase c p s) = rs_tunnels s" "rs_rcs (set_phase c p s) = rs_rcs s"
  "rs_next (set_phase c p s) = rs_next s" "rs_entropy (set_phase c p s) = rs_entropy s"
  "rs_draws (set_phase c p s) = rs_draws s" "rs_keys (set_phase c p s) = rs_keys s"
  "rs_keyFile (set_phase c p s) = rs_keyFile s"
  by (simp_all add: set_phase_def)

lemma upd_rc_fields [simp]:
  "rs_secret (upd_rc c f s) = rs_secret s" "rs_secretExempt (upd_rc c f s) = rs_secretExempt s"
  "rs_clients (upd_rc c f s) = rs_clients s" "rs_pending (upd_rc c f s) = rs_pending s"
  "rs_pairListeners (upd_rc c f s) = rs_pairListeners s"
  "rs_multiPending (upd_rc c f s) = rs_multiPending s" "rs_subToMulti (upd_rc c f s) = rs_subToMulti s"
  "rs_tunnels (upd_rc c f s) = rs_tunnels s" "rs_ctxs (upd_rc c f s) = rs_ctxs s"
  "rs_next (upd_rc c f s) = rs_next s" "rs_entropy (upd_rc c f s) = rs_entropy s"
  "rs_draws (upd_rc c f s) = rs_draws s" "rs_keys (upd_rc c f s) = rs_keys s"
  "rs_keyFile (upd_rc c f s) = rs_keyFile s"
  "rs_rcs (upd_rc c f s) d = (if d = c then f (rs_rcs s c) else rs_rcs s d)"
  by (simp_all add: upd_rc_def)

lemma draw_id_fields [simp]:
  "fst (draw_id s) = newID (rs_entropy s) (rs_draws s)"
  "rs_draws (snd (draw_id s)) = Suc (rs_draws s)" "rs_rcs (snd (draw_id s)) = rs_rcs s"
  "rs_clients (snd (draw_id s)) = rs_clients s" "rs_pending (snd (draw_id s)) = rs_pending s"
  by (simp_all add: draw_id_def)

end
