(* ===== verification/RelayHandlers.thy ===== *)
theory RelayHandlers
  imports RelayState
begin

text \<open>
  The message handlers of relay\_handler.go that deal with one target: registration, execute
  and file transfer requests, chunk forwarding, stream and transfer results, pairing and
  disconnect. Each definition is the whole handler: \<open>c\<close> is the connection whose read loop
  runs it, \<open>m\<close> the message, and the result is the server's next state. Log lines have no
  effect and are left out.

  A handler is one step of the server: between its locked sections it only reads what it
  looked up before. The two handlers that wait in the middle, \<open>handleFileChunk\<close> (for the
  binary payload) and \<open>handleExecuteMulti\<close> (theory RelayMulti), are two steps each.
\<close>

section \<open>Registration\<close>

text \<open>\<open>True\<close> in the first component closes the connection.\<close>

definition handleRegister :: "bool \<Rightarrow> conn_id \<Rightarrow> message \<Rightarrow> relay_server \<Rightarrow> bool \<times> relay_server" where
  "handleRegister auth c m s =
     (let install = (\<lambda>s. tell c (empty_message\<lparr>m_type := ''registered'', m_name := m_name m\<rparr>)
            ((upd_rc c (\<lambda>rc. rc\<lparr>rc_name := m_name m, rc_token := m_token m\<rparr>) s)
              \<lparr>rs_clients := (rs_clients s)(m_name m \<mapsto> c)\<rparr>))
      in if m_name m = '''' \<or> m_token m = '''' then
           (False, tell c (error_msg ''name and token required'') s)
         else if rs_secret s \<noteq> '''' \<and> \<not> auth \<and> m_name m \<notin> rs_secretExempt s then
           (True, tell c (error_msg ''authentication required: relay secret not provided'') s)
         else case rs_clients s (m_name m) of
           Some existing \<Rightarrow>
             if \<not> tokenEqual (rc_token (rs_rcs s existing)) (m_token m) then
               (True, tell c (error_msg (''name already registered: '' @ m_name m)) s)
             else (False, install (tell existing (error_msg ''replaced by new connection'') s))
         | None \<Rightarrow> (False, install s))"

section \<open>Requests to one target\<close>

definition handleExecute :: "conn_id \<Rightarrow> message \<Rightarrow> relay_server \<Rightarrow> relay_server" where
  "handleExecute c m s =
     (if m_target m = '''' then tell c (errResult (m_id m) ''target is required'') s
      else case rs_clients s (m_target m) of
        None \<Rightarrow> tell c (errResult (m_id m) (''target not connected: '' @ m_target m)) s
      | Some target \<Rightarrow>
          if \<not> tokenEqual (rc_token (rs_rcs s target)) (m_token m) then
            tell c (errResult (m_id m) (''invalid token for target: '' @ m_target m)) s
          else
            (let (reqID, s1) = draw_id s;
                 s2 = s1\<lparr>rs_pending := (rs_pending s1)(reqID \<mapsto> \<lparr>pr_serverID = m_id m, pr_clientConn = c\<rparr>)\<rparr>;
                 forward = empty_message\<lparr>m_type := ''command'', m_id := reqID, m_cmd := m_cmd m,
                   m_timeout := m_timeout m, m_stream := m_stream m, m_stdin_data := m_stdin_data m\<rparr>
             in case rc_send target forward s2 of
                  (None, s3) \<Rightarrow> s3
                | (Some e, s3) \<Rightarrow>
                    tell c (errResult (m_id m) (''failed to forward command: '' @ e)) (cleanupPending reqID s3)))"

text \<open>The announcement as the target sees it: the relay's own id, no target and no token.\<close>

definition forward_transfer :: "string \<Rightarrow> message \<Rightarrow> message" where
  "forward_transfer reqID m = empty_message\<lparr>m_type := ''file_transfer'', m_id := reqID, m_mode := m_mode m,
     m_src_path := m_src_path m, m_dst_path := m_dst_path m, m_content := m_content m,
     m_chunked := m_chunked m, m_total_chunks := m_total_chunks m,
     m_total_size := m_total_size m, m_chunk_size_bytes := m_chunk_size_bytes m,
     m_parallel_streams := m_parallel_streams m\<rparr>"

definition handleFileTransfer :: "conn_id \<Rightarrow> message \<Rightarrow> relay_server \<Rightarrow> relay_server" where
  "handleFileTransfer c m s =
     (if m_target m = '''' then tell c (errResult (m_id m) ''target is required'') s
      else case rs_clients s (m_target m) of
        None \<Rightarrow> tell c (errResult (m_id m) (''target not connected: '' @ m_target m)) s
      | Some target \<Rightarrow>
          if \<not> tokenEqual (rc_token (rs_rcs s target)) (m_token m) then
            tell c (errResult (m_id m) (''invalid token for target: '' @ m_target m)) s
          else
            (let (reqID, s1) = draw_id s;
                 s2 = s1\<lparr>rs_pending := (rs_pending s1)(reqID \<mapsto> \<lparr>pr_serverID = m_id m, pr_clientConn = c\<rparr>)\<rparr>
             in case rc_send target (forward_transfer reqID m) s2 of
                  (Some e, s3) \<Rightarrow>
                    tell c (errResult (m_id m) (''failed to forward file transfer: '' @ e)) (cleanupPending reqID s3)
                | (None, s3) \<Rightarrow>
                    if m_chunked m then
                      upd_rc target startWriter
                        (upd_rc c (\<lambda>rc. rc\<lparr>rc_chunkRoutes := (rc_chunkRoutes rc)(m_id m \<mapsto> \<lparr>cr_target = target, cr_reqID = reqID\<rparr>)\<rparr>) s3)
                    else s3))"

section \<open>Chunks\<close>

definition drop_route :: "conn_id \<Rightarrow> string \<Rightarrow> relay_server \<Rightarrow> relay_server" where
  "drop_route c tid = upd_rc c (\<lambda>rc. rc\<lparr>rc_chunkRoutes := (rc_chunkRoutes rc)(tid := None)\<rparr>)"

text \<open>The error exit shared by the three failure branches of \<open>handleFileChunk\<close>.\<close>

definition chunk_failed :: "conn_id \<Rightarrow> string \<Rightarrow> string \<Rightarrow> string \<Rightarrow> relay_server \<Rightarrow> relay_server" where
  "chunk_failed c tid reqID e s = tell c (errResult tid e) (cleanupPending reqID (drop_route c tid s))"

text \<open>The header: a binary chunk makes the loop read its payload next; a base64 chunk is
  forwarded at once.\<close>

definition handleFileChunk :: "conn_id \<Rightarrow> message \<Rightarrow> relay_server \<Rightarrow> relay_server" where
  "handleFileChunk c m s =
     (case rc_chunkRoutes (rs_rcs s c) (m_id m) of
        None \<Rightarrow> s
      | Some route \<Rightarrow>
          if m_binary_chunk m then set_phase c (AwaitBinary m) s
          else
            (let forward = empty_message\<lparr>m_type := ''file_chunk'', m_id := cr_reqID route, m_seq := m_seq m,
                   m_data := m_data m, m_final := m_final m\<rparr>
             in case rc_send (cr_target route) forward s of
                  (Some e, s1) \<Rightarrow>
                    chunk_failed c (m_id m) (cr_reqID route) (''failed to forward file chunk: '' @ e) s1
                | (None, s1) \<Rightarrow> if m_final m then drop_route c (m_id m) s1 else s1))"

definition chunk_header :: "chunk_route \<Rightarrow> message \<Rightarrow> message" where
  "chunk_header route m = empty_message\<lparr>m_type := ''file_chunk'', m_id := cr_reqID route, m_seq := m_seq m,
     m_final := m_final m, m_binary_chunk := True, m_compressed := m_compressed m\<rparr>"

text \<open>The payload: \<open>Inl e\<close> is a failed read. A text frame in its place is dropped, and with
  it the chunk.\<close>

definition fileChunkPayload :: "conn_id \<Rightarrow> message \<Rightarrow> string + wsframe \<Rightarrow> relay_server \<Rightarrow> relay_server" where
  "fileChunkPayload c m payload s =
     (case rc_chunkRoutes (rs_rcs s c) (m_id m) of
        None \<Rightarrow> s
      | Some route \<Rightarrow>
          (case payload of
             Inl e \<Rightarrow>
               chunk_failed c (m_id m) (cr_reqID route) (''failed to read binary chunk payload: '' @ e) s
           | Inr (Binary data) \<Rightarrow>
               (case rc_send_unit (cr_target route) [Json (chunk_header route m), Binary data] s of
                  (Some e, s1) \<Rightarrow>
                    chunk_failed c (m_id m) (cr_reqID route) (''failed to forward file chunk: '' @ e) s1
                | (None, s1) \<Rightarrow> if m_final m then drop_route c (m_id m) s1 else s1)
           | Inr _ \<Rightarrow> s))"

section \<open>Replies from a target\<close>

definition handleStreamChunk :: "message \<Rightarrow> relay_server \<Rightarrow> relay_server" where
  "handleStreamChunk m s =
     (case rs_pending s (m_id m) of
        None \<Rightarrow> s
      | Some pr \<Rightarrow> tell (pr_clientConn pr) (m\<lparr>m_id := pr_serverID pr\<rparr>) s)"

definition handleStreamEnd :: "message \<Rightarrow> relay_server \<Rightarrow> relay_server" where
  "handleStreamEnd m s =
     (case rs_pending s (m_id m) of
        None \<Rightarrow> s
      | Some pr \<Rightarrow> tell (pr_clientConn pr) (m\<lparr>m_id := pr_serverID pr\<rparr>) (cleanupPending (m_id m) s))"

definition handleFileTransferResult :: "conn_id \<Rightarrow> message \<Rightarrow> relay_server \<Rightarrow> relay_server" where
  "handleFileTransferResult c m s =
     (case rs_pending s (m_id m) of
        None \<Rightarrow> s
      | Some pr \<Rightarrow>
          upd_rc c closeWriter
            (tell (pr_clientConn pr) (m\<lparr>m_id := pr_serverID pr, m_type := ''result''\<rparr>) (cleanupPending (m_id m) s)))"

section \<open>Pairing and disconnect\<close>

definition handlePairListen :: "conn_id \<Rightarrow> message \<Rightarrow> relay_server \<Rightarrow> relay_server" where
  "handlePairListen c m s =
     (if m_code m = '''' then tell c (error_msg ''pair_listen requires code'') s
      else s\<lparr>rs_pairListeners := (rs_pairListeners s)(m_code m \<mapsto>
             \<lparr>pl_conn = c, pl_requireActivationKey = m_require_activation_key m\<rparr>)\<rparr>)"

definition pair_accept :: "conn_id \<Rightarrow> message \<Rightarrow> pair_listener \<Rightarrow> relay_server \<Rightarrow> relay_server" where
  "pair_accept c m listener s =
     tell c (empty_message\<lparr>m_type := ''pair_confirmed'', m_code := m_code m\<rparr>)
       (tell (pl_conn listener) (empty_message\<lparr>m_type := ''pair_done'', m_code := m_code m,
          m_token := m_token m, m_hostname := m_hostname m\<rparr>) s)"

definition handlePair :: "conn_id \<Rightarrow> message \<Rightarrow> relay_server \<Rightarrow> relay_server" where
  "handlePair c m s =
     (if m_code m = '''' \<or> m_token m = '''' then tell c (error_msg ''pair requires code and token'') s
      else case rs_pairListeners s (m_code m) of
        None \<Rightarrow> s
      | Some listener \<Rightarrow>
          (let s1 = s\<lparr>rs_pairListeners := (rs_pairListeners s)(m_code m := None)\<rparr>
           in if pl_requireActivationKey listener then
                (let (valid, ks) = (if m_activation_key m = '''' then (False, rs_keys s1)
                                    else isValid (m_activation_key m) (rs_keyFile s1) (rs_keys s1));
                     s2 = s1\<lparr>rs_keys := ks\<rparr>
                 in if \<not> valid then
                      (let s3 = tell c (error_msg ''pair rejected: activation key required but not provided or invalid'') s2
                       in s3\<lparr>rs_pairListeners := (rs_pairListeners s3)(m_code m \<mapsto> listener)\<rparr>)
                    else pair_accept c m listener s2)
              else pair_accept c m listener s1))"

definition handleDisconnect :: "conn_id \<Rightarrow> message \<Rightarrow> relay_server \<Rightarrow> relay_server" where
  "handleDisconnect c m s =
     (if m_target m = '''' then tell c (error_msg ''disconnect requires target'') s
      else case rs_clients s (m_target m) of
        None \<Rightarrow> tell c (error_msg (''target not connected: '' @ m_target m)) s
      | Some target \<Rightarrow>
          if \<not> tokenEqual (rc_token (rs_rcs s target)) (m_token m) then
            tell c (error_msg (''invalid token for target: '' @ m_target m)) s
          else case rc_send target (empty_message\<lparr>m_type := ''disconnect''\<rparr>) s of
            (Some e, s1) \<Rightarrow> tell c (error_msg (''failed to forward disconnect: '' @ e)) s1
          | (None, s1) \<Rightarrow> tell c (empty_message\<lparr>m_type := ''disconnect_confirmed'', m_target := m_target m\<rparr>) s1)"

lemmas [relay_defs] = handleRegister_def handleExecute_def handleFileTransfer_def handleFileChunk_def
  fileChunkPayload_def handleStreamChunk_def handleStreamEnd_def handleFileTransferResult_def
  handlePairListen_def pair_accept_def handlePair_def handleDisconnect_def
  drop_route_def chunk_failed_def cleanupPending_def draw_id_def

end
