(* ===== verification/RelayMulti.thy ===== *)
theory RelayMulti
  imports RelayHandlers
begin

text \<open>
  Multi-target execution (relay\_multi.go, \<open>handleResult\<close> in relay\_handler.go,
  \<open>sendMultiResult\<close> in relay.go): a command fanned out to many daemons and their results
  collected into one reply, with a timer for those that stay silent.

  \<open>handleExecuteMulti\<close> releases the server's lock after the fan-out and only then sets the
  entry's \<open>remaining\<close> and arms the timer, so it is two steps: \<open>handleExecuteMulti\<close> up to the
  unlock, and \<open>armMulti\<close> for the rest. Another connection's step may come between them.
\<close>

section \<open>Fan-out\<close>

definition sub_error :: "string \<Rightarrow> message0" where
  "sub_error e = message0.truncate (empty_message\<lparr>m_type := ''result'', m_ok := Some False, m_error := e\<rparr>)"

text \<open>One target of the loop: the results so far, the count of forwarded commands and the
  state go in and come out.\<close>

type_synonym fanout = "(string \<rightharpoonup> message0) \<times> int \<times> relay_server"

definition multi_target :: "string \<Rightarrow> message \<Rightarrow> string \<Rightarrow> fanout \<Rightarrow> fanout" where
  "multi_target multiID m t = (\<lambda>(results, n, s).
     case rs_clients s t of
       None \<Rightarrow> (results(t \<mapsto> sub_error ''target not connected''), n, s)
     | Some tgt \<Rightarrow>
         if (case m_tokens m t of None \<Rightarrow> True | Some token \<Rightarrow> \<not> tokenEqual (rc_token (rs_rcs s tgt)) token) then
           (results(t \<mapsto> sub_error ''invalid token''), n, s)
         else
           (let (subID, s1) = draw_id s;
                s2 = s1\<lparr>rs_subToMulti := (rs_subToMulti s1)(subID \<mapsto> \<lparr>st_multiID = multiID, st_targetName = t\<rparr>)\<rparr>;
                forward = empty_message\<lparr>m_type := ''command'', m_id := subID, m_cmd := m_cmd m, m_timeout := m_timeout m\<rparr>
            in case rc_send tgt forward s2 of
                 (None, s3) \<Rightarrow> (results, n + 1, s3)
               | (Some e, s3) \<Rightarrow>
                   (results(t \<mapsto> sub_error (''forward failed: '' @ e)), n + 1,
                    s3\<lparr>rs_subToMulti := (rs_subToMulti s3)(subID := None)\<rparr>)))"

definition batch_timeout :: "int \<Rightarrow> int" where
  "batch_timeout timeout = (let b = wrap64 (timeout + 5) in if b \<le> 0 then 35 else b)"

definition handleExecuteMulti :: "conn_id \<Rightarrow> message \<Rightarrow> relay_server \<Rightarrow> relay_server" where
  "handleExecuteMulti c m s =
     (if m_targets m = [] \<or> m_cmd m = '''' then
        tell c (errResult (m_id m) ''targets and cmd are required'') s
      else
        (let (multiID, s1) = draw_id s;
             (results, n, s2) = fold (multi_target multiID m) (m_targets m) (Map.empty, 0, s1);
             entry = \<lparr>me_clientConn = c, me_clientID = m_id m, me_results = results,
               me_order = m_targets m, me_remaining = 0, me_timer = None\<rparr>
         in set_phase c (ArmMulti multiID n (batch_timeout (m_timeout m)))
              (s2\<lparr>rs_multiPending := (rs_multiPending s2)(multiID \<mapsto> entry)\<rparr>)))"

section \<open>Completion\<close>

definition sendMultiResult ::
    "conn_id \<Rightarrow> string \<Rightarrow> (string \<rightharpoonup> message0) \<Rightarrow> string list \<Rightarrow> relay_server \<Rightarrow> relay_server" where
  "sendMultiResult client clientID results order =
     tell client (empty_message\<lparr>m_type := ''multi_result'', m_id := clientID,
       m_results := Some (results |` set order)\<rparr>)"

text \<open>The rest of \<open>handleExecuteMulti\<close>. When a result has already removed the entry,
  setting its \<open>remaining\<close> and arming its timer have no effect.\<close>

definition armMulti :: "conn_id \<Rightarrow> string \<Rightarrow> int \<Rightarrow> int \<Rightarrow> relay_server \<Rightarrow> relay_server" where
  "armMulti c multiID n timeout s =
     (case rs_multiPending s multiID of
        None \<Rightarrow> set_phase c Reading s
      | Some e \<Rightarrow>
          if n = 0 then
            set_phase c Reading
              (sendMultiResult c (me_clientID e) (me_results e) (me_order e)
                (s\<lparr>rs_multiPending := (rs_multiPending s)(multiID := None)\<rparr>))
          else
            set_phase c Reading
              (s\<lparr>rs_multiPending := (rs_multiPending s)(multiID \<mapsto> e\<lparr>me_remaining := n, me_timer := Some timeout\<rparr>)\<rparr>))"

definition handleResult :: "message \<Rightarrow> relay_server \<Rightarrow> relay_server" where
  "handleResult m s =
     (case rs_subToMulti s (m_id m) of
        Some info \<Rightarrow>
          (let s1 = s\<lparr>rs_subToMulti := (rs_subToMulti s)(m_id m := None)\<rparr>
           in case rs_multiPending s1 (st_multiID info) of
                None \<Rightarrow> s1
              | Some e \<Rightarrow>
                  (let e' = e\<lparr>me_results := (me_results e)(st_targetName info \<mapsto> message0.truncate m),
                             me_remaining := me_remaining e - 1\<rparr>
                   in if me_remaining e' \<le> 0 then
                        sendMultiResult (me_clientConn e') (me_clientID e') (me_results e') (me_order e')
                          (s1\<lparr>rs_multiPending := (rs_multiPending s1)(st_multiID info := None)\<rparr>)
                      else s1\<lparr>rs_multiPending := (rs_multiPending s1)(st_multiID info \<mapsto> e')\<rparr>))
      | None \<Rightarrow>
          (case rs_pending s (m_id m) of
             None \<Rightarrow> s
           | Some pr \<Rightarrow> tell (pr_clientConn pr) (m\<lparr>m_id := pr_serverID pr\<rparr>) (cleanupPending (m_id m) s)))"

text \<open>The timer's callback.\<close>

definition fill_timeouts :: "string list \<Rightarrow> (string \<rightharpoonup> message0) \<Rightarrow> (string \<rightharpoonup> message0)" where
  "fill_timeouts order results =
     fold (\<lambda>t r. if r t = None then r(t \<mapsto> sub_error ''timed out waiting for result'') else r) order results"

definition multiTimeout :: "string \<Rightarrow> relay_server \<Rightarrow> relay_server" where
  "multiTimeout multiID s =
     (case rs_multiPending s multiID of
        None \<Rightarrow> s
      | Some e \<Rightarrow>
          sendMultiResult (me_clientConn e) (me_clientID e) (fill_timeouts (me_order e) (me_results e)) (me_order e)
            (s\<lparr>rs_multiPending := (rs_multiPending s)(multiID := None),
               rs_subToMulti := map_drop (\<lambda>info. st_multiID info = multiID) (rs_subToMulti s)\<rparr>))"

lemmas [relay_defs] = multi_target_def handleExecuteMulti_def sendMultiResult_def armMulti_def
  handleResult_def multiTimeout_def

end
