(* ===== verification/RelayTunnel.thy ===== *)
theory RelayTunnel
  imports RelayHandlers
begin

text \<open>
  Tunnels through the relay (relay\_tunnel.go): a session records the client and the daemon
  connection of one tunnel, and data goes to whichever of the two is not the sender.
\<close>

definition tunnel_error :: "string \<Rightarrow> string \<Rightarrow> message" where
  "tunnel_error tid e = empty_message\<lparr>m_type := ''tunnel_opened'', m_tunnel_id := tid, m_error := e\<rparr>"

definition handleTunnelOpen :: "conn_id \<Rightarrow> message \<Rightarrow> relay_server \<Rightarrow> relay_server" where
  "handleTunnelOpen c m s =
     (if m_target m = '''' \<or> m_tunnel_id m = '''' \<or> m_remote_addr m = '''' then
        tell c (tunnel_error (m_tunnel_id m) ''target, tunnel_id, and remote_addr are required'') s
      else case rs_clients s (m_target m) of
        None \<Rightarrow> tell c (tunnel_error (m_tunnel_id m) (''target not connected: '' @ m_target m)) s
      | Some target \<Rightarrow>
          if \<not> tokenEqual (rc_token (rs_rcs s target)) (m_token m) then
            tell c (tunnel_error (m_tunnel_id m) (''invalid token for target: '' @ m_target m)) s
          else
            (let s1 = s\<lparr>rs_tunnels := (rs_tunnels s)(m_tunnel_id m \<mapsto> \<lparr>ts_clientConn = c, ts_daemonConn = target\<rparr>)\<rparr>;
                 forward = empty_message\<lparr>m_type := ''tunnel_open'', m_tunnel_id := m_tunnel_id m, m_remote_addr := m_remote_addr m\<rparr>
             in case rc_send target forward s1 of
                  (None, s2) \<Rightarrow> s2
                | (Some e, s2) \<Rightarrow>
                    tell c (tunnel_error (m_tunnel_id m) (''failed to forward tunnel request: '' @ e))
                      (s2\<lparr>rs_tunnels := (rs_tunnels s2)(m_tunnel_id m := None)\<rparr>)))"

text \<open>The end of a tunnel that is not \<open>c\<close>. Sessions are created with both ends set, so the
  \<open>nil\<close> checks of the source never fire.\<close>

definition other_end :: "conn_id \<Rightarrow> tunnel_session \<Rightarrow> conn_id" where
  "other_end c ts = (if ts_clientConn ts = c then ts_daemonConn ts else ts_clientConn ts)"

definition handleTunnelRelay :: "conn_id \<Rightarrow> message \<Rightarrow> relay_server \<Rightarrow> relay_server" where
  "handleTunnelRelay c m s =
     (case rs_tunnels s (m_tunnel_id m) of None \<Rightarrow> s | Some ts \<Rightarrow> tell (other_end c ts) m s)"

definition tunnel_close_msg :: "string \<Rightarrow> message" where
  "tunnel_close_msg tid = empty_message\<lparr>m_type := ''tunnel_close'', m_tunnel_id := tid\<rparr>"

definition handleTunnelClose :: "conn_id \<Rightarrow> message \<Rightarrow> relay_server \<Rightarrow> relay_server" where
  "handleTunnelClose c m s =
     (case rs_tunnels s (m_tunnel_id m) of
        None \<Rightarrow> s
      | Some ts \<Rightarrow>
          tell (other_end c ts) (tunnel_close_msg (m_tunnel_id m))
            (s\<lparr>rs_tunnels := (rs_tunnels s)(m_tunnel_id m := None)\<rparr>))"

lemmas [msg_simps] = tunnel_error_def tunnel_close_msg_def

lemmas [relay_defs] = handleTunnelOpen_def handleTunnelRelay_def handleTunnelClose_def

end
