(* ===== verification/RelayServer.thy ===== *)
theory RelayServer
  imports RelayMulti RelayTunnel
begin

text \<open>
  The connection loop of the relay (\<open>handleWS\<close>, \<open>unregister\<close> in relay.go) and the relay as a
  state machine: \<open>relay_step s ev s'\<close> has one rule for each thing that can happen, a new
  connection, a frame, a read error, the second half of a fan-out, a timer, a turn of a
  writer goroutine, a socket that starts failing, a change of the key file.
\<close>

section \<open>Authentication\<close>

definition clientOnlyMessages :: "string set" where
  "clientOnlyMessages = {''execute'', ''execute_multi'', ''file_transfer'', ''file_chunk'',
     ''pair_listen'', ''disconnect'', ''tunnel_open''}"

definition errAuthRequired :: string where
  "errAuthRequired = ''authentication required: relay secret not provided''"

definition authRequiredReply :: "message \<Rightarrow> message" where
  "authRequiredReply m =
     (if m_type m = ''execute_multi'' then
        empty_message\<lparr>m_type := ''multi_result'', m_id := m_id m, m_error := errAuthRequired\<rparr>
      else if m_type m = ''tunnel_open'' then
        empty_message\<lparr>m_type := ''tunnel_opened'', m_tunnel_id := m_tunnel_id m, m_error := errAuthRequired\<rparr>
      else if m_type m = ''pair_listen'' \<or> m_type m = ''disconnect'' then
        empty_message\<lparr>m_type := ''error'', m_id := m_id m, m_error := errAuthRequired\<rparr>
      else errResult (m_id m) errAuthRequired)"

text \<open>The handshake: \<open>None\<close> answers 401; otherwise the connection's \<open>authenticated\<close> flag.\<close>

definition ws_handshake :: "string \<Rightarrow> relay_server \<Rightarrow> bool option" where
  "ws_handshake auth s =
     (if rs_secret s \<noteq> '''' \<and> \<not> tokenEqual auth (''Bearer '' @ rs_secret s)
      then (if rs_secretExempt s = {} then None else Some False)
      else Some True)"

definition accept_conn :: "bool \<Rightarrow> relay_server \<Rightarrow> relay_server" where
  "accept_conn auth s =
     s\<lparr>rs_rcs := (rs_rcs s)(rs_next s := new_relay_client),
       rs_ctxs := (rs_ctxs s)(rs_next s \<mapsto> \<lparr>wc_authenticated = auth, wc_registered = False, wc_phase = Reading\<rparr>),
       rs_next := Suc (rs_next s)\<rparr>"

section \<open>The read loop\<close>

text \<open>The switch on the message type.\<close>

definition ws_dispatch :: "bool \<Rightarrow> conn_id \<Rightarrow> message \<Rightarrow> relay_server \<Rightarrow> relay_server" where
  "ws_dispatch auth c m s =
     (let t = m_type m
      in if t = ''register'' then
           (case handleRegister auth c m s of
              (True, s1) \<Rightarrow> set_phase c Closing s1
            | (False, s1) \<Rightarrow> set_ctx c (wc_registered_update (\<lambda>_. True)) s1)
         else if t = ''execute'' then handleExecute c m s
         else if t = ''file_transfer'' then handleFileTransfer c m s
         else if t = ''file_chunk'' then handleFileChunk c m s
         else if t = ''stream_chunk'' then handleStreamChunk m s
         else if t = ''stream_end'' then handleStreamEnd m s
         else if t = ''result'' then handleResult m s
         else if t = ''file_transfer_result'' then handleFileTransferResult c m s
         else if t = ''execute_multi'' then handleExecuteMulti c m s
         else if t = ''pair_listen'' then handlePairListen c m s
         else if t = ''pair'' then handlePair c m s
         else if t = ''disconnect'' then handleDisconnect c m s
         else if t = ''tunnel_open'' then handleTunnelOpen c m s
         else if t = ''tunnel_opened'' then handleTunnelRelay c m s
         else if t = ''tunnel_data'' then handleTunnelRelay c m s
         else if t = ''tunnel_close'' then handleTunnelClose c m s
         else tell c (error_msg (''unknown message type: '' @ m_type m)) s)"

text \<open>One frame read at the top of the loop.\<close>

definition ws_frame :: "bool \<Rightarrow> conn_id \<Rightarrow> wsframe \<Rightarrow> relay_server \<Rightarrow> relay_server" where
  "ws_frame auth c f s =
     (case f of
        Binary data \<Rightarrow>
          (case rc_lastBinaryRoute (rs_rcs s c) of
             None \<Rightarrow> s
           | Some route \<Rightarrow> snd (rc_send_unit (cr_target route) [Binary data] s))
      | BadJson _ \<Rightarrow> s
      | Json m \<Rightarrow>
          if \<not> auth \<and> m_type m \<in> clientOnlyMessages then
            set_phase c Closing (tell c (authRequiredReply m) s)
          else ws_dispatch auth c m s)"

section \<open>Leaving\<close>

text \<open>\<open>unregister\<close>; \<open>ord\<close> is the order in which the runtime visits the tunnels.\<close>

definition drop_tunnel :: "conn_id \<Rightarrow> string \<Rightarrow> relay_server \<Rightarrow> relay_server" where
  "drop_tunnel c tid s =
     (case rs_tunnels s tid of
        None \<Rightarrow> s
      | Some ts \<Rightarrow>
          if ts_clientConn ts = c \<or> ts_daemonConn ts = c then
            (let s1 = tell (other_end c ts) (tunnel_close_msg tid) s
             in s1\<lparr>rs_tunnels := (rs_tunnels s1)(tid := None)\<rparr>)
          else s)"

definition unregister :: "conn_id \<Rightarrow> string list \<Rightarrow> relay_server \<Rightarrow> relay_server" where
  "unregister c ord s =
     (let name = rc_name (rs_rcs s c);
          s1 = (if rs_clients s name = Some c then s\<lparr>rs_clients := (rs_clients s)(name := None)\<rparr> else s);
          s2 = s1\<lparr>rs_pending := map_drop (\<lambda>pr. pr_clientConn pr = c) (rs_pending s1)\<rparr>;
          s3 = s2\<lparr>rs_pairListeners := map_drop (\<lambda>l. pl_conn l = c) (rs_pairListeners s2)\<rparr>;
          s4 = fold (drop_tunnel c) ord s3
      in upd_rc c closeWriter s4)"

text \<open>The deferred calls of \<open>handleWS\<close>: \<open>unregister\<close> if the connection ever registered, then
  \<open>conn.Close\<close>, after which writes to it fail.\<close>

definition ws_exit :: "conn_id \<Rightarrow> bool \<Rightarrow> string list \<Rightarrow> relay_server \<Rightarrow> relay_server" where
  "ws_exit c registered ord s =
     (let s1 = (if registered then unregister c ord s else s);
          s2 = upd_rc c (\<lambda>rc. rc\<lparr>wq_net := (if wq_net rc = None then Some ''use of closed network connection'' else wq_net rc)\<rparr>) s1
      in s2\<lparr>rs_ctxs := (rs_ctxs s2)(c := None)\<rparr>)"

section \<open>The relay as a state machine\<close>

datatype relay_event =
    Connect string
  | Recv conn_id wsframe
  | Payload conn_id "string + wsframe"
  | Arm conn_id
  | Timer string
  | WriterTurn conn_id
  | NetFail conn_id string
  | KeyFileChange "key_file option"
  | Leave conn_id "string list"

inductive relay_step :: "relay_server \<Rightarrow> relay_event \<Rightarrow> relay_server \<Rightarrow> bool" where
  connect: "ws_handshake auth s = Some a \<Longrightarrow> relay_step s (Connect auth) (accept_conn a s)"
| recv: "rs_ctxs s c = Some x \<Longrightarrow> wc_phase x = Reading \<Longrightarrow>
     relay_step s (Recv c f) (ws_frame (wc_authenticated x) c f s)"
| payload: "rs_ctxs s c = Some x \<Longrightarrow> wc_phase x = AwaitBinary m \<Longrightarrow>
     relay_step s (Payload c p) (set_phase c Reading (fileChunkPayload c m p s))"
| arm: "rs_ctxs s c = Some x \<Longrightarrow> wc_phase x = ArmMulti mid n timeout \<Longrightarrow>
     relay_step s (Arm c) (armMulti c mid n timeout s)"
| timer: "rs_multiPending s mid = Some e \<Longrightarrow> me_timer e \<noteq> None \<Longrightarrow>
     relay_step s (Timer mid) (multiTimeout mid s)"
| writer: "relay_step s (WriterTurn c) (upd_rc c (writer_step id) s)"
| net_fail: "wq_net (rs_rcs s c) = None \<Longrightarrow>
     relay_step s (NetFail c e) (upd_rc c (\<lambda>rc. rc\<lparr>wq_net := Some e\<rparr>) s)"
| key_file: "relay_step s (KeyFileChange f) (s\<lparr>rs_keyFile := f\<rparr>)"
| leave: "rs_ctxs s c = Some x \<Longrightarrow> wc_phase x = Reading \<or> wc_phase x = Closing \<Longrightarrow>
     distinct ord \<Longrightarrow> set ord = dom (rs_tunnels s) \<Longrightarrow>
     relay_step s (Leave c ord) (ws_exit c (wc_registered x) ord s)"

inductive_cases connectE: "relay_step s (Connect auth) s'"
inductive_cases recvE: "relay_step s (Recv c f) s'"
inductive_cases payloadE: "relay_step s (Payload c p) s'"
inductive_cases armE: "relay_step s (Arm c) s'"
inductive_cases timerE: "relay_step s (Timer mid) s'"
inductive_cases writerE: "relay_step s (WriterTurn c) s'"
inductive_cases net_failE: "relay_step s (NetFail c e) s'"
inductive_cases key_fileE: "relay_step s (KeyFileChange f) s'"
inductive_cases leaveE: "relay_step s (Leave c ord) s'"

inductive relay_reachable :: "relay_server \<Rightarrow> bool" where
  start: "relay_reachable (newRelayFromEnv sec exempt e kf)"
| step: "relay_reachable s \<Longrightarrow> relay_step s ev s' \<Longrightarrow> relay_reachable s'"

text \<open>A run: the list of events that lead from one state to another.\<close>

inductive relay_run :: "relay_server \<Rightarrow> relay_event list \<Rightarrow> relay_server \<Rightarrow> bool" where
  nil: "relay_run s [] s"
| cons: "relay_step s ev s1 \<Longrightarrow> relay_run s1 evs s2 \<Longrightarrow> relay_run s (ev # evs) s2"

lemmas [relay_defs] = ws_frame_def ws_dispatch_def drop_tunnel_def unregister_def ws_exit_def accept_conn_def

end
