(* ===== verification/RelayAuth.thy ===== *)
theory RelayAuth
  imports RelayServer
begin

text \<open>
  Who may make the relay send what. \<open>emits P s s'\<close> says that between two states every
  connection's wire only grew, by frames that satisfy \<open>P\<close>; it composes along a handler. The
  main theorem: a frame that makes a daemon act (\<open>command\<close>, \<open>file_transfer\<close>, \<open>disconnect\<close>,
  \<open>tunnel_open\<close>) is only ever written in answer to a message that carries that daemon's token,
  from a connection that passed the relay secret.
\<close>

section \<open>Frames that make a daemon act\<close>

definition privileged :: "message \<Rightarrow> bool" where
  "privileged m \<longleftrightarrow> m_type m \<in> {''command'', ''file_transfer'', ''disconnect'', ''tunnel_open''}"

definition allowed :: "(conn_id \<Rightarrow> bool) \<Rightarrow> conn_id \<Rightarrow> wsframe \<Rightarrow> bool" where
  "allowed A d f \<longleftrightarrow> (\<forall>m'. f = Json m' \<longrightarrow> privileged m' \<longrightarrow> A d)"

abbreviation harmless :: "conn_id \<Rightarrow> wsframe \<Rightarrow> bool" where
  "harmless \<equiv> allowed (\<lambda>_. False)"

lemma harmless_allowed: "harmless d f \<Longrightarrow> allowed A d f"
  by (auto simp: allowed_def)

lemma allowed_Json: "\<not> privileged m \<Longrightarrow> allowed A d (Json m)"
  by (simp add: allowed_def)

lemma allowed_if: "A d \<Longrightarrow> allowed A d f"
  by (simp add: allowed_def)

lemma allowed_Binary [simp]: "allowed A d (Binary b)"
  by (simp add: allowed_def)

section \<open>Growth of the wires\<close>

definition emits :: "(conn_id \<Rightarrow> wsframe \<Rightarrow> bool) \<Rightarrow> relay_server \<Rightarrow> relay_server \<Rightarrow> bool" where
  "emits P s s' \<longleftrightarrow>
     (\<forall>d. (\<exists>new. wire (rs_rcs s' d) = wire (rs_rcs s d) @ new \<and> (\<forall>f\<in>set new. P d f)) \<and>
          (\<forall>e\<in>set (wq_chan (rs_rcs s' d)). e \<in> set (wq_chan (rs_rcs s d)) \<or> (\<forall>f\<in>set e. harmless d f)))"

definition new_frames :: "relay_server \<Rightarrow> relay_server \<Rightarrow> conn_id \<Rightarrow> wsframe list" where
  "new_frames s s' d = drop (length (wire (rs_rcs s d))) (wire (rs_rcs s' d))"

lemma emits_new: "emits P s s' \<Longrightarrow> f \<in> set (new_frames s s' d) \<Longrightarrow> P d f"
proof -
  assume e: "emits P s s'" and f: "f \<in> set (new_frames s s' d)"
  from e obtain new where "wire (rs_rcs s' d) = wire (rs_rcs s d) @ new" and "\<forall>f\<in>set new. P d f"
    unfolding emits_def by blast
  with f show ?thesis by (simp add: new_frames_def)
qed

lemma emits_refl [simp]: "emits P s s"
  by (simp add: emits_def)

lemma emits_trans: "emits P s s1 \<Longrightarrow> emits P s1 s2 \<Longrightarrow> emits P s s2"
proof -
  assume a: "emits P s s1" and b: "emits P s1 s2"
  show ?thesis
    unfolding emits_def
  proof (intro allI conjI)
    fix d
    from a obtain n1 where 1: "wire (rs_rcs s1 d) = wire (rs_rcs s d) @ n1" "\<forall>f\<in>set n1. P d f"
      unfolding emits_def by blast
    from b obtain n2 where 2: "wire (rs_rcs s2 d) = wire (rs_rcs s1 d) @ n2" "\<forall>f\<in>set n2. P d f"
      unfolding emits_def by blast
    show "\<exists>new. wire (rs_rcs s2 d) = wire (rs_rcs s d) @ new \<and> (\<forall>f\<in>set new. P d f)"
      by (rule exI [of _ "n1 @ n2"]) (use 1 2 in auto)
    show "\<forall>e\<in>set (wq_chan (rs_rcs s2 d)). e \<in> set (wq_chan (rs_rcs s d)) \<or> (\<forall>f\<in>set e. harmless d f)"
      using a b unfolding emits_def by blast
  qed
qed

lemma emits_mono: "emits P s s' \<Longrightarrow> (\<And>d f. P d f \<Longrightarrow> Q d f) \<Longrightarrow> emits Q s s'"
  unfolding emits_def by meson

lemma emits_tell: "P c (Json m) \<Longrightarrow> emits P s (tell c m s)"
  unfolding emits_def by (auto simp: wire_tell)

lemma emits_tell_after: "emits P s s1 \<Longrightarrow> P c (Json m) \<Longrightarrow> emits P s (tell c m s1)"
  by (erule emits_trans) (rule emits_tell)

text \<open>Updates that keep wires and queues: the ones the handlers make to the server's tables.\<close>

lemma wire_queue_ops [simp]:
  "wire (startWriter rc) = wire rc" "wire (closeWriter rc) = wire rc"
  by (simp_all add: startWriter_def closeWriter_def)

lemma rcs_cleanup [simp]: "rs_rcs (cleanupPending r s) = rs_rcs s"
  by (simp add: cleanupPending_def)

lemma emits_same:
  "(\<And>d. wire (rs_rcs s2 d) = wire (rs_rcs s1 d)) \<Longrightarrow> (\<And>d. wq_chan (rs_rcs s2 d) = wq_chan (rs_rcs s1 d)) \<Longrightarrow>
   emits P s s2 = emits P s s1"
  by (simp add: emits_def)

lemma emits_startWriter [intro!]: "emits P s s1 \<Longrightarrow> emits P s (upd_rc c startWriter s1)"
  by (erule emits_trans) (simp add: emits_def startWriter_def)

lemma emits_tables [simp]:
  "emits P s (s1\<lparr>rs_clients := a\<rparr>) = emits P s s1" "emits P s (s1\<lparr>rs_pending := b\<rparr>) = emits P s s1"
  "emits P s (s1\<lparr>rs_pairListeners := pl\<rparr>) = emits P s s1" "emits P s (s1\<lparr>rs_multiPending := mp\<rparr>) = emits P s s1"
  "emits P s (s1\<lparr>rs_subToMulti := sm\<rparr>) = emits P s s1" "emits P s (s1\<lparr>rs_tunnels := ts\<rparr>) = emits P s s1"
  "emits P s (s1\<lparr>rs_ctxs := x\<rparr>) = emits P s s1" "emits P s (s1\<lparr>rs_draws := n\<rparr>) = emits P s s1"
  "emits P s (s1\<lparr>rs_keys := ks\<rparr>) = emits P s s1" "emits P s (s1\<lparr>rs_keyFile := kf\<rparr>) = emits P s s1"
  "emits P s (cleanupPending r s1) = emits P s s1" "emits P s (set_ctx c f s1) = emits P s s1"
  "emits P s (set_phase c p s1) = emits P s s1"
  by (simp_all add: emits_def)

lemma emits_rc_updates [simp]:
  "emits P s (upd_rc c (rc_chunkRoutes_update g) s1) = emits P s s1"
  "emits P s (upd_rc c (\<lambda>rc. rc\<lparr>rc_chunkRoutes := h rc\<rparr>) s1) = emits P s s1"
  "emits P s (upd_rc c (\<lambda>rc. rc\<lparr>rc_name := n, rc_token := t\<rparr>) s1) = emits P s s1"
  "emits P s (upd_rc c closeWriter s1) = emits P s s1"
  "emits P s (upd_rc c (\<lambda>rc. rc\<lparr>wq_net := k rc\<rparr>) s1) = emits P s s1"
  "emits P s (drop_route c tid s1) = emits P s s1"
  by (rule emits_same; simp add: drop_route_def closeWriter_def)+

section \<open>Privileged frames\<close>

text \<open>The message \<open>m\<close> names \<open>d\<close> as a registered target and carries its token.\<close>

definition holds_token :: "relay_server \<Rightarrow> message \<Rightarrow> conn_id \<Rightarrow> bool" where
  "holds_token s m d \<longleftrightarrow>
     (rs_clients s (m_target m) = Some d \<and> m_token m = rc_token (rs_rcs s d)) \<or>
     (\<exists>t\<in>set (m_targets m). rs_clients s t = Some d \<and> m_tokens m t = Some (rc_token (rs_rcs s d)))"

lemma emits_harmless: "emits harmless s s' \<Longrightarrow> emits (allowed A) s s'"
  by (erule emits_mono) (rule harmless_allowed)

lemma m_type_replies [simp]:
  "m_type empty_message = ''''" "m_type (errResult i e) = ''result''" "m_type (error_msg e) = ''error''"
  "m_type (tunnel_error t e) = ''tunnel_opened''" "m_type (tunnel_close_msg t) = ''tunnel_close''"
  "m_type (chunk_header route m) = ''file_chunk''"
  "m_type (authRequiredReply m) \<in> {''result'', ''error'', ''multi_result'', ''tunnel_opened''}"
  by (simp_all add: msg_simps chunk_header_def authRequiredReply_def)

lemma authRequiredReply_not_privileged [simp]: "\<not> privileged (authRequiredReply m)"
  using m_type_replies(7) [of m] by (auto simp: privileged_def)

text \<open>The one rule for a write: a privileged message needs the right to reach \<open>c\<close>.\<close>

lemma emits_write:
  "emits (allowed A) s s1 \<Longrightarrow> (privileged m \<Longrightarrow> A c) \<Longrightarrow> emits (allowed A) s (tell c m s1)"
  by (rule emits_tell_after) (auto simp: allowed_def)

lemmas emits_simps = Let_def rc_send_eq tokenEqual_def draw_id_def privileged_def

text \<open>Queue entries never hold a privileged frame: only chunks are queued.\<close>

definition queue_clean :: "relay_server \<Rightarrow> bool" where
  "queue_clean s \<longleftrightarrow> (\<forall>c. \<forall>e\<in>set (wq_chan (rs_rcs s c)). \<forall>f\<in>set e. harmless c f)"

lemma queue_cleanD: "queue_clean s \<Longrightarrow> e \<in> set (wq_chan (rs_rcs s c)) \<Longrightarrow> f \<in> set e \<Longrightarrow> harmless c f"
  by (auto simp: queue_clean_def)

lemma queue_clean_emits: "emits P s s' \<Longrightarrow> queue_clean s \<Longrightarrow> queue_clean s'"
  unfolding queue_clean_def emits_def by blast

section \<open>Handlers\<close>

lemma emits_handleRegister: "emits harmless s (snd (handleRegister auth c m s))"
  by (auto simp: handleRegister_def emits_simps intro!: emits_write split: option.splits)

lemma emits_handleExecute: "emits (allowed (holds_token s m)) s (handleExecute c m s)"
  by (auto simp: handleExecute_def holds_token_def emits_simps intro!: emits_write split: option.splits)

lemma emits_handleFileTransfer: "emits (allowed (holds_token s m)) s (handleFileTransfer c m s)"
  by (auto simp: handleFileTransfer_def holds_token_def emits_simps intro!: emits_write split: option.splits)

lemma emits_chunk_failed: "emits (allowed A) s s1 \<Longrightarrow> emits (allowed A) s (chunk_failed c t r e s1)"
  by (auto simp: chunk_failed_def privileged_def intro!: emits_write)

lemma emits_handleFileChunk: "emits harmless s (handleFileChunk c m s)"
  by (auto simp: handleFileChunk_def emits_simps intro!: emits_write emits_chunk_failed split: option.splits)

lemma emits_send_unit: "(\<And>f. f \<in> set fs \<Longrightarrow> harmless c f) \<Longrightarrow> emits harmless s (snd (rc_send_unit c fs s))"
  unfolding emits_def
  by (auto simp: rc_send_unit_def send_unit_def queue_or_write_def conn_write_wire)

lemma rc_send_unit_split:
  "rc_send_unit c fs s = (fst (rc_send_unit c fs s), snd (rc_send_unit c fs s))"
  by simp

lemma emits_fileChunkPayload: "emits harmless s (fileChunkPayload c m p s)"
proof -
  have unit: "emits harmless s (snd (rc_send_unit d [Json (chunk_header route m), Binary b] s))" for b d route
    by (rule emits_send_unit) (auto simp: privileged_def allowed_def)
  show ?thesis
    by (auto simp: fileChunkPayload_def case_prod_beta intro!: emits_chunk_failed unit
        split: option.splits sum.splits wsframe.splits prod.split)
qed

lemma emits_handleStreamChunk: "m_type m = ''stream_chunk'' \<Longrightarrow> emits harmless s (handleStreamChunk m s)"
  by (auto simp: handleStreamChunk_def emits_simps intro!: emits_write split: option.splits)

lemma emits_handleStreamEnd: "m_type m = ''stream_end'' \<Longrightarrow> emits harmless s (handleStreamEnd m s)"
  by (auto simp: handleStreamEnd_def emits_simps intro!: emits_write split: option.splits)

lemma emits_sendMultiResult:
  "emits (allowed A) s s1 \<Longrightarrow> emits (allowed A) s (sendMultiResult d i r ord s1)"
  unfolding sendMultiResult_def by (rule emits_write) (simp_all add: privileged_def)

lemma emits_handleResult: "m_type m = ''result'' \<Longrightarrow> emits harmless s (handleResult m s)"
  by (auto simp: handleResult_def emits_simps intro!: emits_sendMultiResult emits_write split: option.splits)

lemma emits_handleFileTransferResult: "emits harmless s (handleFileTransferResult c m s)"
  by (auto simp: handleFileTransferResult_def emits_simps intro!: emits_write split: option.splits)

lemma emits_handlePairListen: "emits harmless s (handlePairListen c m s)"
  by (auto simp: handlePairListen_def emits_simps intro!: emits_write)

lemma emits_handlePair: "emits harmless s (handlePair c m s)"
  by (auto simp: handlePair_def pair_accept_def emits_simps intro!: emits_write split: option.splits prod.splits)

lemma emits_handleDisconnect: "emits (allowed (holds_token s m)) s (handleDisconnect c m s)"
  by (auto simp: handleDisconnect_def holds_token_def emits_simps intro!: emits_write split: option.splits)

lemma emits_handleTunnelOpen: "emits (allowed (holds_token s m)) s (handleTunnelOpen c m s)"
  by (auto simp: handleTunnelOpen_def holds_token_def emits_simps intro!: emits_write split: option.splits)

lemma emits_handleTunnelRelay: "\<not> privileged m \<Longrightarrow> emits harmless s (handleTunnelRelay c m s)"
  by (auto simp: handleTunnelRelay_def intro!: emits_write split: option.splits)

lemma emits_handleTunnelClose: "emits harmless s (handleTunnelClose c m s)"
  by (auto simp: handleTunnelClose_def emits_simps intro!: emits_write split: option.splits)

text \<open>The fan-out loop never changes who is registered under which token.\<close>

definition same_targets :: "relay_server \<Rightarrow> relay_server \<Rightarrow> bool" where
  "same_targets s s' \<longleftrightarrow> rs_clients s' = rs_clients s \<and> (\<forall>d. rc_token (rs_rcs s' d) = rc_token (rs_rcs s d))"

lemma same_targets_simps [simp]:
  "same_targets s s" "same_targets s (tell c m s1) = same_targets s s1"
  "same_targets s (s1\<lparr>rs_subToMulti := sm\<rparr>) = same_targets s s1"
  "same_targets s (s1\<lparr>rs_draws := n\<rparr>) = same_targets s s1"
  by (simp_all add: same_targets_def)

lemma multi_target_emits:
  assumes "t \<in> set (m_targets m)" "emits (allowed (holds_token s m)) s s1" "same_targets s s1"
    and "multi_target mid m t (r, n, s1) = (r', n', s2)"
  shows "emits (allowed (holds_token s m)) s s2 \<and> same_targets s s2"
proof (cases "rs_clients s t")
  case None
  with assms show ?thesis by (auto simp: multi_target_def same_targets_def)
next
  case (Some d)
  have cl: "rs_clients s1 t = Some d" and tk: "rc_token (rs_rcs s1 d) = rc_token (rs_rcs s d)"
    using assms(3) Some by (auto simp: same_targets_def)
  show ?thesis
  proof (cases "m_tokens m t = Some (rc_token (rs_rcs s d))")
    case True
    have "holds_token s m d" using assms(1) Some True by (auto simp: holds_token_def)
    then show ?thesis using assms(2-4) cl tk True
      by (auto simp: multi_target_def emits_simps intro!: emits_write split: option.splits)
  next
    case False
    then show ?thesis using assms(2-4) cl tk
      by (auto simp: multi_target_def emits_simps split: option.splits)
  qed
qed

lemma fold_multi_target_emits:
  assumes "set ts \<subseteq> set (m_targets m)" "emits (allowed (holds_token s m)) s s1" "same_targets s s1"
    and "fold (multi_target mid m) ts (r, n, s1) = (r', n', s2)"
  shows "emits (allowed (holds_token s m)) s s2 \<and> same_targets s s2"
  using assms
proof (induction ts arbitrary: r n s1)
  case (Cons t ts)
  obtain r1 n1 s1' where st: "multi_target mid m t (r, n, s1) = (r1, n1, s1')"
    by (metis prod_cases3)
  have "emits (allowed (holds_token s m)) s s1' \<and> same_targets s s1'"
    by (rule multi_target_emits [OF _ _ _ st]) (use Cons.prems in auto)
  with Cons.IH [of s1' r1 n1] Cons.prems st show ?case by simp
qed simp

lemma emits_handleExecuteMulti: "emits (allowed (holds_token s m)) s (handleExecuteMulti c m s)"
proof (cases "m_targets m = [] \<or> m_cmd m = ''''")
  case True
  then show ?thesis by (auto simp: handleExecuteMulti_def privileged_def intro!: emits_write)
next
  case False
  let ?s1 = "s\<lparr>rs_draws := Suc (rs_draws s)\<rparr>"
  obtain r n s2 where f: "fold (multi_target (newID (rs_entropy s) (rs_draws s)) m) (m_targets m) (Map.empty, 0, ?s1) = (r, n, s2)"
    by (metis prod_cases3)
  have "emits (allowed (holds_token s m)) s s2"
    using fold_multi_target_emits [OF _ _ _ f, of s] by simp
  with False f show ?thesis by (simp add: handleExecuteMulti_def draw_id_def)
qed

lemma emits_armMulti: "emits harmless s (armMulti c mid n t s)"
  by (auto simp: armMulti_def intro!: emits_sendMultiResult split: option.splits)

lemma emits_multiTimeout: "emits harmless s (multiTimeout mid s)"
  by (auto simp: multiTimeout_def intro!: emits_sendMultiResult split: option.splits)

section \<open>The read loop and leaving\<close>

lemma emits_ws_dispatch: "emits (allowed (holds_token s m)) s (ws_dispatch auth c m s)"
proof -
  note h = emits_handleStreamChunk [THEN emits_harmless] emits_handleStreamEnd [THEN emits_harmless]
    emits_handleResult [THEN emits_harmless] emits_handleFileTransferResult [THEN emits_harmless]
    emits_handlePairListen [THEN emits_harmless] emits_handlePair [THEN emits_harmless]
    emits_handleTunnelRelay [THEN emits_harmless] emits_handleTunnelClose [THEN emits_harmless]
    emits_handleFileChunk [THEN emits_harmless] emits_handleExecute emits_handleFileTransfer
    emits_handleExecuteMulti emits_handleDisconnect emits_handleTunnelOpen
  have r: "handleRegister auth c m s = (b, s1) \<Longrightarrow> emits (allowed (holds_token s m)) s s1" for b s1
    using emits_harmless [OF emits_handleRegister, of "holds_token s m" s auth c m] by simp
  show ?thesis
    unfolding ws_dispatch_def Let_def
    by (auto simp: privileged_def intro!: h emits_write dest: r split: prod.splits bool.splits)
qed

lemma emits_ws_frame_Json: "emits (allowed (holds_token s m)) s (ws_frame auth c (Json m) s)"
  by (auto simp: ws_frame_def intro!: emits_ws_dispatch emits_write)

lemma emits_ws_frame_unauth:
  "\<not> auth \<Longrightarrow> m_type m \<in> clientOnlyMessages \<Longrightarrow> emits harmless s (ws_frame auth c (Json m) s)"
  by (auto simp: ws_frame_def intro!: emits_write)

lemma emits_ws_frame_other: "(\<And>m. f \<noteq> Json m) \<Longrightarrow> emits harmless s (ws_frame auth c f s)"
  by (cases f) (auto simp: ws_frame_def intro!: emits_send_unit split: option.splits)

lemma emits_drop_tunnel: "emits (allowed A) s s1 \<Longrightarrow> emits (allowed A) s (drop_tunnel c t s1)"
  by (auto simp: drop_tunnel_def Let_def privileged_def intro!: emits_write split: option.splits)

lemma emits_drop_tunnels: "emits (allowed A) s s1 \<Longrightarrow> emits (allowed A) s (fold (drop_tunnel c) ord s1)"
  by (induction ord arbitrary: s1) (auto intro: emits_drop_tunnel)

end
