(* ===== verification/RelayFrames.thy ===== *)
theory RelayFrames
  imports RelayServer
begin

text \<open>
  What each handler leaves alone: one lemma per handler, listing the tables of the server's
  state it does not change. The invariants of the relay are proved over these.
\<close>

lemma rc_send_unit_fields [simp]:
  "rs_secret (snd (rc_send_unit c fs s)) = rs_secret s" "rs_secretExempt (snd (rc_send_unit c fs s)) = rs_secretExempt s"
  "rs_entropy (snd (rc_send_unit c fs s)) = rs_entropy s" "rs_next (snd (rc_send_unit c fs s)) = rs_next s"
  "rs_ctxs (snd (rc_send_unit c fs s)) = rs_ctxs s" "rs_clients (snd (rc_send_unit c fs s)) = rs_clients s"
  "rs_pending (snd (rc_send_unit c fs s)) = rs_pending s" "rs_pairListeners (snd (rc_send_unit c fs s)) = rs_pairListeners s"
  "rs_multiPending (snd (rc_send_unit c fs s)) = rs_multiPending s" "rs_subToMulti (snd (rc_send_unit c fs s)) = rs_subToMulti s"
  "rs_tunnels (snd (rc_send_unit c fs s)) = rs_tunnels s" "rs_draws (snd (rc_send_unit c fs s)) = rs_draws s"
  "rs_keyFile (snd (rc_send_unit c fs s)) = rs_keyFile s" "rs_keys (snd (rc_send_unit c fs s)) = rs_keys s"
  by (simp_all add: rc_send_unit_def)

lemma multi_target_fields [simp]:
  "rs_secret (snd (snd (multi_target mid m t a))) = rs_secret (snd (snd a))" "rs_secretExempt (snd (snd (multi_target mid m t a))) = rs_secretExempt (snd (snd a))"
  "rs_entropy (snd (snd (multi_target mid m t a))) = rs_entropy (snd (snd a))" "rs_next (snd (snd (multi_target mid m t a))) = rs_next (snd (snd a))"
  "rs_ctxs (snd (snd (multi_target mid m t a))) = rs_ctxs (snd (snd a))" "rs_clients (snd (snd (multi_target mid m t a))) = rs_clients (snd (snd a))"
  "rs_pending (snd (snd (multi_target mid m t a))) = rs_pending (snd (snd a))" "rs_pairListeners (snd (snd (multi_target mid m t a))) = rs_pairListeners (snd (snd a))"
  "rs_multiPending (snd (snd (multi_target mid m t a))) = rs_multiPending (snd (snd a))" "rs_tunnels (snd (snd (multi_target mid m t a))) = rs_tunnels (snd (snd a))"
  "rs_keyFile (snd (snd (multi_target mid m t a))) = rs_keyFile (snd (snd a))" "rs_keys (snd (snd (multi_target mid m t a))) = rs_keys (snd (snd a))"
  by (cases a; simp add: multi_target_def draw_id_def Let_def rc_send_eq split: option.split)+

lemma fold_multi_target_fields [simp]:
  "rs_secret (snd (snd (fold (multi_target mid m) ts a))) = rs_secret (snd (snd a))" "rs_secretExempt (snd (snd (fold (multi_target mid m) ts a))) = rs_secretExempt (snd (snd a))"
  "rs_entropy (snd (snd (fold (multi_target mid m) ts a))) = rs_entropy (snd (snd a))" "rs_next (snd (snd (fold (multi_target mid m) ts a))) = rs_next (snd (snd a))"
  "rs_ctxs (snd (snd (fold (multi_target mid m) ts a))) = rs_ctxs (snd (snd a))" "rs_clients (snd (snd (fold (multi_target mid m) ts a))) = rs_clients (snd (snd a))"
  "rs_pending (snd (snd (fold (multi_target mid m) ts a))) = rs_pending (snd (snd a))" "rs_pairListeners (snd (snd (fold (multi_target mid m) ts a))) = rs_pairListeners (snd (snd a))"
  "rs_multiPending (snd (snd (fold (multi_target mid m) ts a))) = rs_multiPending (snd (snd a))" "rs_tunnels (snd (snd (fold (multi_target mid m) ts a))) = rs_tunnels (snd (snd a))"
  "rs_keyFile (snd (snd (fold (multi_target mid m) ts a))) = rs_keyFile (snd (snd a))" "rs_keys (snd (snd (fold (multi_target mid m) ts a))) = rs_keys (snd (snd a))"
  by (induction ts arbitrary: a) simp_all

lemma drop_route_frame [simp]:
  "rs_secret (drop_route c t s) = rs_secret s" "rs_secretExempt (drop_route c t s) = rs_secretExempt s"
  "rs_entropy (drop_route c t s) = rs_entropy s" "rs_next (drop_route c t s) = rs_next s"
  "rs_ctxs (drop_route c t s) = rs_ctxs s" "rs_clients (drop_route c t s) = rs_clients s"
  "rs_pending (drop_route c t s) = rs_pending s" "rs_pairListeners (drop_route c t s) = rs_pairListeners s"
  "rs_multiPending (drop_route c t s) = rs_multiPending s" "rs_subToMulti (drop_route c t s) = rs_subToMulti s"
  "rs_tunnels (drop_route c t s) = rs_tunnels s" "rs_draws (drop_route c t s) = rs_draws s"
  "rs_keyFile (drop_route c t s) = rs_keyFile s" "rs_keys (drop_route c t s) = rs_keys s"
  by (simp_all add: drop_route_def draw_id_def Let_def rc_send_eq )

lemma cleanupPending_frame [simp]:
  "rs_secret (cleanupPending r s) = rs_secret s" "rs_secretExempt (cleanupPending r s) = rs_secretExempt s"
  "rs_entropy (cleanupPending r s) = rs_entropy s" "rs_next (cleanupPending r s) = rs_next s"
  "rs_ctxs (cleanupPending r s) = rs_ctxs s" "rs_clients (cleanupPending r s) = rs_clients s"
  "rs_pairListeners (cleanupPending r s) = rs_pairListeners s" "rs_multiPending (cleanupPending r s) = rs_multiPending s"
  "rs_subToMulti (cleanupPending r s) = rs_subToMulti s" "rs_tunnels (cleanupPending r s) = rs_tunnels s"
  "rs_draws (cleanupPending r s) = rs_draws s" "rs_keyFile (cleanupPending r s) = rs_keyFile s"
  "rs_keys (cleanupPending r s) = rs_keys s"
  by (simp_all add: cleanupPending_def draw_id_def Let_def rc_send_eq )

lemma chunk_failed_frame [simp]:
  "rs_secret (chunk_failed c t r e s) = rs_secret s" "rs_secretExempt (chunk_failed c t r e s) = rs_secretExempt s"
  "rs_entropy (chunk_failed c t r e s) = rs_entropy s" "rs_next (chunk_failed c t r e s) = rs_next s"
  "rs_ctxs (chunk_failed c t r e s) = rs_ctxs s" "rs_clients (chunk_failed c t r e s) = rs_clients s"
  "rs_pairListeners (chunk_failed c t r e s) = rs_pairListeners s" "rs_multiPending (chunk_failed c t r e s) = rs_multiPending s"
  "rs_subToMulti (chunk_failed c t r e s) = rs_subToMulti s" "rs_tunnels (chunk_failed c t r e s) = rs_tunnels s"
  "rs_draws (chunk_failed c t r e s) = rs_draws s" "rs_keyFile (chunk_failed c t r e s) = rs_keyFile s"
  "rs_keys (chunk_failed c t r e s) = rs_keys s"
  by (simp_all add: chunk_failed_def draw_id_def Let_def rc_send_eq )

lemma sendMultiResult_frame [simp]:
  "rs_secret (sendMultiResult d i r ord s) = rs_secret s" "rs_secretExempt (sendMultiResult d i r ord s) = rs_secretExempt s"
  "rs_entropy (sendMultiResult d i r ord s) = rs_entropy s" "rs_next (sendMultiResult d i r ord s) = rs_next s"
  "rs_ctxs (sendMultiResult d i r ord s) = rs_ctxs s" "rs_clients (sendMultiResult d i r ord s) = rs_clients s"
  "rs_pending (sendMultiResult d i r ord s) = rs_pending s" "rs_pairListeners (sendMultiResult d i r ord s) = rs_pairListeners s"
  "rs_multiPending (sendMultiResult d i r ord s) = rs_multiPending s" "rs_subToMulti (sendMultiResult d i r ord s) = rs_subToMulti s"
  "rs_tunnels (sendMultiResult d i r ord s) = rs_tunnels s" "rs_draws (sendMultiResult d i r ord s) = rs_draws s"
  "rs_keyFile (sendMultiResult d i r ord s) = rs_keyFile s" "rs_keys (sendMultiResult d i r ord s) = rs_keys s"
  by (simp_all add: sendMultiResult_def draw_id_def Let_def rc_send_eq )

lemma handleRegister_frame [simp]:
  "rs_secret (snd (handleRegister a c m s)) = rs_secret s" "rs_secretExempt (snd (handleRegister a c m s)) = rs_secretExempt s"
  "rs_entropy (snd (handleRegister a c m s)) = rs_entropy s" "rs_next (snd (handleRegister a c m s)) = rs_next s"
  "rs_ctxs (snd (handleRegister a c m s)) = rs_ctxs s" "rs_pending (snd (handleRegister a c m s)) = rs_pending s"
  "rs_pairListeners (snd (handleRegister a c m s)) = rs_pairListeners s" "rs_multiPending (snd (handleRegister a c m s)) = rs_multiPending s"
  "rs_subToMulti (snd (handleRegister a c m s)) = rs_subToMulti s" "rs_tunnels (snd (handleRegister a c m s)) = rs_tunnels s"
  "rs_draws (snd (handleRegister a c m s)) = rs_draws s" "rs_keyFile (snd (handleRegister a c m s)) = rs_keyFile s"
  "rs_keys (snd (handleRegister a c m s)) = rs_keys s"
  by (simp_all add: handleRegister_def draw_id_def Let_def rc_send_eq split: option.split)

lemma handleExecute_frame [simp]:
  "rs_secret (handleExecute c m s) = rs_secret s" "rs_secretExempt (handleExecute c m s) = rs_secretExempt s"
  "rs_entropy (handleExecute c m s) = rs_entropy s" "rs_next (handleExecute c m s) = rs_next s"
  "rs_ctxs (handleExecute c m s) = rs_ctxs s" "rs_clients (handleExecute c m s) = rs_clients s"
  "rs_pairListeners (handleExecute c m s) = rs_pairListeners s" "rs_multiPending (handleExecute c m s) = rs_multiPending s"
  "rs_subToMulti (handleExecute c m s) = rs_subToMulti s" "rs_tunnels (handleExecute c m s) = rs_tunnels s"
  "rs_keyFile (handleExecute c m s) = rs_keyFile s" "rs_keys (handleExecute c m s) = rs_keys s"
  by (simp_all add: handleExecute_def draw_id_def Let_def rc_send_eq split: option.split)

lemma handleFileTransfer_frame [simp]:
  "rs_secret (handleFileTransfer c m s) = rs_secret s" "rs_secretExempt (handleFileTransfer c m s) = rs_secretExempt s"
  "rs_entropy (handleFileTransfer c m s) = rs_entropy s" "rs_next (handleFileTransfer c m s) = rs_next s"
  "rs_ctxs (handleFileTransfer c m s) = rs_ctxs s" "rs_clients (handleFileTransfer c m s) = rs_clients s"
  "rs_pairListeners (handleFileTransfer c m s) = rs_pairListeners s" "rs_multiPending (handleFileTransfer c m s) = rs_multiPending s"
  "rs_subToMulti (handleFileTransfer c m s) = rs_subToMulti s" "rs_tunnels (handleFileTransfer c m s) = rs_tunnels s"
  "rs_keyFile (handleFileTransfer c m s) = rs_keyFile s" "rs_keys (handleFileTransfer c m s) = rs_keys s"
  by (simp_all add: handleFileTransfer_def draw_id_def Let_def rc_send_eq split: option.split)

lemma handleFileChunk_frame [simp]:
  "rs_secret (handleFileChunk c m s) = rs_secret s" "rs_secretExempt (handleFileChunk c m s) = rs_secretExempt s"
  "rs_entropy (handleFileChunk c m s) = rs_entropy s" "rs_next (handleFileChunk c m s) = rs_next s"
  "rs_clients (handleFileChunk c m s) = rs_clients s" "rs_pairListeners (handleFileChunk c m s) = rs_pairListeners s"
  "rs_multiPending (handleFileChunk c m s) = rs_multiPending s" "rs_subToMulti (handleFileChunk c m s) = rs_subToMulti s"
  "rs_tunnels (handleFileChunk c m s) = rs_tunnels s" "rs_draws (handleFileChunk c m s) = rs_draws s"
  "rs_keyFile (handleFileChunk c m s) = rs_keyFile s" "rs_keys (handleFileChunk c m s) = rs_keys s"
  by (simp_all add: handleFileChunk_def draw_id_def Let_def rc_send_eq split: option.split)

lemma fileChunkPayload_frame [simp]:
  "rs_secret (fileChunkPayload c m p s) = rs_secret s" "rs_secretExempt (fileChunkPayload c m p s) = rs_secretExempt s"
  "rs_entropy (fileChunkPayload c m p s) = rs_entropy s" "rs_next (fileChunkPayload c m p s) = rs_next s"
  "rs_ctxs (fileChunkPayload c m p s) = rs_ctxs s" "rs_clients (fileChunkPayload c m p s) = rs_clients s"
  "rs_pairListeners (fileChunkPayload c m p s) = rs_pairListeners s" "rs_multiPending (fileChunkPayload c m p s) = rs_multiPending s"
  "rs_subToMulti (fileChunkPayload c m p s) = rs_subToMulti s" "rs_tunnels (fileChunkPayload c m p s) = rs_tunnels s"
  "rs_draws (fileChunkPayload c m p s) = rs_draws s" "rs_keyFile (fileChunkPayload c m p s) = rs_keyFile s"
  "rs_keys (fileChunkPayload c m p s) = rs_keys s"
  by (simp_all add: fileChunkPayload_def case_prod_beta split: option.split sum.split wsframe.split prod.split)

lemma handleStreamChunk_frame [simp]:
  "rs_secret (handleStreamChunk m s) = rs_secret s" "rs_secretExempt (handleStreamChunk m s) = rs_secretExempt s"
  "rs_entropy (handleStreamChunk m s) = rs_entropy s" "rs_next (handleStreamChunk m s) = rs_next s"
  "rs_ctxs (handleStreamChunk m s) = rs_ctxs s" "rs_clients (handleStreamChunk m s) = rs_clients s"
  "rs_pending (handleStreamChunk m s) = rs_pending s" "rs_pairListeners (handleStreamChunk m s) = rs_pairListeners s"
  "rs_multiPending (handleStreamChunk m s) = rs_multiPending s" "rs_subToMulti (handleStreamChunk m s) = rs_subToMulti s"
  "rs_tunnels (handleStreamChunk m s) = rs_tunnels s" "rs_draws (handleStreamChunk m s) = rs_draws s"
  "rs_keyFile (handleStreamChunk m s) = rs_keyFile s" "rs_keys (handleStreamChunk m s) = rs_keys s"
  by (simp_all add: handleStreamChunk_def draw_id_def Let_def rc_send_eq split: option.split)

lemma handleStreamEnd_frame [simp]:
  "rs_secret (handleStreamEnd m s) = rs_secret s" "rs_secretExempt (handleStreamEnd m s) = rs_secretExempt s"
  "rs_entropy (handleStreamEnd m s) = rs_entropy s" "rs_next (handleStreamEnd m s) = rs_next s"
  "rs_ctxs (handleStreamEnd m s) = rs_ctxs s" "rs_clients (handleStreamEnd m s) = rs_clients s"
  "rs_pairListeners (handleStreamEnd m s) = rs_pairListeners s" "rs_multiPending (handleStreamEnd m s) = rs_multiPending s"
  "rs_subToMulti (handleStreamEnd m s) = rs_subToMulti s" "rs_tunnels (handleStreamEnd m s) = rs_tunnels s"
  "rs_draws (handleStreamEnd m s) = rs_draws s" "rs_keyFile (handleStreamEnd m s) = rs_keyFile s"
  "rs_keys (handleStreamEnd m s) = rs_keys s"
  by (simp_all add: handleStreamEnd_def draw_id_def Let_def rc_send_eq split: option.split)

lemma handleFileTransferResult_frame [simp]:
  "rs_secret (handleFileTransferResult c m s) = rs_secret s" "rs_secretExempt (handleFileTransferResult c m s) = rs_secretExempt s"
  "rs_entropy (handleFileTransferResult c m s) = rs_entropy s" "rs_next (handleFileTransferResult c m s) = rs_next s"
  "rs_ctxs (handleFileTransferResult c m s) = rs_ctxs s" "rs_clients (handleFileTransferResult c m s) = rs_clients s"
  "rs_pairListeners (handleFileTransferResult c m s) = rs_pairListeners s" "rs_multiPending (handleFileTransferResult c m s) = rs_multiPending s"
  "rs_subToMulti (handleFileTransferResult c m s) = rs_subToMulti s" "rs_tunnels (handleFileTransferResult c m s) = rs_tunnels s"
  "rs_draws (handleFileTransferResult c m s) = rs_draws s" "rs_keyFile (handleFileTransferResult c m s) = rs_keyFile s"
  "rs_keys (handleFileTransferResult c m s) = rs_keys s"
  by (simp_all add: handleFileTransferResult_def draw_id_def Let_def rc_send_eq split: option.split)

lemma handlePairListen_frame [simp]:
  "rs_secret (handlePairListen c m s) = rs_secret s" "rs_secretExempt (handlePairListen c m s) = rs_secretExempt s"
  "rs_entropy (handlePairListen c m s) = rs_entropy s" "rs_next (handlePairListen c m s) = rs_next s"
  "rs_ctxs (handlePairListen c m s) = rs_ctxs s" "rs_clients (handlePairListen c m s) = rs_clients s"
  "rs_pending (handlePairListen c m s) = rs_pending s" "rs_multiPending (handlePairListen c m s) = rs_multiPending s"
  "rs_subToMulti (handlePairListen c m s) = rs_subToMulti s" "rs_tunnels (handlePairListen c m s) = rs_tunnels s"
  "rs_draws (handlePairListen c m s) = rs_draws s" "rs_keyFile (handlePairListen c m s) = rs_keyFile s"
  "rs_keys (handlePairListen c m s) = rs_keys s"
  by (simp_all add: handlePairListen_def draw_id_def Let_def rc_send_eq )

lemma handlePair_frame [simp]:
  "rs_secret (handlePair c m s) = rs_secret s" "rs_secretExempt (handlePair c m s) = rs_secretExempt s"
  "rs_entropy (handlePair c m s) = rs_entropy s" "rs_next (handlePair c m s) = rs_next s"
  "rs_ctxs (handlePair c m s) = rs_ctxs s" "rs_clients (handlePair c m s) = rs_clients s"
  "rs_pending (handlePair c m s) = rs_pending s" "rs_multiPending (handlePair c m s) = rs_multiPending s"
  "rs_subToMulti (handlePair c m s) = rs_subToMulti s" "rs_tunnels (handlePair c m s) = rs_tunnels s"
  "rs_draws (handlePair c m s) = rs_draws s" "rs_keyFile (handlePair c m s) = rs_keyFile s"
  by (simp_all add: handlePair_def draw_id_def Let_def rc_send_eq pair_accept_def split: option.split prod.split)

lemma handleDisconnect_frame [simp]:
  "rs_secret (handleDisconnect c m s) = rs_secret s" "rs_secretExempt (handleDisconnect c m s) = rs_secretExempt s"
  "rs_entropy (handleDisconnect c m s) = rs_entropy s" "rs_next (handleDisconnect c m s) = rs_next s"
  "rs_ctxs (handleDisconnect c m s) = rs_ctxs s" "rs_clients (handleDisconnect c m s) = rs_clients s"
  "rs_pending (handleDisconnect c m s) = rs_pending s" "rs_pairListeners (handleDisconnect c m s) = rs_pairListeners s"
  "rs_multiPending (handleDisconnect c m s) = rs_multiPending s" "rs_subToMulti (handleDisconnect c m s) = rs_subToMulti s"
  "rs_tunnels (handleDisconnect c m s) = rs_tunnels s" "rs_draws (handleDisconnect c m s) = rs_draws s"
  "rs_keyFile (handleDisconnect c m s) = rs_keyFile s" "rs_keys (handleDisconnect c m s) = rs_keys s"
  by (simp_all add: handleDisconnect_def draw_id_def Let_def rc_send_eq split: option.split)

lemma handleExecuteMulti_frame [simp]:
  "rs_secret (handleExecuteMulti c m s) = rs_secret s" "rs_secretExempt (handleExecuteMulti c m s) = rs_secretExempt s"
  "rs_entropy (handleExecuteMulti c m s) = rs_entropy s" "rs_next (handleExecuteMulti c m s) = rs_next s"
  "rs_clients (handleExecuteMulti c m s) = rs_clients s" "rs_pending (handleExecuteMulti c m s) = rs_pending s"
  "rs_pairListeners (handleExecuteMulti c m s) = rs_pairListeners s" "rs_tunnels (handleExecuteMulti c m s) = rs_tunnels s"
  "rs_keyFile (handleExecuteMulti c m s) = rs_keyFile s" "rs_keys (handleExecuteMulti c m s) = rs_keys s"
  by (simp_all add: handleExecuteMulti_def draw_id_def Let_def case_prod_beta)

lemma armMulti_frame [simp]:
  "rs_secret (armMulti c mid n t s) = rs_secret s" "rs_secretExempt (armMulti c mid n t s) = rs_secretExempt s"
  "rs_entropy (armMulti c mid n t s) = rs_entropy s" "rs_next (armMulti c mid n t s) = rs_next s"
  "rs_clients (armMulti c mid n t s) = rs_clients s" "rs_pending (armMulti c mid n t s) = rs_pending s"
  "rs_pairListeners (armMulti c mid n t s) = rs_pairListeners s" "rs_subToMulti (armMulti c mid n t s) = rs_subToMulti s"
  "rs_tunnels (armMulti c mid n t s) = rs_tunnels s" "rs_draws (armMulti c mid n t s) = rs_draws s"
  "rs_keyFile (armMulti c mid n t s) = rs_keyFile s" "rs_keys (armMulti c mid n t s) = rs_keys s"
  by (simp_all add: armMulti_def draw_id_def Let_def rc_send_eq split: option.split)

lemma handleResult_frame [simp]:
  "rs_secret (handleResult m s) = rs_secret s" "rs_secretExempt (handleResult m s) = rs_secretExempt s"
  "rs_entropy (handleResult m s) = rs_entropy s" "rs_next (handleResult m s) = rs_next s"
  "rs_ctxs (handleResult m s) = rs_ctxs s" "rs_clients (handleResult m s) = rs_clients s"
  "rs_pairListeners (handleResult m s) = rs_pairListeners s" "rs_tunnels (handleResult m s) = rs_tunnels s"
  "rs_draws (handleResult m s) = rs_draws s" "rs_keyFile (handleResult m s) = rs_keyFile s"
  "rs_keys (handleResult m s) = rs_keys s"
  by (simp_all add: handleResult_def draw_id_def Let_def rc_send_eq split: option.split)

lemma multiTimeout_frame [simp]:
  "rs_secret (multiTimeout mid s) = rs_secret s" "rs_secretExempt (multiTimeout mid s) = rs_secretExempt s"
  "rs_entropy (multiTimeout mid s) = rs_entropy s" "rs_next (multiTimeout mid s) = rs_next s"
  "rs_ctxs (multiTimeout mid s) = rs_ctxs s" "rs_clients (multiTimeout mid s) = rs_clients s"
  "rs_pending (multiTimeout mid s) = rs_pending s" "rs_pairListeners (multiTimeout mid s) = rs_pairListeners s"
  "rs_tunnels (multiTimeout mid s) = rs_tunnels s" "rs_draws (multiTimeout mid s) = rs_draws s"
  "rs_keyFile (multiTimeout mid s) = rs_keyFile s" "rs_keys (multiTimeout mid s) = rs_keys s"
  by (simp_all add: multiTimeout_def draw_id_def Let_def rc_send_eq split: option.split)

lemma handleTunnelOpen_frame [simp]:
  "rs_secret (handleTunnelOpen c m s) = rs_secret s" "rs_secretExempt (handleTunnelOpen c m s) = rs_secretExempt s"
  "rs_entropy (handleTunnelOpen c m s) = rs_entropy s" "rs_next (handleTunnelOpen c m s) = rs_next s"
  "rs_ctxs (handleTunnelOpen c m s) = rs_ctxs s" "rs_clients (handleTunnelOpen c m s) = rs_clients s"
  "rs_pending (handleTunnelOpen c m s) = rs_pending s" "rs_pairListeners (handleTunnelOpen c m s) = rs_pairListeners s"
  "rs_multiPending (handleTunnelOpen c m s) = rs_multiPending s" "rs_subToMulti (handleTunnelOpen c m s) = rs_subToMulti s"
  "rs_draws (handleTunnelOpen c m s) = rs_draws s" "rs_keyFile (handleTunnelOpen c m s) = rs_keyFile s"
  "rs_keys (handleTunnelOpen c m s) = rs_keys s"
  by (simp_all add: handleTunnelOpen_def draw_id_def Let_def rc_send_eq split: option.split)

lemma handleTunnelRelay_frame [simp]:
  "rs_secret (handleTunnelRelay c m s) = rs_secret s" "rs_secretExempt (handleTunnelRelay c m s) = rs_secretExempt s"
  "rs_entropy (handleTunnelRelay c m s) = rs_entropy s" "rs_next (handleTunnelRelay c m s) = rs_next s"
  "rs_ctxs (handleTunnelRelay c m s) = rs_ctxs s" "rs_clients (handleTunnelRelay c m s) = rs_clients s"
  "rs_pending (handleTunnelRelay c m s) = rs_pending s" "rs_pairListeners (handleTunnelRelay c m s) = rs_pairListeners s"
  "rs_multiPending (handleTunnelRelay c m s) = rs_multiPending s" "rs_subToMulti (handleTunnelRelay c m s) = rs_subToMulti s"
  "rs_tunnels (handleTunnelRelay c m s) = rs_tunnels s" "rs_draws (handleTunnelRelay c m s) = rs_draws s"
  "rs_keyFile (handleTunnelRelay c m s) = rs_keyFile s" "rs_keys (handleTunnelRelay c m s) = rs_keys s"
  by (simp_all add: handleTunnelRelay_def draw_id_def Let_def rc_send_eq split: option.split)

lemma handleTunnelClose_frame [simp]:
  "rs_secret (handleTunnelClose c m s) = rs_secret s" "rs_secretExempt (handleTunnelClose c m s) = rs_secretExempt s"
  "rs_entropy (handleTunnelClose c m s) = rs_entropy s" "rs_next (handleTunnelClose c m s) = rs_next s"
  "rs_ctxs (handleTunnelClose c m s) = rs_ctxs s" "rs_clients (handleTunnelClose c m s) = rs_clients s"
  "rs_pending (handleTunnelClose c m s) = rs_pending s" "rs_pairListeners (handleTunnelClose c m s) = rs_pairListeners s"
  "rs_multiPending (handleTunnelClose c m s) = rs_multiPending s" "rs_subToMulti (handleTunnelClose c m s) = rs_subToMulti s"
  "rs_draws (handleTunnelClose c m s) = rs_draws s" "rs_keyFile (handleTunnelClose c m s) = rs_keyFile s"
  "rs_keys (handleTunnelClose c m s) = rs_keys s"
  by (simp_all add: handleTunnelClose_def draw_id_def Let_def rc_send_eq split: option.split)

lemma drop_tunnel_frame [simp]:
  "rs_secret (drop_tunnel c t s) = rs_secret s" "rs_secretExempt (drop_tunnel c t s) = rs_secretExempt s"
  "rs_entropy (drop_tunnel c t s) = rs_entropy s" "rs_next (drop_tunnel c t s) = rs_next s"
  "rs_ctxs (drop_tunnel c t s) = rs_ctxs s" "rs_clients (drop_tunnel c t s) = rs_clients s"
  "rs_pending (drop_tunnel c t s) = rs_pending s" "rs_pairListeners (drop_tunnel c t s) = rs_pairListeners s"
  "rs_multiPending (drop_tunnel c t s) = rs_multiPending s" "rs_subToMulti (drop_tunnel c t s) = rs_subToMulti s"
  "rs_draws (drop_tunnel c t s) = rs_draws s" "rs_keyFile (drop_tunnel c t s) = rs_keyFile s"
  "rs_keys (drop_tunnel c t s) = rs_keys s"
  by (simp_all add: drop_tunnel_def draw_id_def Let_def rc_send_eq split: option.split)

lemma drop_tunnels_frame [simp]:
  "rs_secret (fold (drop_tunnel c) ord s) = rs_secret s" "rs_secretExempt (fold (drop_tunnel c) ord s) = rs_secretExempt s"
  "rs_entropy (fold (drop_tunnel c) ord s) = rs_entropy s" "rs_next (fold (drop_tunnel c) ord s) = rs_next s"
  "rs_ctxs (fold (drop_tunnel c) ord s) = rs_ctxs s" "rs_clients (fold (drop_tunnel c) ord s) = rs_clients s"
  "rs_pending (fold (drop_tunnel c) ord s) = rs_pending s" "rs_pairListeners (fold (drop_tunnel c) ord s) = rs_pairListeners s"
  "rs_multiPending (fold (drop_tunnel c) ord s) = rs_multiPending s" "rs_subToMulti (fold (drop_tunnel c) ord s) = rs_subToMulti s"
  "rs_draws (fold (drop_tunnel c) ord s) = rs_draws s" "rs_keyFile (fold (drop_tunnel c) ord s) = rs_keyFile s"
  "rs_keys (fold (drop_tunnel c) ord s) = rs_keys s"
  by (induction ord arbitrary: s) simp_all

lemma unregister_frame [simp]:
  "rs_secret (unregister c ord s) = rs_secret s" "rs_secretExempt (unregister c ord s) = rs_secretExempt s"
  "rs_entropy (unregister c ord s) = rs_entropy s" "rs_next (unregister c ord s) = rs_next s"
  "rs_ctxs (unregister c ord s) = rs_ctxs s" "rs_multiPending (unregister c ord s) = rs_multiPending s"
  "rs_subToMulti (unregister c ord s) = rs_subToMulti s" "rs_draws (unregister c ord s) = rs_draws s"
  "rs_keyFile (unregister c ord s) = rs_keyFile s" "rs_keys (unregister c ord s) = rs_keys s"
  by (simp_all add: unregister_def draw_id_def Let_def rc_send_eq )

lemma ws_exit_frame [simp]:
  "rs_secret (ws_exit c b ord s) = rs_secret s" "rs_secretExempt (ws_exit c b ord s) = rs_secretExempt s"
  "rs_entropy (ws_exit c b ord s) = rs_entropy s" "rs_next (ws_exit c b ord s) = rs_next s"
  "rs_multiPending (ws_exit c b ord s) = rs_multiPending s" "rs_subToMulti (ws_exit c b ord s) = rs_subToMulti s"
  "rs_draws (ws_exit c b ord s) = rs_draws s" "rs_keyFile (ws_exit c b ord s) = rs_keyFile s"
  "rs_keys (ws_exit c b ord s) = rs_keys s"
  by (simp_all add: ws_exit_def draw_id_def Let_def rc_send_eq )

end
