(* ===== verification/RelayScenario.thy ===== *)
theory RelayScenario
  imports RelayFrames
begin

text \<open>
  A concrete relay for the witnesses: a secret, a daemon \<open>box\<close> registered on connection 0 and
  an authenticated client on connection 1, reached by real events.
\<close>

definition demo_register :: message where
  "demo_register = empty_message\<lparr>m_type := ''register'', m_name := ''box'', m_token := ''tok''\<rparr>"

definition demo_start :: relay_server where
  "demo_start = newRelayFromEnv ''s'' '''' demo_entropy None"

definition demo_conn :: relay_server where
  "demo_conn = accept_conn True demo_start"

definition demo_registered :: relay_server where
  "demo_registered = ws_frame True 0 (Json demo_register) demo_conn"

definition demo_relay :: relay_server where
  "demo_relay = accept_conn True demo_registered"

definition demo_events :: "relay_event list" where
  "demo_events = [Connect ''Bearer s'', Recv 0 (Json demo_register), Connect ''Bearer s'']"

lemmas demo_defs = demo_relay_def demo_registered_def demo_conn_def demo_start_def demo_register_def

lemma demo_start_fields [simp]:
  "rs_secret demo_start = ''s''" "rs_clients demo_start = Map.empty" "rs_pending demo_start = Map.empty"
  "rs_pairListeners demo_start = Map.empty" "rs_multiPending demo_start = Map.empty"
  "rs_subToMulti demo_start = Map.empty" "rs_tunnels demo_start = Map.empty"
  "rs_rcs demo_start = (\<lambda>_. new_relay_client)" "rs_ctxs demo_start = Map.empty" "rs_next demo_start = 0"
  "rs_entropy demo_start = demo_entropy" "rs_draws demo_start = 0" "rs_keyFile demo_start = None"
  "rs_keys demo_start = new_key_store" "rs_secretExempt demo_start = {}"
  by (simp_all add: demo_start_def newRelayFromEnv_def NewRelayServer_def)

lemma demo_conn_fields [simp]:
  "rs_secret demo_conn = ''s''" "rs_clients demo_conn = Map.empty" "rs_pending demo_conn = Map.empty"
  "rs_pairListeners demo_conn = Map.empty" "rs_multiPending demo_conn = Map.empty"
  "rs_subToMulti demo_conn = Map.empty" "rs_tunnels demo_conn = Map.empty"
  "rs_rcs demo_conn = (\<lambda>_. new_relay_client)"
  "rs_ctxs demo_conn = [0 \<mapsto> \<lparr>wc_authenticated = True, wc_registered = False, wc_phase = Reading\<rparr>]"
  "rs_next demo_conn = 1" "rs_entropy demo_conn = demo_entropy" "rs_draws demo_conn = 0"
  "rs_keyFile demo_conn = None" "rs_keys demo_conn = new_key_store"
  by (simp_all add: demo_conn_def accept_conn_def fun_upd_idem)

definition demo_box :: relay_client where
  "demo_box = new_relay_client\<lparr>rc_name := ''box'', rc_token := ''tok'',
     wire := [Json (empty_message\<lparr>m_type := ''registered'', m_name := ''box''\<rparr>)]\<rparr>"

lemma demo_registered_eq:
  "demo_registered = demo_conn\<lparr>rs_clients := [''box'' \<mapsto> 0],
     rs_ctxs := [0 \<mapsto> \<lparr>wc_authenticated = True, wc_registered = True, wc_phase = Reading\<rparr>],
     rs_rcs := (\<lambda>_. new_relay_client)(0 := demo_box)\<rparr>"
  by (simp add: demo_registered_def ws_frame_def ws_dispatch_def demo_register_def handleRegister_def
      tell_def upd_rc_def conn_write_def set_ctx_def demo_box_def new_relay_client_def)

lemma demo_relay_eq:
  "demo_relay = demo_conn\<lparr>rs_clients := [''box'' \<mapsto> 0],
     rs_ctxs := [0 \<mapsto> \<lparr>wc_authenticated = True, wc_registered = True, wc_phase = Reading\<rparr>,
                 1 \<mapsto> \<lparr>wc_authenticated = True, wc_registered = False, wc_phase = Reading\<rparr>],
     rs_rcs := (\<lambda>_. new_relay_client)(0 := demo_box), rs_next := 2\<rparr>"
  by (rule relay_server.equality) (simp_all add: demo_relay_def demo_registered_eq accept_conn_def fun_eq_iff)

lemma demo_relay_fields [simp]:
  "rs_secret demo_relay = ''s''" "rs_clients demo_relay = [''box'' \<mapsto> 0]" "rs_pending demo_relay = Map.empty"
  "rs_pairListeners demo_relay = Map.empty" "rs_multiPending demo_relay = Map.empty"
  "rs_subToMulti demo_relay = Map.empty" "rs_tunnels demo_relay = Map.empty"
  "rs_rcs demo_relay = (\<lambda>_. new_relay_client)(0 := demo_box)"
  "rs_ctxs demo_relay = [0 \<mapsto> \<lparr>wc_authenticated = True, wc_registered = True, wc_phase = Reading\<rparr>,
     1 \<mapsto> \<lparr>wc_authenticated = True, wc_registered = False, wc_phase = Reading\<rparr>]"
  "rs_next demo_relay = 2" "rs_entropy demo_relay = demo_entropy" "rs_draws demo_relay = 0"
  "rs_keyFile demo_relay = None" "rs_keys demo_relay = new_key_store"
  by (simp_all add: demo_relay_eq)

lemma demo_clients [simp]:
  "rc_token demo_box = ''tok''" "rc_name demo_box = ''box''" "wq_net demo_box = None" "wq_open demo_box = False"
  "wq_started demo_box = False" "wq_chan demo_box = []" "wq_dead demo_box = False" "rc_chunkRoutes demo_box = Map.empty"
  "rc_token new_relay_client = ''''" "rc_name new_relay_client = ''''" "wq_net new_relay_client = None" "wq_open new_relay_client = False"
  "wq_started new_relay_client = False" "wq_chan new_relay_client = []" "wq_dead new_relay_client = False"
  "rc_chunkRoutes new_relay_client = Map.empty" "wire new_relay_client = []"
  by (simp_all add: demo_box_def new_relay_client_def)

lemma recv_step:
  "rs_ctxs s c = Some x \<Longrightarrow> wc_phase x = Reading \<Longrightarrow> s' = ws_frame (wc_authenticated x) c f s \<Longrightarrow> relay_step s (Recv c f) s'"
  by (simp add: relay_step.recv)

lemma demo_connect: "relay_step demo_start (Connect ''Bearer s'') demo_conn"
  unfolding demo_conn_def by (rule relay_step.connect) (simp add: ws_handshake_def tokenEqual_def)

lemma demo_step_register: "relay_step demo_conn (Recv 0 (Json demo_register)) demo_registered"
  by (rule recv_step) (auto simp: demo_registered_def)

lemma demo_connect2: "relay_step demo_registered (Connect ''Bearer s'') demo_relay"
  unfolding demo_relay_def by (rule relay_step.connect) (simp add: ws_handshake_def tokenEqual_def demo_registered_eq)

lemma demo_start_reachable: "relay_reachable demo_start"
  unfolding demo_start_def by (rule relay_reachable.start)

lemma demo_run: "relay_run demo_start demo_events demo_relay"
  unfolding demo_events_def
  by (rule relay_run.cons [OF demo_connect], rule relay_run.cons [OF demo_step_register],
      rule relay_run.cons [OF demo_connect2], rule relay_run.nil)

lemma relay_run_reachable: "relay_run s evs s' \<Longrightarrow> relay_reachable s \<Longrightarrow> relay_reachable s'"
  by (induction rule: relay_run.induct) (auto intro: relay_reachable.step)

lemma demo_reachable: "relay_reachable demo_relay"
  by (rule relay_run_reachable [OF demo_run demo_start_reachable])

text \<open>The client's command.\<close>

definition demo_execute :: message where
  "demo_execute = empty_message\<lparr>m_type := ''execute'', m_id := ''q1'', m_target := ''box'', m_token := ''tok'', m_cmd := ''ls''\<rparr>"

definition demo_after :: relay_server where
  "demo_after = ws_frame True 1 (Json demo_execute) demo_relay"

definition demo_command :: message where
  "demo_command = empty_message\<lparr>m_type := ''command'', m_id := newID demo_entropy 0, m_cmd := ''ls''\<rparr>"

lemma demo_after_eq:
  "demo_after = demo_relay\<lparr>rs_draws := 1,
     rs_pending := [newID demo_entropy 0 \<mapsto> \<lparr>pr_serverID = ''q1'', pr_clientConn = 1\<rparr>],
     rs_rcs := (\<lambda>_. new_relay_client)(0 := demo_box\<lparr>wire := wire demo_box @ [Json demo_command]\<rparr>)\<rparr>"
  by (simp add: demo_after_def ws_frame_def ws_dispatch_def demo_execute_def handleExecute_def
      tokenEqual_def draw_id_def rc_send_eq tell_def upd_rc_def conn_write_def demo_command_def empty_message_def)

lemma demo_execute_step: "relay_step demo_relay (Recv 1 (Json demo_execute)) demo_after"
  by (rule recv_step) (auto simp: demo_after_def)

lemma demo_after_reachable: "relay_reachable demo_after"
  by (rule relay_reachable.step [OF demo_reachable demo_execute_step])

end
