(* ===== verification/RelayAuthority.thy ===== *)
theory RelayAuthority
  imports RelayAuth RelayScenario
begin

text \<open>
  Authorisation of the whole relay, as a state machine: the handlers' lemmas of RelayAuth
  carried over every event. Two properties: a privileged frame is written only in answer to a
  client message of an authenticated connection that carries the receiver's token; and a relay
  whose secret nobody presents never writes one at all.
\<close>

section \<open>Events\<close>

lemma emits_ws_dispatch_other:
  "m_type m \<notin> clientOnlyMessages \<Longrightarrow> emits harmless s (ws_dispatch auth c m s)"
proof -
  assume n: "m_type m \<notin> clientOnlyMessages"
  note h = emits_handleStreamChunk emits_handleStreamEnd emits_handleResult
    emits_handleFileTransferResult emits_handlePair emits_handleTunnelRelay emits_handleTunnelClose
  have r: "handleRegister auth c m s = (b, s1) \<Longrightarrow> emits harmless s s1" for b s1
    using emits_handleRegister [of s auth c m] by simp
  show ?thesis
    using n unfolding ws_dispatch_def Let_def clientOnlyMessages_def
    by (auto simp: privileged_def intro!: h emits_write dest: r split: prod.splits bool.splits)
qed

lemma emits_ws_exit: "emits harmless s (ws_exit c b ord s)"
proof -
  have u: "emits harmless s (unregister c ord s)"
    unfolding unregister_def Let_def by (simp add: emits_drop_tunnels)
  show ?thesis
    unfolding ws_exit_def Let_def using u by simp
qed

lemma emits_writer_turn: "queue_clean s \<Longrightarrow> emits harmless s (upd_rc c (writer_step id) s)"
  unfolding emits_def
  by (auto simp: writer_step_def conn_write_def Let_def split: list.splits option.splits)
    (metis list.set_intros(1) queue_cleanD)

definition authorises :: "relay_server \<Rightarrow> relay_event \<Rightarrow> conn_id \<Rightarrow> bool" where
  "authorises s ev d \<longleftrightarrow>
     (\<exists>c m x. ev = Recv c (Json m) \<and> rs_ctxs s c = Some x \<and> wc_authenticated x \<and>
        m_type m \<in> clientOnlyMessages \<and> holds_token s m d)"

lemma authorisesI:
  "rs_ctxs s c = Some x \<Longrightarrow> wc_authenticated x \<Longrightarrow> m_type m \<in> clientOnlyMessages \<Longrightarrow> holds_token s m d \<Longrightarrow>
   authorises s (Recv c (Json m)) d"
  unfolding authorises_def by blast

lemma authorisesE:
  assumes "authorises s ev d"
  obtains c m x where "ev = Recv c (Json m)" "rs_ctxs s c = Some x" "wc_authenticated x"
    "m_type m \<in> clientOnlyMessages" "holds_token s m d"
  using assms unfolding authorises_def by blast

lemma allowed_weaken: "allowed A d f \<Longrightarrow> (A d \<Longrightarrow> B d) \<Longrightarrow> allowed B d f"
  unfolding allowed_def by blast

lemma emits_recv_client:
  assumes "rs_ctxs s c = Some x" "m_type m \<in> clientOnlyMessages"
  shows "emits (allowed (authorises s (Recv c (Json m)))) s (ws_frame (wc_authenticated x) c (Json m) s)"
proof (cases "wc_authenticated x")
  case True
  show ?thesis
    by (rule emits_mono [OF emits_ws_frame_Json], erule allowed_weaken)
       (rule authorisesI [OF assms(1) True assms(2)])
next
  case False
  then show ?thesis by (rule emits_harmless [OF emits_ws_frame_unauth [OF _ assms(2)]])
qed

lemma emits_recv:
  assumes "rs_ctxs s c = Some x"
  shows "emits (allowed (authorises s (Recv c f))) s (ws_frame (wc_authenticated x) c f s)"
proof (cases "\<exists>m. f = Json m \<and> m_type m \<in> clientOnlyMessages")
  case True
  then show ?thesis using emits_recv_client [OF assms] by auto
next
  case False
  have "emits harmless s (ws_frame (wc_authenticated x) c f s)"
  proof (cases f)
    case (Json m)
    with False show ?thesis by (simp add: ws_frame_def emits_ws_dispatch_other)
  qed (auto intro!: emits_ws_frame_other)
  then show ?thesis by (rule emits_harmless)
qed

lemma relay_step_emits:
  assumes "relay_step s ev s'" "queue_clean s" "\<And>a. ev \<noteq> Connect a"
  shows "emits (allowed (authorises s ev)) s s'"
  using assms(1)
proof (cases rule: relay_step.cases)
  case (connect a b)
  then show ?thesis using assms(3) by blast
next
  case (recv c x f)
  then show ?thesis using emits_recv [of s c x f] by simp
next
  case (payload c x m p)
  then show ?thesis by (simp add: emits_harmless emits_fileChunkPayload)
next
  case (arm c x mid n t)
  then show ?thesis by (simp add: emits_harmless emits_armMulti)
next
  case (timer mid e)
  then show ?thesis by (simp add: emits_harmless emits_multiTimeout)
next
  case (writer c)
  then show ?thesis using assms(2) by (simp add: emits_harmless emits_writer_turn)
next
  case (leave c x ord)
  then show ?thesis by (simp add: emits_harmless emits_ws_exit)
qed (simp_all add: emits_def)

lemma queue_clean_accept: "queue_clean s \<Longrightarrow> queue_clean (accept_conn a s)"
  by (auto simp: queue_clean_def accept_conn_def new_relay_client_def split: if_splits)

lemma queue_clean_step: "relay_step s ev s' \<Longrightarrow> queue_clean s \<Longrightarrow> queue_clean s'"
proof (cases "\<exists>a. ev = Connect a")
  case True
  moreover assume "relay_step s ev s'" "queue_clean s"
  ultimately show ?thesis by (auto elim!: connectE intro: queue_clean_accept)
next
  case False
  assume "relay_step s ev s'" "queue_clean s"
  with False show ?thesis using relay_step_emits queue_clean_emits by blast
qed

lemma queue_clean_reachable: "relay_reachable s \<Longrightarrow> queue_clean s"
  by (induction rule: relay_reachable.induct)
     (auto simp: queue_clean_def [of "newRelayFromEnv _ _ _ _"] new_relay_client_def intro: queue_clean_step)

lemma new_frames_connect: "relay_step s (Connect a) s' \<Longrightarrow> new_frames s s' d = []"
  by (auto elim!: connectE simp: new_frames_def accept_conn_def new_relay_client_def)

section \<open>Without the secret\<close>

text \<open>A step keeps the secret and the \<open>authenticated\<close> flags of the connections it does not
  open.\<close>

definition flags_kept :: "relay_server \<Rightarrow> relay_server \<Rightarrow> bool" where
  "flags_kept s s' \<longleftrightarrow> rs_secret s' = rs_secret s \<and>
     (\<forall>c x'. rs_ctxs s' c = Some x' \<longrightarrow> (\<exists>x. rs_ctxs s c = Some x \<and> wc_authenticated x = wc_authenticated x'))"

lemma flags_kept_same: "rs_secret s' = rs_secret s \<Longrightarrow> rs_ctxs s' = rs_ctxs s \<Longrightarrow> flags_kept s s'"
  by (simp add: flags_kept_def)

lemma flags_kept_set_ctx:
  "(\<And>x. wc_authenticated (f x) = wc_authenticated x) \<Longrightarrow> rs_secret s1 = rs_secret s \<Longrightarrow> rs_ctxs s1 = rs_ctxs s \<Longrightarrow>
   flags_kept s (set_ctx c f s1)"
  by (auto simp: flags_kept_def set_ctx_def)

lemma flags_kept_set_phase: "rs_secret s1 = rs_secret s \<Longrightarrow> rs_ctxs s1 = rs_ctxs s \<Longrightarrow> flags_kept s (set_phase c p s1)"
  unfolding set_phase_def by (rule flags_kept_set_ctx) simp_all

lemma flags_kept_handlers [intro!]:
  "flags_kept s (handleFileChunk c m s)" "flags_kept s (handleExecuteMulti c m s)"
  "flags_kept s (armMulti c mid n t s)" "flags_kept s (ws_exit c b ord s)"
proof -
  show "flags_kept s (handleFileChunk c m s)"
    by (auto simp: handleFileChunk_def Let_def rc_send_eq
        intro: flags_kept_same flags_kept_set_phase split: option.splits)
  show "flags_kept s (handleExecuteMulti c m s)"
    by (auto simp: handleExecuteMulti_def draw_id_def Let_def case_prod_beta
        intro!: flags_kept_same flags_kept_set_phase)
  show "flags_kept s (armMulti c mid n t s)"
    by (auto simp: armMulti_def intro!: flags_kept_same flags_kept_set_phase split: option.splits)
  show "flags_kept s (ws_exit c b ord s)"
    by (auto simp: ws_exit_def Let_def flags_kept_def)
qed

lemma flags_kept_ws_dispatch: "flags_kept s (ws_dispatch auth c m s)"
proof -
  have r: "handleRegister auth c m s = (b, s1) \<Longrightarrow> rs_secret s1 = rs_secret s \<and> rs_ctxs s1 = rs_ctxs s" for b s1
    using handleRegister_frame(1,5) [of auth c m s] by simp
  show ?thesis
    unfolding ws_dispatch_def Let_def
    by (auto intro!: flags_kept_set_phase flags_kept_set_ctx intro: flags_kept_same dest: r
        split: prod.splits bool.splits)
qed

lemma flags_kept_ws_frame: "flags_kept s (ws_frame auth c f s)"
proof (cases f)
  case (Json m)
  then show ?thesis by (auto simp: ws_frame_def intro!: flags_kept_set_phase flags_kept_ws_dispatch)
qed (auto simp: ws_frame_def intro!: flags_kept_same split: option.splits)

lemma flags_kept_step:
  assumes "relay_step s ev s'" "\<And>a. ev \<noteq> Connect a"
  shows "flags_kept s s'"
  using assms(1)
proof (cases rule: relay_step.cases)
  case (connect a b)
  then show ?thesis using assms(2) by blast
next
  case (recv c x f)
  then show ?thesis by (simp add: flags_kept_ws_frame)
next
  case (payload c x m p)
  then show ?thesis by (auto intro: flags_kept_set_phase)
next
  case (arm c x mid n t)
  then show ?thesis by auto
next
  case (leave c x ord)
  then show ?thesis by auto
qed (simp_all add: flags_kept_same)

text \<open>No connection is authenticated, and every frame on a wire is harmless.\<close>

definition nobody_in :: "string \<Rightarrow> relay_server \<Rightarrow> bool" where
  "nobody_in sec s \<longleftrightarrow> rs_secret s = sec \<and> (\<forall>c x. rs_ctxs s c = Some x \<longrightarrow> \<not> wc_authenticated x) \<and>
     (\<forall>d. \<forall>f\<in>set (wire (rs_rcs s d)). harmless d f) \<and> queue_clean s"

lemma nobody_in_start: "nobody_in sec (newRelayFromEnv sec exempt e kf)"
  by (simp add: nobody_in_def queue_clean_def new_relay_client_def)

lemma nobody_in_step:
  assumes "nobody_in sec s" "relay_step s ev s'" "sec \<noteq> ''''" "\<And>a. ev = Connect a \<Longrightarrow> a \<noteq> ''Bearer '' @ sec"
  shows "nobody_in sec s'"
proof (cases "\<exists>a. ev = Connect a")
  case True
  then obtain a where a: "ev = Connect a" by blast
  with assms(2) obtain b where b: "s' = accept_conn b s" "ws_handshake a s = Some b" by (auto elim: connectE)
  have "\<not> b" using b(2) assms(1,3) assms(4) [OF a]
    by (auto simp: ws_handshake_def nobody_in_def tokenEqual_def split: if_splits)
  then show ?thesis
    using assms(1) queue_clean_accept [of s b] unfolding b(1)
    by (auto simp: nobody_in_def accept_conn_def new_relay_client_def)
next
  case False
  have k: "flags_kept s s'" using flags_kept_step [OF assms(2)] False by blast
  have q: "queue_clean s" using assms(1) by (simp add: nobody_in_def)
  have "emits (allowed (authorises s ev)) s s'" using relay_step_emits [OF assms(2) q] False by blast
  moreover have "\<not> authorises s ev d" for d
    using assms(1) unfolding nobody_in_def by (blast elim: authorisesE)
  ultimately have e: "emits harmless s s'" by (elim emits_mono) (auto simp: allowed_def)
  then have w: "\<forall>d. \<forall>f\<in>set (wire (rs_rcs s' d)). harmless d f"
    using assms(1) unfolding nobody_in_def emits_def by (metis Un_iff set_append)
  have "rs_secret s' = sec" and "\<forall>c x. rs_ctxs s' c = Some x \<longrightarrow> \<not> wc_authenticated x"
    using k assms(1) unfolding nobody_in_def flags_kept_def by metis+
  with w queue_clean_emits [OF e q] show ?thesis by (simp add: nobody_in_def)
qed

lemma nobody_in_run:
  "relay_run s evs s' \<Longrightarrow> nobody_in sec s \<Longrightarrow> sec \<noteq> '''' \<Longrightarrow> Connect (''Bearer '' @ sec) \<notin> set evs \<Longrightarrow> nobody_in sec s'"
  by (induction rule: relay_run.induct) (auto dest: nobody_in_step)

section \<open>Registered names\<close>

lemma clients_handleRegister:
  assumes "rs_clients (snd (handleRegister auth c m s)) n = Some c'" "rs_clients s n = Some c0" "c' \<noteq> c0"
  shows "c' = c \<and> m_name m = n \<and> m_token m = rc_token (rs_rcs s c0)"
  using assms by (auto simp: handleRegister_def Let_def tokenEqual_def split: if_splits option.splits)

lemma clients_ws_dispatch:
  assumes "rs_clients (ws_dispatch auth c m s) n = Some c'" "rs_clients s n = Some c0" "c' \<noteq> c0"
  shows "m_type m = ''register'' \<and> c' = c \<and> m_name m = n \<and> m_token m = rc_token (rs_rcs s c0)"
proof (cases "m_type m = ''register''")
  case True
  have "rs_clients (ws_dispatch auth c m s) = rs_clients (snd (handleRegister auth c m s))"
    using True by (auto simp: ws_dispatch_def split: prod.splits bool.splits)
  with True show ?thesis using clients_handleRegister [of auth c m s n c' c0] assms by simp
next
  case False
  then have "rs_clients (ws_dispatch auth c m s) = rs_clients s" by (simp add: ws_dispatch_def Let_def)
  with assms show ?thesis by simp
qed

lemma clients_unregister: "rs_clients (unregister c ord s) n = Some c' \<Longrightarrow> rs_clients s n = Some c'"
  by (auto simp: unregister_def Let_def split: if_splits)

section \<open>Properties\<close>

text \<open>
  C1. Authorisation. In every reachable state of the relay, whatever happens next: if a frame
  that makes a daemon act (\<open>command\<close>, \<open>file_transfer\<close>, \<open>disconnect\<close>, \<open>tunnel_open\<close>) is newly
  written to a connection \<open>d\<close>, then the event is the receipt of a client message on an
  authenticated connection, and that message names \<open>d\<close> as a registered target together with
  the token \<open>d\<close> registered with.
\<close>

theorem privileged_needs_token:
  assumes "relay_reachable s" and "relay_step s ev s'"
    and "Json m' \<in> set (new_frames s s' d)" and "privileged m'"
  shows "authorises s ev d"
proof (cases "\<exists>a. ev = Connect a")
  case True
  then show ?thesis using assms(2,3) new_frames_connect by fastforce
next
  case False
  have "emits (allowed (authorises s ev)) s s'"
    by (rule relay_step_emits [OF assms(2) queue_clean_reachable [OF assms(1)]]) (use False in blast)
  from emits_new [OF this assms(3)] assms(4) show ?thesis by (simp add: allowed_def)
qed

lemma demo_new_frames: "new_frames demo_relay demo_after 0 = [Json demo_command]"
  by (simp add: new_frames_def demo_after_eq)

lemma demo_command_privileged: "privileged demo_command"
  by (simp add: privileged_def demo_command_def)

theorem privileged_needs_token_witness: "authorises demo_relay (Recv 1 (Json demo_execute)) 0"
  by (rule privileged_needs_token [OF demo_reachable demo_execute_step, of demo_command])
     (simp_all add: demo_new_frames demo_command_privileged)

text \<open>
  C2. Without the relay secret no command runs. A relay started with a non-empty
  \<open>RELAY_SECRET\<close>, whatever its exemption list and whatever traffic, connections, failures and
  timers it sees: as long as no connection presents \<open>Bearer <secret>\<close>, no connection was ever
  sent a frame that makes a daemon act.
\<close>

theorem no_secret_no_command:
  assumes "relay_run (newRelayFromEnv sec exempt e kf) evs s" and "sec \<noteq> ''''"
    and "Connect (''Bearer '' @ sec) \<notin> set evs" and "Json m \<in> set (wire (rs_rcs s d))"
  shows "\<not> privileged m"
  using assms(4) nobody_in_run [OF assms(1) nobody_in_start assms(2,3)] by (auto simp: nobody_in_def allowed_def)

theorem no_secret_no_command_witness:
  "Json (empty_message\<lparr>m_type := ''registered'', m_name := ''box''\<rparr>) \<in>
     set (wire (rs_rcs (ws_frame False 0 (Json demo_register) (accept_conn False (newRelayFromEnv ''s'' ''box'' demo_entropy None))) 0)) \<and>
   \<not> privileged (empty_message\<lparr>m_type := ''registered'', m_name := ''box''\<rparr>)"
proof
  let ?s0 = "newRelayFromEnv ''s'' ''box'' demo_entropy None"
  let ?s1 = "accept_conn False ?s0"
  let ?s2 = "ws_frame False 0 (Json demo_register) ?s1"
  have ex: "rs_secretExempt ?s0 = {''box''}"
    by (simp add: newRelayFromEnv_def NewRelayServer_def splitCSV_def trim_space_def go_space_def)
  have "relay_step ?s0 (Connect '''') ?s1"
    by (rule relay_step.connect) (simp add: ws_handshake_def tokenEqual_def ex)
  moreover have "relay_step ?s1 (Recv 0 (Json demo_register)) ?s2"
    by (rule recv_step) (auto simp: accept_conn_def)
  ultimately have run: "relay_run ?s0 [Connect '''', Recv 0 (Json demo_register)] ?s2"
    by (blast intro: relay_run.intros)
  show in_wire: "Json (empty_message\<lparr>m_type := ''registered'', m_name := ''box''\<rparr>) \<in> set (wire (rs_rcs ?s2 0))"
    using ex by (simp add: ws_frame_def ws_dispatch_def demo_register_def clientOnlyMessages_def
        handleRegister_def accept_conn_def wire_tell new_relay_client_def)
  show "\<not> privileged (empty_message\<lparr>m_type := ''registered'', m_name := ''box''\<rparr>)"
    by (rule no_secret_no_command [OF run _ _ in_wire]) simp_all
qed

text \<open>
  C7. A registered name changes hands only to someone who knows its token: if after any event
  another connection holds the name \<open>n\<close>, the event was that connection's \<open>register\<close> message
  for \<open>n\<close>, carrying the token of the connection that held it.
\<close>

theorem name_takeover_needs_token:
  assumes "relay_step s ev s'" and "rs_clients s n = Some c0" and "rs_clients s' n = Some c'" and "c' \<noteq> c0"
  shows "\<exists>m. ev = Recv c' (Json m) \<and> m_type m = ''register'' \<and> m_name m = n \<and> m_token m = rc_token (rs_rcs s c0)"
  using assms(1)
proof (cases rule: relay_step.cases)
  case (recv c x f)
  show ?thesis
  proof (cases f)
    case (Json m)
    show ?thesis
    proof (cases "\<not> wc_authenticated x \<and> m_type m \<in> clientOnlyMessages")
      case True
      then show ?thesis using recv Json assms(2-4) by (simp add: ws_frame_def)
    next
      case False
      then have "s' = ws_dispatch (wc_authenticated x) c m s" using recv Json by (auto simp: ws_frame_def)
      with clients_ws_dispatch [of "wc_authenticated x" c m s n c' c0] assms(2-4) recv Json show ?thesis
        by (intro exI [of _ m]) simp
    qed
  qed (use recv assms(2-4) in \<open>auto simp: ws_frame_def split: option.splits\<close>)
next
  case (leave c x ord)
  then show ?thesis using assms(2-4) clients_unregister [of c ord s n c']
    by (auto simp: ws_exit_def Let_def split: if_splits)
qed (use assms(2-4) in \<open>simp_all add: accept_conn_def\<close>)

theorem name_takeover_needs_token_witness:
  "\<exists>m. Recv 1 (Json demo_register) = Recv 1 (Json m) \<and> m_type m = ''register'' \<and> m_name m = ''box'' \<and> m_token m = rc_token (rs_rcs demo_relay 0)"
proof (rule name_takeover_needs_token)
  let ?s = "ws_frame True 1 (Json demo_register) demo_relay"
  show "relay_step demo_relay (Recv 1 (Json demo_register)) ?s"
    by (rule recv_step) auto
  show "rs_clients demo_relay ''box'' = Some 0" by simp
  show "rs_clients ?s ''box'' = Some 1"
    by (simp add: ws_frame_def ws_dispatch_def demo_register_def handleRegister_def tokenEqual_def)
qed simp

end
