(* ===== verification/RelayRouting.thy ===== *)
theory RelayRouting
  imports RelayScenario RelayAuth
begin

text \<open>
  Request ids and replies. The relay gives every forwarded request an id of its own and keeps,
  under that id, who asked and under which id. The step lemmas say how one event can change
  each table that is keyed by drawn ids; the invariant \<open>ids_ok\<close> and the routing properties
  follow from them.
\<close>

section \<open>What one event does to the tables keyed by drawn ids\<close>

lemma pending_shrinks:
  "rs_pending (chunk_failed c t r e s) k = Some pr \<Longrightarrow> rs_pending s k = Some pr"
  "rs_pending (handleFileChunk c m s) k = Some pr \<Longrightarrow> rs_pending s k = Some pr"
  "rs_pending (fileChunkPayload c m p s) k = Some pr \<Longrightarrow> rs_pending s k = Some pr"
  "rs_pending (handleStreamEnd m s) k = Some pr \<Longrightarrow> rs_pending s k = Some pr"
  "rs_pending (handleFileTransferResult c m s) k = Some pr \<Longrightarrow> rs_pending s k = Some pr"
  "rs_pending (handleResult m s) k = Some pr \<Longrightarrow> rs_pending s k = Some pr"
  "rs_pending (unregister c ord s) k = Some pr \<Longrightarrow> rs_pending s k = Some pr"
proof -
  have cf: "rs_pending (chunk_failed c t r e s) k = Some pr \<Longrightarrow> rs_pending s k = Some pr" for c t r e s
    by (auto simp: chunk_failed_def cleanupPending_def split: if_splits)
  then show "rs_pending (chunk_failed c t r e s) k = Some pr \<Longrightarrow> rs_pending s k = Some pr" .
  show "rs_pending (handleFileChunk c m s) k = Some pr \<Longrightarrow> rs_pending s k = Some pr"
    by (auto simp: handleFileChunk_def Let_def rc_send_eq dest: cf split: option.splits if_splits)
  show "rs_pending (fileChunkPayload c m p s) k = Some pr \<Longrightarrow> rs_pending s k = Some pr"
    by (auto simp: fileChunkPayload_def case_prod_beta dest: cf split: option.splits if_splits sum.splits wsframe.splits)
  show "rs_pending (handleStreamEnd m s) k = Some pr \<Longrightarrow> rs_pending s k = Some pr"
    by (auto simp: handleStreamEnd_def cleanupPending_def split: option.splits if_splits)
  show "rs_pending (handleFileTransferResult c m s) k = Some pr \<Longrightarrow> rs_pending s k = Some pr"
    by (auto simp: handleFileTransferResult_def cleanupPending_def split: option.splits if_splits)
  show "rs_pending (handleResult m s) k = Some pr \<Longrightarrow> rs_pending s k = Some pr"
    by (auto simp: handleResult_def cleanupPending_def Let_def split: option.splits if_splits)
  show "rs_pending (unregister c ord s) k = Some pr \<Longrightarrow> rs_pending s k = Some pr"
    by (auto simp: unregister_def Let_def split: if_splits)
qed

lemma pending_requests:
  "rs_pending (handleExecute c m s) k = Some pr \<Longrightarrow>
     rs_pending s k = Some pr \<or>
     (pr = \<lparr>pr_serverID = m_id m, pr_clientConn = c\<rparr> \<and> k = newID (rs_entropy s) (rs_draws s) \<and>
      rs_draws (handleExecute c m s) = Suc (rs_draws s))"
  "rs_pending (handleFileTransfer c m s) k = Some pr \<Longrightarrow>
     rs_pending s k = Some pr \<or>
     (pr = \<lparr>pr_serverID = m_id m, pr_clientConn = c\<rparr> \<and> k = newID (rs_entropy s) (rs_draws s) \<and>
      rs_draws (handleFileTransfer c m s) = Suc (rs_draws s))"
  by (auto simp: handleExecute_def handleFileTransfer_def Let_def rc_send_eq draw_id_def cleanupPending_def
      split: option.splits if_splits)

text \<open>The fan-out draws one id per target it forwards to, all after the batch's own.\<close>

lemma multi_target_draws: "rs_draws (snd (snd a)) \<le> rs_draws (snd (snd (multi_target mid m t a)))"
  by (cases a) (auto simp: multi_target_def draw_id_def Let_def rc_send_eq split: option.splits)

lemma fold_multi_target_draws: "rs_draws (snd (snd a)) \<le> rs_draws (snd (snd (fold (multi_target mid m) ts a)))"
proof (induction ts arbitrary: a)
  case (Cons t ts)
  show ?case
    using order_trans [OF multi_target_draws [of a mid m t] Cons.IH [of "multi_target mid m t a"]] by simp
qed simp

definition fanned_out :: "string \<Rightarrow> string list \<Rightarrow> relay_server \<Rightarrow> relay_server \<Rightarrow> string \<Rightarrow> sub_target_info \<Rightarrow> bool" where
  "fanned_out mid ts s s' k i \<longleftrightarrow> st_multiID i = mid \<and> st_targetName i \<in> set ts \<and>
     (\<exists>j. rs_draws s \<le> j \<and> j < rs_draws s' \<and> k = newID (rs_entropy s) j)"

lemma multi_target_sub:
  "rs_subToMulti (snd (snd (multi_target mid m t a))) k = Some i \<Longrightarrow>
   rs_subToMulti (snd (snd a)) k = Some i \<or>
   fanned_out mid [t] (snd (snd a)) (snd (snd (multi_target mid m t a))) k i"
  by (cases a) (auto simp: multi_target_def fanned_out_def draw_id_def Let_def rc_send_eq split: option.splits if_splits)

lemma fanned_out_mono:
  "fanned_out mid ts s1 s2 k i \<Longrightarrow> set ts \<subseteq> set ts' \<Longrightarrow> rs_draws s \<le> rs_draws s1 \<Longrightarrow> rs_draws s2 \<le> rs_draws s3 \<Longrightarrow>
   rs_entropy s1 = rs_entropy s \<Longrightarrow> fanned_out mid ts' s s3 k i"
  unfolding fanned_out_def by (metis order.trans order.strict_trans2 subsetD)

lemma fold_multi_target_sub:
  "rs_subToMulti (snd (snd (fold (multi_target mid m) ts a))) k = Some i \<Longrightarrow>
   rs_subToMulti (snd (snd a)) k = Some i \<or>
   fanned_out mid ts (snd (snd a)) (snd (snd (fold (multi_target mid m) ts a))) k i"
proof (induction ts arbitrary: a)
  case (Cons t ts)
  let ?b = "multi_target mid m t a"
  have "rs_subToMulti (snd (snd (fold (multi_target mid m) ts ?b))) k = Some i" using Cons.prems by simp
  from Cons.IH [OF this] show ?case
  proof
    assume "rs_subToMulti (snd (snd ?b)) k = Some i"
    from multi_target_sub [OF this] show ?thesis
      using fold_multi_target_draws [of ?b mid m ts] fanned_out_mono [of mid "[t]" "snd (snd a)" "snd (snd ?b)" k i "t # ts"]
      by auto
  next
    assume f: "fanned_out mid ts (snd (snd ?b)) (snd (snd (fold (multi_target mid m) ts ?b))) k i"
    have "fanned_out mid (t # ts) (snd (snd a)) (snd (snd (fold (multi_target mid m) ts ?b))) k i"
      by (rule fanned_out_mono [OF f]) (auto simp: multi_target_draws)
    then show ?thesis by simp
  qed
qed simp

lemma sub_handleExecuteMulti:
  assumes "rs_subToMulti (handleExecuteMulti c m s) k = Some i"
  shows "rs_subToMulti s k = Some i \<or> fanned_out (newID (rs_entropy s) (rs_draws s)) (m_targets m)
    (s\<lparr>rs_draws := Suc (rs_draws s)\<rparr>) (handleExecuteMulti c m s) k i"
proof (cases "m_targets m = [] \<or> m_cmd m = ''''")
  case False
  let ?s1 = "s\<lparr>rs_draws := Suc (rs_draws s)\<rparr>"
  let ?f = "fold (multi_target (newID (rs_entropy s) (rs_draws s)) m) (m_targets m) (Map.empty, 0, ?s1)"
  have d: "rs_draws (handleExecuteMulti c m s) = rs_draws (snd (snd ?f))"
    and u: "rs_subToMulti (handleExecuteMulti c m s) = rs_subToMulti (snd (snd ?f))"
    using False by (auto simp: handleExecuteMulti_def draw_id_def case_prod_beta Let_def)
  show ?thesis
    using fold_multi_target_sub [of "newID (rs_entropy s) (rs_draws s)" m "m_targets m" "(Map.empty, 0, ?s1)" k i] assms
    by (simp add: fanned_out_def d u)
qed (use assms in \<open>auto simp: handleExecuteMulti_def\<close>)

lemma draws_handleExecuteMulti:
  "\<not> (m_targets m = [] \<or> m_cmd m = '''') \<Longrightarrow> rs_draws s < rs_draws (handleExecuteMulti c m s)"
  using fold_multi_target_draws [of "(Map.empty, 0, s\<lparr>rs_draws := Suc (rs_draws s)\<rparr>)"
      "newID (rs_entropy s) (rs_draws s)" m "m_targets m"]
  by (auto simp: handleExecuteMulti_def draw_id_def case_prod_beta Let_def)

lemma multi_handleExecuteMulti:
  "rs_multiPending (handleExecuteMulti c m s) k = Some e \<Longrightarrow>
   rs_multiPending s k = Some e \<or>
   (k = newID (rs_entropy s) (rs_draws s) \<and> rs_draws s < rs_draws (handleExecuteMulti c m s))"
  using draws_handleExecuteMulti [of m s c]
  by (auto simp: handleExecuteMulti_def draw_id_def case_prod_beta Let_def split: if_splits)

section \<open>One event of the relay\<close>

lemma handleResult_sub_multi:
  "rs_subToMulti (handleResult m s) k = Some i \<Longrightarrow> rs_subToMulti s k = Some i"
  "rs_multiPending (handleResult m s) M = Some e \<Longrightarrow> \<exists>e. rs_multiPending s M = Some e"
  by (auto simp: handleResult_def cleanupPending_def Let_def split: option.splits if_splits)

lemma multi_armMulti: "rs_multiPending (armMulti c mid n t s) M = Some e \<Longrightarrow> \<exists>e. rs_multiPending s M = Some e"
  by (auto simp: armMulti_def split: option.splits if_splits)

lemma multi_multiTimeout:
  "rs_multiPending (multiTimeout mid s) M = Some e \<Longrightarrow> \<exists>e. rs_multiPending s M = Some e"
  "rs_subToMulti (multiTimeout mid s) k = Some i \<Longrightarrow> rs_subToMulti s k = Some i"
  by (auto simp: multiTimeout_def split: option.splits if_splits)

lemma set_ctx_register [simp]:
  "handleRegister auth c m s = (b, s1) \<Longrightarrow> rs_pending s1 = rs_pending s \<and> rs_subToMulti s1 = rs_subToMulti s \<and>
     rs_multiPending s1 = rs_multiPending s \<and> rs_draws s1 = rs_draws s \<and> rs_entropy s1 = rs_entropy s"
  using handleRegister_frame [of auth c m s] by simp

text \<open>\<open>asks m\<close>: a message whose answer the relay keeps a pending entry for.\<close>

definition asks :: "message \<Rightarrow> bool" where
  "asks m \<longleftrightarrow> m_type m = ''execute'' \<or> m_type m = ''file_transfer''"

lemma pending_ws_dispatch:
  assumes "rs_pending (ws_dispatch auth c m s) k = Some pr"
  shows "rs_pending s k = Some pr \<or>
    (asks m \<and> pr = \<lparr>pr_serverID = m_id m, pr_clientConn = c\<rparr> \<and> k = newID (rs_entropy s) (rs_draws s) \<and>
     rs_draws (ws_dispatch auth c m s) = Suc (rs_draws s))"
  using assms unfolding ws_dispatch_def Let_def asks_def
  by (auto dest: pending_shrinks pending_requests split: if_splits prod.splits bool.splits)

lemma sub_ws_dispatch:
  assumes "rs_subToMulti (ws_dispatch auth c m s) k = Some i"
  shows "rs_subToMulti s k = Some i \<or>
    (m_type m = ''execute_multi'' \<and> fanned_out (newID (rs_entropy s) (rs_draws s)) (m_targets m)
       (s\<lparr>rs_draws := Suc (rs_draws s)\<rparr>) (ws_dispatch auth c m s) k i)"
  using assms unfolding ws_dispatch_def Let_def
  by (auto dest: handleResult_sub_multi sub_handleExecuteMulti split: if_splits prod.splits bool.splits)

lemma multi_ws_dispatch:
  assumes "rs_multiPending (ws_dispatch auth c m s) k = Some e"
  shows "(\<exists>e. rs_multiPending s k = Some e) \<or>
    (m_type m = ''execute_multi'' \<and> k = newID (rs_entropy s) (rs_draws s) \<and> rs_draws s < rs_draws (ws_dispatch auth c m s))"
  using assms unfolding ws_dispatch_def Let_def
  by (auto dest: handleResult_sub_multi multi_handleExecuteMulti split: if_splits prod.splits bool.splits)

lemma draws_handlers:
  "rs_draws s \<le> rs_draws (handleExecute c m s)" "rs_draws s \<le> rs_draws (handleFileTransfer c m s)"
  "rs_draws s \<le> rs_draws (handleExecuteMulti c m s)"
proof -
  show "rs_draws s \<le> rs_draws (handleExecute c m s)" "rs_draws s \<le> rs_draws (handleFileTransfer c m s)"
    by (auto simp: handleExecute_def handleFileTransfer_def Let_def rc_send_eq draw_id_def split: option.splits)
  show "rs_draws s \<le> rs_draws (handleExecuteMulti c m s)"
    using draws_handleExecuteMulti [of m s c] by (cases "m_targets m = [] \<or> m_cmd m = ''''") (auto simp: handleExecuteMulti_def)
qed

lemma draws_ws_dispatch: "rs_draws s \<le> rs_draws (ws_dispatch auth c m s)"
  unfolding ws_dispatch_def Let_def by (auto simp: draws_handlers split: prod.splits bool.splits)

lemma entropy_ws_dispatch [simp]: "rs_entropy (ws_dispatch auth c m s) = rs_entropy s"
  unfolding ws_dispatch_def Let_def by (auto split: prod.splits bool.splits)

text \<open>The four tables over any event.\<close>

lemma ws_frame_cases:
  obtains m where "f = Json m" "ws_frame auth c f s = ws_dispatch auth c m s" "auth \<or> m_type m \<notin> clientOnlyMessages"
  | "rs_pending (ws_frame auth c f s) = rs_pending s" "rs_subToMulti (ws_frame auth c f s) = rs_subToMulti s"
    "rs_multiPending (ws_frame auth c f s) = rs_multiPending s" "rs_draws (ws_frame auth c f s) = rs_draws s"
    "rs_entropy (ws_frame auth c f s) = rs_entropy s"
proof (cases "\<exists>m. f = Json m \<and> (auth \<or> m_type m \<notin> clientOnlyMessages)")
  case True
  then obtain m where "f = Json m" "auth \<or> m_type m \<notin> clientOnlyMessages" by blast
  moreover from this have "ws_frame auth c f s = ws_dispatch auth c m s" by (auto simp: ws_frame_def)
  ultimately show thesis using that(1) by blast
next
  case False
  then show thesis by (intro that(2)) (auto simp: ws_frame_def split: wsframe.split option.split)
qed

lemma pending_step:
  assumes "relay_step s ev s'" "rs_pending s' k = Some pr"
  shows "rs_pending s k = Some pr \<or>
    (\<exists>c m. ev = Recv c (Json m) \<and> asks m \<and> pr = \<lparr>pr_serverID = m_id m, pr_clientConn = c\<rparr> \<and>
       k = newID (rs_entropy s) (rs_draws s) \<and> rs_draws s' = Suc (rs_draws s))"
  using assms(1)
proof (cases rule: relay_step.cases)
  case (recv c x f)
  show ?thesis
  proof (cases rule: ws_frame_cases [of f "wc_authenticated x" c s])
    case (1 m)
    then show ?thesis using recv assms(2) pending_ws_dispatch [of "wc_authenticated x" c m s k pr] by auto
  next
    case 2
    then show ?thesis using recv assms(2) by simp
  qed
next
  case (payload c x m p)
  then show ?thesis using assms(2) by (auto dest: pending_shrinks)
next
  case (leave c x ord)
  then show ?thesis using assms(2) by (auto simp: ws_exit_def Let_def dest: pending_shrinks split: if_splits)
qed (use assms(2) in \<open>simp_all add: accept_conn_def\<close>)

lemma sub_step:
  assumes "relay_step s ev s'" "rs_subToMulti s' k = Some i"
  shows "rs_subToMulti s k = Some i \<or>
    (\<exists>c m. ev = Recv c (Json m) \<and> m_type m = ''execute_multi'' \<and>
       fanned_out (newID (rs_entropy s) (rs_draws s)) (m_targets m) (s\<lparr>rs_draws := Suc (rs_draws s)\<rparr>) s' k i)"
  using assms(1)
proof (cases rule: relay_step.cases)
  case (recv c x f)
  show ?thesis
  proof (cases rule: ws_frame_cases [of f "wc_authenticated x" c s])
    case (1 m)
    then show ?thesis using recv assms(2) sub_ws_dispatch [of "wc_authenticated x" c m s k i] by auto
  next
    case 2
    then show ?thesis using recv assms(2) by simp
  qed
next
  case (timer mid e)
  then show ?thesis using assms(2) multi_multiTimeout(2) by blast
qed (use assms(2) in \<open>simp_all add: accept_conn_def\<close>)

lemma multi_step:
  assumes "relay_step s ev s'" "rs_multiPending s' k = Some e"
  shows "(\<exists>e. rs_multiPending s k = Some e) \<or>
    (\<exists>c m. ev = Recv c (Json m) \<and> m_type m = ''execute_multi'' \<and> k = newID (rs_entropy s) (rs_draws s) \<and> rs_draws s < rs_draws s')"
  using assms(1)
proof (cases rule: relay_step.cases)
  case (recv c x f)
  show ?thesis
  proof (cases rule: ws_frame_cases [of f "wc_authenticated x" c s])
    case (1 m)
    then show ?thesis using recv assms(2) multi_ws_dispatch [of "wc_authenticated x" c m s k e] by auto
  next
    case 2
    then show ?thesis using recv assms(2) by simp
  qed
next
  case (arm c x mid n t)
  then show ?thesis using assms(2) multi_armMulti by blast
next
  case (timer mid e')
  then show ?thesis using assms(2) multi_multiTimeout(1) by blast
qed (use assms(2) in \<open>simp_all add: accept_conn_def\<close>)

lemma draws_step:
  assumes "relay_step s ev s'"
  shows "rs_draws s \<le> rs_draws s' \<and> rs_entropy s' = rs_entropy s"
  using assms
proof (cases rule: relay_step.cases)
  case (recv c x f)
  then show ?thesis
    by (cases rule: ws_frame_cases [of f "wc_authenticated x" c s]) (simp_all add: draws_ws_dispatch)
qed (simp_all add: accept_conn_def)

lemma draws_run: "relay_run s evs s' \<Longrightarrow> rs_draws s \<le> rs_draws s' \<and> rs_entropy s' = rs_entropy s"
  by (induction rule: relay_run.induct) (auto dest!: draws_step)

section \<open>Ids\<close>

definition drawn :: "relay_server \<Rightarrow> string \<Rightarrow> bool" where
  "drawn s k \<longleftrightarrow> (\<exists>j<rs_draws s. k = newID (rs_entropy s) j)"

definition fresh_ids :: "relay_server \<Rightarrow> bool" where
  "fresh_ids s \<longleftrightarrow> fresh_entropy (rs_entropy s) (rs_draws s)"

definition ids_ok :: "relay_server \<Rightarrow> bool" where
  "ids_ok s \<longleftrightarrow> (\<forall>k pr. rs_pending s k = Some pr \<longrightarrow> drawn s k) \<and>
     (\<forall>k i. rs_subToMulti s k = Some i \<longrightarrow> drawn s k \<and> drawn s (st_multiID i)) \<and>
     (\<forall>k e. rs_multiPending s k = Some e \<longrightarrow> drawn s k) \<and>
     (\<forall>k pr. rs_pending s k = Some pr \<longrightarrow> rs_subToMulti s k = None)"

lemma drawn_mono: "drawn s k \<Longrightarrow> rs_draws s \<le> rs_draws s' \<Longrightarrow> rs_entropy s' = rs_entropy s \<Longrightarrow> drawn s' k"
  by (auto simp: drawn_def intro: less_le_trans)

lemma not_drawn: "fresh_entropy (rs_entropy s) n \<Longrightarrow> rs_draws s \<le> j \<Longrightarrow> j < n \<Longrightarrow> \<not> drawn s (newID (rs_entropy s) j)"
  by (auto simp: drawn_def newID_eq [of "rs_entropy s" n])

lemma fresh_ids_step: "relay_step s ev s' \<Longrightarrow> fresh_ids s' \<Longrightarrow> fresh_ids s"
  using draws_step by (fastforce simp: fresh_ids_def intro: fresh_entropy_mono)

lemma fresh_ids_run: "relay_run s evs s' \<Longrightarrow> fresh_ids s' \<Longrightarrow> fresh_ids s"
  by (induction rule: relay_run.induct) (auto intro: fresh_ids_step)

lemma fanned_out_drawn: "fanned_out mid ts s s' k i \<Longrightarrow> rs_entropy s' = rs_entropy s \<Longrightarrow> drawn s' k"
  by (auto simp: fanned_out_def drawn_def)

lemma fanned_out_draws: "fanned_out mid ts s s' k i \<Longrightarrow> rs_draws s < rs_draws s'"
  by (auto simp: fanned_out_def)

lemma ids_ok_step:
  assumes ok: "ids_ok s" and st: "relay_step s ev s'" and fr: "fresh_ids s'"
  shows "ids_ok s'"
proof -
  have d: "rs_draws s \<le> rs_draws s'" and e: "rs_entropy s' = rs_entropy s" using draws_step [OF st] by auto
  note mono = drawn_mono [OF _ d e]
  have new: "rs_draws s < rs_draws s' \<Longrightarrow> drawn s' (newID (rs_entropy s) (rs_draws s))"
    by (auto simp: drawn_def e)
  have p: "drawn s' k" if "rs_pending s' k = Some pr" for k pr
    using pending_step [OF st that] ok mono new unfolding ids_ok_def by auto
  have sb: "drawn s' k \<and> drawn s' (st_multiID i)" if "rs_subToMulti s' k = Some i" for k i
    using sub_step [OF st that]
  proof (elim disjE exE conjE)
    assume "rs_subToMulti s k = Some i"
    then show ?thesis using ok mono unfolding ids_ok_def by blast
  next
    fix c m
    assume f: "fanned_out (newID (rs_entropy s) (rs_draws s)) (m_targets m) (s\<lparr>rs_draws := Suc (rs_draws s)\<rparr>) s' k i"
    have "rs_draws s < rs_draws s'" using fanned_out_draws [OF f] by simp
    with fanned_out_drawn [OF f] new f show ?thesis by (simp add: e fanned_out_def)
  qed
  have mu: "drawn s' k" if "rs_multiPending s' k = Some e" for k e
    using multi_step [OF st that] ok mono new unfolding ids_ok_def by auto
  have dj: "rs_subToMulti s' k = None" if pk: "rs_pending s' k = Some pr" for k pr
  proof (rule ccontr)
    assume "rs_subToMulti s' k \<noteq> None"
    then obtain i where i: "rs_subToMulti s' k = Some i" by blast
    have nd: "\<not> drawn s (newID (rs_entropy s) j)" if "rs_draws s \<le> j" "j < rs_draws s'" for j
      by (rule not_drawn [OF _ that]) (use fr e in \<open>simp add: fresh_ids_def\<close>)
    show False
    proof (cases "rs_pending s k = Some pr")
      case True
      then have "drawn s k" "rs_subToMulti s k = None" using ok unfolding ids_ok_def by blast+
      with sub_step [OF st i] nd show False by (auto simp: fanned_out_def)
    next
      case False
      with pending_step [OF st pk] have q: "k = newID (rs_entropy s) (rs_draws s)" "rs_draws s' = Suc (rs_draws s)"
        by auto
      have "\<not> drawn s k" using nd [of "rs_draws s"] q by simp
      then have "rs_subToMulti s k \<noteq> Some i" using ok unfolding ids_ok_def by blast
      with sub_step [OF st i] q(2) show False by (auto dest: fanned_out_draws)
    qed
  qed
  show ?thesis unfolding ids_ok_def using p sb mu dj by blast
qed

lemma ids_ok_reachable: "relay_reachable s \<Longrightarrow> fresh_ids s \<Longrightarrow> ids_ok s"
proof (induction rule: relay_reachable.induct)
  case (step s ev s')
  then show ?case using ids_ok_step fresh_ids_step by blast
qed (simp add: ids_ok_def)

end
