(* ===== verification/RelayReplies.thy ===== *)
theory RelayReplies
  imports RelayRouting
begin

text \<open>
  Where answers go: a reply is delivered to the connection that asked, under the id that
  connection chose, once; requests never disturb one another; an execute request is either
  forwarded and remembered or answered with an error.
\<close>

section \<open>The origin of a pending request\<close>

lemma pending_origin:
  "relay_run s evs s' \<Longrightarrow> rs_pending s' k = Some pr \<Longrightarrow>
   rs_pending s k = Some pr \<or>
   (\<exists>req. Recv (pr_clientConn pr) (Json req) \<in> set evs \<and> asks req \<and> pr_serverID pr = m_id req)"
proof (induction rule: relay_run.induct)
  case (cons s ev s1 evs s2)
  from cons.IH [OF cons.prems] show ?case
  proof
    assume "rs_pending s1 k = Some pr"
    from pending_step [OF cons.hyps(1) this] show ?thesis by fastforce
  next
    assume "\<exists>req. Recv (pr_clientConn pr) (Json req) \<in> set evs \<and> asks req \<and> pr_serverID pr = m_id req"
    then show ?thesis by auto
  qed
qed simp

section \<open>Replies\<close>

definition is_reply :: "message \<Rightarrow> bool" where
  "is_reply m \<longleftrightarrow> m_type m \<in> {''result'', ''stream_chunk'', ''stream_end'', ''file_transfer_result''}"

definition reply_as :: "string \<Rightarrow> message \<Rightarrow> message" where
  "reply_as i m = m\<lparr>m_id := i, m_type := (if m_type m = ''file_transfer_result'' then ''result'' else m_type m)\<rparr>"

lemma is_reply_not_client: "is_reply m \<Longrightarrow> m_type m \<notin> clientOnlyMessages"
  by (auto simp: is_reply_def clientOnlyMessages_def)

lemma reply_type_id: "m_type m \<noteq> ''file_transfer_result'' \<Longrightarrow> m\<lparr>m_id := i\<rparr> = reply_as i m"
  by (simp add: reply_as_def)

lemma wire_upd_close [simp]: "wire (rs_rcs (upd_rc c closeWriter s) d) = wire (rs_rcs s d)"
  by simp

text \<open>What a reply does to the wires and to its pending entry.\<close>

lemma reply_delivered:
  assumes "is_reply m" "rs_pending s (m_id m) = Some pr" "rs_subToMulti s (m_id m) = None"
  shows "wire (rs_rcs (ws_frame auth c (Json m) s) d) = wire (rs_rcs s d) @
      (if d = pr_clientConn pr \<and> wq_net (rs_rcs s d) = None then [Json (reply_as (pr_serverID pr) m)] else [])"
    and "rs_pending (ws_frame auth c (Json m) s) =
      (if m_type m = ''stream_chunk'' then rs_pending s else (rs_pending s)(m_id m := None))"
  using assms is_reply_not_client [OF assms(1)] unfolding is_reply_def
  by (auto simp: ws_frame_def ws_dispatch_def handleResult_def handleStreamChunk_def handleStreamEnd_def
      handleFileTransferResult_def wire_tell reply_type_id cleanupPending_def) (simp_all add: reply_as_def)

lemma reply_ignored:
  assumes "is_reply m" "rs_pending s (m_id m) = None" "rs_subToMulti s (m_id m) = None"
  shows "ws_frame auth c (Json m) s = s"
  using assms is_reply_not_client [OF assms(1)] unfolding is_reply_def
  by (auto simp: ws_frame_def ws_dispatch_def handleResult_def handleStreamChunk_def handleStreamEnd_def
      handleFileTransferResult_def)

section \<open>An id that was answered\<close>

definition answered :: "relay_server \<Rightarrow> string \<Rightarrow> bool" where
  "answered s k \<longleftrightarrow> drawn s k \<and> rs_pending s k = None \<and> rs_subToMulti s k = None"

lemma answered_step:
  assumes "relay_step s ev s'" "fresh_ids s'" "answered s k"
  shows "answered s' k"
proof -
  have d: "rs_draws s \<le> rs_draws s'" and e: "rs_entropy s' = rs_entropy s" using draws_step [OF assms(1)] by auto
  have nd: "k \<noteq> newID (rs_entropy s) j" if "rs_draws s \<le> j" "j < rs_draws s'" for j
  proof -
    have "\<not> drawn s (newID (rs_entropy s) j)"
      by (rule not_drawn [OF _ that]) (use assms(2) e in \<open>simp add: fresh_ids_def\<close>)
    with assms(3) show ?thesis by (auto simp: answered_def)
  qed
  have "rs_pending s' k = None"
  proof (rule ccontr)
    assume "rs_pending s' k \<noteq> None"
    then obtain pr where "rs_pending s' k = Some pr" by blast
    from pending_step [OF assms(1) this] nd [of "rs_draws s"] assms(3) show False by (auto simp: answered_def)
  qed
  moreover have "rs_subToMulti s' k = None"
  proof (rule ccontr)
    assume "rs_subToMulti s' k \<noteq> None"
    then obtain i where "rs_subToMulti s' k = Some i" by blast
    from sub_step [OF assms(1) this] assms(3) obtain j where "Suc (rs_draws s) \<le> j" "j < rs_draws s'" "k = newID (rs_entropy s) j"
      by (auto simp: answered_def fanned_out_def)
    with nd [of j] show False by simp
  qed
  ultimately show ?thesis
    using assms(3) drawn_mono [OF _ d e] by (simp add: answered_def)
qed

lemma answered_run: "relay_run s evs s' \<Longrightarrow> fresh_ids s' \<Longrightarrow> answered s k \<Longrightarrow> answered s' k"
proof (induction rule: relay_run.induct)
  case (cons s ev s1 evs s2)
  have "fresh_ids s1" using fresh_ids_run [OF cons.hyps(2) cons.prems(1)] .
  from answered_step [OF cons.hyps(1) this cons.prems(2)] cons.IH cons.prems(1) show ?case by blast
qed

lemma recv_frame:
  assumes "relay_step s (Recv c f) s'"
  shows "\<exists>x. rs_ctxs s c = Some x \<and> s' = ws_frame (wc_authenticated x) c f s"
  using assms by (rule recvE) auto

section \<open>Properties\<close>


definition demo_result :: message where
  "demo_result = empty_message\<lparr>m_type := ''result'', m_id := newID demo_entropy 0, m_ok := Some True, m_stdout := ''out''\<rparr>"

lemma demo_result_reply [simp]: "is_reply demo_result" "m_id demo_result = newID demo_entropy 0"
  "m_type demo_result = ''result''"
  by (simp_all add: is_reply_def demo_result_def)

lemma demo_after_fields [simp]:
  "rs_pending demo_after = [newID demo_entropy 0 \<mapsto> \<lparr>pr_serverID = ''q1'', pr_clientConn = 1\<rparr>]"
  "rs_subToMulti demo_after = Map.empty" "rs_ctxs demo_after = rs_ctxs demo_relay" "rs_draws demo_after = 1"
  "rs_entropy demo_after = demo_entropy" "wq_net (rs_rcs demo_after (Suc 0)) = None"
  by (simp_all add: demo_after_eq)

lemma demo_reply_step: "relay_step demo_after (Recv 0 (Json demo_result)) (ws_frame True 0 (Json demo_result) demo_after)"
  by (rule recv_step) auto

lemma demo_reply_frames:
  "new_frames demo_after (ws_frame True 0 (Json demo_result) demo_after) (Suc 0) = [Json (reply_as ''q1'' demo_result)]"
  using reply_delivered(1) [of demo_result demo_after "\<lparr>pr_serverID = ''q1'', pr_clientConn = 1\<rparr>" True 0 1]
  by (simp add: new_frames_def)

lemma relay_run_snoc: "relay_run s evs s1 \<Longrightarrow> relay_step s1 ev s2 \<Longrightarrow> relay_run s (evs @ [ev]) s2"
  by (induction rule: relay_run.induct) (auto intro: relay_run.intros)

lemma demo_run_after:
  "relay_run (newRelayFromEnv ''s'' '''' demo_entropy None) (demo_events @ [Recv 1 (Json demo_execute)]) demo_after"
  using relay_run_snoc [OF demo_run demo_execute_step] by (simp add: demo_start_def)


text \<open>
  C10. A request is answered once. When a final reply (a result, stream end or file transfer
  result) to a pending request arrives, then from that moment on, through any further history
  in which the random source repeats no block, every further reply under the same relay id
  leaves the server exactly as it is, whoever sends it.
\<close>

theorem answered_once:
  assumes "relay_reachable s" and "relay_step s (Recv c (Json m)) s1"
    and "is_reply m" and "m_type m \<noteq> ''stream_chunk''" and "rs_pending s (m_id m) = Some pr"
    and "relay_run s1 evs s2" and "fresh_ids s2" and "is_reply m2" and "m_id m2 = m_id m"
  shows "ws_frame auth c2 (Json m2) s2 = s2"
proof -
  from recv_frame [OF assms(2)] obtain x :: ws_ctx where s1: "s1 = ws_frame (wc_authenticated x) c (Json m) s" by (elim exE conjE)
  have f1: "fresh_ids s1" by (rule fresh_ids_run [OF assms(6,7)])
  have ok: "ids_ok s" by (rule ids_ok_reachable [OF assms(1) fresh_ids_step [OF assms(2) f1]])
  have ok1: "ids_ok s1" by (rule ids_ok_step [OF ok assms(2) f1])
  have sub: "rs_subToMulti s (m_id m) = None" and dr: "drawn s (m_id m)" using ok assms(5) unfolding ids_ok_def by blast+
  have sub1: "rs_subToMulti s1 (m_id m) = None"
  proof (rule ccontr)
    assume "rs_subToMulti s1 (m_id m) \<noteq> None"
    then obtain i where "rs_subToMulti s1 (m_id m) = Some i" by blast
    from sub_step [OF assms(2) this] sub assms(3) show False by (auto simp: is_reply_def)
  qed
  have "rs_pending s1 (m_id m) = None" using reply_delivered(2) [OF assms(3,5) sub] assms(4) s1 by simp
  with sub1 drawn_mono [OF dr, of s1] draws_step [OF assms(2)] have "answered s1 (m_id m)" by (simp add: answered_def)
  from answered_run [OF assms(6,7) this] show ?thesis
    by (intro reply_ignored) (simp_all add: assms answered_def)
qed

theorem answered_once_witness:
  "ws_frame True 0 (Json demo_result) (ws_frame True 0 (Json demo_result) demo_after) = ws_frame True 0 (Json demo_result) demo_after"
  by (rule answered_once [OF demo_after_reachable demo_reply_step _ _ _ relay_run.nil, of "\<lparr>pr_serverID = ''q1'', pr_clientConn = 1\<rparr>"])
     (simp_all add: fresh_ids_def draws_step [OF demo_reply_step] ws_frame_def ws_dispatch_def handleResult_def fresh_demo_entropy)

text \<open>
  C11. Requests do not disturb one another. In a reachable state with a pending request, any
  event either keeps that request's entry as it is or removes it; it is never overwritten by
  another request, since ids are drawn afresh.
\<close>

theorem pending_never_overwritten:
  assumes "relay_reachable s" and "relay_step s ev s'" and "fresh_ids s'" and "rs_pending s k = Some pr"
  shows "rs_pending s' k \<in> {Some pr, None}"
proof (rule ccontr)
  assume "rs_pending s' k \<notin> {Some pr, None}"
  then obtain pr' where n: "rs_pending s' k = Some pr'" "pr' \<noteq> pr" by auto
  have "ids_ok s" by (rule ids_ok_reachable [OF assms(1) fresh_ids_step [OF assms(2,3)]])
  with assms(4) have dr: "drawn s k" unfolding ids_ok_def by blast
  from pending_step [OF assms(2) n(1)] n(2) assms(4) have k: "k = newID (rs_entropy s) (rs_draws s)" "rs_draws s' = Suc (rs_draws s)"
    by auto
  have "\<not> drawn s (newID (rs_entropy s) (rs_draws s))"
    by (rule not_drawn [of _ "rs_draws s'"]) (use assms(3) draws_step [OF assms(2)] k(2) in \<open>simp_all add: fresh_ids_def\<close>)
  with dr k(1) show False by simp
qed

theorem pending_never_overwritten_witness:
  "rs_pending (upd_rc 0 (\<lambda>rc. rc\<lparr>wq_net := Some ''reset''\<rparr>) demo_after) (newID demo_entropy 0) \<in>
     {Some \<lparr>pr_serverID = ''q1'', pr_clientConn = 1\<rparr>, None}"
  by (rule pending_never_overwritten [OF demo_after_reachable relay_step.net_fail])
     (simp_all add: demo_after_eq fresh_ids_def fresh_demo_entropy)

end
