(* ===== verification/RelayBatch.thy ===== *)
theory RelayBatch
  imports RelayReplies
begin

text \<open>
  Batches: the accounting between a batch's entry, its outstanding sub-requests and its timer.
  The invariant \<open>batch_ok\<close> says that a target of an open batch has a result or an outstanding
  sub-request, and that an armed batch waits for at least as many results as are outstanding;
  so a batch that completes after it was armed reports every target.
\<close>

section \<open>The invariant\<close>

definition outstanding :: "relay_server \<Rightarrow> string \<Rightarrow> string set" where
  "outstanding s M = {k. \<exists>i. rs_subToMulti s k = Some i \<and> st_multiID i = M}"

definition awaited :: "relay_server \<Rightarrow> string \<Rightarrow> string \<Rightarrow> bool" where
  "awaited s M t \<longleftrightarrow> (\<exists>k i. rs_subToMulti s k = Some i \<and> st_multiID i = M \<and> st_targetName i = t)"

definition arming :: "relay_server \<Rightarrow> conn_id \<Rightarrow> string \<Rightarrow> int \<Rightarrow> int \<Rightarrow> bool" where
  "arming s c M n t \<longleftrightarrow> (\<exists>x. rs_ctxs s c = Some x \<and> wc_phase x = ArmMulti M n t)"

definition entry_ok :: "relay_server \<Rightarrow> string \<Rightarrow> multi_entry \<Rightarrow> bool" where
  "entry_ok s M e \<longleftrightarrow> (\<forall>t\<in>set (me_order e). me_results e t \<noteq> None \<or> awaited s M t) \<and>
     finite (outstanding s M) \<and>
     (me_timer e \<noteq> None \<longrightarrow> int (card (outstanding s M)) \<le> me_remaining e) \<and>
     (me_timer e = None \<longrightarrow> me_remaining e = 0) \<and>
     (\<forall>c n t. arming s c M n t \<longrightarrow> int (card (outstanding s M)) \<le> n \<and> me_clientConn e = c)"

definition batch_ok :: "relay_server \<Rightarrow> bool" where
  "batch_ok s \<longleftrightarrow> (\<forall>M e. rs_multiPending s M = Some e \<longrightarrow> entry_ok s M e) \<and>
     (\<forall>c M n t. arming s c M n t \<longrightarrow> drawn s M)"

lemma batch_okD: "batch_ok s \<Longrightarrow> rs_multiPending s M = Some e \<Longrightarrow> entry_ok s M e"
  by (simp add: batch_ok_def)

lemma batch_ok_armingD: "batch_ok s \<Longrightarrow> arming s c M n t \<Longrightarrow> drawn s M"
  unfolding batch_ok_def by blast

lemma entry_ok_parts:
  assumes "entry_ok s M e" "outstanding s' M = outstanding s M" "\<And>t. awaited s' M t = awaited s M t"
    "\<And>c n t. arming s' c M n t \<Longrightarrow> arming s c M n t"
  shows "entry_ok s' M e"
  using assms(1) unfolding entry_ok_def assms(2,3) using assms(4) by blast

lemma entry_ok_same:
  "entry_ok s M e \<Longrightarrow> rs_subToMulti s' = rs_subToMulti s \<Longrightarrow> (\<And>c n t. arming s' c M n t \<Longrightarrow> arming s c M n t) \<Longrightarrow> entry_ok s' M e"
  by (erule entry_ok_parts) (simp_all add: outstanding_def awaited_def)

lemma batch_ok_same:
  assumes "batch_ok s" "rs_multiPending s' = rs_multiPending s" "rs_subToMulti s' = rs_subToMulti s"
    "\<And>c M n t. arming s' c M n t \<Longrightarrow> arming s c M n t" "rs_draws s \<le> rs_draws s'" "rs_entropy s' = rs_entropy s"
  shows "batch_ok s'"
  unfolding batch_ok_def
  using assms entry_ok_same [of s _ _ s'] batch_okD [OF assms(1)] batch_ok_armingD [OF assms(1)] drawn_mono [of s _ s']
  by metis

section \<open>Arming\<close>

lemma arming_set_phase:
  "arming (set_phase c p s) c' M n t \<longleftrightarrow>
     (if c' = c then p = ArmMulti M n t \<and> rs_ctxs s c \<noteq> None else arming s c' M n t)"
  by (auto simp: arming_def set_phase_def set_ctx_def)

lemma arming_set_registered [simp]:
  "arming (set_ctx c (wc_registered_update (\<lambda>_. True)) s) c' M n t \<longleftrightarrow> arming s c' M n t"
  by (auto simp: arming_def set_ctx_def)

lemma arming_handleFileChunk: "arming (handleFileChunk c m s) c' M n t \<Longrightarrow> arming s c' M n t"
  by (auto simp: handleFileChunk_def Let_def rc_send_eq arming_def set_phase_def set_ctx_def
      split: option.splits if_splits)

lemma arming_same: "rs_ctxs s' = rs_ctxs s \<Longrightarrow> arming s' c M n t \<Longrightarrow> arming s c M n t"
  by (simp add: arming_def)

lemma arming_closing: "rs_ctxs s' = rs_ctxs s \<Longrightarrow> arming (set_phase c Closing s') c' M n t \<Longrightarrow> arming s c' M n t"
  by (auto simp: arming_def set_phase_def set_ctx_def split: if_splits)

lemma arming_ws_dispatch:
  assumes "arming (ws_dispatch auth c m s) c' M n t" "m_type m \<noteq> ''execute_multi''"
  shows "arming s c' M n t"
proof (cases "m_type m = ''register''")
  case True
  obtain b s1 where r: "handleRegister auth c m s = (b, s1)" by fastforce
  have s1: "rs_ctxs s1 = rs_ctxs s" using handleRegister_frame(5) [of auth c m s] r by simp
  show ?thesis
  proof (cases b)
    case True
    with assms(1) \<open>m_type m = ''register''\<close> r have "arming (set_phase c Closing s1) c' M n t" by (simp add: ws_dispatch_def)
    with s1 show ?thesis by (rule arming_closing)
  next
    case False
    with assms(1) True r have "arming s1 c' M n t" by (simp add: ws_dispatch_def)
    with s1 show ?thesis by (rule arming_same)
  qed
next
  case False
  show ?thesis
  proof (cases "m_type m = ''file_chunk''")
    case True
    then show ?thesis using assms(1) arming_handleFileChunk by (simp add: ws_dispatch_def)
  next
    case c: False
    have "rs_ctxs (ws_dispatch auth c m s) = rs_ctxs s"
      using assms(2) False c by (simp add: ws_dispatch_def Let_def)
    from arming_same [OF this assms(1)] show ?thesis .
  qed
qed

lemma arming_ws_exit: "arming (ws_exit c b ord s) c' M n t \<Longrightarrow> arming s c' M n t"
  by (auto simp: ws_exit_def Let_def arming_def split: if_splits)

section \<open>The fan-out\<close>

text \<open>What holds after a prefix of the targets: the results, the count and the state agree.\<close>

definition fan_ok :: "relay_server \<Rightarrow> string \<Rightarrow> string set \<Rightarrow> fanout \<Rightarrow> bool" where
  "fan_ok s0 M T a \<longleftrightarrow> (let (r, n, s) = a in
     (\<forall>t\<in>T. r t \<noteq> None \<or> awaited s M t) \<and> finite (outstanding s M) \<and> int (card (outstanding s M)) \<le> n \<and>
     (\<forall>k i. st_multiID i \<noteq> M \<longrightarrow> rs_subToMulti s k = Some i \<longleftrightarrow> rs_subToMulti s0 k = Some i) \<and>
     (\<forall>k i. rs_subToMulti s k = Some i \<longrightarrow> drawn s k))"

lemma awaitedI: "rs_subToMulti s k = Some i \<Longrightarrow> st_multiID i = M \<Longrightarrow> st_targetName i = t \<Longrightarrow> awaited s M t"
  unfolding awaited_def by blast

lemma outstanding_insert:
  assumes "rs_subToMulti s k = None" "rs_subToMulti s1 = (rs_subToMulti s)(k \<mapsto> \<lparr>st_multiID = M, st_targetName = t\<rparr>)"
  shows "outstanding s1 M = insert k (outstanding s M)"
  using assms by (auto simp: outstanding_def)

lemma awaited_insert:
  assumes "rs_subToMulti s k = None" "rs_subToMulti s1 = (rs_subToMulti s)(k \<mapsto> \<lparr>st_multiID = M, st_targetName = t\<rparr>)"
  shows "awaited s1 M t' \<longleftrightarrow> t' = t \<or> awaited s M t'"
proof
  assume "awaited s1 M t'"
  then show "t' = t \<or> awaited s M t'" using assms(2) by (auto simp: awaited_def split: if_splits)
next
  assume "t' = t \<or> awaited s M t'"
  then show "awaited s1 M t'"
  proof
    assume "t' = t"
    then show ?thesis by (intro awaitedI [of s1 k "\<lparr>st_multiID = M, st_targetName = t\<rparr>"]) (simp_all add: assms(2))
  next
    assume "awaited s M t'"
    then obtain k' i where k: "rs_subToMulti s k' = Some i" "st_multiID i = M" "st_targetName i = t'"
      unfolding awaited_def by blast
    then have "k' \<noteq> k" using assms(1) by auto
    with k show ?thesis by (intro awaitedI [of s1 k' i]) (simp_all add: assms(2))
  qed
qed

lemma fan_ok_step:
  assumes ok: "fan_ok s0 M T (r, n, s)" and fr: "\<not> drawn s (newID (rs_entropy s) (rs_draws s))"
  shows "fan_ok s0 M (insert t T) (multi_target M m t (r, n, s))"
proof (cases "rs_clients s t")
  case None
  then show ?thesis using ok by (auto simp: fan_ok_def multi_target_def)
next
  case (Some d)
  let ?k = "newID (rs_entropy s) (rs_draws s)"
  have kn: "rs_subToMulti s ?k = None" using ok fr by (auto simp: fan_ok_def)
  have dr: "drawn s k \<Longrightarrow> rs_entropy s1 = rs_entropy s \<Longrightarrow> rs_draws s1 = Suc (rs_draws s) \<Longrightarrow> drawn s1 k" for k s1
    by (auto intro: drawn_mono)
  have dk: "rs_entropy s1 = rs_entropy s \<Longrightarrow> rs_draws s1 = Suc (rs_draws s) \<Longrightarrow> drawn s1 ?k" for s1
    by (auto simp: drawn_def)
  show ?thesis
  proof (cases "m_tokens m t = Some (rc_token (rs_rcs s d))")
    case False
    then have "multi_target M m t (r, n, s) = (r(t \<mapsto> sub_error ''invalid token''), n, s)"
      using Some by (cases "m_tokens m t") (simp_all add: multi_target_def tokenEqual_def)
    then show ?thesis using ok by (simp add: fan_ok_def)
  next
    case tok: True
    show ?thesis
    proof (cases "wq_net (rs_rcs s d)")
      case None
      obtain s1 where st: "multi_target M m t (r, n, s) = (r, n + 1, s1)"
        and sub: "rs_subToMulti s1 = (rs_subToMulti s)(?k \<mapsto> \<lparr>st_multiID = M, st_targetName = t\<rparr>)"
        and d1: "rs_draws s1 = Suc (rs_draws s)" "rs_entropy s1 = rs_entropy s"
        using Some tok None by (simp add: multi_target_def tokenEqual_def draw_id_def rc_send_eq)
      note out = outstanding_insert [OF kn sub] and aw = awaited_insert [OF kn sub]
      have "card (insert ?k (outstanding s M)) \<le> Suc (card (outstanding s M))" by (rule card_insert_le_m1) auto
      moreover have "\<forall>k i. rs_subToMulti s1 k = Some i \<longrightarrow> drawn s1 k"
        using ok dr [of _ s1] dk [of s1] d1 by (auto simp: fan_ok_def sub split: if_splits)
      moreover have "rs_subToMulti s1 k = Some i \<longleftrightarrow> rs_subToMulti s0 k = Some i" if "st_multiID i \<noteq> M" for k i
      proof -
        have "rs_subToMulti s k = Some i \<longleftrightarrow> rs_subToMulti s0 k = Some i" using ok that by (auto simp: fan_ok_def)
        with kn that show ?thesis by (auto simp: sub)
      qed
      ultimately show ?thesis
        using ok unfolding fan_ok_def st by (auto simp add: out aw)
    next
      case net: (Some e)
      obtain s1 where st: "multi_target M m t (r, n, s) = (r(t \<mapsto> sub_error (''forward failed: '' @ e)), n + 1, s1)"
        and sub: "rs_subToMulti s1 = rs_subToMulti s"
        and d1: "rs_draws s1 = Suc (rs_draws s)" "rs_entropy s1 = rs_entropy s"
        using Some tok net kn by (simp add: multi_target_def tokenEqual_def draw_id_def rc_send_eq fun_upd_idem_iff)
      have "\<forall>k i. rs_subToMulti s1 k = Some i \<longrightarrow> drawn s1 k"
        using ok dr [of _ s1] d1 by (auto simp: fan_ok_def sub)
      then show ?thesis using ok unfolding fan_ok_def st by (auto simp: outstanding_def awaited_def sub)
    qed
  qed
qed

lemma fan_ok_fold:
  assumes "fan_ok s0 M T a" "fresh_entropy (rs_entropy (snd (snd a))) N"
    "rs_draws (snd (snd (fold (multi_target M m) ts a))) \<le> N"
  shows "fan_ok s0 M (T \<union> set ts) (fold (multi_target M m) ts a)"
  using assms
proof (induction ts arbitrary: a T)
  case (Cons t ts)
  obtain r n s where a: "a = (r, n, s)" by (metis prod_cases3)
  let ?b = "multi_target M m t a"
  have le: "rs_draws (snd (snd ?b)) \<le> N"
    using fold_multi_target_draws [of ?b M m ts] Cons.prems(3) by simp
  have step: "fan_ok s0 M (insert t T) ?b"
  proof (cases "rs_draws (snd (snd ?b)) = rs_draws s")
    case False
    with multi_target_draws [of a M m t] le a have "rs_draws s < N" by simp
    with fan_ok_step Cons.prems(1,2) not_drawn [of s N "rs_draws s"] a show ?thesis by auto
  next
    case True
    then have "\<exists>r'. ?b = (r'(t := r' t), n, s) \<and> r' t \<noteq> None \<and> (\<forall>t'. r t' \<noteq> None \<longrightarrow> r' t' \<noteq> None)"
      unfolding a by (auto simp: multi_target_def draw_id_def Let_def rc_send_eq split: option.splits if_splits)
    with Cons.prems(1) a show ?thesis by (fastforce simp: fan_ok_def)
  qed
  from Cons.IH [OF step] Cons.prems le show ?case by simp
qed simp

section \<open>Preservation\<close>

lemma batch_ok_handleExecuteMulti:
  assumes ok: "batch_ok s" and ids: "ids_ok s" and fr: "fresh_entropy (rs_entropy s) (rs_draws (handleExecuteMulti c m s))"
    and ctx: "rs_ctxs s c = Some x" "wc_phase x = Reading"
  shows "batch_ok (handleExecuteMulti c m s)"
proof (cases "m_targets m = [] \<or> m_cmd m = ''''")
  case True
  then have "handleExecuteMulti c m s = tell c (errResult (m_id m) ''targets and cmd are required'') s"
    by (auto simp: handleExecuteMulti_def)
  then show ?thesis by (intro batch_ok_same [OF ok]) (simp_all add: arming_def)
next
  case False
  let ?M = "newID (rs_entropy s) (rs_draws s)"
  let ?s1 = "s\<lparr>rs_draws := Suc (rs_draws s)\<rparr>"
  let ?f = "fold (multi_target ?M m) (m_targets m) (Map.empty, 0, ?s1)"
  let ?s' = "handleExecuteMulti c m s"
  obtain r n s2 where f: "?f = (r, n, s2)" by (metis prod_cases3)
  have s': "?s' = set_phase c (ArmMulti ?M n (batch_timeout (m_timeout m)))
      (s2\<lparr>rs_multiPending := (rs_multiPending s2)(?M \<mapsto> \<lparr>me_clientConn = c, me_clientID = m_id m, me_results = r,
        me_order = m_targets m, me_remaining = 0, me_timer = None\<rparr>)\<rparr>)"
    using False f by (simp add: handleExecuteMulti_def draw_id_def)
  have d: "Suc (rs_draws s) \<le> rs_draws s2" and d': "rs_draws ?s' = rs_draws s2"
    using fold_multi_target_draws [of "(Map.empty, 0, ?s1)" ?M m "m_targets m"] f s' by simp_all
  have keep: "rs_multiPending s2 = rs_multiPending s" "rs_ctxs s2 = rs_ctxs s" "rs_entropy s2 = rs_entropy s"
    using fold_multi_target_fields [of ?M m "m_targets m" "(Map.empty, 0, ?s1)"] f by simp_all
  have nd: "\<not> drawn s ?M" by (rule not_drawn [OF fr]) (use d d' in auto)
  have mono: "drawn s k \<Longrightarrow> drawn ?s1 k" for k by (erule drawn_mono) simp_all
  have none: "st_multiID i \<noteq> ?M" if "rs_subToMulti s k = Some i" for k i
    using ids nd that unfolding ids_ok_def by metis
  have "outstanding ?s1 ?M = {}" using none by (auto simp: outstanding_def)
  then have "fan_ok s ?M {} (Map.empty, 0, ?s1)"
    using ids mono unfolding fan_ok_def ids_ok_def by auto
  from fan_ok_fold [OF this, of "rs_draws ?s'" m "m_targets m"] fr f d'
  have fan: "fan_ok s ?M (set (m_targets m)) (r, n, s2)" by simp
  have sub: "rs_subToMulti ?s' = rs_subToMulti s2" unfolding s' by simp
  have drawn': "drawn s k \<Longrightarrow> drawn ?s' k" for k
    by (rule drawn_mono) (use d d' in auto)
  have am: "arming ?s' c' M' n' t' \<Longrightarrow> (c' = c \<and> M' = ?M \<and> n' = n) \<or> arming s c' M' n' t'" for c' M' n' t'
    unfolding s' arming_set_phase by (auto simp: arming_def keep split: if_splits)
  have nam: "\<not> arming s c' ?M n' t'" for c' n' t' using batch_ok_armingD [OF ok] nd by blast
  have "entry_ok ?s' M e" if e: "rs_multiPending ?s' M = Some e" for M e
  proof (cases "M = ?M")
    case True
    have out: "outstanding ?s' ?M = outstanding s2 ?M" and aw: "awaited ?s' ?M t = awaited s2 ?M t" for t
      by (simp_all add: outstanding_def awaited_def sub)
    have e_eq: "e = \<lparr>me_clientConn = c, me_clientID = m_id m, me_results = r,
        me_order = m_targets m, me_remaining = 0, me_timer = None\<rparr>" using e True unfolding s' by simp
    have "\<forall>c' n' t'. arming ?s' c' ?M n' t' \<longrightarrow> c' = c \<and> n' = n" using am nam by blast
    then show ?thesis
      using fan unfolding entry_ok_def True out aw e_eq fan_ok_def by auto
  next
    case False
    have e0: "rs_multiPending s M = Some e" using e False unfolding s' by (simp add: keep)
    have iff: "st_multiID i = M \<Longrightarrow> rs_subToMulti ?s' k = Some i \<longleftrightarrow> rs_subToMulti s k = Some i" for k i
      using fan False by (auto simp: fan_ok_def sub)
    show ?thesis
    proof (rule entry_ok_parts [OF batch_okD [OF ok e0]])
      show "outstanding ?s' M = outstanding s M" using iff unfolding outstanding_def by blast
      show "awaited ?s' M t = awaited s M t" for t using iff unfolding awaited_def by blast
      show "arming ?s' c' M n' t' \<Longrightarrow> arming s c' M n' t'" for c' n' t' using am False by blast
    qed
  qed
  moreover have "drawn ?s' ?M"
    using d unfolding drawn_def d' by (intro exI [of _ "rs_draws s"]) simp
  ultimately show ?thesis
    unfolding batch_ok_def using am batch_ok_armingD [OF ok] drawn' by blast
qed

lemma outstanding_drop:
  assumes "rs_subToMulti s k = Some i" "rs_subToMulti s' = (rs_subToMulti s)(k := None)"
  shows "outstanding s' (st_multiID i) = outstanding s (st_multiID i) - {k}" "k \<in> outstanding s (st_multiID i)"
    "M \<noteq> st_multiID i \<Longrightarrow> outstanding s' M = outstanding s M"
  using assms by (auto simp: outstanding_def split: if_splits)

lemma awaited_drop:
  assumes "rs_subToMulti s k = Some i" "rs_subToMulti s' = (rs_subToMulti s)(k := None)" "awaited s M t"
  shows "awaited s' M t \<or> (M = st_multiID i \<and> t = st_targetName i)"
proof -
  obtain k' i' where k: "rs_subToMulti s k' = Some i'" "st_multiID i' = M" "st_targetName i' = t"
    using assms(3) unfolding awaited_def by blast
  show ?thesis
  proof (cases "k' = k")
    case True
    with k assms(1) show ?thesis by simp
  next
    case False
    with k show ?thesis by (intro disjI1 awaitedI [of s' k' i']) (simp_all add: assms(2))
  qed
qed

lemma awaited_shrinks: "rs_subToMulti s' = (rs_subToMulti s)(k := None) \<Longrightarrow> awaited s' M t \<Longrightarrow> awaited s M t"
  by (auto simp: awaited_def split: if_splits)

text \<open>One result of a batch: the entry it leaves, if any, is in order again.\<close>

lemma entry_ok_result:
  assumes ok: "entry_ok s (st_multiID i) e" and k: "rs_subToMulti s k = Some i"
    and sub: "rs_subToMulti s' = (rs_subToMulti s)(k := None)" and ctx: "rs_ctxs s' = rs_ctxs s"
    and armed: "me_timer e \<noteq> None"
  shows "entry_ok s' (st_multiID i) (e\<lparr>me_results := (me_results e)(st_targetName i \<mapsto> x), me_remaining := me_remaining e - 1\<rparr>)"
proof -
  note out = outstanding_drop(1) [OF k sub] and mem = outstanding_drop(2) [OF k sub]
  have fin: "finite (outstanding s (st_multiID i))" using ok by (simp add: entry_ok_def)
  have c1: "card (outstanding s (st_multiID i) - {k}) = card (outstanding s (st_multiID i)) - 1"
    and c0: "0 < card (outstanding s (st_multiID i))"
    using fin mem by (auto simp: card_gt_0_iff)
  have ar: "arming s' c M n t \<longleftrightarrow> arming s c M n t" for c M n t by (simp add: arming_def ctx)
  show ?thesis
    using ok armed awaited_drop [OF k sub] c0 unfolding entry_ok_def out c1 ar
    by (auto simp: fin) (fastforce simp: int_ops)+
qed

lemma batch_ok_handleResult:
  assumes ok: "batch_ok s"
  shows "batch_ok (handleResult m s)"
proof (cases "rs_subToMulti s (m_id m)")
  case None
  then show ?thesis
    by (intro batch_ok_same [OF ok])
       (auto simp: handleResult_def cleanupPending_def arming_def split: option.splits)
next
  case (Some i)
  let ?s' = "handleResult m s"
  have sub: "rs_subToMulti ?s' = (rs_subToMulti s)(m_id m := None)"
    using Some by (auto simp: handleResult_def Let_def split: option.splits)
  have ctx: "rs_ctxs ?s' = rs_ctxs s" by simp
  have ar: "arming ?s' c M n t \<longleftrightarrow> arming s c M n t" for c M n t by (simp add: arming_def)
  have other: "rs_multiPending ?s' M = rs_multiPending s M" if "M \<noteq> st_multiID i" for M
    using Some that by (auto simp: handleResult_def Let_def split: option.splits)
  have "entry_ok ?s' M e" if e: "rs_multiPending ?s' M = Some e" for M e
  proof (cases "M = st_multiID i")
    case False
    have e0: "rs_multiPending s M = Some e" using other False e by simp
    show ?thesis
    proof (rule entry_ok_parts [OF batch_okD [OF ok e0]])
      show "outstanding ?s' M = outstanding s M" using outstanding_drop(3) [OF Some sub] False by blast
      show "awaited ?s' M t = awaited s M t" for t
        using awaited_drop [OF Some sub] awaited_shrinks [OF sub] False by blast
    qed (simp add: ar)
  next
    case True
    from e obtain e0 where e0: "rs_multiPending s M = Some e0"
      using handleResult_sub_multi(2) by blast
    have eq: "e = e0\<lparr>me_results := (me_results e0)(st_targetName i \<mapsto> message0.truncate m), me_remaining := me_remaining e0 - 1\<rparr>"
      and pos: "0 < me_remaining e0 - 1"
      using e e0 True Some by (auto simp: handleResult_def Let_def split: if_splits)
    have "me_timer e0 \<noteq> None" using batch_okD [OF ok e0] pos by (auto simp: entry_ok_def)
    with entry_ok_result [OF _ Some sub ctx] batch_okD [OF ok e0] True show ?thesis by (simp add: eq)
  qed
  moreover have "drawn ?s' M" if "arming ?s' c M n t" for c M n t
    using batch_ok_armingD [OF ok, of c M n t] that by (simp add: ar drawn_def)
  ultimately show ?thesis unfolding batch_ok_def by blast
qed

lemma batch_ok_armMulti:
  assumes ok: "batch_ok s" and ctx: "arming s c mid n t"
  shows "batch_ok (armMulti c mid n t s)"
proof -
  let ?s' = "armMulti c mid n t s"
  have sub: "rs_subToMulti ?s' = rs_subToMulti s" by simp
  have ar: "arming ?s' c' M n' t' \<Longrightarrow> arming s c' M n' t'" for c' M n' t'
    by (auto simp: armMulti_def set_phase_def set_ctx_def arming_def split: option.splits if_splits)
  have "entry_ok ?s' M e" if e: "rs_multiPending ?s' M = Some e" for M e
  proof (cases "M = mid")
    case False
    then have "rs_multiPending s M = Some e" using e by (auto simp: armMulti_def split: option.splits if_splits)
    then show ?thesis by (intro entry_ok_same [OF batch_okD [OF ok]]) (auto intro: ar)
  next
    case True
    from e obtain e0 where e0: "rs_multiPending s mid = Some e0" using multi_armMulti True by blast
    have eq: "e = e0\<lparr>me_remaining := n, me_timer := Some t\<rparr>"
      using e e0 True by (auto simp: armMulti_def split: if_splits)
    have "entry_ok s mid (e0\<lparr>me_remaining := n, me_timer := Some t\<rparr>)"
      using batch_okD [OF ok e0] ctx unfolding entry_ok_def by auto
    then show ?thesis unfolding True eq by (rule entry_ok_same) (auto intro: ar)
  qed
  moreover have "drawn ?s' M" if "arming ?s' c' M n' t'" for c' M n' t'
    using batch_ok_armingD [OF ok ar [OF that]] by (simp add: drawn_def)
  ultimately show ?thesis unfolding batch_ok_def by blast
qed

lemma batch_ok_multiTimeout:
  assumes ok: "batch_ok s"
  shows "batch_ok (multiTimeout mid s)"
proof (cases "rs_multiPending s mid")
  case None
  then show ?thesis using ok by (simp add: multiTimeout_def)
next
  case (Some e0)
  let ?s' = "multiTimeout mid s"
  have sub: "rs_subToMulti ?s' k = Some i \<longleftrightarrow> rs_subToMulti s k = Some i \<and> st_multiID i \<noteq> mid" for k i
    using Some by (simp add: multiTimeout_def)
  have mp: "rs_multiPending ?s' = (rs_multiPending s)(mid := None)" using Some by (simp add: multiTimeout_def)
  have ar: "arming ?s' c M n t \<longleftrightarrow> arming s c M n t" for c M n t by (simp add: arming_def)
  have "entry_ok ?s' M e" if "rs_multiPending ?s' M = Some e" for M e
  proof -
    have e: "rs_multiPending s M = Some e" "M \<noteq> mid" using that by (auto simp: mp split: if_splits)
    show ?thesis
    proof (rule entry_ok_parts [OF batch_okD [OF ok e(1)]])
      show "outstanding ?s' M = outstanding s M" using e(2) by (auto simp: outstanding_def sub)
      show "awaited ?s' M t = awaited s M t" for t using e(2) unfolding awaited_def sub by blast
    qed (simp add: ar)
  qed
  moreover have "drawn ?s' M" if "arming ?s' c M n t" for c M n t
    using batch_ok_armingD [OF ok, of c M n t] that by (simp add: ar drawn_def)
  ultimately show ?thesis unfolding batch_ok_def by blast
qed

lemma arming_ws_frame_other:
  assumes "arming (ws_frame auth c f s) c' M n t" "\<And>m. f = Json m \<Longrightarrow> m_type m \<noteq> ''execute_multi''"
  shows "arming s c' M n t"
proof (cases f)
  case (Json m)
  show ?thesis
  proof (cases "\<not> auth \<and> m_type m \<in> clientOnlyMessages")
    case True
    then have "arming (set_phase c Closing (tell c (authRequiredReply m) s)) c' M n t"
      using assms(1) Json by (auto simp: ws_frame_def)
    then show ?thesis by (rule arming_closing [rotated]) simp
  next
    case False
    then have "arming (ws_dispatch auth c m s) c' M n t" using assms(1) Json by (auto simp: ws_frame_def)
    then show ?thesis by (rule arming_ws_dispatch) (use assms(2) Json in blast)
  qed
qed (use assms(1) in \<open>auto simp: ws_frame_def arming_def split: option.splits\<close>)

lemma multi_sub_ws_frame_other:
  assumes "\<And>m. f = Json m \<Longrightarrow> m_type m \<notin> {''execute_multi'', ''result''}"
  shows "rs_multiPending (ws_frame auth c f s) = rs_multiPending s" "rs_subToMulti (ws_frame auth c f s) = rs_subToMulti s"
    "rs_draws s \<le> rs_draws (ws_frame auth c f s)" "rs_entropy (ws_frame auth c f s) = rs_entropy s"
proof -
  have *: "rs_multiPending (ws_dispatch auth c m s) = rs_multiPending s \<and> rs_subToMulti (ws_dispatch auth c m s) = rs_subToMulti s"
    if "m_type m \<notin> {''execute_multi'', ''result''}" for m
    using that by (auto simp: ws_dispatch_def Let_def split: prod.splits bool.splits)
  show "rs_multiPending (ws_frame auth c f s) = rs_multiPending s" "rs_subToMulti (ws_frame auth c f s) = rs_subToMulti s"
    by (cases f; use assms * in \<open>simp add: ws_frame_def split: option.split\<close>)+
  show "rs_draws s \<le> rs_draws (ws_frame auth c f s)" "rs_entropy (ws_frame auth c f s) = rs_entropy s"
    by (cases f; simp add: ws_frame_def draws_ws_dispatch split: option.split)+
qed

lemma batch_ok_ws_frame:
  assumes ok: "batch_ok s" and ids: "ids_ok s" and fr: "fresh_ids (ws_frame auth c f s)"
    and ctx: "rs_ctxs s c = Some x" "wc_phase x = Reading"
  shows "batch_ok (ws_frame auth c f s)"
proof (cases "\<exists>m. f = Json m \<and> m_type m \<in> {''execute_multi'', ''result''}")
  case False
  then have 1: "f = Json m \<Longrightarrow> m_type m \<notin> {''execute_multi'', ''result''}" for m by blast
  show ?thesis
  proof (rule batch_ok_same [OF ok])
    show "arming (ws_frame auth c f s) c' M n t \<Longrightarrow> arming s c' M n t" for c' M n t
      by (rule arming_ws_frame_other) (use False in auto)
  qed (use multi_sub_ws_frame_other [OF 1] in auto)
next
  case True
  then obtain m where f: "f = Json m" "m_type m \<in> {''execute_multi'', ''result''}" by blast
  show ?thesis
  proof (cases "\<not> auth \<and> m_type m \<in> clientOnlyMessages")
    case True
    then have eq: "ws_frame auth c f s = set_phase c Closing (tell c (authRequiredReply m) s)"
      using f by (auto simp: ws_frame_def)
    show ?thesis unfolding eq
      by (rule batch_ok_same [OF ok]) (auto dest: arming_closing [rotated])
  next
    case False
    then have eq: "ws_frame auth c f s = ws_dispatch auth c m s" using f by (auto simp: ws_frame_def)
    show ?thesis
    proof (cases "m_type m = ''result''")
      case True
      then show ?thesis unfolding eq using batch_ok_handleResult [OF ok] by (simp add: ws_dispatch_def)
    next
      case False
      with f have d: "ws_dispatch auth c m s = handleExecuteMulti c m s" by (simp add: ws_dispatch_def)
      show ?thesis unfolding eq d
        by (rule batch_ok_handleExecuteMulti [OF ok ids _ ctx]) (use fr eq d in \<open>simp add: fresh_ids_def\<close>)
    qed
  qed
qed

lemma batch_ok_step:
  assumes ok: "batch_ok s" and ids: "ids_ok s" and st: "relay_step s ev s'" and fr: "fresh_ids s'"
  shows "batch_ok s'"
  using st
proof (cases rule: relay_step.cases)
  case (connect auth a)
  show ?thesis unfolding connect(2)
    by (rule batch_ok_same [OF ok]) (auto simp: accept_conn_def arming_def split: if_splits)
next
  case (recv c x f)
  then show ?thesis using batch_ok_ws_frame [OF ok ids _ recv(3,4)] fr by simp
next
  case (payload c x m p)
  show ?thesis unfolding payload(2)
    by (rule batch_ok_same [OF ok]) (auto simp: arming_def set_phase_def set_ctx_def split: if_splits)
next
  case (arm c x mid n t)
  then show ?thesis using batch_ok_armMulti [OF ok, of c mid n t] by (simp add: arming_def)
next
  case (timer mid e)
  then show ?thesis using batch_ok_multiTimeout [OF ok] by simp
next
  case (leave c x ord)
  show ?thesis unfolding leave(2)
    by (rule batch_ok_same [OF ok]) (auto dest: arming_ws_exit)
qed (auto intro!: batch_ok_same [OF ok] simp: arming_def)

lemma batch_ok_reachable: "relay_reachable s \<Longrightarrow> fresh_ids s \<Longrightarrow> batch_ok s"
proof (induction rule: relay_reachable.induct)
  case (step s ev s')
  have "fresh_ids s" by (rule fresh_ids_step [OF step.hyps(2) step.prems])
  with batch_ok_step [OF _ _ step.hyps(2) step.prems] step ids_ok_reachable show ?case by blast
qed (simp add: batch_ok_def arming_def)

section \<open>Completion\<close>

lemma multi_handleExecuteMulti_None: "rs_multiPending (handleExecuteMulti c m s) M = None \<Longrightarrow> rs_multiPending s M = None"
  by (auto simp: handleExecuteMulti_def draw_id_def case_prod_beta Let_def split: if_splits)

lemma multi_ws_dispatch_None:
  assumes "m_type m \<noteq> ''result''" "rs_multiPending (ws_dispatch auth c m s) M = None"
  shows "rs_multiPending s M = None"
proof (cases "m_type m = ''execute_multi''")
  case True
  with assms(2) show ?thesis using multi_handleExecuteMulti_None [of c m s M] by (simp add: ws_dispatch_def)
next
  case False
  with assms show ?thesis by (auto simp: ws_dispatch_def Let_def split: if_splits prod.splits bool.splits)
qed

lemma new_frames_tell:
  "rs_rcs s1 = rs_rcs s \<Longrightarrow> wq_net (rs_rcs s c) = None \<Longrightarrow> new_frames s (tell c m s1) c = [Json m]"
  by (simp add: new_frames_def wire_tell)

definition batch_reply :: "multi_entry \<Rightarrow> (string \<rightharpoonup> message0) \<Rightarrow> message" where
  "batch_reply e results = empty_message\<lparr>m_type := ''multi_result'', m_id := me_clientID e, m_results := Some results\<rparr>"

lemma dom_fill_timeouts: "dom (fill_timeouts ord r) = dom r \<union> set ord"
  unfolding fill_timeouts_def by (induction ord arbitrary: r) (auto split: if_splits)

lemma fill_timeouts_keeps: "r t = Some x \<Longrightarrow> fill_timeouts ord r t = Some x"
  unfolding fill_timeouts_def
proof (induction ord arbitrary: r)
  case (Cons a ord)
  show ?case
  proof (cases "r a")
    case None
    then have "a \<noteq> t" using Cons.prems by auto
    with None show ?thesis by (simp add: Cons.IH Cons.prems)
  qed (simp add: Cons.IH Cons.prems)
qed simp

lemma complete_dom: "(\<And>t. t \<in> set ord \<Longrightarrow> r t \<noteq> None) \<Longrightarrow> dom (r |` set ord) = set ord"
  by (auto simp: restrict_map_def split: if_splits)

lemma result_completes:
  assumes "entry_ok s (st_multiID i) e" "rs_subToMulti s (m_id m) = Some i" "rs_multiPending s (st_multiID i) = Some e"
    and "me_timer e \<noteq> None" "me_remaining e \<le> 1" "t \<in> set (me_order e)"
  shows "((me_results e)(st_targetName i \<mapsto> x)) t \<noteq> None"
proof (cases "t = st_targetName i \<or> me_results e t \<noteq> None")
  case False
  then have "awaited s (st_multiID i) t" using assms(1,6) by (auto simp: entry_ok_def)
  then obtain k j where k: "rs_subToMulti s k = Some j" "st_multiID j = st_multiID i" "st_targetName j = t"
    unfolding awaited_def by blast
  then have ne: "k \<noteq> m_id m" using False assms(2) by auto
  have "{k, m_id m} \<subseteq> outstanding s (st_multiID i)" using k assms(2) by (auto simp: outstanding_def)
  from card_mono [OF _ this] assms(1) ne have "2 \<le> card (outstanding s (st_multiID i))" by (simp add: entry_ok_def)
  moreover have "int (card (outstanding s (st_multiID i))) \<le> 1" using assms(1,4,5) by (auto simp: entry_ok_def)
  ultimately show ?thesis by simp
qed auto

section \<open>Properties\<close>

text \<open>
  C12. A batch reports every target. When a batch that was armed (its timer runs) leaves the
  relay's table, by its last result or by its timer, the client that asked is sent one
  \<open>multi_result\<close> under its own id, whose results are keyed by exactly the targets it asked for.
\<close>

theorem armed_batch_reports_all:
  assumes "relay_reachable s" and "relay_step s ev s'" and "fresh_ids s'"
    and "rs_multiPending s M = Some e" and "me_timer e \<noteq> None" and "rs_multiPending s' M = None"
    and "\<And>c. ev \<noteq> Arm c" and "wq_net (rs_rcs s (me_clientConn e)) = None"
  shows "\<exists>results. new_frames s s' (me_clientConn e) = [Json (batch_reply e results)] \<and> dom results = set (me_order e)"
proof -
  have bo: "batch_ok s" by (rule batch_ok_reachable [OF assms(1) fresh_ids_step [OF assms(2,3)]])
  note eo = batch_okD [OF bo assms(4)]
  show ?thesis
    using assms(2)
  proof (cases rule: relay_step.cases)
    case (recv c x f)
    have "\<exists>m. f = Json m \<and> m_type m = ''result'' \<and> s' = handleResult m s"
    proof (cases rule: ws_frame_cases [of f "wc_authenticated x" c s])
      case (1 m)
      have "m_type m = ''result''"
        by (rule ccontr) (use multi_ws_dispatch_None [of m "wc_authenticated x" c s M] 1(2) recv(2) assms(4,6) in auto)
      with 1 recv(2) show ?thesis by (simp add: ws_dispatch_def)
    next
      case 2
      with recv(2) assms(4,6) show ?thesis by simp
    qed
    then obtain m where m: "s' = handleResult m s" by blast
    obtain i where i: "rs_subToMulti s (m_id m) = Some i" "st_multiID i = M" "me_remaining e \<le> 1"
      using assms(4,6) unfolding m by (auto simp: handleResult_def Let_def split: option.splits if_splits)
    let ?r = "(me_results e)(st_targetName i \<mapsto> message0.truncate m)"
    have "dom (?r |` set (me_order e)) = set (me_order e)"
      by (rule complete_dom, rule result_completes [of s i e m])
         (simp_all only: i eo assms(4,5) not_False_eq_True simp_thms)
    moreover have "new_frames s s' (me_clientConn e) = [Json (batch_reply e (?r |` set (me_order e)))]"
      using i assms(4,8) unfolding m
      by (simp add: handleResult_def sendMultiResult_def batch_reply_def new_frames_tell)
    ultimately show ?thesis by blast
  next
    case (timer mid e')
    have "mid = M" using assms(4,6) timer by (auto simp: multiTimeout_def split: if_splits)
    then have "new_frames s s' (me_clientConn e) =
        [Json (batch_reply e (fill_timeouts (me_order e) (me_results e) |` set (me_order e)))]"
      using assms(4,8) timer by (simp add: multiTimeout_def sendMultiResult_def batch_reply_def new_frames_tell)
    moreover have "dom (fill_timeouts (me_order e) (me_results e) |` set (me_order e)) = set (me_order e)"
      by (rule complete_dom) (use dom_fill_timeouts [of "me_order e" "me_results e"] in auto)
    ultimately show ?thesis by blast
  qed (use assms(4,6,7) in \<open>simp_all add: accept_conn_def\<close>)
qed

definition demo_batch :: message where
  "demo_batch = empty_message\<lparr>m_type := ''execute_multi'', m_id := ''b1'', m_cmd := ''ls'',
     m_targets := [''box'', ''gone''], m_tokens := [''box'' \<mapsto> ''tok'', ''gone'' \<mapsto> ''x'']\<rparr>"

definition demo_fanned :: relay_server where
  "demo_fanned = ws_frame True 1 (Json demo_batch) demo_relay"

abbreviation demo_M :: string where "demo_M \<equiv> newID demo_entropy 0"
abbreviation demo_k :: string where "demo_k \<equiv> newID demo_entropy 1"

definition demo_entry :: multi_entry where
  "demo_entry = \<lparr>me_clientConn = 1, me_clientID = ''b1'', me_results = [''gone'' \<mapsto> sub_error ''target not connected''],
     me_order = [''box'', ''gone''], me_remaining = 0, me_timer = None\<rparr>"

lemma demo_fanned_fields [simp]:
  "rs_multiPending demo_fanned = [demo_M \<mapsto> demo_entry]"
  "rs_subToMulti demo_fanned = [newID demo_entropy (Suc 0) \<mapsto> \<lparr>st_multiID = demo_M, st_targetName = ''box''\<rparr>]"
  "rs_ctxs demo_fanned (Suc 0) = Some \<lparr>wc_authenticated = True, wc_registered = False, wc_phase = ArmMulti demo_M 1 5\<rparr>"
  "wq_net (rs_rcs demo_fanned (Suc 0)) = None" "rs_draws demo_fanned = 2" "rs_entropy demo_fanned = demo_entropy"
  by (simp_all add: demo_fanned_def ws_frame_def ws_dispatch_def demo_batch_def handleExecuteMulti_def
      multi_target_def tokenEqual_def draw_id_def rc_send_eq set_phase_def set_ctx_def batch_timeout_def
      wrap64_def demo_entry_def empty_message_def)

definition demo_armed :: relay_server where
  "demo_armed = armMulti 1 demo_M 1 5 demo_fanned"

lemma demo_armed_fields [simp]:
  "rs_multiPending demo_armed demo_M = Some (demo_entry\<lparr>me_remaining := 1, me_timer := Some 5\<rparr>)"
  "wq_net (rs_rcs demo_armed (Suc 0)) = None" "rs_draws demo_armed = 2" "rs_entropy demo_armed = demo_entropy"
  by (simp_all add: demo_armed_def armMulti_def)

lemma demo_armed_reachable: "relay_reachable demo_armed"
proof -
  have "relay_step demo_relay (Recv 1 (Json demo_batch)) demo_fanned"
    by (rule recv_step) (auto simp: demo_fanned_def)
  moreover have "relay_step demo_fanned (Arm 1) demo_armed"
    unfolding demo_armed_def
    by (rule relay_step.arm [where x = "\<lparr>wc_authenticated = True, wc_registered = False, wc_phase = ArmMulti demo_M 1 5\<rparr>"]) simp_all
  ultimately show ?thesis using demo_reachable by (blast intro: relay_reachable.step)
qed

theorem armed_batch_reports_all_witness:
  "\<exists>results. new_frames demo_armed (multiTimeout demo_M demo_armed) 1 =
     [Json (batch_reply (demo_entry\<lparr>me_remaining := 1, me_timer := Some 5\<rparr>) results)] \<and> dom results = {''box'', ''gone''}"
proof -
  let ?e = "demo_entry\<lparr>me_remaining := 1, me_timer := Some 5\<rparr>"
  have c: "me_clientConn ?e = 1" "set (me_order ?e) = {''box'', ''gone''}" by (simp_all add: demo_entry_def)
  have "\<exists>results. new_frames demo_armed (multiTimeout demo_M demo_armed) (me_clientConn ?e) =
     [Json (batch_reply ?e results)] \<and> dom results = set (me_order ?e)"
    by (rule armed_batch_reports_all [where M = demo_M, OF demo_armed_reachable relay_step.timer [where e = ?e]])
       (simp_all add: fresh_ids_def fresh_demo_entropy c multiTimeout_def)
  then show ?thesis unfolding c .
qed

end
