(* ===== verification/RelayRace.thy ===== *)
theory RelayRace
  imports RelayScenario
begin

text \<open>
  Three places where a batch does not behave as its comments say: a result that arrives between
  the fan-out and the line that sets \<open>remaining\<close> completes the batch at once; a failed forward
  is counted as outstanding although it already has its result; and a batch without a timeout
  waits 5 seconds, not 35.
\<close>

section \<open>A result before the count is set\<close>

lemma early_result:
  assumes "rs_subToMulti s (m_id m) = Some i" "rs_multiPending s (st_multiID i) = Some e" "me_remaining e = 0"
  shows "handleResult m s = sendMultiResult (me_clientConn e) (me_clientID e)
      ((me_results e)(st_targetName i \<mapsto> message0.truncate m)) (me_order e)
      (s\<lparr>rs_subToMulti := (rs_subToMulti s)(m_id m := None), rs_multiPending := (rs_multiPending s)(st_multiID i := None)\<rparr>)"
  using assms by (simp add: handleResult_def)

text \<open>One daemon under two names, and a batch for both.\<close>

definition race_register :: message where
  "race_register = empty_message\<lparr>m_type := ''register'', m_name := ''box2'', m_token := ''tok''\<rparr>"

definition race_batch :: message where
  "race_batch = empty_message\<lparr>m_type := ''execute_multi'', m_id := ''b1'', m_cmd := ''ls'',
     m_targets := [''box'', ''box2''], m_tokens := [''box'' \<mapsto> ''tok'', ''box2'' \<mapsto> ''tok'']\<rparr>"

definition race_result :: message where
  "race_result = empty_message\<lparr>m_type := ''result'', m_id := newID demo_entropy 1, m_ok := Some True\<rparr>"

definition race_events :: "relay_event list" where
  "race_events = demo_events @ [Recv 0 (Json race_register), Recv 1 (Json race_batch), Recv 0 (Json race_result)]"

definition race_two :: relay_server where
  "race_two = ws_frame True 0 (Json race_register) demo_relay"

definition race_fanned :: relay_server where
  "race_fanned = ws_frame True 1 (Json race_batch) race_two"

definition race_done :: relay_server where
  "race_done = ws_frame True 0 (Json race_result) race_fanned"

lemma race_two_fields [simp]:
  "rs_clients race_two = [''box'' \<mapsto> 0, ''box2'' \<mapsto> 0]" "rs_multiPending race_two = Map.empty"
  "rs_subToMulti race_two = Map.empty" "rs_draws race_two = 0" "rs_entropy race_two = demo_entropy"
  "rc_token (rs_rcs race_two 0) = ''tok''" "wq_net (rs_rcs race_two d) = None" "rs_pending race_two = Map.empty"
  "rs_ctxs race_two = rs_ctxs demo_relay" "wire (rs_rcs race_two (Suc 0)) = []"
  by (auto simp: race_two_def ws_frame_def ws_dispatch_def race_register_def handleRegister_def set_ctx_def
      wire_tell fun_eq_iff)

lemma demo_ids_differ: "newID demo_entropy (Suc 0) \<noteq> newID demo_entropy 2" "newID demo_entropy 2 \<noteq> newID demo_entropy (Suc 0)"
  using newID_eq [OF fresh_demo_entropy [of 3], of 1 2] by simp_all

lemma race_fanned_fields [simp]:
  "rs_multiPending race_fanned = [newID demo_entropy 0 \<mapsto> \<lparr>me_clientConn = 1, me_clientID = ''b1'', me_results = Map.empty,
     me_order = [''box'', ''box2''], me_remaining = 0, me_timer = None\<rparr>]"
  "rs_subToMulti race_fanned = [newID demo_entropy 1 \<mapsto> \<lparr>st_multiID = newID demo_entropy 0, st_targetName = ''box''\<rparr>,
     newID demo_entropy 2 \<mapsto> \<lparr>st_multiID = newID demo_entropy 0, st_targetName = ''box2''\<rparr>]"
  "wq_net (rs_rcs race_fanned d) = None"
  by (simp_all add: race_fanned_def ws_frame_def ws_dispatch_def race_batch_def handleExecuteMulti_def
      multi_target_def tokenEqual_def draw_id_def rc_send_eq numeral_2_eq_2)

lemma race_fanned_ctx: "rs_ctxs race_fanned 0 = Some \<lparr>wc_authenticated = True, wc_registered = True, wc_phase = Reading\<rparr>"
  by (simp add: race_fanned_def ws_frame_def ws_dispatch_def race_batch_def handleExecuteMulti_def
      multi_target_def tokenEqual_def draw_id_def rc_send_eq set_phase_def set_ctx_def)

lemma race_run: "relay_run demo_start race_events race_done"
proof -
  have app: "relay_run s evs s1 \<Longrightarrow> relay_run s1 evs' s2 \<Longrightarrow> relay_run s (evs @ evs') s2" for s evs s1 evs' s2
    by (induction rule: relay_run.induct) (auto intro: relay_run.cons)
  have "relay_step demo_relay (Recv 0 (Json race_register)) race_two"
    by (rule recv_step) (auto simp: race_two_def)
  moreover have "relay_step race_two (Recv 1 (Json race_batch)) race_fanned"
    by (rule recv_step) (auto simp: race_fanned_def)
  moreover have "relay_step race_fanned (Recv 0 (Json race_result)) race_done"
    by (rule recv_step [OF race_fanned_ctx]) (simp_all add: race_done_def)
  ultimately have "relay_run demo_relay [Recv 0 (Json race_register), Recv 1 (Json race_batch), Recv 0 (Json race_result)] race_done"
    by (blast intro: relay_run.intros)
  from app [OF demo_run this] show ?thesis by (simp add: race_events_def)
qed

text \<open>
  The batch race. There is a run of the relay (a client sends a batch for two connected
  targets with valid tokens, and the first target's result arrives before the goroutine that
  fanned out the batch sets \<open>remaining\<close>) after which the client has been sent a
  \<open>multi_result\<close> without an entry for the second target, the batch is closed, and the second
  target's command is still outstanding.
\<close>

theorem batch_race_loses_target:
  "\<exists>evs s r R. relay_run demo_start evs s \<and> Json r \<in> set (wire (rs_rcs s 1)) \<and> m_type r = ''multi_result'' \<and>
     m_results r = Some R \<and> ''box'' \<in> dom R \<and> ''box2'' \<notin> dom R \<and> rs_multiPending s = Map.empty \<and>
     (\<exists>k i. rs_subToMulti s k = Some i \<and> st_targetName i = ''box2'')"
proof -
  let ?R = "[''box'' \<mapsto> message0.truncate race_result] |` {''box'', ''box2''}"
  let ?r = "empty_message\<lparr>m_type := ''multi_result'', m_id := ''b1'', m_results := Some ?R\<rparr>"
  have d: "race_done = handleResult race_result race_fanned"
    by (simp add: race_done_def ws_frame_def ws_dispatch_def race_result_def)
  have i: "m_id race_result = newID demo_entropy 1" by (simp add: race_result_def)
  have e: "handleResult race_result race_fanned = sendMultiResult 1 ''b1'' [''box'' \<mapsto> message0.truncate race_result] [''box'', ''box2'']
      (race_fanned\<lparr>rs_subToMulti := (rs_subToMulti race_fanned)(newID demo_entropy 1 := None), rs_multiPending := Map.empty\<rparr>)"
    using demo_ids_differ
    by (subst early_result [where i = "\<lparr>st_multiID = newID demo_entropy 0, st_targetName = ''box''\<rparr>" and
          e = "\<lparr>me_clientConn = 1, me_clientID = ''b1'', me_results = Map.empty,
     me_order = [''box'', ''box2''], me_remaining = 0, me_timer = None\<rparr>"]) (simp_all add: i)
  have w: "Json ?r \<in> set (wire (rs_rcs race_done 1))"
    unfolding d e by (simp add: sendMultiResult_def wire_tell)
  have s: "rs_subToMulti race_done (newID demo_entropy 2) = Some \<lparr>st_multiID = newID demo_entropy 0, st_targetName = ''box2''\<rparr>"
    and m: "rs_multiPending race_done = Map.empty"
    unfolding d e using demo_ids_differ by (simp_all add: sendMultiResult_def)
  have k: "\<exists>k i. rs_subToMulti race_done k = Some i \<and> st_targetName i = ''box2''"
    by (intro exI conjI, rule s) simp
  show ?thesis
    by (rule exI [of _ race_events], rule exI [of _ race_done], rule exI [of _ ?r], rule exI [of _ ?R])
       (use race_run w k m in \<open>auto simp: restrict_map_def\<close>)
qed

section \<open>A failed forward\<close>

text \<open>
  A target whose command cannot be forwarded is recorded with its error and counted as
  outstanding all the same: after a batch for one target whose connection fails to take the
  command, and after the batch was armed, its entry already holds the result, no sub-request is
  outstanding, and the entry still waits for one, so only the timer can answer the client.
\<close>

theorem failed_forward_waits_for_timer:
  assumes "rs_clients s t = Some d" and "m_tokens m t = Some (rc_token (rs_rcs s d))"
    and "wq_net (rs_rcs s d) = Some err" and "m_targets m = [t]" and "m_cmd m \<noteq> ''''"
    and "rs_subToMulti s = Map.empty"
  shows "let s1 = handleExecuteMulti c m s; s2 = armMulti c (newID (rs_entropy s) (rs_draws s)) 1 (batch_timeout (m_timeout m)) s1
    in rs_subToMulti s2 = Map.empty \<and>
       rs_multiPending s2 (newID (rs_entropy s) (rs_draws s)) = Some \<lparr>me_clientConn = c, me_clientID = m_id m,
         me_results = [t \<mapsto> sub_error (''forward failed: '' @ err)], me_order = [t], me_remaining = 1,
         me_timer = Some (batch_timeout (m_timeout m))\<rparr>"
  using assms
  by (simp add: handleExecuteMulti_def multi_target_def tokenEqual_def draw_id_def rc_send_eq armMulti_def)

theorem failed_forward_waits_for_timer_witness:
  "let s = upd_rc 0 (\<lambda>rc. rc\<lparr>wq_net := Some ''broken pipe''\<rparr>) demo_relay; m = race_batch\<lparr>m_targets := [''box'']\<rparr>;
     s1 = handleExecuteMulti 1 m s; s2 = armMulti 1 (newID (rs_entropy s) (rs_draws s)) 1 (batch_timeout (m_timeout m)) s1
   in rs_subToMulti s2 = Map.empty \<and>
       rs_multiPending s2 (newID (rs_entropy s) (rs_draws s)) = Some \<lparr>me_clientConn = 1, me_clientID = m_id m,
         me_results = [''box'' \<mapsto> sub_error (''forward failed: '' @ ''broken pipe'')], me_order = [''box''], me_remaining = 1,
         me_timer = Some (batch_timeout (m_timeout m))\<rparr>"
  unfolding Let_def
  by (rule failed_forward_waits_for_timer [of _ _ 0, unfolded Let_def]) (simp_all add: race_batch_def)

section \<open>The timer's duration\<close>

text \<open>
  The batch timer always runs, for a positive number of seconds: five more than the
  requested timeout when that is positive. A request that leaves the timeout at 0 gets
  5 seconds, so the fallback of 35 applies only to timeouts of -5 and below.
\<close>

theorem batch_timeout_values:
  assumes "go_int_range t"
  shows "0 < batch_timeout t \<and> (0 \<le> t \<and> t < 2 ^ 63 - 5 \<longrightarrow> batch_timeout t = t + 5) \<and> (t \<le> -5 \<longrightarrow> batch_timeout t = 35) \<and>
    batch_timeout 0 = 5"
proof -
  have w: "go_int_range (t + 5) \<Longrightarrow> wrap64 (t + 5) = t + 5" by (rule wrap64_id)
  have "batch_timeout 0 = 5" by (simp add: batch_timeout_def wrap64_def)
  moreover have "0 < batch_timeout t" by (simp add: batch_timeout_def Let_def)
  moreover have "0 \<le> t \<Longrightarrow> t < 2 ^ 63 - 5 \<Longrightarrow> batch_timeout t = t + 5"
    using w by (simp add: batch_timeout_def go_int_range_def Let_def)
  moreover have "t \<le> -5 \<Longrightarrow> batch_timeout t = 35"
    using w assms by (simp add: batch_timeout_def go_int_range_def Let_def)
  ultimately show ?thesis by blast
qed

theorem batch_timeout_values_witness: "batch_timeout 30 = 35 \<and> batch_timeout 0 = 5"
  using batch_timeout_values [of 30] by (simp add: go_int_range_def)

end
