(* ===== verification/RelayLifecycle.thy ===== *)
theory RelayLifecycle
  imports RelayAuth RelayScenario
begin

text \<open>
  Pairing codes, activation keys, tunnels, and what a leaving connection takes with it.
\<close>

lemma new_frames_same: "wire (rs_rcs s' d) = wire (rs_rcs s d) \<Longrightarrow> new_frames s s' d = []"
  by (simp add: new_frames_def)

lemma new_frames_write:
  "wire (rs_rcs s' d) = wire (rs_rcs s d) @ fs \<Longrightarrow> new_frames s s' d = fs"
  by (simp add: new_frames_def)

section \<open>Pairing\<close>

definition pair_done_msg :: "message \<Rightarrow> message" where
  "pair_done_msg m = empty_message\<lparr>m_type := ''pair_done'', m_code := m_code m, m_token := m_token m, m_hostname := m_hostname m\<rparr>"

definition pair_confirmed_msg :: "message \<Rightarrow> message" where
  "pair_confirmed_msg m = empty_message\<lparr>m_type := ''pair_confirmed'', m_code := m_code m\<rparr>"

definition pair_rejected_msg :: message where
  "pair_rejected_msg = error_msg ''pair rejected: activation key required but not provided or invalid''"

definition key_accepted :: "relay_server \<Rightarrow> message \<Rightarrow> pair_listener \<Rightarrow> bool" where
  "key_accepted s m l \<longleftrightarrow> pl_requireActivationKey l \<longrightarrow> fst (isValid (m_activation_key m) (rs_keyFile s) (rs_keys s))"

lemma isValid_empty [simp]: "isValid '''' f ks = (False, ks)"
  by (simp add: isValid_def)

lemma handlePair_accepts:
  assumes "m_code m \<noteq> ''''" "m_token m \<noteq> ''''" "rs_pairListeners s (m_code m) = Some l" "key_accepted s m l"
  shows "handlePair c m s = pair_accept c m l
    (s\<lparr>rs_pairListeners := (rs_pairListeners s)(m_code m := None),
       rs_keys := (if pl_requireActivationKey l then snd (isValid (m_activation_key m) (rs_keyFile s) (rs_keys s)) else rs_keys s)\<rparr>)"
  using assms by (auto simp: handlePair_def key_accepted_def Let_def split: prod.splits)

text \<open>
  A pairing code works once. A \<open>pair\<close> message with a code someone listens on, and an
  acceptable activation key when the listener requires one, sends the listener exactly the
  daemon's token and host name, sends the daemon the confirmation, and removes the code: the
  same message again, from anyone, changes nothing.
\<close>

theorem pair_code_works_once:
  assumes "m_code m \<noteq> ''''" and "m_token m \<noteq> ''''" and "rs_pairListeners s (m_code m) = Some l"
    and "key_accepted s m l" and "pl_conn l \<noteq> c" and "wq_net (rs_rcs s c) = None" and "wq_net (rs_rcs s (pl_conn l)) = None"
  shows "let s1 = handlePair c m s in
    new_frames s s1 (pl_conn l) = [Json (pair_done_msg m)] \<and> new_frames s s1 c = [Json (pair_confirmed_msg m)] \<and>
    (\<forall>d. d \<noteq> c \<longrightarrow> d \<noteq> pl_conn l \<longrightarrow> new_frames s s1 d = []) \<and> rs_pairListeners s1 = (rs_pairListeners s)(m_code m := None) \<and>
    handlePair c2 m s1 = s1"
proof -
  let ?s1 = "handlePair c m s"
  have w: "wire (rs_rcs ?s1 d) = wire (rs_rcs s d) @ (if d = pl_conn l then [Json (pair_done_msg m)] else []) @
      (if d = c then [Json (pair_confirmed_msg m)] else [])" for d
    unfolding handlePair_accepts [OF assms(1-4)]
    using assms(5-7) by (simp add: pair_accept_def wire_tell pair_done_msg_def pair_confirmed_msg_def)
  have l: "rs_pairListeners ?s1 = (rs_pairListeners s)(m_code m := None)"
    unfolding handlePair_accepts [OF assms(1-4)] by (simp add: pair_accept_def)
  have "handlePair c2 m ?s1 = ?s1" using assms(1,2) l by (simp add: handlePair_def)
  then show ?thesis using assms(5) l by (simp add: Let_def new_frames_write [OF w])
qed

definition demo_pair :: message where
  "demo_pair = empty_message\<lparr>m_type := ''pair'', m_code := ''4711'', m_token := ''t'', m_hostname := ''h''\<rparr>"

lemma demo_pair_fields: "m_code demo_pair = ''4711''" "m_token demo_pair = ''t''" "m_activation_key demo_pair = ''''"
  by (simp_all add: demo_pair_def empty_message_def)

definition demo_listening :: relay_server where
  "demo_listening = handlePairListen 1 (empty_message\<lparr>m_type := ''pair_listen'', m_code := ''4711''\<rparr>) demo_relay"

lemma demo_listening_fields [simp]:
  "rs_pairListeners demo_listening = [''4711'' \<mapsto> \<lparr>pl_conn = 1, pl_requireActivationKey = False\<rparr>]"
  "rs_rcs demo_listening = rs_rcs demo_relay"
  by (simp_all add: demo_listening_def handlePairListen_def empty_message_def)

theorem pair_code_works_once_witness:
  "let s1 = handlePair 0 demo_pair demo_listening in
    new_frames demo_listening s1 1 = [Json (pair_done_msg demo_pair)] \<and> new_frames demo_listening s1 0 = [Json (pair_confirmed_msg demo_pair)] \<and>
    (\<forall>d. d \<noteq> 0 \<longrightarrow> d \<noteq> 1 \<longrightarrow> new_frames demo_listening s1 d = []) \<and>
    rs_pairListeners s1 = (rs_pairListeners demo_listening)(m_code demo_pair := None) \<and> handlePair 7 demo_pair s1 = s1"
  using pair_code_works_once [of demo_pair demo_listening "\<lparr>pl_conn = 1, pl_requireActivationKey = False\<rparr>" 0 7]
  by (simp add: demo_pair_fields key_accepted_def)

text \<open>
  An unacceptable activation key reveals nothing and costs nothing: the listener gets no
  frame, the sender gets the rejection, and the code is listened on as before.
\<close>

theorem pair_without_key_is_rejected:
  assumes "m_code m \<noteq> ''''" and "m_token m \<noteq> ''''" and "rs_pairListeners s (m_code m) = Some l"
    and "\<not> key_accepted s m l" and "pl_conn l \<noteq> c" and "wq_net (rs_rcs s c) = None"
  shows "let s1 = handlePair c m s in
    new_frames s s1 (pl_conn l) = [] \<and> rs_pairListeners s1 = rs_pairListeners s \<and>
    new_frames s s1 c = [Json pair_rejected_msg]"
proof -
  define ks where "ks = snd (isValid (m_activation_key m) (rs_keyFile s) (rs_keys s))"
  have h: "handlePair c m s = (let s3 = tell c (error_msg ''pair rejected: activation key required but not provided or invalid'')
      (s\<lparr>rs_pairListeners := (rs_pairListeners s)(m_code m := None), rs_keys := ks\<rparr>)
    in s3\<lparr>rs_pairListeners := (rs_pairListeners s3)(m_code m \<mapsto> l)\<rparr>)"
    using assms(1-4) unfolding ks_def
    by (cases "m_activation_key m = ''''") (simp_all add: handlePair_def key_accepted_def case_prod_beta)
  have l: "rs_pairListeners (handlePair c m s) = rs_pairListeners s" using assms(3) by (simp add: h Let_def fun_upd_idem)
  have w: "wire (rs_rcs (handlePair c m s) d) = wire (rs_rcs s d) @
      (if d = c then [Json (error_msg ''pair rejected: activation key required but not provided or invalid'')] else [])" for d
    using assms(6) by (simp add: h wire_tell Let_def)
  show ?thesis using assms(5) l
    by (simp add: Let_def new_frames_write [OF w] pair_rejected_msg_def)
qed

theorem pair_without_key_is_rejected_witness:
  "let s = demo_listening\<lparr>rs_pairListeners := [''4711'' \<mapsto> \<lparr>pl_conn = 1, pl_requireActivationKey = True\<rparr>]\<rparr>; s1 = handlePair 0 demo_pair s in
    new_frames s s1 1 = [] \<and> rs_pairListeners s1 = rs_pairListeners s \<and>
    new_frames s s1 0 = [Json pair_rejected_msg]"
  using pair_without_key_is_rejected [of demo_pair "demo_listening\<lparr>rs_pairListeners := [''4711'' \<mapsto> \<lparr>pl_conn = 1, pl_requireActivationKey = True\<rparr>]\<rparr>"
      "\<lparr>pl_conn = 1, pl_requireActivationKey = True\<rparr>" 0]
  by (simp add: demo_pair_fields key_accepted_def)

section \<open>Leaving\<close>

text \<open>The tunnels a leaving connection closes, and whom it tells.\<close>

lemma drop_tunnels_tunnels:
  "rs_tunnels (fold (drop_tunnel c) ord s) tid =
     (if tid \<in> set ord then map_drop (\<lambda>ts. ts_clientConn ts = c \<or> ts_daemonConn ts = c) (rs_tunnels s) tid else rs_tunnels s tid)"
proof (induction ord arbitrary: s)
  case (Cons t ord)
  have 1: "rs_tunnels (drop_tunnel c t s) = (rs_tunnels s)(t := map_drop (\<lambda>ts. ts_clientConn ts = c \<or> ts_daemonConn ts = c) (rs_tunnels s) t)"
    by (auto simp: drop_tunnel_def map_drop_def fun_upd_idem split: option.split)
  show ?case by (auto simp: Cons.IH 1 map_drop_def split: option.split)
qed simp

definition touches :: "conn_id \<Rightarrow> tunnel_session \<Rightarrow> bool" where
  "touches c ts \<longleftrightarrow> ts_clientConn ts = c \<or> ts_daemonConn ts = c"

lemma map_drop_restrict: "set ord = dom m \<Longrightarrow> (\<lambda>k. if k \<in> set ord then map_drop P m k else m k) = map_drop P m"
  by (rule ext) (auto simp: map_drop_def split: option.split)



text \<open>
  A connection that never registered (every command-line client) leaves its entries behind:
  its pending requests, pairing codes and tunnels stay in the tables after it is gone, while
  every write to it fails from then on. So a \<open>pair\<close> message for the dead listener's code is
  consumed and confirmed to the daemon although nobody received the token.
\<close>

theorem unregistered_leaves_entries:
  assumes "relay_step s (Leave c ord) s'" and "rs_ctxs s c = Some x" and "\<not> wc_registered x"
    and "rs_pairListeners s code = Some \<lparr>pl_conn = c, pl_requireActivationKey = False\<rparr>"
    and "code \<noteq> ''''" and "m_code m = code" and "m_token m \<noteq> ''''" and "d \<noteq> c" and "wq_net (rs_rcs s d) = None"
  shows "rs_pending s' = rs_pending s \<and> rs_pairListeners s' = rs_pairListeners s \<and> rs_tunnels s' = rs_tunnels s \<and>
    new_frames s' (handlePair d m s') d = [Json (pair_confirmed_msg m)] \<and> new_frames s' (handlePair d m s') c = [] \<and>
    rs_pairListeners (handlePair d m s') code = None"
proof -
  from assms(1-3) have s': "s' = ws_exit c False ord s" by (auto elim!: leaveE)
  have tabs: "rs_pending s' = rs_pending s" "rs_pairListeners s' = rs_pairListeners s" "rs_tunnels s' = rs_tunnels s"
    by (simp_all add: s' ws_exit_def)
  have net: "wq_net (rs_rcs s' c) \<noteq> None" "wq_net (rs_rcs s' d) = None"
    using assms(8,9) by (auto simp: s' ws_exit_def)
  have acc: "handlePair d m s' = pair_accept d m \<lparr>pl_conn = c, pl_requireActivationKey = False\<rparr>
      (s'\<lparr>rs_pairListeners := (rs_pairListeners s')(code := None)\<rparr>)"
    using assms(4-7) tabs(2) by (simp add: handlePair_def)
  have w: "wire (rs_rcs (handlePair d m s') e) = wire (rs_rcs s' e) @ (if e = d then [Json (pair_confirmed_msg m)] else [])" for e
    unfolding acc using net assms(8) by (auto simp: pair_accept_def wire_tell pair_confirmed_msg_def)
  show ?thesis using tabs assms(8) by (simp add: new_frames_write [OF w]) (simp add: acc pair_accept_def)
qed

theorem unregistered_leaves_entries_witness:
  "\<exists>s'. relay_step demo_listening (Leave 1 []) s' \<and> new_frames s' (handlePair 0 demo_pair s') 0 = [Json (pair_confirmed_msg demo_pair)] \<and>
     new_frames s' (handlePair 0 demo_pair s') 1 = []"
proof -
  have "rs_ctxs demo_listening = rs_ctxs demo_relay" "rs_tunnels demo_listening = Map.empty"
    by (simp_all add: demo_listening_def)
  then have st: "relay_step demo_listening (Leave 1 []) (ws_exit 1 False [] demo_listening)"
    using relay_step.leave [of demo_listening 1 "\<lparr>wc_authenticated = True, wc_registered = False, wc_phase = Reading\<rparr>" "[]"] by simp
  have x: "rs_ctxs demo_listening 1 = Some \<lparr>wc_authenticated = True, wc_registered = False, wc_phase = Reading\<rparr>"
    by (simp add: demo_listening_def)
  show ?thesis
    using unregistered_leaves_entries [OF st x, of "''4711''" demo_pair 0] st by (auto simp: demo_pair_fields)
qed

section \<open>Tunnels\<close>

text \<open>
  Tunnel data goes to the other end and to nobody else. For a session between two distinct
  connections, what one end sends reaches the other end unchanged and no third connection;
  closing it from one end tells the other and forgets the session.
\<close>

theorem tunnel_other_end:
  assumes "rs_tunnels s (m_tunnel_id m) = Some ts" and "ts_clientConn ts \<noteq> ts_daemonConn ts"
    and "{a, b} = {ts_clientConn ts, ts_daemonConn ts}" and "a \<noteq> b" and "wq_net (rs_rcs s b) = None"
  shows "new_frames s (handleTunnelRelay a m s) d = (if d = b then [Json m] else []) \<and>
    new_frames s (handleTunnelClose a m s) d = (if d = b then [Json (tunnel_close_msg (m_tunnel_id m))] else []) \<and>
    rs_tunnels (handleTunnelClose a m s) = (rs_tunnels s)(m_tunnel_id m := None)"
proof -
  have o: "other_end a ts = b" using assms(2-4) by (auto simp: other_end_def doubleton_eq_iff)
  have "wire (rs_rcs (handleTunnelRelay a m s) d) = wire (rs_rcs s d) @ (if d = b then [Json m] else [])"
    using assms(1,5) o by (simp add: handleTunnelRelay_def wire_tell)
  moreover have "wire (rs_rcs (handleTunnelClose a m s) d) = wire (rs_rcs s d) @ (if d = b then [Json (tunnel_close_msg (m_tunnel_id m))] else [])"
    using assms(1,5) o by (simp add: handleTunnelClose_def wire_tell)
  ultimately show ?thesis
    using assms(1) by (simp add: new_frames_write handleTunnelClose_def)
qed

theorem tunnel_other_end_witness:
  "let s = demo_relay\<lparr>rs_tunnels := [''t1'' \<mapsto> \<lparr>ts_clientConn = 1, ts_daemonConn = 0\<rparr>]\<rparr>;
       m = empty_message\<lparr>m_type := ''tunnel_data'', m_tunnel_id := ''t1'', m_data := ''aGk=''\<rparr>
   in new_frames s (handleTunnelRelay 1 m s) 0 = [Json m]"
  using tunnel_other_end [of "demo_relay\<lparr>rs_tunnels := [''t1'' \<mapsto> \<lparr>ts_clientConn = 1, ts_daemonConn = 0\<rparr>]\<rparr>"
      "empty_message\<lparr>m_type := ''tunnel_data'', m_tunnel_id := ''t1'', m_data := ''aGk=''\<rparr>"
      "\<lparr>ts_clientConn = 1, ts_daemonConn = 0\<rparr>" 1 0 0]
  by simp

text \<open>
  The sender of tunnel data is not checked: what a third connection sends under the identifier of a
  session goes to the client's end, and it can close the session, even one that never authenticated.
\<close>

lemma tunnel_accepts_strangers:
  assumes "rs_tunnels s (m_tunnel_id m) = Some ts" and "c \<noteq> ts_clientConn ts" and "wq_net (rs_rcs s (ts_clientConn ts)) = None"
    and "m_type m = ''tunnel_data''"
  shows "new_frames s (ws_frame a c (Json m) s) (ts_clientConn ts) = [Json m]"
    "rs_tunnels (ws_frame a c (Json (m\<lparr>m_type := ''tunnel_close''\<rparr>)) s) (m_tunnel_id m) = None"
proof -
  have o: "other_end c ts = ts_clientConn ts" using assms(2) by (auto simp: other_end_def)
  have "ws_frame a c (Json m) s = handleTunnelRelay c m s"
    using assms(4) by (simp add: ws_frame_def ws_dispatch_def clientOnlyMessages_def)
  moreover have "wire (rs_rcs (handleTunnelRelay c m s) d) = wire (rs_rcs s d) @ (if d = ts_clientConn ts then [Json m] else [])" for d
    using assms(1,3) o by (simp add: handleTunnelRelay_def wire_tell)
  ultimately show "new_frames s (ws_frame a c (Json m) s) (ts_clientConn ts) = [Json m]" by (simp add: new_frames_write)
  show "rs_tunnels (ws_frame a c (Json (m\<lparr>m_type := ''tunnel_close''\<rparr>)) s) (m_tunnel_id m) = None"
    using assms(1) by (simp add: ws_frame_def ws_dispatch_def clientOnlyMessages_def handleTunnelClose_def)
qed

end
