(* ===== verification/Base64.thy ===== *)
theory Base64
  imports Codecs
begin

text \<open>
  Base64 as \<open>base64.StdEncoding\<close> of the Go library does it: file contents in the buffered
  transfer and in legacy chunks, and the data of tunnels. The decoder ignores carriage returns
  and line feeds, requires the padding, and ignores the unused low bits before it.
\<close>

section \<open>The alphabet\<close>

definition b64_char :: "nat \<Rightarrow> char" where
  "b64_char n = char_of (if n < 26 then 65 + n else if n < 52 then 71 + n else if n < 62 then n - 4
     else if n = 62 then 43 else (47 :: nat))"

definition b64_val :: "char \<Rightarrow> nat option" where
  "b64_val c = (let n = (of_char c :: nat)
     in if 65 \<le> n \<and> n \<le> 90 then Some (n - 65) else if 97 \<le> n \<and> n \<le> 122 then Some (n - 71)
        else if 48 \<le> n \<and> n \<le> 57 then Some (n + 4) else if n = 43 then Some 62 else if n = 47 then Some 63 else None)"

lemma b64_val_char [simp]: "n < 64 \<Longrightarrow> b64_val (b64_char n) = Some n"
  by (auto simp: b64_val_def b64_char_def Let_def of_char_of take_bit_nat_eq_self)

lemma b64_char_plain: "n < 64 \<Longrightarrow> b64_char n \<noteq> CHR ''='' \<and> b64_char n \<noteq> CHR 0x0D \<and> b64_char n \<noteq> CHR 0x0A"
proof -
  assume n: "n < 64"
  have "b64_val (b64_char n) = Some n" using n by simp
  moreover have "b64_val CHR ''='' = None" "b64_val CHR 0x0D = None" "b64_val CHR 0x0A = None"
    by (simp_all add: b64_val_def)
  ultimately show ?thesis by (metis option.distinct(1))
qed

section \<open>Encoding and decoding\<close>

definition b64_quad :: "nat \<Rightarrow> string" where
  "b64_quad v = [b64_char (v div 2 ^ 18), b64_char (v div 2 ^ 12 mod 64), b64_char (v div 2 ^ 6 mod 64), b64_char (v mod 64)]"

definition triple_val :: "byte \<Rightarrow> byte \<Rightarrow> byte \<Rightarrow> nat" where
  "triple_val a b c = unat a * 2 ^ 16 + unat b * 2 ^ 8 + unat c"

fun b64_enc :: "bytes \<Rightarrow> string" where
  "b64_enc [] = []"
| "b64_enc [a] = take 2 (b64_quad (triple_val a 0 0)) @ ''==''"
| "b64_enc [a, b] = take 3 (b64_quad (triple_val a b 0)) @ ''=''"
| "b64_enc (a # b # c # bs) = b64_quad (triple_val a b c) @ b64_enc bs"

definition quad_bytes :: "nat \<Rightarrow> bytes" where
  "quad_bytes v = [word_of_nat (v div 2 ^ 16), word_of_nat (v div 2 ^ 8), word_of_nat v]"

definition quad_val :: "nat \<Rightarrow> nat \<Rightarrow> nat \<Rightarrow> nat \<Rightarrow> nat" where
  "quad_val p q r s = p * 2 ^ 18 + q * 2 ^ 12 + r * 2 ^ 6 + s"

fun b64_groups :: "string \<Rightarrow> bytes option" where
  "b64_groups [] = Some []"
| "b64_groups (w # x # y # z # cs) =
     (case (b64_val w, b64_val x) of
        (Some p, Some q) \<Rightarrow>
          (case (b64_val y, b64_val z) of
             (Some r, Some s) \<Rightarrow> map_option (\<lambda>bs. quad_bytes (quad_val p q r s) @ bs) (b64_groups cs)
           | (Some r, None) \<Rightarrow> if z = CHR ''='' \<and> cs = [] then Some (take 2 (quad_bytes (quad_val p q r 0))) else None
           | (None, _) \<Rightarrow> if y = CHR ''='' \<and> z = CHR ''='' \<and> cs = [] then Some (take 1 (quad_bytes (quad_val p q 0 0))) else None)
      | _ \<Rightarrow> None)"
| "b64_groups _ = None"

definition b64_dec :: "string \<Rightarrow> bytes option" where
  "b64_dec s = b64_groups (filter (\<lambda>c. c \<noteq> CHR 0x0D \<and> c \<noteq> CHR 0x0A) s)"

section \<open>Round trip\<close>

lemma unat_byte_le: "unat (b :: byte) \<le> 255"
  using unat_byte_lt [of b] by linarith

lemma triple_val_lt: "triple_val a b c < 2 ^ 24"
  using unat_byte_le [of a] unat_byte_le [of b] unat_byte_le [of c] by (simp add: triple_val_def)

lemma quad_val_split: "(v :: nat) < 2 ^ 24 \<Longrightarrow> quad_val (v div 2 ^ 18) (v div 2 ^ 12 mod 64) (v div 2 ^ 6 mod 64) (v mod 64) = v"
proof -
  define p where "p = v div 2 ^ 6"
  define q where "q = v div 2 ^ 12"
  define r where "r = v div 2 ^ 18"
  have q: "q = p div 64" and r: "r = q div 64"
    by (simp_all add: p_def q_def r_def div_mult2_eq [symmetric])
  have "v = 64 * p + v mod 64" by (simp add: p_def)
  moreover have "p = 64 * q + p mod 64" and "q = 64 * r + q mod 64" unfolding q r by simp_all
  ultimately have "r * 2 ^ 18 + q mod 64 * 2 ^ 12 + p mod 64 * 2 ^ 6 + v mod 64 = v" by simp
  then show ?thesis by (simp add: quad_val_def p_def q_def r_def)
qed

lemma byte_eqI: "n mod 256 = unat b \<Longrightarrow> (word_of_nat n :: byte) = b"
  by (simp add: word_unat_eq_iff unat_of_nat_byte)

lemma quad_bytes_triple [simp]: "quad_bytes (triple_val a b c) = [a, b, c]"
proof -
  have b: "unat b * 256 + unat c < 65536" using unat_byte_le [of b] unat_byte_le [of c] by simp
  have "triple_val a b c div 2 ^ 16 = unat a"
    using b by (simp add: triple_val_def)
  moreover have "triple_val a b c div 2 ^ 8 = unat a * 256 + unat b"
  proof -
    define x where "x = unat a * 256 + unat b"
    have "triple_val a b c = 256 * x + unat c" by (simp add: triple_val_def x_def)
    then have "triple_val a b c div 2 ^ 8 = x" using unat_byte_le [of c] by simp
    then show ?thesis by (simp add: x_def)
  qed
  moreover have "(unat a * 256 + unat b) mod 256 = unat b" "triple_val a b c mod 256 = unat c"
    using unat_byte_le [of b] unat_byte_le [of c] by (simp_all add: triple_val_def mod_add_eq [symmetric])
  ultimately show ?thesis
    using byte_eqI [of "unat a * 256 + unat b" b] byte_eqI [of "triple_val a b c" c] by (simp add: quad_bytes_def)
qed

lemma b64_quad_vals:
  "(v :: nat) < 2 ^ 24 \<Longrightarrow> v div 2 ^ 18 < 64 \<and> v div 2 ^ 12 mod 64 < 64 \<and> v div 2 ^ 6 mod 64 < 64 \<and> v mod 64 < 64"
  by (simp add: less_mult_imp_div_less)

lemma filter_b64_quad: "v < 2 ^ 24 \<Longrightarrow> filter (\<lambda>c. c \<noteq> CHR 0x0D \<and> c \<noteq> CHR 0x0A) (b64_quad v) = b64_quad v"
  using b64_quad_vals [of v] b64_char_plain [of "v div 2 ^ 18"] b64_char_plain [of "v div 2 ^ 12 mod 64"]
    b64_char_plain [of "v div 2 ^ 6 mod 64"] b64_char_plain [of "v mod 64"]
  by (simp add: b64_quad_def)

lemma filter_take: "filter P xs = xs \<Longrightarrow> filter P (take n xs) = take n xs"
  by (metis filter_id_conv in_set_takeD)

lemma filter_b64_enc: "filter (\<lambda>c. c \<noteq> CHR 0x0D \<and> c \<noteq> CHR 0x0A) (b64_enc bs) = b64_enc bs"
proof (induction bs rule: b64_enc.induct)
  case (2 a)
  show ?case using filter_take [OF filter_b64_quad [OF triple_val_lt [of a 0 0]], of 2] by simp
next
  case (3 a b)
  show ?case using filter_take [OF filter_b64_quad [OF triple_val_lt [of a b 0]], of 3] by simp
next
  case (4 a b c bs)
  then show ?case using filter_b64_quad [OF triple_val_lt [of a b c]] by simp
qed simp

lemma groups_quad:
  "b64_groups (b64_quad (triple_val a b c) @ cs) = map_option (\<lambda>bs. a # b # c # bs) (b64_groups cs)"
  using b64_quad_vals [OF triple_val_lt [of a b c]] quad_val_split [OF triple_val_lt [of a b c]]
  by (cases "b64_groups cs") (simp_all add: b64_quad_def)

lemma triple_low: "triple_val a b 0 mod 64 = 0" "triple_val a 0 0 div 2 ^ 6 mod 64 = 0"
proof -
  have "triple_val a b 0 = 64 * (unat a * 1024 + unat b * 4)" by (simp add: triple_val_def)
  then show "triple_val a b 0 mod 64 = 0" by simp
  have "triple_val a 0 0 div 2 ^ 6 = 64 * (unat a * 16)" by (simp add: triple_val_def)
  then show "triple_val a 0 0 div 2 ^ 6 mod 64 = 0" by simp
qed

lemma b64_val_eq [simp]: "b64_val CHR ''='' = None"
  by (simp add: b64_val_def)

lemma groups_pad2:
  "p < 64 \<Longrightarrow> q < 64 \<Longrightarrow> b64_groups [b64_char p, b64_char q, CHR ''='', CHR ''=''] = Some (take 1 (quad_bytes (quad_val p q 0 0)))"
  by simp

lemma groups_pad1:
  "p < 64 \<Longrightarrow> q < 64 \<Longrightarrow> r < 64 \<Longrightarrow>
   b64_groups [b64_char p, b64_char q, b64_char r, CHR ''=''] = Some (take 2 (quad_bytes (quad_val p q r 0)))"
  by simp

lemma b64_groups_enc: "b64_groups (b64_enc bs) = Some bs"
proof (induction bs rule: b64_enc.induct)
  case (2 a)
  let ?v = "triple_val a 0 0"
  have e: "b64_enc [a] = [b64_char (?v div 2 ^ 18), b64_char (?v div 2 ^ 12 mod 64), CHR ''='', CHR ''='']"
    by (simp add: b64_quad_def)
  have q: "quad_val (?v div 2 ^ 18) (?v div 2 ^ 12 mod 64) 0 0 = ?v"
    using quad_val_split [OF triple_val_lt [of a 0 0]] by (simp only: triple_low)
  have b: "?v div 2 ^ 18 < 64" "?v div 2 ^ 12 mod 64 < 64" using b64_quad_vals [OF triple_val_lt [of a 0 0]] by blast+
  show ?case unfolding e groups_pad2 [OF b] q by simp
next
  case (3 a b)
  let ?v = "triple_val a b 0"
  have e: "b64_enc [a, b] = [b64_char (?v div 2 ^ 18), b64_char (?v div 2 ^ 12 mod 64), b64_char (?v div 2 ^ 6 mod 64), CHR ''='']"
    by (simp add: b64_quad_def)
  have q: "quad_val (?v div 2 ^ 18) (?v div 2 ^ 12 mod 64) (?v div 2 ^ 6 mod 64) 0 = ?v"
    using quad_val_split [OF triple_val_lt [of a b 0]] by (simp only: triple_low)
  have b: "?v div 2 ^ 18 < 64" "?v div 2 ^ 12 mod 64 < 64" "?v div 2 ^ 6 mod 64 < 64"
    using b64_quad_vals [OF triple_val_lt [of a b 0]] by blast+
  show ?case unfolding e groups_pad1 [OF b] q by simp
qed (simp_all add: groups_quad)

lemma b64_dec_enc: "b64_dec (b64_enc bs) = Some bs"
  by (simp add: b64_dec_def filter_b64_enc b64_groups_enc)

interpretation base64: codec b64_enc b64_dec "\<lambda>_. True"
  by unfold_locales (rule b64_dec_enc)

end
