(* ===== verification/Reassembly.thy ===== *)
theory Reassembly
  imports Protocol Base64
begin

text \<open>
  The receiving side of a file transfer (daemon_filetransfer.go): buffered transfers, the
  reassembly of chunked ones, writing at an offset for parallel streams, and unpacking of tar
  archives.

  The structs \<open>fileReassembly\<close> are reached through pointers (from the map \<open>reassembly\<close> and
  from \<open>pendingBinaryChunk\<close>) and several of them may share one \<open>*os.File\<close>, so both live in
  stores: \<open>td_objs\<close> from object addresses and \<open>td_handles\<close> from handle numbers. The file
  system maps a path to the bytes of the file; two handles on one path see the same bytes.

  What the operating system and \<open>compress/gzip\<close>, \<open>archive/tar\<close> report is the record
  \<open>os_env\<close>: errors of each call, how far a failing write came, and what a compressed chunk or
  an archive decodes to. Everything runs on the daemon's one read loop; the buffered transfer
  is started by it on a goroutine of its own, as one step.
\<close>

section \<open>The environment\<close>

datatype gunzip_result = GzBadHeader string | GzBadBody string | GzOk bytes

datatype tar_kind = TarReg | TarDir | TarSymlink | TarLink | TarOther

record tar_entry =
  te_name :: string
  te_kind :: tar_kind
  te_data :: bytes
  te_error :: "string option" \<comment> \<open>the archive breaks off inside this entry\<close>

record os_env =
  os_create :: "string \<Rightarrow> string option" \<comment> \<open>\<open>os.Create\<close>\<close>
  os_write :: "string \<Rightarrow> nat \<Rightarrow> bytes \<Rightarrow> nat option" \<comment> \<open>a write that fails after that many bytes\<close>
  os_writeFile :: "string \<Rightarrow> string option"
  os_mkdirAll :: "string \<Rightarrow> string option"
  os_openFile :: "string \<Rightarrow> string option"
  os_gunzip :: "bytes \<Rightarrow> gunzip_result"
  os_untar :: "bytes \<Rightarrow> tar_entry list \<times> string option" \<comment> \<open>entries, then an error of \<open>tr.Next\<close>\<close>
  os_b64_error :: "string \<Rightarrow> string" \<comment> \<open>the text of a base64 decoding error\<close>
  os_version :: string

section \<open>State\<close>

record file_handle =
  fh_path :: string
  fh_pos :: nat
  fh_open :: bool

record file_reassembly =
  fr_mode :: string
  fr_src :: string
  fr_dst :: string
  fr_buf :: bytes
  fr_id :: string
  fr_seq :: int
  fr_final :: bool
  fr_fileWriter :: "nat option"
  fr_compressed :: bool
  fr_chunkSizeBytes :: int
  fr_parallel :: bool
  fr_totalChunks :: int

record transfers =
  td_fs :: "string \<rightharpoonup> bytes"
  td_handles :: "nat \<Rightarrow> file_handle"
  td_nextHandle :: nat
  td_objs :: "nat \<Rightarrow> file_reassembly"
  td_nextObj :: nat
  td_reassembly :: "string \<rightharpoonup> nat"
  td_pendingBinaryChunk :: "nat option"
  td_sent :: "message list"

definition td_send :: "message \<Rightarrow> transfers \<Rightarrow> transfers" where
  "td_send m s = s\<lparr>td_sent := td_sent s @ [m]\<rparr>"

definition upd_obj :: "nat \<Rightarrow> (file_reassembly \<Rightarrow> file_reassembly) \<Rightarrow> transfers \<Rightarrow> transfers" where
  "upd_obj r f s = s\<lparr>td_objs := (td_objs s)(r := f (td_objs s r))\<rparr>"

definition upd_handle :: "nat \<Rightarrow> (file_handle \<Rightarrow> file_handle) \<Rightarrow> transfers \<Rightarrow> transfers" where
  "upd_handle h f s = s\<lparr>td_handles := (td_handles s)(h := f (td_handles s h))\<rparr>"

definition transfer_ok :: "os_env \<Rightarrow> string \<Rightarrow> message" where
  "transfer_ok env tid = stampVersion (os_version env)
     (empty_message\<lparr>m_type := ''file_transfer_result'', m_id := tid, m_ok := Some True\<rparr>)"

definition transfer_err :: "os_env \<Rightarrow> string \<Rightarrow> string \<Rightarrow> message" where
  "transfer_err env tid e = stampVersion (os_version env)
     (empty_message\<lparr>m_type := ''file_transfer_result'', m_id := tid, m_ok := Some False, m_error := e\<rparr>)"

section \<open>Files\<close>

text \<open>\<open>write(2)\<close> at an offset: a gap reads as zeros.\<close>

definition write_at :: "nat \<Rightarrow> bytes \<Rightarrow> bytes \<Rightarrow> bytes" where
  "write_at pos data old = take pos (old @ replicate (pos - length old) 0) @ data @ drop (pos + length data) old"

definition file_bytes :: "string \<Rightarrow> transfers \<Rightarrow> bytes" where
  "file_bytes p s = (case td_fs s p of None \<Rightarrow> [] | Some c \<Rightarrow> c)"

text \<open>\<open>f.Write\<close>: \<open>False\<close> is an error, of the disk or of a closed file.\<close>

definition handle_write :: "os_env \<Rightarrow> nat \<Rightarrow> bytes \<Rightarrow> transfers \<Rightarrow> bool \<times> transfers" where
  "handle_write env h data s =
     (let f = td_handles s h
      in if \<not> fh_open f then (False, s)
         else
           (let (ok, d) = (case os_write env (fh_path f) (fh_pos f) data of
                 None \<Rightarrow> (True, data) | Some k \<Rightarrow> (False, take k data))
            in (ok, upd_handle h (\<lambda>f. f\<lparr>fh_pos := fh_pos f + length d\<rparr>)
                 (s\<lparr>td_fs := (td_fs s)(fh_path f \<mapsto> write_at (fh_pos f) d (file_bytes (fh_path f) s))\<rparr>))))"

text \<open>\<open>f.Seek(offset, 0)\<close>: an error on a negative offset or a closed file.\<close>

definition handle_seek :: "nat \<Rightarrow> int \<Rightarrow> transfers \<Rightarrow> bool \<times> transfers" where
  "handle_seek h offset s =
     (if offset < 0 \<or> \<not> fh_open (td_handles s h) then (False, s)
      else (True, upd_handle h (\<lambda>f. f\<lparr>fh_pos := nat offset\<rparr>) s))"

text \<open>\<open>os.Create\<close>: truncates the file and opens it at its start.\<close>

definition create_file :: "string \<Rightarrow> transfers \<Rightarrow> nat \<times> transfers" where
  "create_file p s =
     (td_nextHandle s,
      s\<lparr>td_fs := (td_fs s)(p \<mapsto> []), td_nextHandle := Suc (td_nextHandle s),
        td_handles := (td_handles s)(td_nextHandle s := \<lparr>fh_path = p, fh_pos = 0, fh_open = True\<rparr>)\<rparr>)"

text \<open>\<open>f.Truncate\<close> on a file opened for writing.\<close>

definition truncate_file :: "string \<Rightarrow> nat \<Rightarrow> transfers \<Rightarrow> transfers" where
  "truncate_file p n s = s\<lparr>td_fs := (td_fs s)(p \<mapsto> take n (file_bytes p s) @ replicate (n - length (file_bytes p s)) 0)\<rparr>"

section \<open>Tar archives\<close>

text \<open>\<open>filepath.Clean\<close> and \<open>filepath.Join\<close> on Unix: empty segments and \<open>.\<close> disappear, \<open>..\<close>
  removes the segment before it, and at the root it disappears.\<close>

fun clean_segments :: "bool \<Rightarrow> string list \<Rightarrow> string list \<Rightarrow> string list" where
  "clean_segments rooted out [] = rev out"
| "clean_segments rooted out (g # gs) =
     (if g = '''' \<or> g = ''.'' then clean_segments rooted out gs
      else if g = ''..'' then
        (case out of
           [] \<Rightarrow> clean_segments rooted (if rooted then [] else [''..'']) gs
         | t # ts \<Rightarrow> if t = ''..'' then clean_segments rooted (''..'' # out) gs else clean_segments rooted ts gs)
      else clean_segments rooted (g # out) gs)"

definition path_clean :: "string \<Rightarrow> string" where
  "path_clean p =
     (let rooted = has_prefix p ''/''; segs = clean_segments rooted [] (go_split (CHR ''/'') p)
      in if rooted then ''/'' @ go_join ''/'' segs
         else if segs = [] then ''.'' else go_join ''/'' segs)"

definition path_join :: "string \<Rightarrow> string \<Rightarrow> string" where
  "path_join a b =
     (if a = '''' \<and> b = '''' then '''' else if a = '''' then path_clean b
      else if b = '''' then path_clean a else path_clean (a @ ''/'' @ b))"

definition path_dir :: "string \<Rightarrow> string" where
  "path_dir p = path_clean (rev (dropWhile (\<lambda>c. c \<noteq> CHR ''/'') (rev p)))"

type_synonym fs = "string \<rightharpoonup> bytes"

text \<open>The body of a regular file is written over what the file held before: the flags are
  \<open>O_CREATE|O_WRONLY\<close>.\<close>

definition extract_regular :: "os_env \<Rightarrow> string \<Rightarrow> tar_entry \<Rightarrow> fs \<Rightarrow> string option \<times> fs" where
  "extract_regular env path e fs =
     (case os_mkdirAll env (path_dir path) of Some err \<Rightarrow> (Some err, fs)
      | None \<Rightarrow> (case os_openFile env path of Some err \<Rightarrow> (Some err, fs)
        | None \<Rightarrow>
            (let old = (case fs path of None \<Rightarrow> [] | Some c \<Rightarrow> c);
                 d = (case os_write env path 0 (te_data e) of None \<Rightarrow> te_data e | Some k \<Rightarrow> take k (te_data e));
                 fs' = fs(path \<mapsto> write_at 0 d old)
             in (case os_write env path 0 (te_data e) of
                   Some _ \<Rightarrow> (Some ''write error'', fs')
                 | None \<Rightarrow> (te_error e, fs')))))"

fun extract_entries :: "os_env \<Rightarrow> string \<Rightarrow> tar_entry list \<Rightarrow> string option \<Rightarrow> fs \<Rightarrow> string option \<times> fs" where
  "extract_entries env dst [] end_err fs = (end_err, fs)"
| "extract_entries env dst (e # es) end_err fs =
     (let path = path_join dst (te_name e)
      in case te_kind e of
           TarSymlink \<Rightarrow> extract_entries env dst es end_err fs
         | TarLink \<Rightarrow> extract_entries env dst es end_err fs
         | TarDir \<Rightarrow>
             (case os_mkdirAll env path of Some err \<Rightarrow> (Some err, fs) | None \<Rightarrow> extract_entries env dst es end_err fs)
         | TarReg \<Rightarrow>
             (case extract_regular env path e fs of
                (Some err, fs') \<Rightarrow> (Some err, fs')
              | (None, fs') \<Rightarrow> extract_entries env dst es end_err fs')
         | TarOther \<Rightarrow> extract_entries env dst es end_err fs)"

definition extractTarArchive :: "os_env \<Rightarrow> bytes \<Rightarrow> string \<Rightarrow> fs \<Rightarrow> string option \<times> fs" where
  "extractTarArchive env data dst fs = (case os_untar env data of (es, err) \<Rightarrow> extract_entries env dst es err fs)"

section \<open>Buffered transfers\<close>

text \<open>\<open>writeTransfer\<close> for a mode, destination and payload; the result is the error text.\<close>

definition write_payload :: "os_env \<Rightarrow> string \<Rightarrow> string \<Rightarrow> bytes \<Rightarrow> fs \<Rightarrow> string option \<times> fs" where
  "write_payload env mode dst data fs =
     (if mode = ''scp'' then
        (case os_writeFile env dst of
           Some e \<Rightarrow> (Some (''failed to write file: '' @ e), fs)
         | None \<Rightarrow> (None, fs(dst \<mapsto> data)))
      else if mode = ''rsync'' then
        (case os_mkdirAll env dst of
           Some e \<Rightarrow> (Some (''failed to create destination directory: '' @ e), fs)
         | None \<Rightarrow>
             (case extractTarArchive env data dst fs of
                (Some e, fs') \<Rightarrow> (Some (''failed to extract tar archive: '' @ e), fs')
              | (None, fs') \<Rightarrow> (None, fs')))
      else (Some (''unknown file transfer mode: '' @ mode), fs))"

definition writeTransfer :: "os_env \<Rightarrow> nat \<Rightarrow> transfers \<Rightarrow> string option \<times> transfers" where
  "writeTransfer env r s =
     (let o' = td_objs s r
      in case write_payload env (fr_mode o') (fr_dst o') (fr_buf o') (td_fs s) of (e, fs) \<Rightarrow> (e, s\<lparr>td_fs := fs\<rparr>))"

definition td_handleFileTransfer :: "os_env \<Rightarrow> message \<Rightarrow> transfers \<Rightarrow> transfers" where
  "td_handleFileTransfer env m s =
     (if m_mode m = ''scp'' \<or> m_mode m = ''rsync'' then
        (case b64_dec (m_content m) of
           None \<Rightarrow> td_send (transfer_err env (m_id m) (''failed to decode file content: '' @ os_b64_error env (m_content m))) s
         | Some data \<Rightarrow>
             (case write_payload env (m_mode m) (m_dst_path m) data (td_fs s) of
                (Some e, fs) \<Rightarrow> td_send (transfer_err env (m_id m) e) (s\<lparr>td_fs := fs\<rparr>)
              | (None, fs) \<Rightarrow> td_send (transfer_ok env (m_id m)) (s\<lparr>td_fs := fs\<rparr>)))
      else td_send (transfer_err env (m_id m) (''unknown file transfer mode: '' @ m_mode m)) s)"

section \<open>Chunked transfers\<close>

text \<open>A new \<open>fileReassembly\<close> and its entry in the map.\<close>

definition new_reassembly :: "message \<Rightarrow> file_reassembly" where
  "new_reassembly m = \<lparr>fr_mode = m_mode m, fr_src = m_src_path m, fr_dst = m_dst_path m, fr_buf = [],
     fr_id = '''', fr_seq = 0, fr_final = False, fr_fileWriter = None, fr_compressed = False,
     fr_chunkSizeBytes = m_chunk_size_bytes m, fr_parallel = False, fr_totalChunks = m_total_chunks m\<rparr>"

definition install :: "string \<Rightarrow> file_reassembly \<Rightarrow> transfers \<Rightarrow> transfers" where
  "install tid o' s = s\<lparr>td_objs := (td_objs s)(td_nextObj s := o'), td_nextObj := Suc (td_nextObj s),
     td_reassembly := (td_reassembly s)(tid \<mapsto> td_nextObj s)\<rparr>"

text \<open>The writer of an earlier stream to the same destination; \<open>ord\<close> is the order in which the
  runtime visits the map.\<close>

definition shared_writer :: "string \<Rightarrow> string list \<Rightarrow> transfers \<Rightarrow> nat option" where
  "shared_writer dst ord s =
     (case filter (\<lambda>tid. case td_reassembly s tid of None \<Rightarrow> False
          | Some r \<Rightarrow> fr_dst (td_objs s r) = dst \<and> fr_fileWriter (td_objs s r) \<noteq> None \<and> fr_parallel (td_objs s r)) ord of
        [] \<Rightarrow> None
      | tid # _ \<Rightarrow> (case td_reassembly s tid of None \<Rightarrow> None | Some r \<Rightarrow> fr_fileWriter (td_objs s r)))"

definition beginChunkedTransfer :: "os_env \<Rightarrow> string list \<Rightarrow> message \<Rightarrow> transfers \<Rightarrow> transfers" where
  "beginChunkedTransfer env ord m s =
     (let o' = new_reassembly m
      in if m_parallel_streams m > 1 \<and> m_mode m = ''scp'' then
           (let o1 = o'\<lparr>fr_parallel := True\<rparr>
            in case shared_writer (m_dst_path m) ord s of
                 Some h \<Rightarrow> install (m_id m) (o1\<lparr>fr_fileWriter := Some h\<rparr>) s
               | None \<Rightarrow>
                   (case os_create env (m_dst_path m) of
                      Some _ \<Rightarrow> install (m_id m) o1 s
                    | None \<Rightarrow>
                        (let (h, s1) = create_file (m_dst_path m) s;
                             s2 = (if m_total_size m > 0 then truncate_file (m_dst_path m) (nat (m_total_size m)) s1 else s1)
                         in install (m_id m) (o1\<lparr>fr_fileWriter := Some h\<rparr>) s2)))
         else if m_mode m = ''scp'' then
           (case os_create env (m_dst_path m) of
              Some _ \<Rightarrow> install (m_id m) o' s
            | None \<Rightarrow> (let (h, s1) = create_file (m_dst_path m) s in install (m_id m) (o'\<lparr>fr_fileWriter := Some h\<rparr>) s1))
         else install (m_id m) o' s)"

definition buf_write :: "nat \<Rightarrow> bytes \<Rightarrow> transfers \<Rightarrow> transfers" where
  "buf_write r data = upd_obj r (\<lambda>o'. o'\<lparr>fr_buf := fr_buf o' @ data\<rparr>)"

definition writeChunkData :: "os_env \<Rightarrow> nat \<Rightarrow> bytes \<Rightarrow> transfers \<Rightarrow> transfers" where
  "writeChunkData env r data s =
     (let o' = td_objs s r
      in case fr_fileWriter o' of
           None \<Rightarrow> buf_write r data s
         | Some h \<Rightarrow>
             if fr_parallel o' \<and> fr_chunkSizeBytes o' > 0 then
               (case handle_seek h (wrap64 (fr_seq o' * fr_chunkSizeBytes o')) s of
                  (False, s1) \<Rightarrow> buf_write r data s1
                | (True, s1) \<Rightarrow>
                    (case handle_write env h data s1 of (True, s2) \<Rightarrow> s2 | (False, s2) \<Rightarrow> buf_write r data s2))
             else (case handle_write env h data s of (True, s1) \<Rightarrow> s1 | (False, s1) \<Rightarrow> buf_write r data s1))"

definition closeFileWriter :: "nat \<Rightarrow> transfers \<Rightarrow> transfers" where
  "closeFileWriter r s =
     (case fr_fileWriter (td_objs s r) of
        None \<Rightarrow> s
      | Some h \<Rightarrow> upd_obj r (\<lambda>o'. o'\<lparr>fr_fileWriter := None\<rparr>) (upd_handle h (\<lambda>f. f\<lparr>fh_open := False\<rparr>) s))"

definition dropReassembly :: "string \<Rightarrow> transfers \<Rightarrow> transfers" where
  "dropReassembly tid s = s\<lparr>td_reassembly := (td_reassembly s)(tid := None)\<rparr>"

definition finishReassembly :: "os_env \<Rightarrow> nat \<Rightarrow> transfers \<Rightarrow> transfers" where
  "finishReassembly env r s =
     (let s1 = dropReassembly (fr_id (td_objs s r)) s; o' = td_objs s r
      in if fr_parallel o' then td_send (transfer_ok env (fr_id o')) s1
         else if fr_fileWriter o' \<noteq> None then td_send (transfer_ok env (fr_id o')) (closeFileWriter r s1)
         else case writeTransfer env r s1 of
                (Some e, s2) \<Rightarrow> td_send (transfer_err env (fr_id o') e) s2
              | (None, s2) \<Rightarrow> td_send (transfer_ok env (fr_id o')) s2)"

definition td_handleFileChunk :: "os_env \<Rightarrow> message \<Rightarrow> transfers \<Rightarrow> transfers" where
  "td_handleFileChunk env m s =
     (case td_reassembly s (m_id m) of
        None \<Rightarrow> td_send (transfer_err env (m_id m) ''received chunk for unknown transfer'') s
      | Some r \<Rightarrow>
          if m_binary_chunk m then
            (upd_obj r (\<lambda>o'. o'\<lparr>fr_id := m_id m, fr_seq := m_seq m, fr_final := m_final m, fr_compressed := m_compressed m\<rparr>) s)
              \<lparr>td_pendingBinaryChunk := Some r\<rparr>
          else
            (case b64_dec (m_data m) of
               None \<Rightarrow> td_send (transfer_err env (m_id m) (''failed to decode chunk: '' @ os_b64_error env (m_data m)))
                         (closeFileWriter r (dropReassembly (m_id m) s))
             | Some data \<Rightarrow>
                 (let s1 = writeChunkData env r data s
                  in if m_final m then finishReassembly env r s1 else s1)))"

definition handleBinaryChunk :: "os_env \<Rightarrow> bytes \<Rightarrow> transfers \<Rightarrow> transfers" where
  "handleBinaryChunk env data s =
     (let s0 = s\<lparr>td_pendingBinaryChunk := None\<rparr>
      in case td_pendingBinaryChunk s of
           None \<Rightarrow> s0
         | Some r \<Rightarrow>
             (let o' = td_objs s r;
                  failed = (\<lambda>e. td_send (transfer_err env (fr_id o') e) (closeFileWriter r (dropReassembly (fr_id o') s0)));
                  store = (\<lambda>d s1. let s2 = writeChunkData env r d s1
                                  in if fr_final o' then finishReassembly env r s2 else s2)
              in if fr_compressed o' then
                   (case os_gunzip env data of
                      GzBadHeader e \<Rightarrow> failed (''gzip decompress failed: '' @ e)
                    | GzBadBody e \<Rightarrow> failed (''gzip read failed: '' @ e)
                    | GzOk d \<Rightarrow> store d (upd_obj r (\<lambda>o'. o'\<lparr>fr_compressed := False\<rparr>) s0))
                 else store data s0))"

text \<open>What \<open>run\<close> does with the state of an earlier connection: every writer is closed, every
  entry removed. Closing is idempotent and independent of the order.\<close>

definition reset_transfers :: "string list \<Rightarrow> transfers \<Rightarrow> transfers" where
  "reset_transfers ord s =
     (fold (\<lambda>tid s. case td_reassembly s tid of None \<Rightarrow> s | Some r \<Rightarrow> dropReassembly tid (closeFileWriter r s)) ord s)
       \<lparr>td_pendingBinaryChunk := None\<rparr>"

lemmas transfer_defs = td_send_def upd_obj_def upd_handle_def handle_write_def handle_seek_def create_file_def
  truncate_file_def install_def buf_write_def closeFileWriter_def dropReassembly_def

end
