(* ===== verification/ChunkSink.thy ===== *)
theory ChunkSink
  imports Reassembly
begin

text \<open>
  Where the bytes of a chunked transfer go. A sink takes chunks and holds what it was given, in
  order; between two chunks the header of the next one is noted. The daemon has two: the file
  it opened for a single file (\<open>scp\<close>), and the buffer of an archive (\<open>rsync\<close>, or a file that
  could not be opened). The locale states the contract once, with the lemma that a transfer's
  chunks add up to its payload.
\<close>

locale byte_sink =
  fixes put :: "bytes \<Rightarrow> 's \<Rightarrow> 's" and contents :: "'s \<Rightarrow> bytes" and ok :: "'s \<Rightarrow> bool"
  assumes put_contents: "ok s \<Longrightarrow> contents (put d s) = contents s @ d"
    and put_ok: "ok s \<Longrightarrow> ok (put d s)"
begin

lemma puts: "ok s \<Longrightarrow> contents (fold put ds s) = contents s @ concat ds \<and> ok (fold put ds s)"
  by (induction ds arbitrary: s) (auto simp: put_contents put_ok)

end

locale chunk_sink = byte_sink put contents ok
  for put :: "bytes \<Rightarrow> 's \<Rightarrow> 's" and contents :: "'s \<Rightarrow> bytes" and ok :: "'s \<Rightarrow> bool" +
  fixes arm :: "nat \<Rightarrow> bool \<Rightarrow> 's \<Rightarrow> 's"
  assumes arm_contents: "ok s \<Longrightarrow> contents (arm i final s) = contents s"
    and arm_ok: "ok s \<Longrightarrow> ok (arm i final s)"
begin

primrec takes :: "nat \<Rightarrow> bytes list \<Rightarrow> 's \<Rightarrow> 's" where
  "takes i [] s = s"
| "takes i (c # cs) s = takes (Suc i) cs (put c (arm i (cs = []) s))"

lemma takes_all: "ok s \<Longrightarrow> contents (takes i cs s) = contents s @ concat cs \<and> ok (takes i cs s)"
  by (induction cs arbitrary: i s) (auto simp: put_contents put_ok arm_contents arm_ok)

end

section \<open>The daemon's two sinks\<close>

text \<open>The header of a chunk, as the daemon leaves its state once the payload was decoded.\<close>

definition arm_chunk :: "string \<Rightarrow> nat \<Rightarrow> nat \<Rightarrow> bool \<Rightarrow> transfers \<Rightarrow> transfers" where
  "arm_chunk tid r i final s = upd_obj r (\<lambda>o'. o'\<lparr>fr_id := tid, fr_seq := int i, fr_final := final, fr_compressed := False\<rparr>)
     (s\<lparr>td_pendingBinaryChunk := None\<rparr>)"

text \<open>Transfer \<open>tid\<close> is in progress: its object \<open>r\<close>, and what is the same as at its start \<open>s0\<close>.\<close>

definition in_progress :: "string \<Rightarrow> nat \<Rightarrow> string \<Rightarrow> string \<Rightarrow> transfers \<Rightarrow> transfers \<Rightarrow> bool" where
  "in_progress tid r mode dst s0 s \<longleftrightarrow> td_reassembly s tid = Some r \<and> fr_mode (td_objs s r) = mode \<and>
     fr_dst (td_objs s r) = dst \<and> \<not> fr_parallel (td_objs s r) \<and> td_sent s = td_sent s0 \<and>
     (\<forall>p. p \<noteq> dst \<longrightarrow> td_fs s p = td_fs s0 p)"

definition into_file :: "os_env \<Rightarrow> string \<Rightarrow> nat \<Rightarrow> nat \<Rightarrow> string \<Rightarrow> transfers \<Rightarrow> transfers \<Rightarrow> bool" where
  "into_file env tid r h dst s0 s \<longleftrightarrow> in_progress tid r ''scp'' dst s0 s \<and> fr_fileWriter (td_objs s r) = Some h \<and>
     td_handles s h = \<lparr>fh_path = dst, fh_pos = length (file_bytes dst s), fh_open = True\<rparr> \<and>
     td_fs s dst \<noteq> None \<and> (\<forall>pos d. os_write env dst pos d = None)"

definition into_buffer :: "string \<Rightarrow> nat \<Rightarrow> string \<Rightarrow> string \<Rightarrow> transfers \<Rightarrow> transfers \<Rightarrow> bool" where
  "into_buffer tid r mode dst s0 s \<longleftrightarrow> in_progress tid r mode dst s0 s \<and> fr_fileWriter (td_objs s r) = None \<and>
     td_fs s = td_fs s0"

lemma write_at_end [simp]: "write_at (length old) d old = old @ d"
  by (simp add: write_at_def)

interpretation file_sink: chunk_sink "writeChunkData env r" "file_bytes dst" "into_file env tid r h dst s0" "arm_chunk tid r"
  for env r dst tid h s0
  by unfold_locales
     (auto simp: into_file_def in_progress_def writeChunkData_def handle_write_def upd_handle_def upd_obj_def
        file_bytes_def arm_chunk_def Let_def split: option.splits)

interpretation buffer_sink: chunk_sink "writeChunkData env r" "\<lambda>s. fr_buf (td_objs s r)" "into_buffer tid r mode dst s0" "arm_chunk tid r"
  for env r tid mode dst s0
  by unfold_locales
     (auto simp: into_buffer_def in_progress_def writeChunkData_def buf_write_def upd_obj_def arm_chunk_def Let_def)

end
