(* ===== verification/Sender.thy ===== *)
theory Sender
  imports Protocol "HOL-Library.Signed_Division"
begin

text \<open>
  The sending side of a file transfer (filetransfer_chunk.go, filetransfer_stream.go): how a
  payload is cut into chunks, compressed and written as frames, from memory, from a reader, and
  over several connections.

  What the sender depends on is the record \<open>send_env\<close>: the length of a message's JSON, the
  error of the \<open>n\<close>-th write to the connection, and what gzip makes of a byte sequence. A sender
  returns its error, if any, and the frames written. Progress lines printed with \<open>--stream\<close>
  are not modelled.
\<close>

section \<open>Cutting into chunks\<close>

definition fileChunkSize :: nat where "fileChunkSize = 2 * 2 ^ 20"
definition relayMaxFrameSize :: nat where "relayMaxFrameSize = 32 * 2 ^ 20"

text \<open>\<open>effectiveChunkSize\<close> on what \<open>Sscanf\<close> makes of \<open>RCMD_CHUNK_SIZE\<close>, if it is set.\<close>

definition effectiveChunkSize :: "int option \<Rightarrow> nat" where
  "effectiveChunkSize override = (case override of Some n \<Rightarrow> if n > 0 then nat n else fileChunkSize | None \<Rightarrow> fileChunkSize)"

text \<open>\<open>chunkCount\<close>; \<open>None\<close> is the division by zero.\<close>

definition chunkCount :: "int \<Rightarrow> int \<Rightarrow> int option" where
  "chunkCount sz chunkSize =
     (if sz \<le> 0 then Some 1
      else if chunkSize = 0 then None
      else Some (wrap64 (sz + chunkSize - 1) sdiv chunkSize))"

text \<open>The loop of \<open>chunkData\<close> for a positive chunk size; with 0 it never ends (\<open>None\<close>).\<close>

function chunk_list :: "nat \<Rightarrow> bytes \<Rightarrow> bytes list" where
  "chunk_list cs data = (if data = [] \<or> cs = 0 then [] else take cs data # chunk_list cs (drop cs data))"
  by pat_completeness auto
termination
  by (relation "measure (\<lambda>(cs, data). length data)") auto

declare chunk_list.simps [simp del]

definition chunkData :: "nat \<Rightarrow> bytes \<Rightarrow> bytes list option" where
  "chunkData cs data = (if data = [] then Some [[]] else if cs = 0 then None else Some (chunk_list cs data))"

lemma chunk_list_Nil [simp]: "chunk_list cs [] = []"
  by (subst chunk_list.simps) simp

lemma chunk_list_step: "cs > 0 \<Longrightarrow> data \<noteq> [] \<Longrightarrow> chunk_list cs data = take cs data # chunk_list cs (drop cs data)"
  by (subst chunk_list.simps) simp

lemma chunk_list_empty_iff: "cs > 0 \<Longrightarrow> chunk_list cs data = [] \<longleftrightarrow> data = []"
  using chunk_list_step by (cases "data = []") auto

lemma chunk_list_induct [consumes 1, case_names Nil Chunk]:
  assumes "cs > 0" "cs > 0 \<Longrightarrow> P []" "\<And>data. cs > 0 \<Longrightarrow> data \<noteq> [] \<Longrightarrow> P (drop cs data) \<Longrightarrow> P data"
  shows "P data"
  using assms
proof (induction data rule: length_induct)
  case (1 data)
  then show ?case by (cases "data = []") auto
qed

lemma concat_chunk_list: "cs > 0 \<Longrightarrow> concat (chunk_list cs data) = data"
proof (induction data rule: chunk_list_induct)
  case (Chunk data)
  then show ?case by (simp add: chunk_list_step)
qed simp

lemma chunk_list_bounds: "cs > 0 \<Longrightarrow> c \<in> set (chunk_list cs data) \<Longrightarrow> 0 < length c \<and> length c \<le> cs"
proof (induction data rule: chunk_list_induct)
  case (Chunk data)
  then show ?case by (auto simp: chunk_list_step)
qed simp

lemma length_chunk_list: "cs > 0 \<Longrightarrow> length (chunk_list cs data) = (length data + cs - 1) div cs"
proof (induction data rule: chunk_list_induct)
  case (Chunk data)
  show ?case
  proof (cases "length data \<le> cs")
    case True
    with Chunk have "(length data + cs - 1) div cs = 1"
      by (intro div_nat_eqI) (auto simp: Suc_le_eq neq_Nil_conv)
    with Chunk True show ?thesis by (simp add: chunk_list_step)
  next
    case False
    have "(length data + cs - 1) div cs = Suc ((length data - cs + cs - 1) div cs)"
      using False Chunk.hyps div_add_self2 [of cs "length data - 1"] by simp
    with Chunk show ?thesis by (simp add: chunk_list_step)
  qed
qed simp

lemma chunk_list_nth:
  "cs > 0 \<Longrightarrow> i < length (chunk_list cs data) \<Longrightarrow> chunk_list cs data ! i = take cs (drop (i * cs) data)"
proof (induction data arbitrary: i rule: chunk_list_induct)
  case (Chunk data)
  then show ?case by (cases i) (auto simp: chunk_list_step add.commute)
qed simp

section \<open>Frames\<close>

record send_env =
  sv_json_len :: "message \<Rightarrow> nat"
  sv_write :: "nat \<Rightarrow> string option"
  sv_gzip :: "bytes \<Rightarrow> bytes"

type_synonym sent = "string option \<times> wsframe list"

text \<open>\<open>tryCompress\<close>. The two float comparisons are the integer ones: \<open>n * 0.95\<close> and
  \<open>n * 0.9\<close> in double precision are exact whenever they are whole numbers, for the lengths of
  chunks.\<close>

definition tryCompress :: "send_env \<Rightarrow> bytes \<Rightarrow> bytes option" where
  "tryCompress env data =
     (if length data < 1024 then None
      else
        (let sample = take 4096 data
         in if 20 * length (sv_gzip env sample) \<ge> 19 * length sample then None
            else
              (let z = sv_gzip env data
               in if 10 * length z < 9 * length data then Some z else None)))"

definition marshalWithinLimit :: "send_env \<Rightarrow> message \<Rightarrow> nat \<Rightarrow> string + message" where
  "marshalWithinLimit env m limit =
     (if limit > 0 \<and> sv_json_len env m > limit then
        Inl (''message frame of '' @ go_itoa (int (sv_json_len env m)) @ '' bytes exceeds relay frame limit of '' @
             go_itoa (int limit) @ '' bytes (reduce chunk size)'')
      else Inr m)"

definition write_frame :: "send_env \<Rightarrow> string \<Rightarrow> wsframe \<Rightarrow> wsframe list \<Rightarrow> sent" where
  "write_frame env what f out =
     (case sv_write env (length out) of Some e \<Rightarrow> (Some (what @ '': '' @ e), out) | None \<Rightarrow> (None, out @ [f]))"

definition write_message :: "send_env \<Rightarrow> string \<Rightarrow> message \<Rightarrow> wsframe list \<Rightarrow> sent" where
  "write_message env what m out =
     (case marshalWithinLimit env m relayMaxFrameSize of
        Inl e \<Rightarrow> (Some e, out) | Inr m \<Rightarrow> write_frame env what (Json m) out)"

text \<open>One chunk: header and payload, compressed when that pays. \<open>which\<close> is how error texts
  name the chunk.\<close>

definition chunk_head :: "string \<Rightarrow> nat \<Rightarrow> bool \<Rightarrow> bool \<Rightarrow> message" where
  "chunk_head tid seq final compressed = empty_message\<lparr>m_type := ''file_chunk'', m_id := tid, m_seq := int seq,
     m_final := final, m_binary_chunk := True, m_compressed := compressed\<rparr>"

definition chunk_payload :: "send_env \<Rightarrow> bytes \<Rightarrow> bool \<times> bytes" where
  "chunk_payload env data = (case tryCompress env data of None \<Rightarrow> (False, data) | Some z \<Rightarrow> (True, z))"

definition send_chunk :: "send_env \<Rightarrow> string \<Rightarrow> string \<Rightarrow> string \<Rightarrow> nat \<Rightarrow> bool \<Rightarrow> bytes \<Rightarrow> wsframe list \<Rightarrow> sent" where
  "send_chunk env what_head what_data tid seq final data out =
     (let (compressed, payload) = chunk_payload env data
      in case write_message env what_head (chunk_head tid seq final compressed) out of
           (Some e, out) \<Rightarrow> (Some e, out)
         | (None, out) \<Rightarrow>
             if payload = [] then (None, out) else write_frame env what_data (Binary payload) out)"

definition init_message :: "message \<Rightarrow> int \<Rightarrow> int \<Rightarrow> message" where
  "init_message base tot sz = empty_message\<lparr>m_type := ''file_transfer'', m_id := m_id base,
     m_target := m_target base, m_token := m_token base, m_mode := m_mode base, m_src_path := m_src_path base,
     m_dst_path := m_dst_path base, m_chunked := True, m_total_chunks := tot, m_total_size := sz\<rparr>"

section \<open>From memory\<close>

fun send_chunks :: "send_env \<Rightarrow> string \<Rightarrow> nat \<Rightarrow> nat \<Rightarrow> bytes list \<Rightarrow> wsframe list \<Rightarrow> sent" where
  "send_chunks env tid tot i [] out = (None, out)"
| "send_chunks env tid tot i (c # cs) out =
     (let n = go_itoa (int i + 1) @ ''/'' @ go_itoa (int tot)
      in case send_chunk env (''sending file chunk header '' @ n) (''sending file chunk data '' @ n) tid i (Suc i = tot) c out of
           (Some e, out) \<Rightarrow> (Some e, out)
         | (None, out) \<Rightarrow> send_chunks env tid tot (Suc i) cs out)"

definition sendFileFramesWithSize :: "send_env \<Rightarrow> message \<Rightarrow> bytes \<Rightarrow> nat \<Rightarrow> wsframe list \<Rightarrow> sent option" where
  "sendFileFramesWithSize env base data cs out =
     (case chunkData cs data of
        None \<Rightarrow> None
      | Some chunks \<Rightarrow>
          (case write_message env ''sending file_transfer init''
                  (init_message base (int (length chunks)) (int (length data))) out of
             (Some e, out) \<Rightarrow> Some (Some e, out)
           | (None, out) \<Rightarrow> Some (send_chunks env (m_id base) (length chunks) 0 chunks out)))"

section \<open>From a reader\<close>

text \<open>A reader: what is left of the file, and the error it ends with instead of end of file.\<close>

datatype read_error = EOF | UnexpectedEOF | ReadError string

record reader =
  rd_data :: bytes
  rd_fail :: "string option"

text \<open>\<open>io.ReadFull\<close>.\<close>

definition read_full :: "nat \<Rightarrow> reader \<Rightarrow> bytes \<times> read_error option \<times> reader" where
  "read_full n rd =
     (let got = take n (rd_data rd)
      in (got,
          (if length got = n then None
           else case rd_fail rd of Some e \<Rightarrow> Some (ReadError e) | None \<Rightarrow> Some (if got = [] then EOF else UnexpectedEOF)),
          rd\<lparr>rd_data := drop n (rd_data rd)\<rparr>))"

text \<open>The loop of \<open>sendFileStreaming\<close>: chunk number \<open>i\<close>, bytes sent so far, the reader and the
  frames written. It returns the bytes sent, the number it reports as chunks, and the error.\<close>

partial_function (option) stream_loop ::
    "send_env \<Rightarrow> string \<Rightarrow> nat \<Rightarrow> int \<Rightarrow> int \<Rightarrow> nat \<Rightarrow> nat \<Rightarrow> reader \<Rightarrow> wsframe list \<Rightarrow> ((nat \<times> int \<times> string option) \<times> wsframe list) option" where
  "stream_loop env tid cs totalSize totalChunks i sent rd out =
     (let (got, rerr, rd') = read_full cs rd
      in if got = [] \<and> rerr \<noteq> None then
           (case rerr of
              Some (ReadError e) \<Rightarrow> Some ((sent, int i, Some (''reading file: '' @ e)), out)
            | _ \<Rightarrow>
                if i = 0 then
                  (case write_frame env ''sending empty chunk header'' (Json (chunk_head tid 0 True False)) out of
                     (Some e, out) \<Rightarrow> Some ((0, 0, Some e), out)
                   | (None, out) \<Rightarrow> Some ((sent, totalChunks, None), out))
                else Some ((sent, totalChunks, None), out))
         else
           (let final = (rerr = Some UnexpectedEOF \<or> (rerr = None \<and> int (sent + length got) \<ge> totalSize))
            in case send_chunk env (''sending file chunk header '' @ go_itoa (int i)) (''sending file chunk data '' @ go_itoa (int i))
                      tid i final got out of
                 (Some e, out) \<Rightarrow> Some ((sent, int i, Some e), out)
               | (None, out) \<Rightarrow>
                   if final then Some ((sent + length got, totalChunks, None), out)
                   else stream_loop env tid cs totalSize totalChunks (Suc i) (sent + length got) rd' out))"

definition sendFileStreaming ::
    "send_env \<Rightarrow> message \<Rightarrow> reader \<Rightarrow> int \<Rightarrow> nat \<Rightarrow> wsframe list \<Rightarrow> ((nat \<times> int \<times> string option) \<times> wsframe list) option" where
  "sendFileStreaming env base rd totalSize cs out =
     (case chunkCount totalSize (int cs) of
        None \<Rightarrow> None
      | Some tot \<Rightarrow>
          (case write_message env ''sending file_transfer init'' (init_message base tot totalSize) out of
             (Some e, out) \<Rightarrow> Some ((0, 0, Some e), out)
           | (None, out) \<Rightarrow> stream_loop env (m_id base) cs totalSize tot 0 0 rd out))"

section \<open>Over several connections\<close>

text \<open>The chunk numbers of one stream: \<open>seq := streamIdx; seq < totalChunks; seq += numStreams\<close>.\<close>

function stream_seqs :: "nat \<Rightarrow> nat \<Rightarrow> nat \<Rightarrow> nat list" where
  "stream_seqs n tot seq = (if seq < tot \<and> 0 < n then seq # stream_seqs n tot (seq + n) else [])"
  by pat_completeness auto
termination
  by (relation "measure (\<lambda>(n, tot, seq). tot - seq)") auto

declare stream_seqs.simps [simp del]

definition parallel_init :: "message \<Rightarrow> int \<Rightarrow> int \<Rightarrow> nat \<Rightarrow> nat \<Rightarrow> message" where
  "parallel_init base tot sz cs n = (init_message base tot sz)\<lparr>m_mode := ''scp'',
     m_chunk_size_bytes := int cs, m_parallel_streams := int n\<rparr>"

text \<open>What stream \<open>k\<close> of \<open>sendFileParallel\<close> writes before it waits for its result; \<open>data\<close> is
  the file, which each stream opens and seeks in. Reading past its end is an error.\<close>

fun send_seqs :: "send_env \<Rightarrow> string \<Rightarrow> string \<Rightarrow> bytes \<Rightarrow> nat \<Rightarrow> nat \<Rightarrow> nat \<Rightarrow> nat list \<Rightarrow> wsframe list \<Rightarrow> sent" where
  "send_seqs env k tid data cs n tot [] out = (None, out)"
| "send_seqs env k tid data cs n tot (seq # seqs) out =
     (let got = take cs (drop (seq * cs) data)
      in if got = [] \<and> 0 < cs then (Some (''stream '' @ k @ '' read: EOF''), out)
         else
           (case send_chunk env (''stream '' @ k @ '' header'') (''stream '' @ k @ '' data'') tid seq (tot \<le> seq + n) got out of
              (Some e, out) \<Rightarrow> (Some e, out)
            | (None, out) \<Rightarrow> send_seqs env k tid data cs n tot seqs out))"

definition parallel_stream :: "send_env \<Rightarrow> message \<Rightarrow> bytes \<Rightarrow> int \<Rightarrow> nat \<Rightarrow> nat \<Rightarrow> nat \<Rightarrow> sent option" where
  "parallel_stream env base data sz cs n k =
     (case chunkCount sz (int cs) of
        None \<Rightarrow> None
      | Some tot \<Rightarrow>
          Some (case write_message env (''stream '' @ go_itoa (int k) @ '' init'') (parallel_init base tot sz cs n) [] of
             (Some e, out) \<Rightarrow> (Some e, out)
           | (None, out) \<Rightarrow> send_seqs env (go_itoa (int k)) (m_id base) data cs n (nat tot) (stream_seqs n (nat tot) k) out))"

text \<open>How many streams a copy uses: \<open>RCMD_PARALLEL_STREAMS\<close>, else by size.\<close>

definition parallel_streams :: "int option \<Rightarrow> bool \<Rightarrow> int \<Rightarrow> int" where
  "parallel_streams override is_file sz =
     (case override of Some n \<Rightarrow> n
      | None \<Rightarrow>
          if is_file then
            (if sz > 100 * 1024 * 1024 then 4 else if sz > 20 * 1024 * 1024 then 3
             else if sz > 5 * 1024 * 1024 then 2 else 0)
          else 0)"

end
