(* ===== verification/FileTransfer.thy ===== *)
theory FileTransfer
  imports ChunkSink Sender RelayHandlers
begin

text \<open>
  A copy from end to end: the frames the sender writes, what the relay makes of them, and the
  daemon that receives them.
\<close>

section \<open>The daemon's loop on transfer frames\<close>

text \<open>The cases of \<open>run\<close> (daemon.go) that concern file transfers.\<close>

definition td_frame :: "os_env \<Rightarrow> string list \<Rightarrow> wsframe \<Rightarrow> transfers \<Rightarrow> transfers" where
  "td_frame env ord f s =
     (case f of
        Binary d \<Rightarrow> handleBinaryChunk env d s
      | BadJson _ \<Rightarrow> s
      | Json m \<Rightarrow>
          if m_type m = ''file_transfer'' then
            (if m_chunked m then beginChunkedTransfer env ord m s else td_handleFileTransfer env m s)
          else if m_type m = ''file_chunk'' then td_handleFileChunk env m s
          else s)"

definition td_frames :: "os_env \<Rightarrow> string list \<Rightarrow> wsframe list \<Rightarrow> transfers \<Rightarrow> transfers" where
  "td_frames env ord fs s = fold (td_frame env ord) fs s"

lemma td_frames_Nil [simp]: "td_frames env ord [] s = s"
  by (simp add: td_frames_def)

lemma td_frames_append [simp]: "td_frames env ord (fs @ gs) s = td_frames env ord gs (td_frames env ord fs s)"
  by (simp add: td_frames_def)

section \<open>What the relay forwards\<close>

text \<open>Under the relay's request id \<open>rid\<close>: the announcement without target and token, the chunk
  headers rebuilt, the payloads as they are.\<close>

definition relayed :: "string \<Rightarrow> wsframe \<Rightarrow> wsframe" where
  "relayed rid f =
     (case f of
        Json m \<Rightarrow> if m_type m = ''file_chunk'' then Json (chunk_header \<lparr>cr_target = 0, cr_reqID = rid\<rparr> m)
                  else Json (forward_transfer rid m)
      | _ \<Rightarrow> f)"

section \<open>The frames of a sender without errors\<close>

definition chunk_frames :: "send_env \<Rightarrow> string \<Rightarrow> nat \<Rightarrow> bool \<Rightarrow> bytes \<Rightarrow> wsframe list" where
  "chunk_frames env tid i final c = (case chunk_payload env c of (z, payload) \<Rightarrow>
     Json (chunk_head tid i final z) # (if payload = [] then [] else [Binary payload]))"

primrec numbered_frames :: "send_env \<Rightarrow> string \<Rightarrow> nat \<Rightarrow> bytes list \<Rightarrow> wsframe list" where
  "numbered_frames env tid i [] = []"
| "numbered_frames env tid i (c # cs) = chunk_frames env tid i (cs = []) c @ numbered_frames env tid (Suc i) cs"

text \<open>Writes succeed and every message fits the relay's frame limit.\<close>

definition link_up :: "send_env \<Rightarrow> bool" where
  "link_up env \<longleftrightarrow> (\<forall>n. sv_write env n = None) \<and> (\<forall>m. sv_json_len env m \<le> relayMaxFrameSize)"

lemma write_frame_up [simp]: "link_up env \<Longrightarrow> write_frame env w f out = (None, out @ [f])"
  by (simp add: write_frame_def link_up_def)

lemma write_message_up [simp]: "link_up env \<Longrightarrow> write_message env w m out = (None, out @ [Json m])"
  by (simp add: write_message_def marshalWithinLimit_def link_up_def write_frame_def not_less)

lemma send_chunk_up: "link_up env \<Longrightarrow> send_chunk env w v tid i final c out = (None, out @ chunk_frames env tid i final c)"
  by (simp add: send_chunk_def chunk_frames_def split: prod.split)

lemma send_chunks_up:
  "link_up env \<Longrightarrow> tot = i + length cs \<Longrightarrow> send_chunks env tid tot i cs out = (None, out @ numbered_frames env tid i cs)"
  by (induction cs arbitrary: i out) (auto simp: send_chunk_up Let_def)

lemma stream_loop_up:
  assumes "link_up env" "cs > 0" "data \<noteq> []" "tot = int (sent + length data)"
  shows "stream_loop env tid cs tot n i sent \<lparr>rd_data = data, rd_fail = None\<rparr> out =
    Some ((sent + length data, n, None), out @ numbered_frames env tid i (chunk_list cs data))"
  using assms(2,1,3,4)
proof (induction data arbitrary: i sent out rule: chunk_list_induct)
  case (Chunk data)
  show ?case
  proof (cases "length data \<le> cs")
    case True
    then have "chunk_list cs data = [data]" using Chunk.hyps by (simp add: chunk_list_step)
    with True Chunk show ?thesis
      by (subst stream_loop.simps) (auto simp: read_full_def send_chunk_up Let_def)
  next
    case False
    then have ne: "drop cs data \<noteq> []" "take cs data \<noteq> []" using Chunk.hyps by auto
    have fin: "chunk_list cs (drop cs data) \<noteq> []" using ne Chunk.hyps by (simp add: chunk_list_empty_iff)
    have t: "tot = int (sent + cs + length (drop cs data))" using Chunk.prems False by simp
    show ?thesis
      using False Chunk.prems Chunk.hyps ne fin Chunk.IH [OF Chunk.prems(1) ne(1) t, of "Suc i" "out @ chunk_frames env tid i False (take cs data)"]
      by (subst stream_loop.simps) (simp add: read_full_def send_chunk_up Let_def chunk_list_step)
  qed
qed simp

lemma stream_loop_empty:
  "link_up env \<Longrightarrow> cs > 0 \<Longrightarrow> stream_loop env tid cs tot n 0 0 \<lparr>rd_data = [], rd_fail = None\<rparr> out =
    Some ((0, n, None), out @ [Json (chunk_head tid 0 True False)])"
  by (subst stream_loop.simps) (simp add: read_full_def)

lemma sdiv_nonneg: "0 \<le> a \<Longrightarrow> 0 < b \<Longrightarrow> (a :: int) sdiv b = a div b"
  by (cases "a = 0") (simp_all add: signed_divide_int_def)

lemma chunkCount_length:
  assumes "cs > 0" "int (length data) + int cs \<le> 2 ^ 63"
  shows "chunkCount (int (length data)) (int cs) = Some (int (if data = [] then 1 else length (chunk_list cs data)))"
proof (cases "data = []")
  case False
  have "wrap64 (int (length data) + int cs - 1) = int (length data + cs - 1)"
    using assms False by (subst wrap64_id) (auto simp: go_int_range_def of_nat_diff Suc_le_eq)
  moreover have "int (length data + cs - 1) sdiv int cs = int ((length data + cs - 1) div cs)"
    unfolding zdiv_int by (rule sdiv_nonneg) (use assms in simp_all)
  ultimately show ?thesis
    using False assms by (simp add: chunkCount_def length_chunk_list)
qed (simp add: chunkCount_def)

section \<open>One chunk at the daemon\<close>

text \<open>What the sender compresses, the daemon decompresses; a compressed chunk is never empty.\<close>

definition gzip_ok :: "send_env \<Rightarrow> os_env \<Rightarrow> bool" where
  "gzip_ok senv env \<longleftrightarrow> (\<forall>d. sv_gzip senv d \<noteq> [] \<and> os_gunzip env (sv_gzip senv d) = GzOk d)"

lemma chunk_payload_cases:
  obtains "chunk_payload senv c = (False, c)" | "chunk_payload senv c = (True, sv_gzip senv c)"
proof (cases "tryCompress senv c")
  case None
  then show thesis by (intro that(1)) (simp add: chunk_payload_def)
next
  case (Some z)
  then have "z = sv_gzip senv c" by (auto simp: tryCompress_def Let_def split: if_splits)
  with Some show thesis by (intro that(2)) (simp add: chunk_payload_def)
qed

lemma m_simps [simp]:
  "m_type (chunk_header route m) = ''file_chunk''" "m_id (chunk_header route m) = cr_reqID route"
  "m_binary_chunk (chunk_header route m) = True" "m_seq (chunk_header route m) = m_seq m"
  "m_final (chunk_header route m) = m_final m" "m_compressed (chunk_header route m) = m_compressed m"
  "m_type (chunk_head tid i final z) = ''file_chunk''" "m_seq (chunk_head tid i final z) = int i"
  "m_final (chunk_head tid i final z) = final" "m_compressed (chunk_head tid i final z) = z"
  "m_binary_chunk (chunk_head tid i final z) = True" "m_id (chunk_head tid i final z) = tid"
  by (simp_all add: chunk_header_def chunk_head_def)

definition store_chunk :: "os_env \<Rightarrow> string \<Rightarrow> nat \<Rightarrow> nat \<Rightarrow> bool \<Rightarrow> bytes \<Rightarrow> transfers \<Rightarrow> transfers" where
  "store_chunk env rid r i final c s =
     (let s1 = writeChunkData env r c (arm_chunk rid r i final s) in if final then finishReassembly env r s1 else s1)"

lemma upd_obj_simps [simp]:
  "(upd_obj r f s)\<lparr>td_pendingBinaryChunk := x\<rparr> = upd_obj r f (s\<lparr>td_pendingBinaryChunk := x\<rparr>)"
  "td_objs (upd_obj r f s) r = f (td_objs s r)" "td_reassembly (upd_obj r f s) = td_reassembly s"
  "td_pendingBinaryChunk (upd_obj r f s) = td_pendingBinaryChunk s"
  "upd_obj r f (upd_obj r g s) = upd_obj r (\<lambda>x. f (g x)) s"
  by (simp_all add: upd_obj_def)

lemma feed_chunk:
  assumes "td_reassembly s rid = Some r" "gzip_ok senv env" "c \<noteq> []"
  shows "td_frames env ord (map (relayed rid) (chunk_frames senv tid i final c)) s = store_chunk env rid r i final c s"
proof (cases rule: chunk_payload_cases [of senv c])
  case 1
  then show ?thesis using assms
    by (simp add: td_frames_def chunk_frames_def relayed_def td_frame_def td_handleFileChunk_def handleBinaryChunk_def
        store_chunk_def arm_chunk_def Let_def)
next
  case 2
  then show ?thesis using assms
    by (simp add: td_frames_def chunk_frames_def relayed_def td_frame_def td_handleFileChunk_def handleBinaryChunk_def
        store_chunk_def arm_chunk_def gzip_ok_def Let_def)
qed

section \<open>All chunks\<close>

text \<open>The chunks up to the last: the reassembly goes on and the sink takes them.\<close>

lemma td_reassembly_write [simp]:
  "td_reassembly (writeChunkData env r c s) = td_reassembly s" "td_reassembly (arm_chunk tid r i final s) = td_reassembly s"
  by (auto simp: writeChunkData_def transfer_defs arm_chunk_def Let_def split: option.splits prod.splits bool.splits)

lemma feed_chunks:
  assumes "td_reassembly s rid = Some r" "gzip_ok senv env" "\<forall>c\<in>set cs. c \<noteq> []" "cs \<noteq> []"
  shows "td_frames env ord (map (relayed rid) (numbered_frames senv tid i cs)) s =
    finishReassembly env r (file_sink.takes env r rid i cs s)"
  using assms
proof (induction cs arbitrary: i s)
  case (Cons c cs)
  have 1: "td_frames env ord (map (relayed rid) (chunk_frames senv tid i (cs = []) c)) s = store_chunk env rid r i (cs = []) c s"
    using Cons.prems by (intro feed_chunk) auto
  show ?case
  proof (cases cs)
    case Nil
    then show ?thesis using 1 by (simp add: store_chunk_def Let_def)
  next
    case (Cons c' cs')
    let ?s' = "writeChunkData env r c (arm_chunk rid r i False s)"
    have "td_frames env ord (map (relayed rid) (numbered_frames senv tid (Suc i) cs)) ?s' =
        finishReassembly env r (file_sink.takes env r rid (Suc i) cs ?s')"
      using Cons.IH Cons.prems Cons by auto
    with 1 Cons show ?thesis by (simp add: store_chunk_def)
  qed
qed simp

end
