(* ===== verification/TransferRun.thy ===== *)
theory TransferRun
  imports FileTransfer
begin

text \<open>
  Runs of a transfer between a sender without errors and the daemon: the frames each way of
  sending writes, and the state the daemon reaches by reading what the relay forwards of them.
\<close>

section \<open>The announcement\<close>

lemma init_fields [simp]:
  "m_type (init_message base tot n) = ''file_transfer''" "m_chunked (init_message base tot n) = True"
  "m_mode (init_message base tot n) = m_mode base" "m_dst_path (init_message base tot n) = m_dst_path base"
  "m_parallel_streams (init_message base tot n) = 0" "m_src_path (init_message base tot n) = m_src_path base"
  "m_total_size (init_message base tot n) = n" "m_chunk_size_bytes (init_message base tot n) = 0"
  by (simp_all add: init_message_def empty_message_def)

lemma forward_fields [simp]:
  "m_type (forward_transfer rid m) = ''file_transfer''" "m_id (forward_transfer rid m) = rid"
  "m_chunked (forward_transfer rid m) = m_chunked m" "m_mode (forward_transfer rid m) = m_mode m"
  "m_dst_path (forward_transfer rid m) = m_dst_path m" "m_parallel_streams (forward_transfer rid m) = m_parallel_streams m"
  "m_total_size (forward_transfer rid m) = m_total_size m" "m_chunk_size_bytes (forward_transfer rid m) = m_chunk_size_bytes m"
  by (simp_all add: forward_transfer_def)

lemma relayed_init: "relayed rid (Json (init_message base tot n)) = Json (forward_transfer rid (init_message base tot n))"
  by (simp add: relayed_def)

lemma begin_scp:
  assumes "m_mode base = ''scp''" "os_create env (m_dst_path base) = None" "\<forall>pos d. os_write env (m_dst_path base) pos d = None"
  shows "into_file env rid (td_nextObj s) (td_nextHandle s) (m_dst_path base) s
      (td_frame env ord (relayed rid (Json (init_message base tot n))) s) \<and>
    file_bytes (m_dst_path base) (td_frame env ord (relayed rid (Json (init_message base tot n))) s) = []"
  using assms by (simp add: relayed_init td_frame_def beginChunkedTransfer_def new_reassembly_def create_file_def install_def
      into_file_def in_progress_def file_bytes_def)

lemma begin_rsync:
  assumes "m_mode base = ''rsync''"
  shows "into_buffer rid (td_nextObj s) ''rsync'' (m_dst_path base) s
      (td_frame env ord (relayed rid (Json (init_message base tot n))) s) \<and>
    fr_buf (td_objs (td_frame env ord (relayed rid (Json (init_message base tot n))) s) (td_nextObj s)) = []"
  using assms by (simp add: relayed_init td_frame_def beginChunkedTransfer_def new_reassembly_def install_def
      into_buffer_def in_progress_def)

section \<open>The end\<close>

lemma takes_id:
  "cs \<noteq> [] \<Longrightarrow> fr_id (td_objs (file_sink.takes env r rid i cs s) r) = rid"
proof (induction cs arbitrary: i s)
  case (Cons c cs)
  have "fr_id (td_objs (writeChunkData env r c (arm_chunk rid r i b s)) r) = rid" for b
    by (auto simp: writeChunkData_def transfer_defs arm_chunk_def Let_def split: option.splits prod.splits bool.splits)
  then show ?case using Cons by (cases cs) auto
qed simp

lemma finish_file:
  assumes "into_file env rid r h dst s0 s" "fr_id (td_objs s r) = rid"
  shows "td_fs (finishReassembly env r s) = td_fs s" "td_sent (finishReassembly env r s) = td_sent s @ [transfer_ok env rid]"
    "td_reassembly (finishReassembly env r s) rid = None"
  using assms by (simp_all add: finishReassembly_def into_file_def in_progress_def dropReassembly_def closeFileWriter_def
      td_send_def upd_obj_def upd_handle_def Let_def)

lemma into_file_fs:
  assumes "into_file env rid r h dst s0 s"
  shows "td_fs s = (td_fs s0)(dst \<mapsto> file_bytes dst s)"
proof
  fix p
  show "td_fs s p = ((td_fs s0)(dst \<mapsto> file_bytes dst s)) p"
    using assms by (auto simp: into_file_def in_progress_def file_bytes_def split: option.splits)
qed

text \<open>A transfer's frames as the daemon reads them, when they carry a non-empty payload.\<close>

definition transfer_frames :: "send_env \<Rightarrow> message \<Rightarrow> nat \<Rightarrow> bytes \<Rightarrow> wsframe list" where
  "transfer_frames senv base cs data = Json (init_message base (int (length (chunk_list cs data))) (int (length data))) #
     numbered_frames senv (m_id base) 0 (chunk_list cs data)"

lemma chunks_nonempty: "cs > 0 \<Longrightarrow> \<forall>c\<in>set (chunk_list cs data). c \<noteq> []"
  using chunk_list_bounds [of cs _ data] by fastforce

lemma streaming_frames:
  assumes "link_up senv" "cs > 0" "data \<noteq> []" "int (length data) + int cs \<le> 2 ^ 63"
  shows "sendFileStreaming senv base \<lparr>rd_data = data, rd_fail = None\<rparr> (int (length data)) cs [] =
    Some ((length data, int (length (chunk_list cs data)), None), transfer_frames senv base cs data)"
  using assms by (simp add: sendFileStreaming_def chunkCount_length stream_loop_up transfer_frames_def)

lemma buffered_frames:
  assumes "link_up senv" "cs > 0" "data \<noteq> []"
  shows "sendFileFramesWithSize senv base data cs [] = Some (None, transfer_frames senv base cs data)"
  using assms by (simp add: sendFileFramesWithSize_def chunkData_def send_chunks_up transfer_frames_def)

lemma daemon_copies:
  assumes "cs > 0" "data \<noteq> []" "gzip_ok senv env"
    "m_mode base = ''scp''" "os_create env (m_dst_path base) = None" "\<forall>pos d. os_write env (m_dst_path base) pos d = None"
  shows "td_fs (td_frames env ord (map (relayed rid) (transfer_frames senv base cs data)) s) = (td_fs s)(m_dst_path base \<mapsto> data)"
    "td_sent (td_frames env ord (map (relayed rid) (transfer_frames senv base cs data)) s) = td_sent s @ [transfer_ok env rid]"
    "td_reassembly (td_frames env ord (map (relayed rid) (transfer_frames senv base cs data)) s) rid = None"
proof -
  let ?init = "Json (init_message base (int (length (chunk_list cs data))) (int (length data)))"
  let ?dst = "m_dst_path base" and ?r = "td_nextObj s" and ?h = "td_nextHandle s" and ?cl = "chunk_list cs data"
  define s1 where "s1 = td_frame env ord (relayed rid ?init) s"
  have s1: "into_file env rid ?r ?h ?dst s s1" "file_bytes ?dst s1 = []"
    using begin_scp [OF assms(4-6), where rid = rid and s = s and ord = ord] unfolding s1_def by blast+
  define s2 where "s2 = file_sink.takes env ?r rid 0 ?cl s1"
  have s2: "into_file env rid ?r ?h ?dst s s2" "file_bytes ?dst s2 = data"
    using file_sink.takes_all [OF s1(1), of 0 ?cl] s1(2) concat_chunk_list [OF assms(1)] by (simp_all add: s2_def)
  have ne: "?cl \<noteq> []" using assms(1,2) by (simp add: chunk_list_empty_iff)
  have "td_reassembly s1 rid = Some ?r" using s1(1) by (simp add: into_file_def in_progress_def)
  from feed_chunks [OF this assms(3) chunks_nonempty [OF assms(1)] ne]
  have run: "td_frames env ord (map (relayed rid) (transfer_frames senv base cs data)) s = finishReassembly env ?r s2"
    by (simp add: transfer_frames_def td_frames_def s1_def [symmetric] s2_def)
  have fid: "fr_id (td_objs s2 ?r) = rid" unfolding s2_def by (rule takes_id [OF ne])
  note fin = finish_file [OF s2(1) fid]
  show "td_fs (td_frames env ord (map (relayed rid) (transfer_frames senv base cs data)) s) = (td_fs s)(?dst \<mapsto> data)"
    unfolding run fin(1) using into_file_fs [OF s2(1)] by (simp add: s2(2))
  have "td_sent s2 = td_sent s" using s2(1) by (simp add: into_file_def in_progress_def)
  then show "td_sent (td_frames env ord (map (relayed rid) (transfer_frames senv base cs data)) s) = td_sent s @ [transfer_ok env rid]"
    unfolding run fin(2) by simp
  show "td_reassembly (td_frames env ord (map (relayed rid) (transfer_frames senv base cs data)) s) rid = None"
    unfolding run by (rule fin(3))
qed

lemma finish_buffer:
  assumes "into_buffer rid r ''rsync'' dst s0 s" "fr_id (td_objs s r) = rid"
  shows "finishReassembly env r s =
    (case write_payload env ''rsync'' dst (fr_buf (td_objs s r)) (td_fs s) of
       (Some e, fs) \<Rightarrow> td_send (transfer_err env rid e) ((dropReassembly rid s)\<lparr>td_fs := fs\<rparr>)
     | (None, fs) \<Rightarrow> td_send (transfer_ok env rid) ((dropReassembly rid s)\<lparr>td_fs := fs\<rparr>))"
  using assms by (simp add: finishReassembly_def into_buffer_def in_progress_def dropReassembly_def writeTransfer_def
      Let_def split: prod.split option.split)

section \<open>A transfer whose chunks are never final\<close>

text \<open>Chunks none of which is final.\<close>

primrec open_frames :: "send_env \<Rightarrow> string \<Rightarrow> nat \<Rightarrow> bytes list \<Rightarrow> wsframe list" where
  "open_frames env tid i [] = []"
| "open_frames env tid i (c # cs) = chunk_frames env tid i False c @ open_frames env tid (Suc i) cs"

lemma stream_loop_short:
  assumes "link_up env" "cs > 0" "cs dvd length data" "n > int (sent + length data)" "data = [] \<longrightarrow> i > 0"
  shows "stream_loop env tid cs n tot i sent \<lparr>rd_data = data, rd_fail = None\<rparr> out =
    Some ((sent + length data, tot, None), out @ open_frames env tid i (chunk_list cs data))"
  using assms(2,1,3-)
proof (induction data arbitrary: i sent out rule: chunk_list_induct)
  case Nil
  then show ?case by (subst stream_loop.simps) (simp add: read_full_def)
next
  case (Chunk data)
  then have le: "cs \<le> length data" by (auto intro: dvd_imp_le)
  have d: "cs dvd length (drop cs data)" using Chunk.prems(2) le by simp
  have t: "n > int (sent + cs + length (drop cs data))" using Chunk.prems(3) le by simp
  have ne: "take cs data \<noteq> []" using Chunk.hyps by simp
  show ?case
    using le Chunk.prems Chunk.hyps ne Chunk.IH [OF Chunk.prems(1) d t, of "Suc i" "out @ chunk_frames env tid i False (take cs data)"]
    by (subst stream_loop.simps) (simp add: read_full_def send_chunk_up Let_def chunk_list_step min_absorb2)
qed

lemma store_open:
  "td_sent (store_chunk env rid r i False c s) = td_sent s" "td_reassembly (store_chunk env rid r i False c s) = td_reassembly s"
  by (auto simp: store_chunk_def writeChunkData_def transfer_defs arm_chunk_def Let_def split: option.splits prod.splits bool.splits)

lemma feed_open:
  assumes "td_reassembly s rid = Some r" "gzip_ok senv env" "\<forall>c\<in>set cs. c \<noteq> []"
  shows "td_sent (td_frames env ord (map (relayed rid) (open_frames senv tid i cs)) s) = td_sent s \<and>
    td_reassembly (td_frames env ord (map (relayed rid) (open_frames senv tid i cs)) s) rid = Some r"
  using assms
proof (induction cs arbitrary: i s)
  case (Cons c cs)
  have 1: "td_frames env ord (map (relayed rid) (chunk_frames senv tid i False c)) s = store_chunk env rid r i False c s"
    using Cons.prems by (intro feed_chunk) auto
  then show ?case using Cons by (simp add: store_open)
qed (simp add: td_frames_def)

section \<open>A small instance\<close>

definition demo_send :: send_env where
  "demo_send = \<lparr>sv_json_len = (\<lambda>_. 100), sv_write = (\<lambda>_. None), sv_gzip = (\<lambda>d. 31 # d)\<rparr>"

definition demo_os :: os_env where
  "demo_os = \<lparr>os_create = (\<lambda>_. None), os_write = (\<lambda>_ _ _. None), os_writeFile = (\<lambda>_. None), os_mkdirAll = (\<lambda>_. None),
     os_openFile = (\<lambda>_. None), os_gunzip = (\<lambda>d. GzOk (tl d)), os_untar = (\<lambda>_. ([], None)), os_b64_error = (\<lambda>_. ''bad''),
     os_version = ''1.0.0''\<rparr>"

definition demo_idle :: transfers where
  "demo_idle = \<lparr>td_fs = Map.empty, td_handles = (\<lambda>_. \<lparr>fh_path = '''', fh_pos = 0, fh_open = False\<rparr>), td_nextHandle = 0,
     td_objs = (\<lambda>_. new_reassembly empty_message), td_nextObj = 0, td_reassembly = Map.empty,
     td_pendingBinaryChunk = None, td_sent = []\<rparr>"

definition demo_base :: message where
  "demo_base = empty_message\<lparr>m_id := ''f1'', m_mode := ''scp'', m_src_path := ''/a'', m_dst_path := ''/b''\<rparr>"

lemma demo_send_ok: "link_up demo_send" "gzip_ok demo_send demo_os"
  by (simp_all add: link_up_def gzip_ok_def demo_send_def demo_os_def relayMaxFrameSize_def)

lemma demo_base_fields [simp]: "m_mode demo_base = ''scp''" "m_dst_path demo_base = ''/b''" "m_id demo_base = ''f1''"
  by (simp_all add: demo_base_def)

end
