(* ===== verification/TransferCopy.thy ===== *)
theory TransferCopy
  imports TransferRun
begin

text \<open>
  What a copy does: the file or the archive arrives, streaming and buffering agree, the sender
  always returns; and the copies that are never acknowledged.
\<close>

section \<open>Properties\<close>

text \<open>
  A copied file arrives. For every non-empty file, chunk size and compressor whose output
  the daemon can decompress: streaming the file succeeds, and when the daemon has read what the
  relay forwards of the frames, the destination holds exactly the file's bytes, no other file
  changed, one success result under the relay's id was sent, and the reassembly is forgotten.
\<close>

theorem copy_delivers_file:
  assumes "link_up senv" and "gzip_ok senv env" and "cs > 0" and "data \<noteq> []" and "int (length data) + int cs \<le> 2 ^ 63"
    and "m_mode base = ''scp''" and "os_create env (m_dst_path base) = None"
    and "\<forall>pos d. os_write env (m_dst_path base) pos d = None"
  shows "\<exists>n frames. sendFileStreaming senv base \<lparr>rd_data = data, rd_fail = None\<rparr> (int (length data)) cs [] =
      Some ((length data, n, None), frames) \<and>
    (let s' = td_frames env ord (map (relayed rid) frames) s in
       td_fs s' = (td_fs s)(m_dst_path base \<mapsto> data) \<and> td_sent s' = td_sent s @ [transfer_ok env rid] \<and> td_reassembly s' rid = None)"
  using streaming_frames [OF assms(1,3,4,5)] daemon_copies [OF assms(3,4,2,6,7,8)] by (auto simp: Let_def)

theorem copy_delivers_file_witness:
  "\<exists>n frames. sendFileStreaming demo_send demo_base \<lparr>rd_data = [1, 2, 3], rd_fail = None\<rparr> (int (length [1 :: byte, 2, 3])) 2 [] =
      Some ((length [1 :: byte, 2, 3], n, None), frames) \<and>
    (let s' = td_frames demo_os [] (map (relayed ''r1'') frames) demo_idle in
       td_fs s' = (td_fs demo_idle)(m_dst_path demo_base \<mapsto> [1, 2, 3]) \<and>
       td_sent s' = td_sent demo_idle @ [transfer_ok demo_os ''r1''] \<and> td_reassembly s' ''r1'' = None)"
  by (rule copy_delivers_file [OF demo_send_ok]) (simp_all add: demo_os_def)

lemma archive_unpacked:
  assumes "link_up senv" and "gzip_ok senv env" and "cs > 0" and "data \<noteq> []"
    and "m_mode base = ''rsync''" and "os_mkdirAll env (m_dst_path base) = None"
    and "extractTarArchive env data (m_dst_path base) (td_fs s) = (err, fs)"
  shows "\<exists>frames. sendFileFramesWithSize senv base data cs [] = Some (None, frames) \<and>
    (let s' = td_frames env ord (map (relayed rid) frames) s in
       td_fs s' = fs \<and> td_sent s' = td_sent s @ [case err of None \<Rightarrow> transfer_ok env rid
         | Some e \<Rightarrow> transfer_err env rid (''failed to extract tar archive: '' @ e)] \<and> td_reassembly s' rid = None)"
proof -
  let ?init = "Json (init_message base (int (length (chunk_list cs data))) (int (length data)))"
  let ?dst = "m_dst_path base" and ?r = "td_nextObj s" and ?cl = "chunk_list cs data"
  define s1 where "s1 = td_frame env ord (relayed rid ?init) s"
  have s1: "into_buffer rid ?r ''rsync'' ?dst s s1" "fr_buf (td_objs s1 ?r) = []"
    using begin_rsync [OF assms(5), where rid = rid and s = s and ord = ord and env = env] unfolding s1_def by blast+
  define s2 where "s2 = buffer_sink.takes env ?r rid 0 ?cl s1"
  have s2: "into_buffer rid ?r ''rsync'' ?dst s s2" "fr_buf (td_objs s2 ?r) = data"
    using buffer_sink.takes_all [OF s1(1), of env 0 ?cl] s1(2) concat_chunk_list [OF assms(3)] by (simp_all add: s2_def)
  have ne: "?cl \<noteq> []" using assms(3,4) by (simp add: chunk_list_empty_iff)
  have "td_reassembly s1 rid = Some ?r" using s1(1) by (simp add: into_buffer_def in_progress_def)
  from feed_chunks [OF this assms(2) chunks_nonempty [OF assms(3)] ne]
  have run: "td_frames env ord (map (relayed rid) (transfer_frames senv base cs data)) s = finishReassembly env ?r s2"
    by (simp add: transfer_frames_def td_frames_def s1_def [symmetric] s2_def)
  have fid: "fr_id (td_objs s2 ?r) = rid" unfolding s2_def by (rule takes_id [OF ne])
  have fs2: "td_fs s2 = td_fs s" "td_sent s2 = td_sent s" using s2(1) by (simp_all add: into_buffer_def in_progress_def)
  show ?thesis
    using buffered_frames [OF assms(1,3,4), of base] finish_buffer [OF s2(1) fid, of env] assms(6,7)
    by (cases err) (simp_all add: run fs2 s2(2) write_payload_def td_send_def dropReassembly_def)
qed

text \<open>
  A copied directory is unpacked. The archive that the sender cuts into chunks is, on the
  daemon, handed whole to the extraction into the destination; the answer is the extraction's
  outcome, and the file system is what the extraction left.
\<close>

theorem copy_unpacks_archive:
  assumes "link_up senv" and "gzip_ok senv env" and "cs > 0" and "data \<noteq> []"
    and "m_mode base = ''rsync''" and "os_mkdirAll env (m_dst_path base) = None"
    and "extractTarArchive env data (m_dst_path base) (td_fs s) = (err, fs)"
  shows "\<exists>frames. sendFileFramesWithSize senv base data cs [] = Some (None, frames) \<and>
    (let s' = td_frames env ord (map (relayed rid) frames) s in
       td_fs s' = fs \<and> td_sent s' = td_sent s @ [case err of None \<Rightarrow> transfer_ok env rid
         | Some e \<Rightarrow> transfer_err env rid (''failed to extract tar archive: '' @ e)] \<and> td_reassembly s' rid = None)"
  using assms by (rule archive_unpacked)

theorem copy_unpacks_archive_witness:
  "\<exists>frames. sendFileFramesWithSize demo_send (demo_base\<lparr>m_mode := ''rsync''\<rparr>) [7, 8, 9] 2 [] = Some (None, frames) \<and>
    (let s' = td_frames demo_os [] (map (relayed ''r1'') frames) demo_idle in
       td_fs s' = td_fs demo_idle \<and> td_sent s' = td_sent demo_idle @ [transfer_ok demo_os ''r1''] \<and> td_reassembly s' ''r1'' = None)"
  using copy_unpacks_archive [OF demo_send_ok, of 2 "[7, 8, 9]" "demo_base\<lparr>m_mode := ''rsync''\<rparr>" demo_idle None "td_fs demo_idle" "[]" "''r1''"]
  by (simp add: demo_os_def extractTarArchive_def)

text \<open>
  C18. Streaming from disk and sending from memory are the same on the wire, for every payload,
  the empty one included, every chunk size and every compressor.
\<close>

theorem streaming_equals_buffered:
  assumes "link_up senv" and "cs > 0" and "int (length data) + int cs \<le> 2 ^ 63"
  shows "map_option snd (sendFileStreaming senv base \<lparr>rd_data = data, rd_fail = None\<rparr> (int (length data)) cs []) =
    map_option snd (sendFileFramesWithSize senv base data cs [])"
proof (cases "data = []")
  case True
  with assms show ?thesis
    by (simp add: sendFileStreaming_def chunkCount_def stream_loop_empty sendFileFramesWithSize_def chunkData_def
        send_chunk_up chunk_frames_def chunk_payload_def tryCompress_def Let_def)
next
  case False
  with assms show ?thesis by (simp add: streaming_frames buffered_frames)
qed

theorem streaming_equals_buffered_witness:
  "map_option snd (sendFileStreaming demo_send demo_base \<lparr>rd_data = [], rd_fail = None\<rparr> (int (length ([] :: bytes))) 2 []) =
    map_option snd (sendFileFramesWithSize demo_send demo_base [] 2 [])"
  by (rule streaming_equals_buffered [OF demo_send_ok(1)]) simp_all

text \<open>
  \<open>chunkCount\<close> announces what \<open>chunkData\<close> produces: for a positive chunk size the payload
  is cut into exactly that many pieces, of at most the chunk size, that concatenate to it, and
  there is always at least one, so that a final chunk exists.
\<close>

theorem chunks_cover_payload:
  assumes "cs > 0" and "int (length data) + int cs \<le> 2 ^ 63"
  shows "\<exists>chunks. chunkData cs data = Some chunks \<and> concat chunks = data \<and> (\<forall>c\<in>set chunks. length c \<le> cs) \<and>
    chunks \<noteq> [] \<and> chunkCount (int (length data)) (int cs) = Some (int (length chunks))"
proof (cases "data = []")
  case False
  have "\<forall>c\<in>set (chunk_list cs data). length c \<le> cs" using chunk_list_bounds [OF assms(1)] by blast
  with False show ?thesis
    using assms by (simp add: chunkData_def concat_chunk_list chunkCount_length chunk_list_empty_iff)
qed (use assms in \<open>simp add: chunkData_def chunkCount_def\<close>)

theorem chunks_cover_payload_witness:
  "\<exists>chunks. chunkData 2 [1, 2, 3] = Some chunks \<and> concat chunks = [1, 2, 3] \<and> (\<forall>c\<in>set chunks. length c \<le> 2) \<and>
    chunks \<noteq> [] \<and> chunkCount (int (length [1 :: byte, 2, 3])) (int 2) = Some (int (length chunks))"
  by (rule chunks_cover_payload) simp_all

section \<open>The sender returns\<close>

lemma stream_loop_returns: "cs > 0 \<Longrightarrow> \<exists>r. stream_loop env tid cs n tot i sent rd out = Some r"
proof (induction "length (rd_data rd)" arbitrary: rd i sent out rule: less_induct)
  case less
  obtain got rerr rd' where r: "read_full cs rd = (got, rerr, rd')" by (metis prod_cases3)
  show ?case
  proof (cases "got = []")
    case True
    with r less.prems have "rerr \<noteq> None" by (auto simp: read_full_def Let_def split: if_splits option.splits)
    with True r show ?thesis
      by (subst stream_loop.simps) (auto split: option.splits read_error.splits prod.splits)
  next
    case False
    with r have len: "length (rd_data rd') < length (rd_data rd)" using less.prems by (auto simp: read_full_def Let_def)
    obtain e out' where "send_chunk env (''sending file chunk header '' @ go_itoa (int i)) (''sending file chunk data '' @ go_itoa (int i))
        tid i (rerr = Some UnexpectedEOF \<or> (rerr = None \<and> int (sent + length got) \<ge> n)) got out = (e, out')" by fastforce
    with False r less.hyps [OF len less.prems] show ?thesis
      by (subst stream_loop.simps) (cases e; simp add: Let_def)
  qed
qed

text \<open>
  C19. Sending a file always ends. For every positive chunk size, every reader (also one that
  fails, ends early or holds more than announced) and every connection (also one whose writes
  fail), \<open>sendFileStreaming\<close> returns.
\<close>

theorem sendFileStreaming_returns:
  assumes "cs > 0"
  shows "\<exists>r. sendFileStreaming env base rd n cs out = Some r"
proof -
  have "chunkCount n (int cs) \<noteq> None" using assms by (simp add: chunkCount_def)
  then show ?thesis
    using stream_loop_returns [OF assms] by (auto simp: sendFileStreaming_def split: prod.split option.split)
qed

theorem sendFileStreaming_returns_witness: "\<exists>r. sendFileStreaming demo_send demo_base \<lparr>rd_data = [1], rd_fail = Some ''io''\<rparr> 9 4 [] = Some r"
  by (rule sendFileStreaming_returns) simp

section \<open>Copies that never finish\<close>

text \<open>
  An empty file is never acknowledged. Its only chunk is announced as binary but no binary
  frame follows, so after reading all frames the daemon has sent nothing and still waits for
  the payload; the sender waits for a result until its timeout.
\<close>

theorem empty_copy_never_acknowledged:
  assumes "link_up senv" and "cs > 0" and "m_mode base = ''scp''" and "os_create env (m_dst_path base) = None"
  shows "\<exists>n frames. sendFileStreaming senv base \<lparr>rd_data = [], rd_fail = None\<rparr> 0 cs [] = Some ((0, n, None), frames) \<and>
    (let s' = td_frames env ord (map (relayed rid) frames) s in
       td_sent s' = td_sent s \<and> td_pendingBinaryChunk s' \<noteq> None \<and> td_reassembly s' rid \<noteq> None)"
  using assms
  by (simp add: sendFileStreaming_def chunkCount_def stream_loop_empty td_frames_def td_frame_def relayed_def
      beginChunkedTransfer_def create_file_def install_def td_handleFileChunk_def upd_obj_def new_reassembly_def)

theorem empty_copy_never_acknowledged_witness:
  "\<exists>n frames. sendFileStreaming demo_send demo_base \<lparr>rd_data = [], rd_fail = None\<rparr> 0 4 [] = Some ((0, n, None), frames) \<and>
    (let s' = td_frames demo_os [] (map (relayed ''r1'') frames) demo_idle in
       td_sent s' = td_sent demo_idle \<and> td_pendingBinaryChunk s' \<noteq> None \<and> td_reassembly s' ''r1'' \<noteq> None)"
  by (rule empty_copy_never_acknowledged [OF demo_send_ok(1)]) (simp_all add: demo_os_def)

text \<open>
  A file that shrinks while it is copied can leave the copy hanging: if what is read is a
  positive multiple of the chunk size and less than the size announced, every chunk is sent as
  not final, the sender reports no error, and the daemon, having read everything, has answered
  nothing and keeps the transfer open.
\<close>

theorem shrunk_file_never_acknowledged:
  assumes "link_up senv" and "gzip_ok senv env" and "cs > 0" and "data \<noteq> []" and "cs dvd length data"
    and "n > int (length data)" and "m_mode base = ''scp''" and "os_create env (m_dst_path base) = None"
  shows "\<exists>tot frames. sendFileStreaming senv base \<lparr>rd_data = data, rd_fail = None\<rparr> n cs [] = Some ((length data, tot, None), frames) \<and>
    (let s' = td_frames env ord (map (relayed rid) frames) s in td_sent s' = td_sent s \<and> td_reassembly s' rid \<noteq> None)"
proof -
  have "chunkCount n (int cs) \<noteq> None" using assms(3) by (simp add: chunkCount_def)
  then obtain tot where tot: "chunkCount n (int cs) = Some tot" by blast
  let ?init = "Json (init_message base tot n)"
  let ?s1 = "td_frame env ord (relayed rid ?init) s"
  have run: "sendFileStreaming senv base \<lparr>rd_data = data, rd_fail = None\<rparr> n cs [] =
      Some ((length data, tot, None), ?init # open_frames senv (m_id base) 0 (chunk_list cs data))"
    using stream_loop_short [OF assms(1,3,5), where n = n and sent = 0 and i = 0] assms(1,4,6) tot by (simp add: sendFileStreaming_def)
  have s1: "td_reassembly ?s1 rid = Some (td_nextObj s)" "td_sent ?s1 = td_sent s"
    using assms(7,8) by (simp_all add: relayed_init td_frame_def beginChunkedTransfer_def create_file_def install_def)
  show ?thesis
    using feed_open [OF s1(1) assms(2) chunks_nonempty [OF assms(3)], of ord "m_id base" 0 data] s1(2) run
    by (simp add: td_frames_def)
qed

theorem shrunk_file_never_acknowledged_witness:
  "\<exists>tot frames. sendFileStreaming demo_send demo_base \<lparr>rd_data = [1, 2], rd_fail = None\<rparr> 3 2 [] = Some ((length [1 :: byte, 2], tot, None), frames) \<and>
    (let s' = td_frames demo_os [] (map (relayed ''r1'') frames) demo_idle in td_sent s' = td_sent demo_idle \<and> td_reassembly s' ''r1'' \<noteq> None)"
  by (rule shrunk_file_never_acknowledged [OF demo_send_ok]) (simp_all add: demo_os_def)

text \<open>
  Legacy base64 chunks are answered under the wrong id. The transfer's own id is noted only
  when a binary chunk header arrives; a transfer made of base64 chunks is finished under the
  empty id, so its result names no transfer and its entry stays in the table.
\<close>

theorem legacy_result_has_no_id:
  assumes "td_reassembly s rid = Some r" and "fr_id (td_objs s r) = ''''" and "rid \<noteq> ''''" and "m_id m = rid"
    and "\<not> m_binary_chunk m" and "m_final m" and "b64_dec (m_data m) = Some d"
  shows "\<exists>answer. td_sent (td_handleFileChunk env m s) = td_sent s @ [answer] \<and> m_id answer = '''' \<and>
    td_reassembly (td_handleFileChunk env m s) rid = Some r"
proof -
  let ?s1 = "writeChunkData env r d s"
  have i: "fr_id (td_objs ?s1 r) = ''''" "td_sent ?s1 = td_sent s"
    using assms(2) by (auto simp: writeChunkData_def transfer_defs Let_def split: option.splits prod.splits bool.splits)
  have f: "td_handleFileChunk env m s = finishReassembly env r ?s1" using assms by (simp add: td_handleFileChunk_def)
  have ids: "m_id (transfer_ok env '''') = ''''" "m_id (transfer_err env '''' e) = ''''" for e
    by (simp_all add: transfer_ok_def transfer_err_def stampVersion_def)
  show ?thesis
    unfolding f using assms(1,3) ids i
    by (auto simp: finishReassembly_def dropReassembly_def td_send_def closeFileWriter_def upd_obj_def upd_handle_def
        writeTransfer_def Let_def split: option.splits prod.splits)
qed

theorem legacy_result_has_no_id_witness:
  "let s = td_frame demo_os [] (relayed ''r1'' (Json (init_message demo_base 1 1))) demo_idle;
       m = empty_message\<lparr>m_type := ''file_chunk'', m_id := ''r1'', m_data := b64_enc [65], m_final := True\<rparr>
   in \<exists>answer. td_sent (td_handleFileChunk demo_os m s) = td_sent s @ [answer] \<and> m_id answer = '''' \<and>
        td_reassembly (td_handleFileChunk demo_os m s) ''r1'' = Some 0"
  unfolding Let_def
  by (rule legacy_result_has_no_id [where d = "[65]"])
     (simp_all del: b64_enc.simps add: relayed_init td_frame_def beginChunkedTransfer_def create_file_def install_def new_reassembly_def
        demo_idle_def demo_os_def b64_dec_enc empty_message_def)

end
