(* ===== verification/TransferParallel.thy ===== *)
theory TransferParallel
  imports TransferRun
begin

text \<open>
  A copy over several connections. Every stream announces the transfer and sends its own share
  of the chunks, each written at its offset of one shared file; the streams' frames reach the
  daemon in any interleaving.
\<close>

section \<open>Writing at an offset\<close>

lemma length_write_at [simp]: "pos + length d \<le> length old \<Longrightarrow> length (write_at pos d old) = length old"
  by (simp add: write_at_def)

lemma nth_write_at:
  assumes "pos + length d \<le> length old" "p < length old"
  shows "write_at pos d old ! p = (if pos \<le> p \<and> p < pos + length d then d ! (p - pos) else old ! p)"
  using assms by (auto simp: write_at_def nth_append min_def)

text \<open>The chunks written so far: \<open>done\<close>.\<close>

definition filled :: "nat \<Rightarrow> bytes \<Rightarrow> nat set \<Rightarrow> bytes \<Rightarrow> bool" where
  "filled cs data chunks file \<longleftrightarrow> length file = length data \<and> (\<forall>p < length data. p div cs \<in> chunks \<longrightarrow> file ! p = data ! p)"

definition chunk_at :: "nat \<Rightarrow> bytes \<Rightarrow> nat \<Rightarrow> bytes" where
  "chunk_at cs data i = take cs (drop (i * cs) data)"

lemma filled_write:
  assumes "cs > 0" "filled cs data chunks file" "i * cs < length data"
  shows "filled cs data (insert i chunks) (write_at (i * cs) (chunk_at cs data i) file)"
proof -
  have len: "length file = length data" using assms(2) by (simp add: filled_def)
  have fit: "i * cs + length (chunk_at cs data i) \<le> length file" using assms(3) len by (simp add: chunk_at_def)
  have "write_at (i * cs) (chunk_at cs data i) file ! p = data ! p" if p: "p < length data" "p div cs \<in> insert i chunks" for p
  proof (cases "p div cs = i")
    case True
    then have "i * cs \<le> p" "p < i * cs + cs"
      using assms(1) div_times_less_eq_dividend [of p cs] dividend_less_div_times [of cs p] by (auto simp: algebra_simps)
    then show ?thesis using p len fit by (auto simp: nth_write_at chunk_at_def)
  next
    case False
    have "\<not> (i * cs \<le> p \<and> p < i * cs + length (chunk_at cs data i))"
    proof
      assume "i * cs \<le> p \<and> p < i * cs + length (chunk_at cs data i)"
      then have "i * cs \<le> p" "p < Suc i * cs" by (auto simp: chunk_at_def)
      then have "p div cs = i" by (intro div_nat_eqI) (auto simp: mult.commute)
      with False show False by simp
    qed
    then show ?thesis using p assms(2) False len fit by (auto simp: nth_write_at filled_def)
  qed
  then show ?thesis using len fit by (simp add: filled_def)
qed

lemma filled_all:
  assumes "cs > 0" "filled cs data chunks file" "{i. i * cs < length data} \<subseteq> chunks"
  shows "file = data"
proof (rule nth_equalityI)
  show "length file = length data" using assms(2) by (simp add: filled_def)
next
  fix p assume "p < length file"
  then have p: "p < length data" using assms(2) by (simp add: filled_def)
  then have "p div cs * cs < length data" using div_times_less_eq_dividend [of p cs] by linarith
  then show "file ! p = data ! p" using assms(2,3) p by (auto simp: filled_def)
qed

section \<open>The streams at the daemon\<close>

text \<open>The streams \<open>ks\<close> are open: their entries, all with the same writer \<open>h\<close>.\<close>

definition striped :: "os_env \<Rightarrow> (nat \<Rightarrow> string) \<Rightarrow> string \<Rightarrow> nat \<Rightarrow> nat \<Rightarrow> nat set \<Rightarrow> transfers \<Rightarrow> bool" where
  "striped env rid dst cs h ks s \<longleftrightarrow>
     (\<forall>k\<in>ks. \<exists>r. td_reassembly s (rid k) = Some r \<and> fr_dst (td_objs s r) = dst \<and> fr_fileWriter (td_objs s r) = Some h \<and>
        fr_parallel (td_objs s r) \<and> fr_chunkSizeBytes (td_objs s r) = int cs) \<and>
     fh_path (td_handles s h) = dst \<and> fh_open (td_handles s h) \<and> (\<forall>pos d. os_write env dst pos d = None)"

lemma store_stripe:
  fixes env rid k r i fin c s
  assumes "striped env rid dst cs h ks s" "k \<in> ks" "td_reassembly s (rid k) = Some r" "cs > 0" "int (i * cs) < 2 ^ 63"
  defines "s' \<equiv> store_chunk env (rid k) r i fin c s"
  shows "td_fs s' = (td_fs s)(dst \<mapsto> write_at (i * cs) c (file_bytes dst s))"
    "td_sent s' = td_sent s @ (if fin then [transfer_ok env (rid k)] else [])"
    "inj_on rid ks \<Longrightarrow> striped env rid dst cs h (if fin then ks - {k} else ks) s'"
    "td_reassembly s' = (if fin then (td_reassembly s)(rid k := None) else td_reassembly s)"
proof -
  have w: "wrap64 (int i * int cs) = int (i * cs)" using assms(5) order_trans [of "- (2 ^ 63)" 0 "int (i * cs)"]
    by (subst wrap64_id) (auto simp: go_int_range_def)
  have o': "fr_dst (td_objs s r) = dst" "fr_fileWriter (td_objs s r) = Some h" "fr_parallel (td_objs s r)"
    "fr_chunkSizeBytes (td_objs s r) = int cs" "fh_path (td_handles s h) = dst" "fh_open (td_handles s h)"
    "os_write env dst pos d = None" for pos d
    using assms(1-3) by (force simp: striped_def)+
  have n: "nat (int i * int cs) = i * cs" "\<not> int i * int cs < 0" by (metis nat_int of_nat_mult, simp add: not_less)
  have s': "s' = (let s1 = (arm_chunk (rid k) r i fin s)\<lparr>td_fs := (td_fs s)(dst \<mapsto> write_at (i * cs) c (file_bytes dst s)),
        td_handles := (td_handles s)(h := (td_handles s h)\<lparr>fh_pos := i * cs + length c\<rparr>)\<rparr>
      in if fin then td_send (transfer_ok env (rid k)) (dropReassembly (rid k) s1) else s1)"
    using assms(4) o' n
    by (simp add: s'_def store_chunk_def writeChunkData_def arm_chunk_def upd_obj_def handle_seek_def w handle_write_def upd_handle_def
        file_bytes_def finishReassembly_def Let_def)
  show "td_fs s' = (td_fs s)(dst \<mapsto> write_at (i * cs) c (file_bytes dst s))"
    "td_sent s' = td_sent s @ (if fin then [transfer_ok env (rid k)] else [])"
    "td_reassembly s' = (if fin then (td_reassembly s)(rid k := None) else td_reassembly s)"
    by (simp_all add: s' arm_chunk_def upd_obj_def td_send_def dropReassembly_def Let_def)
  show "striped env rid dst cs h (if fin then ks - {k} else ks) s'" if inj: "inj_on rid ks"
    unfolding striped_def
  proof (intro conjI ballI)
    fix j assume j: "j \<in> (if fin then ks - {k} else ks)"
    then have "j \<in> ks" by (auto split: if_splits)
    then obtain r' where r': "td_reassembly s (rid j) = Some r'" "fr_dst (td_objs s r') = dst" "fr_fileWriter (td_objs s r') = Some h"
        "fr_parallel (td_objs s r')" "fr_chunkSizeBytes (td_objs s r') = int cs"
      using assms(1) by (auto simp: striped_def)
    have "fin \<Longrightarrow> rid j \<noteq> rid k" using j inj assms(2) by (auto simp: inj_on_def)
    with r' show "\<exists>r. td_reassembly s' (rid j) = Some r \<and> fr_dst (td_objs s' r) = dst \<and> fr_fileWriter (td_objs s' r) = Some h \<and>
        fr_parallel (td_objs s' r) \<and> fr_chunkSizeBytes (td_objs s' r) = int cs"
      by (intro exI [of _ r']) (auto simp: s' arm_chunk_def upd_obj_def td_send_def dropReassembly_def Let_def)
  qed (use o' in \<open>auto simp: s' arm_chunk_def upd_obj_def td_send_def dropReassembly_def Let_def\<close>)
qed

section \<open>Interleavings\<close>

text \<open>An event \<open>(k, i)\<close>: the daemon reads chunk \<open>i\<close> of stream \<open>k\<close>, header and payload, which
  the relay forwards as one unit.\<close>

definition stripe_frames :: "send_env \<Rightarrow> (nat \<Rightarrow> string) \<Rightarrow> string \<Rightarrow> nat \<Rightarrow> bytes \<Rightarrow> nat \<Rightarrow> nat \<Rightarrow> nat \<times> nat \<Rightarrow> wsframe list" where
  "stripe_frames senv rid tid cs data n tot e =
     map (relayed (rid (fst e))) (chunk_frames senv tid (snd e) (tot \<le> snd e + n) (chunk_at cs data (snd e)))"

text \<open>The chunks left to stream \<open>k\<close> are what its loop sends from some number on.\<close>

definition in_stream_order :: "nat \<Rightarrow> nat \<Rightarrow> (nat \<times> nat) list \<Rightarrow> bool" where
  "in_stream_order n tot evs \<longleftrightarrow> (\<forall>k. \<exists>j. map snd (filter (\<lambda>e. fst e = k) evs) = stream_seqs n tot j)"

lemma stream_seqs_Cons: "stream_seqs n tot j = i # is \<Longrightarrow> i = j \<and> j < tot \<and> 0 < n \<and> is = stream_seqs n tot (i + n)"
  by (subst (asm) stream_seqs.simps) (auto split: if_splits)

lemma stream_seqs_Nil: "0 < n \<Longrightarrow> stream_seqs n tot j = [] \<longleftrightarrow> tot \<le> j"
  by (subst stream_seqs.simps) auto

lemma in_stream_order_Cons:
  assumes "in_stream_order n tot ((k, i) # evs)"
  shows "in_stream_order n tot evs" "i < tot" "tot \<le> i + n \<longleftrightarrow> k \<notin> fst ` set evs"
proof -
  obtain j where "map snd (filter (\<lambda>e. fst e = k) ((k, i) # evs)) = stream_seqs n tot j"
    using assms unfolding in_stream_order_def by blast
  then have "stream_seqs n tot j = i # map snd (filter (\<lambda>e. fst e = k) evs)" by simp
  note c = stream_seqs_Cons [OF this]
  show "i < tot" using c by simp
  have "map snd (filter (\<lambda>e. fst e = l) evs) = map snd (filter (\<lambda>e. fst e = l) ((k, i) # evs))" if "l \<noteq> k" for l
    using that by simp
  with assms c show "in_stream_order n tot evs" unfolding in_stream_order_def by metis
  have "tot \<le> i + n \<longleftrightarrow> map snd (filter (\<lambda>e. fst e = k) evs) = []" using c stream_seqs_Nil by simp
  then show "tot \<le> i + n \<longleftrightarrow> k \<notin> fst ` set evs" by (auto simp: filter_empty_conv)
qed

lemma feed_stripes:
  assumes "gzip_ok senv env" "cs > 0" "int (length data) < 2 ^ 63" "\<forall>i < tot. i * cs < length data"
    and "inj_on rid ks0" "ks \<subseteq> ks0" "striped env rid dst cs h ks s" "fst ` set evs \<subseteq> ks" "in_stream_order n tot evs"
    and "filled cs data chunks (file_bytes dst s)"
  shows "let s' = td_frames env ord (concat (map (stripe_frames senv rid tid cs data n tot) evs)) s in
    filled cs data (chunks \<union> snd ` set evs) (file_bytes dst s') \<and>
    (\<forall>p. p \<noteq> dst \<longrightarrow> td_fs s' p = td_fs s p) \<and> (evs \<noteq> [] \<longrightarrow> td_fs s' dst \<noteq> None) \<and>
    (\<exists>ans. td_sent s' = td_sent s @ ans \<and> set ans = (\<lambda>k. transfer_ok env (rid k)) ` fst ` set evs \<and> length ans = card (fst ` set evs))"
  using assms(6-)
proof (induction evs arbitrary: ks s chunks)
  case (Cons e evs)
  obtain k i where e: "e = (k, i)" by fastforce
  note ord = in_stream_order_Cons [OF Cons.prems(4) [unfolded e]]
  have k: "k \<in> ks" using Cons.prems(3) e by simp
  then obtain r where r: "td_reassembly s (rid k) = Some r" using Cons.prems(2) by (auto simp: striped_def)
  have i: "i * cs < length data" using assms(4) ord(2) by blast
  then have i63: "int (i * cs) < 2 ^ 63" using assms(3) by (metis dual_order.strict_trans of_nat_less_iff)
  let ?c = "chunk_at cs data i" and ?fin = "tot \<le> i + n"
  have ne: "?c \<noteq> []" using i assms(2) by (simp add: chunk_at_def)
  define s1 where "s1 = store_chunk env (rid k) r i ?fin ?c s"
  have run: "td_frames env ord (stripe_frames senv rid tid cs data n tot e) s = s1"
    unfolding stripe_frames_def e s1_def fst_conv snd_conv by (rule feed_chunk [OF r assms(1) ne])
  have inj: "inj_on rid ks" by (rule inj_on_subset [OF assms(5) Cons.prems(1)])
  note st = store_stripe [OF Cons.prems(2) k r assms(2) i63, where c = ?c and fin = ?fin, folded s1_def]
  have fill: "filled cs data (insert i chunks) (file_bytes dst s1)"
    using filled_write [OF assms(2) Cons.prems(5) i] st(1) by (simp add: file_bytes_def)
  have "let s' = td_frames env ord (concat (map (stripe_frames senv rid tid cs data n tot) evs)) s1 in
    filled cs data (insert i chunks \<union> snd ` set evs) (file_bytes dst s') \<and>
    (\<forall>p. p \<noteq> dst \<longrightarrow> td_fs s' p = td_fs s1 p) \<and> (evs \<noteq> [] \<longrightarrow> td_fs s' dst \<noteq> None) \<and>
    (\<exists>ans. td_sent s' = td_sent s1 @ ans \<and> set ans = (\<lambda>k. transfer_ok env (rid k)) ` fst ` set evs \<and> length ans = card (fst ` set evs))"
  proof (rule Cons.IH [OF _ st(3) [OF inj] _ ord(1) fill])
    show "(if ?fin then ks - {k} else ks) \<subseteq> ks0" using Cons.prems(1) by auto
    show "fst ` set evs \<subseteq> (if ?fin then ks - {k} else ks)" using Cons.prems(3) ord(3) by auto
  qed
  then obtain ans where step: "let s' = td_frames env ord (concat (map (stripe_frames senv rid tid cs data n tot) evs)) s1 in
    filled cs data (insert i chunks \<union> snd ` set evs) (file_bytes dst s') \<and>
    (\<forall>p. p \<noteq> dst \<longrightarrow> td_fs s' p = td_fs s1 p) \<and> (evs \<noteq> [] \<longrightarrow> td_fs s' dst \<noteq> None) \<and> td_sent s' = td_sent s1 @ ans"
    "set ans = (\<lambda>k. transfer_ok env (rid k)) ` fst ` set evs" "length ans = card (fst ` set evs)"
    by (auto simp: Let_def)
  let ?all = "(if ?fin then [transfer_ok env (rid k)] else []) @ ans"
  have a: "set ?all = (\<lambda>k. transfer_ok env (rid k)) ` fst ` set (e # evs)" "length ?all = card (fst ` set (e # evs))"
    using step(2,3) ord(3) by (auto simp: e insert_absorb)
  have d: "td_fs s1 dst \<noteq> None" using st(1) by simp
  have run': "td_frames env ord (concat (map (stripe_frames senv rid tid cs data n tot) (e # evs))) s =
      td_frames env ord (concat (map (stripe_frames senv rid tid cs data n tot) evs)) s1" using run by simp
  have files: "\<forall>p. p \<noteq> dst \<longrightarrow> td_fs s1 p = td_fs s p" using st(1) by simp
  show ?case
    unfolding run' Let_def
  proof (intro conjI)
    show "\<exists>ans. td_sent (td_frames env ord (concat (map (stripe_frames senv rid tid cs data n tot) evs)) s1) = td_sent s @ ans \<and>
        set ans = (\<lambda>k. transfer_ok env (rid k)) ` fst ` set (e # evs) \<and> length ans = card (fst ` set (e # evs))"
      using step(1) st(2) a by (intro exI [of _ ?all]) (simp add: Let_def)
    show "e # evs \<noteq> [] \<longrightarrow> td_fs (td_frames env ord (concat (map (stripe_frames senv rid tid cs data n tot) evs)) s1) dst \<noteq> None"
      using step(1) d by (cases evs) (simp_all add: Let_def)
    show "filled cs data (chunks \<union> snd ` set (e # evs))
        (file_bytes dst (td_frames env ord (concat (map (stripe_frames senv rid tid cs data n tot) evs)) s1))"
      using step(1) by (simp add: Let_def e)
  qed (use step(1) files in \<open>simp add: Let_def\<close>)
qed (auto simp: Let_def)

section \<open>The announcements\<close>

lemma parallel_init_fields [simp]:
  "m_type (parallel_init base tot sz cs n) = ''file_transfer''" "m_chunked (parallel_init base tot sz cs n)"
  "m_mode (parallel_init base tot sz cs n) = ''scp''" "m_dst_path (parallel_init base tot sz cs n) = m_dst_path base"
  "m_parallel_streams (parallel_init base tot sz cs n) = int n" "m_chunk_size_bytes (parallel_init base tot sz cs n) = int cs"
  "m_total_size (parallel_init base tot sz cs n) = sz"
  by (simp_all add: parallel_init_def)

lemma relayed_parallel_init:
  "relayed k (Json (parallel_init base tot sz cs n)) = Json (forward_transfer k (parallel_init base tot sz cs n))"
  by (simp add: relayed_def)

definition only_striped :: "os_env \<Rightarrow> (nat \<Rightarrow> string) \<Rightarrow> string \<Rightarrow> nat \<Rightarrow> nat \<Rightarrow> nat set \<Rightarrow> transfers \<Rightarrow> bool" where
  "only_striped env rid dst cs h ks s \<longleftrightarrow> striped env rid dst cs h ks s \<and> dom (td_reassembly s) = rid ` ks \<and>
     (\<forall>r\<in>ran (td_reassembly s). r < td_nextObj s)"

lemma shared_writer_striped:
  assumes "only_striped env rid dst cs h ks s" "k \<in> ks" "rid ` ks \<subseteq> set ord"
  shows "shared_writer dst ord s = Some h"
proof -
  let ?P = "\<lambda>tid. case td_reassembly s tid of None \<Rightarrow> False
          | Some r \<Rightarrow> fr_dst (td_objs s r) = dst \<and> fr_fileWriter (td_objs s r) \<noteq> None \<and> fr_parallel (td_objs s r)"
  have "?P (rid k)" using assms(1,2) by (auto simp: only_striped_def striped_def)
  moreover have "rid k \<in> set ord" using assms(2,3) by auto
  ultimately obtain tid rest where f: "filter ?P ord = tid # rest" by (cases "filter ?P ord") (auto simp: filter_empty_conv)
  then have "?P tid" by (metis (no_types, lifting) filter_eq_Cons_iff)
  then obtain r where r: "td_reassembly s tid = Some r" by (auto split: option.splits)
  then have "tid \<in> rid ` ks" using assms(1) by (auto simp: only_striped_def)
  then have "fr_fileWriter (td_objs s r) = Some h" using assms(1) r by (auto simp: only_striped_def striped_def)
  then show ?thesis using f r by (simp add: shared_writer_def)
qed

lemma install_striped:
  assumes "only_striped env rid dst cs h ks s" "inj_on rid (insert k ks)"
    "fr_dst r = dst" "fr_fileWriter r = Some h" "fr_parallel r" "fr_chunkSizeBytes r = int cs"
  shows "only_striped env rid dst cs h (insert k ks) (install (rid k) r s)"
proof -
  have "\<exists>r'. td_reassembly (install (rid k) r s) (rid j) = Some r' \<and> fr_dst (td_objs (install (rid k) r s) r') = dst \<and>
      fr_fileWriter (td_objs (install (rid k) r s) r') = Some h \<and> fr_parallel (td_objs (install (rid k) r s) r') \<and>
      fr_chunkSizeBytes (td_objs (install (rid k) r s) r') = int cs" if j: "j \<in> insert k ks" for j
  proof (cases "j = k")
    case True
    then show ?thesis using assms(3-) by (simp add: install_def)
  next
    case False
    then obtain r' where r': "td_reassembly s (rid j) = Some r'" "fr_dst (td_objs s r') = dst" "fr_fileWriter (td_objs s r') = Some h"
        "fr_parallel (td_objs s r')" "fr_chunkSizeBytes (td_objs s r') = int cs"
      using assms(1) j by (auto simp: only_striped_def striped_def)
    then have "r' \<noteq> td_nextObj s" using assms(1) by (metis nat_neq_iff only_striped_def ranI)
    moreover have "rid j \<noteq> rid k" using False j assms(2) by (auto simp: inj_on_def)
    ultimately show ?thesis using r' by (intro exI [of _ r']) (simp add: install_def)
  qed
  then show ?thesis
    using assms(1)
    by (auto simp: only_striped_def striped_def install_def ran_def less_Suc_eq split: if_splits)
qed

lemma join_stripe:
  fixes env rid base tot sz cs n k ord s
  assumes "only_striped env rid (m_dst_path base) cs h ks s" "inj_on rid (insert k ks)" "ks \<noteq> {}" "rid ` ks \<subseteq> set ord" "n > 1"
  defines "s' \<equiv> td_frame env ord (relayed (rid k) (Json (parallel_init base tot sz cs n))) s"
  shows "only_striped env rid (m_dst_path base) cs h (insert k ks) s'" "td_fs s' = td_fs s" "td_sent s' = td_sent s"
proof -
  obtain j where "j \<in> ks" using assms(3) by blast
  then have "shared_writer (m_dst_path base) ord s = Some h" by (rule shared_writer_striped [OF assms(1) _ assms(4)])
  then have s': "s' = install (rid k) ((new_reassembly (forward_transfer (rid k) (parallel_init base tot sz cs n)))
        \<lparr>fr_parallel := True, fr_fileWriter := Some h\<rparr>) s"
    using assms(5) by (simp add: s'_def relayed_parallel_init td_frame_def beginChunkedTransfer_def)
  show "only_striped env rid (m_dst_path base) cs h (insert k ks) s'"
    unfolding s' by (rule install_striped [OF assms(1,2)]) (simp_all add: new_reassembly_def)
  show "td_fs s' = td_fs s" "td_sent s' = td_sent s" by (simp_all add: s' install_def)
qed

lemma join_stripes:
  assumes "n > 1"
  shows "only_striped env rid (m_dst_path base) cs h ks s \<Longrightarrow> ks \<noteq> {} \<Longrightarrow> inj_on rid (ks \<union> set js) \<Longrightarrow> rid ` (ks \<union> set js) \<subseteq> set ord \<Longrightarrow>
    (let s' = td_frames env ord (map (\<lambda>k. relayed (rid k) (Json (parallel_init base tot sz cs n))) js) s
     in only_striped env rid (m_dst_path base) cs h (ks \<union> set js) s' \<and> td_fs s' = td_fs s \<and> td_sent s' = td_sent s)"
proof (induction js arbitrary: ks s)
  case (Cons k js)
  have inj: "inj_on rid (insert k ks)" by (rule inj_on_subset [OF Cons.prems(3)]) auto
  have sub: "rid ` ks \<subseteq> set ord" using Cons.prems(4) by auto
  note j = join_stripe [OF Cons.prems(1) inj Cons.prems(2) sub assms, of tot sz]
  show ?case
    using Cons.IH [OF j(1)] j(2,3) Cons.prems(3,4) by (simp add: td_frames_def Let_def)
qed simp

lemma first_stripe:
  fixes env base tot sz cs n ord s and rid :: "nat \<Rightarrow> string" and k :: nat
  assumes "td_reassembly s = Map.empty" "os_create env (m_dst_path base) = None" "\<forall>pos d. os_write env (m_dst_path base) pos d = None"
    "n > 1" "sz > 0"
  defines "s' \<equiv> td_frame env ord (relayed (rid k) (Json (parallel_init base tot sz cs n))) s"
  shows "only_striped env rid (m_dst_path base) cs (td_nextHandle s) {k} s'"
    "td_fs s' = (td_fs s)(m_dst_path base \<mapsto> replicate (nat sz) 0)" "td_sent s' = td_sent s"
proof -
  have none: "shared_writer (m_dst_path base) ord s = None" by (simp add: shared_writer_def assms(1))
  show "only_striped env rid (m_dst_path base) cs (td_nextHandle s) {k} s'"
    "td_fs s' = (td_fs s)(m_dst_path base \<mapsto> replicate (nat sz) 0)" "td_sent s' = td_sent s"
    using assms(1-5) none
    by (simp_all add: s'_def relayed_parallel_init td_frame_def beginChunkedTransfer_def create_file_def truncate_file_def install_def
        file_bytes_def only_striped_def striped_def new_reassembly_def)
qed

section \<open>What each stream sends\<close>

definition stripe :: "send_env \<Rightarrow> string \<Rightarrow> nat \<Rightarrow> bytes \<Rightarrow> nat \<Rightarrow> nat \<Rightarrow> nat \<Rightarrow> wsframe list" where
  "stripe senv tid cs data n tot i = chunk_frames senv tid i (tot \<le> i + n) (chunk_at cs data i)"

lemma send_seqs_up:
  assumes "link_up senv" "cs > 0" "\<forall>i\<in>set seqs. i * cs < length data"
  shows "send_seqs senv k tid data cs n tot seqs out = (None, out @ concat (map (stripe senv tid cs data n tot) seqs))"
  using assms(3)
proof (induction seqs arbitrary: out)
  case (Cons i seqs)
  then show ?case using assms(1,2)
    by (simp add: send_chunk_up stripe_def chunk_at_def Let_def)
qed simp

lemma stream_seqs_less: "i \<in> set (stream_seqs n tot j) \<Longrightarrow> i < tot"
proof (induction n tot j rule: stream_seqs.induct)
  case (1 n tot j)
  then show ?case by (subst (asm) (2) stream_seqs.simps) (auto split: if_splits)
qed

lemma stream_seqs_mem:
  assumes "0 < n" "i < tot"
  shows "i \<in> set (stream_seqs n tot (i mod n))"
proof -
  have "i mod n + q * n < tot \<Longrightarrow> i mod n + q * n \<in> set (stream_seqs n tot (i mod n + j * n))" if "j \<le> q" for q j
    using that
  proof (induction "q - j" arbitrary: j)
    case 0
    then show ?case using assms(1) by (subst stream_seqs.simps) auto
  next
    case (Suc d)
    then have "j < q" by simp
    then have "j * n < q * n" using assms(1) by simp
    then have "i mod n + j * n < tot" using Suc.prems by linarith
    moreover have "i mod n + q * n \<in> set (stream_seqs n tot (i mod n + Suc j * n))" using Suc \<open>j < q\<close> by (intro Suc.hyps(1)) auto
    ultimately show ?case using Suc.prems assms(1) by (subst stream_seqs.simps) (simp add: add.assoc add.commute [of n])
  qed
  from this [of 0 "i div n"] show ?thesis using assms(2) by simp
qed

definition chunk_total :: "nat \<Rightarrow> bytes \<Rightarrow> nat" where
  "chunk_total cs data = length (chunk_list cs data)"

lemma chunk_total_iff:
  assumes "cs > 0"
  shows "i < chunk_total cs data \<longleftrightarrow> i * cs < length data"
proof -
  have "i < (length data + cs - 1) div cs \<longleftrightarrow> Suc i * cs \<le> length data + cs - 1"
    using assms less_eq_div_iff_mult_less_eq [of cs "Suc i" "length data + cs - 1"] by (simp add: Suc_le_eq)
  then show ?thesis using assms by (auto simp: chunk_total_def length_chunk_list)
qed

lemma parallel_stream_up:
  assumes "link_up senv" "cs > 0" "data \<noteq> []" "int (length data) + int cs \<le> 2 ^ 63"
  shows "parallel_stream senv base data (int (length data)) cs n k =
    Some (None, Json (parallel_init base (int (chunk_total cs data)) (int (length data)) cs n) #
      concat (map (stripe senv (m_id base) cs data n (chunk_total cs data)) (stream_seqs n (chunk_total cs data) k)))"
proof -
  have "\<forall>i\<in>set (stream_seqs n (chunk_total cs data) k). i * cs < length data"
    using stream_seqs_less chunk_total_iff [OF assms(2)] by blast
  then show ?thesis
    using assms by (simp add: parallel_stream_def chunkCount_length chunk_total_def [symmetric] send_seqs_up)
qed

text \<open>The announcements in the order \<open>ks\<close>, and the chunks in the order \<open>evs\<close>, as the relay forwards them.\<close>

definition parallel_inits :: "(nat \<Rightarrow> string) \<Rightarrow> message \<Rightarrow> nat \<Rightarrow> bytes \<Rightarrow> nat \<Rightarrow> nat list \<Rightarrow> wsframe list" where
  "parallel_inits rid base cs data n ks =
     map (\<lambda>k. relayed (rid k) (Json (parallel_init base (int (chunk_total cs data)) (int (length data)) cs n))) ks"

definition parallel_chunks :: "send_env \<Rightarrow> (nat \<Rightarrow> string) \<Rightarrow> message \<Rightarrow> nat \<Rightarrow> bytes \<Rightarrow> nat \<Rightarrow> (nat \<times> nat) list \<Rightarrow> wsframe list" where
  "parallel_chunks senv rid base cs data n evs =
     concat (map (\<lambda>(k, i). map (relayed (rid k)) (stripe senv (m_id base) cs data n (chunk_total cs data) i)) evs)"

section \<open>Properties\<close>

text \<open>A schedule in which every stream sends its own chunks in order uses exactly the streams that
  have a chunk, and sends every chunk.\<close>

lemma schedule_facts:
  assumes "cs > 0" and "n > 0" and "fst ` set evs \<subseteq> {..<n}"
    and "\<forall>k<n. map snd (filter (\<lambda>e. fst e = k) evs) = stream_seqs n (chunk_total cs data) k"
  shows "in_stream_order n (chunk_total cs data) evs" and "fst ` set evs = {..<min n (chunk_total cs data)}"
    and "{i. i * cs < length data} \<subseteq> snd ` set evs"
proof -
  let ?tot = "chunk_total cs data"
  show "in_stream_order n ?tot evs"
    unfolding in_stream_order_def
  proof
    fix k
    show "\<exists>j. map snd (filter (\<lambda>e. fst e = k) evs) = stream_seqs n ?tot j"
    proof (cases "k < n")
      case False
      then have "map snd (filter (\<lambda>e. fst e = k) evs) = []" using assms(3) by (auto simp: filter_empty_conv)
      then show ?thesis using stream_seqs_Nil [of n ?tot ?tot] assms(2) by (intro exI [of _ ?tot]) simp
    qed (use assms(4) in blast)
  qed
  have used: "k \<in> fst ` set evs \<longleftrightarrow> k < n \<and> k < ?tot" for k
  proof (cases "k < n")
    case True
    have "k \<in> fst ` set evs \<longleftrightarrow> map snd (filter (\<lambda>e. fst e = k) evs) \<noteq> []" by (auto simp: filter_empty_conv)
    then show ?thesis using True assms(2,4) stream_seqs_Nil [of n ?tot k] by auto
  qed (use assms(3) in auto)
  then show "fst ` set evs = {..<min n ?tot}" by (intro set_eqI) (simp del: image_iff)
  show "{i. i * cs < length data} \<subseteq> snd ` set evs"
  proof
    fix i assume "i \<in> {i. i * cs < length data}"
    then have i: "i < ?tot" using chunk_total_iff [OF assms(1)] by blast
    have "i \<in> set (stream_seqs n ?tot (i mod n))" using stream_seqs_mem [of n i ?tot] i assms(2) by simp
    then have "i \<in> set (map snd (filter (\<lambda>e. fst e = i mod n) evs))" using assms(2,4) by simp
    then show "i \<in> snd ` set evs" by auto
  qed
qed


text \<open>Three bytes in chunks of two over two streams; the second stream's chunk comes first.\<close>

definition demo_rid :: "nat \<Rightarrow> string" where "demo_rid k = (if k = 0 then ''r0'' else replicate k CHR ''r'')"

definition demo_evs :: "(nat \<times> nat) list" where "demo_evs = [(1, 1), (0, 0)]"


end
