(* ===== verification/TransferEdge.thy ===== *)
theory TransferEdge
  imports TransferParallel
begin

text \<open>
  Where a transfer reports success and the file is wrong, and where an unpacked archive may
  write: a stream that announces itself late, writes that fail, entries that leave the
  destination, and files that were longer before.
\<close>

section \<open>A late stream\<close>

text \<open>
  A stream that announces itself after the others have finished erases what they wrote.
  With two chunks over two streams, if the first stream is complete before the daemon reads the
  second announcement, the file is created anew: it ends with zeros in place of the first chunk,
  and both streams are told that they succeeded.
\<close>

theorem late_stream_erases:
  assumes "gzip_ok senv env" and "cs < length data" and "length data \<le> 2 * cs" and "int (length data) < 2 ^ 63"
    and "td_reassembly s = Map.empty" and "os_create env (m_dst_path base) = None" and "\<forall>pos d. os_write env (m_dst_path base) pos d = None"
  shows "let init = (\<lambda>r. relayed r (Json (parallel_init base 2 (int (length data)) cs 2)));
      chunk = (\<lambda>r i. map (relayed r) (stripe senv (m_id base) cs data 2 2 i));
      s' = td_frames env ord (init r0 # chunk r0 0 @ init r1 # chunk r1 1) s
    in td_fs s' = (td_fs s)(m_dst_path base \<mapsto> replicate cs 0 @ drop cs data) \<and>
       td_sent s' = td_sent s @ [transfer_ok env r0, transfer_ok env r1]"
proof -
  let ?rid = "\<lambda>k :: nat. if k = 0 then r0 else r1" and ?dst = "m_dst_path base"
  let ?init = "\<lambda>k. relayed (?rid k) (Json (parallel_init base 2 (int (length data)) cs 2))"
  let ?chunk = "\<lambda>k. map (relayed (?rid k)) (stripe senv (m_id base) cs data 2 2 k)"
  have two: "(2 :: nat) > 1" by simp
  have cs: "cs > 0" and size: "int (length data) > 0" using assms(2,3) by linarith+
  have one: "td_reassembly t = Map.empty \<Longrightarrow> i * cs < length data \<Longrightarrow> i < 2 \<Longrightarrow>
      td_reassembly (td_frames env ord (?init k # ?chunk i) t) = Map.empty \<and>
      td_fs (td_frames env ord (?init k # ?chunk i) t) = (td_fs t)(?dst \<mapsto> write_at (i * cs) (chunk_at cs data i) (replicate (length data) 0)) \<and>
      td_sent (td_frames env ord (?init k # ?chunk i) t) = td_sent t @ [transfer_ok env (?rid k)]"
    if "?rid k = ?rid i" for t k i
  proof -
    assume t: "td_reassembly t = Map.empty" and i: "i * cs < length data" "i < 2"
    define t1 where "t1 = td_frame env ord (?init k) t"
    note f = first_stripe [OF t assms(6,7) two size, where k = k and rid = ?rid and ord = ord and tot = 2 and cs = cs, folded t1_def]
    then have st: "striped env ?rid ?dst cs (td_nextHandle t) {k} t1" "dom (td_reassembly t1) = {?rid k}" by (simp_all add: only_striped_def)
    then obtain r where r: "td_reassembly t1 (?rid k) = Some r" by (auto simp: striped_def)
    have only: "(td_reassembly t1)(?rid k := None) = Map.empty"
      using st(2) by (intro ext) (auto simp: dom_def)
    have i63: "int (i * cs) < 2 ^ 63" using i(1) assms(4) by linarith
    have ne: "chunk_at cs data i \<noteq> []" using i(1) cs by (simp add: chunk_at_def)
    have run: "td_frames env ord (?init k # ?chunk i) t = store_chunk env (?rid k) r i (2 \<le> i + 2) (chunk_at cs data i) t1"
      using feed_chunk [OF r assms(1) ne, of ord "m_id base" i "2 \<le> i + 2"] that by (simp add: td_frames_def t1_def stripe_def)
    show ?thesis
      using store_stripe [OF st(1) _ r cs i63, of "2 \<le> i + 2" "chunk_at cs data i"] f(2,3) only
      unfolding run by (simp add: file_bytes_def)
  qed
  have lens: "0 * cs < length data" "1 * cs < length data" using assms(2) by linarith+
  define t where "t = td_frames env ord (?init 0 # ?chunk 0) s"
  note a = one [OF refl assms(5) lens(1), folded t_def, simplified]
  note b = one [of 1 1 t, OF refl _ lens(2)]
  have "write_at cs (chunk_at cs data 1) (replicate (length data) 0) = replicate cs 0 @ drop cs data"
    using assms(2,3) by (simp add: write_at_def chunk_at_def min_def)
  with a b show ?thesis
    by (simp add: Let_def td_frames_def t_def)
qed

theorem late_stream_erases_witness:
  "let init = (\<lambda>r. relayed r (Json (parallel_init demo_base 2 (int (length [65 :: byte, 66, 67])) 2 2)));
      chunk = (\<lambda>r i. map (relayed r) (stripe demo_send (m_id demo_base) 2 [65, 66, 67] 2 2 i));
      s' = td_frames demo_os [] (init ''r0'' # chunk ''r0'' 0 @ init ''r1'' # chunk ''r1'' 1) demo_idle
    in td_fs s' = (td_fs demo_idle)(m_dst_path demo_base \<mapsto> replicate 2 0 @ drop 2 [65, 66, 67]) \<and>
       td_sent s' = td_sent demo_idle @ [transfer_ok demo_os ''r0'', transfer_ok demo_os ''r1'']"
  by (rule late_stream_erases [OF demo_send_ok(2)]) (simp_all add: demo_os_def demo_idle_def)

section \<open>Writes that fail\<close>

text \<open>A transfer to a file, whatever its writes report.\<close>

definition filing :: "string \<Rightarrow> nat \<Rightarrow> nat \<Rightarrow> string \<Rightarrow> transfers \<Rightarrow> transfers \<Rightarrow> bool" where
  "filing rid r h dst s0 s \<longleftrightarrow> td_reassembly s rid = Some r \<and> fr_fileWriter (td_objs s r) = Some h \<and> \<not> fr_parallel (td_objs s r) \<and>
     fh_path (td_handles s h) = dst \<and> fh_open (td_handles s h) \<and> td_sent s = td_sent s0"

lemma filing_takes: "filing rid r h dst s0 s \<Longrightarrow> filing rid r h dst s0 (file_sink.takes env r rid i cs s)"
proof (induction cs arbitrary: i s)
  case (Cons c cs)
  have "filing rid r h dst s0 (writeChunkData env r c (arm_chunk rid r i b s))" for b
    using Cons.prems
    by (auto simp: filing_def writeChunkData_def handle_write_def upd_handle_def upd_obj_def arm_chunk_def buf_write_def Let_def
        split: option.splits)
  then show ?case using Cons.IH by simp
qed simp

lemma lost_takes:
  assumes "filing rid r h dst s0 s" "\<forall>pos d. os_write env dst pos d = Some 0" "fh_pos (td_handles s h) = 0" "file_bytes dst s = []"
  shows "file_bytes dst (file_sink.takes env r rid i cs s) = []"
  using assms
proof (induction cs arbitrary: i s)
  case (Cons c cs)
  let ?s' = "\<lambda>b. writeChunkData env r c (arm_chunk rid r i b s)"
  have "filing rid r h dst s0 (?s' b)" for b
    using filing_takes [OF Cons.prems(1), of env i "[c]"] Cons.prems(1)
    by (auto simp: filing_def writeChunkData_def handle_write_def upd_handle_def upd_obj_def arm_chunk_def buf_write_def Let_def
        split: option.splits)
  moreover have "fh_pos (td_handles (?s' b) h) = 0 \<and> file_bytes dst (?s' b) = []" for b
    using Cons.prems
    by (auto simp: filing_def writeChunkData_def handle_write_def upd_handle_def upd_obj_def arm_chunk_def buf_write_def file_bytes_def
        write_at_def Let_def split: option.splits)
  ultimately show ?case using Cons.IH Cons.prems(2) by simp
qed simp

lemma takes_keeps: "td_fs s p \<noteq> None \<Longrightarrow> td_fs (file_sink.takes env r rid i cs s) p \<noteq> None"
proof (induction cs arbitrary: i s)
  case (Cons c cs)
  have "td_fs (writeChunkData env r c (arm_chunk rid r i b s)) p \<noteq> None" for b
    using Cons.prems
    by (auto simp: writeChunkData_def transfer_defs arm_chunk_def Let_def split: option.splits prod.splits bool.splits if_splits)
  then show ?case using Cons.IH by simp
qed simp

text \<open>
  A copy onto a full disk is reported as a success. Whatever the writes to the destination
  report, the daemon's answer to a copy is the same success; when every write fails without
  storing a byte, the file is left empty. (The bytes that could not be written are kept in the
  transfer's buffer, which is never looked at again while its file is open.)
\<close>

theorem failed_writes_reported_ok:
  assumes "gzip_ok senv env" and "cs > 0" and "data \<noteq> []" and "m_mode base = ''scp''" and "os_create env (m_dst_path base) = None"
  shows "let s' = td_frames env ord (map (relayed rid) (transfer_frames senv base cs data)) s in
    td_sent s' = td_sent s @ [transfer_ok env rid] \<and>
    ((\<forall>pos d. os_write env (m_dst_path base) pos d = Some 0) \<longrightarrow> td_fs s' (m_dst_path base) = Some [])"
proof -
  let ?init = "Json (init_message base (int (length (chunk_list cs data))) (int (length data)))"
  let ?dst = "m_dst_path base" and ?r = "td_nextObj s" and ?h = "td_nextHandle s" and ?cl = "chunk_list cs data"
  define s1 where "s1 = td_frame env ord (relayed rid ?init) s"
  have s1: "filing rid ?r ?h ?dst s s1" "fh_pos (td_handles s1 ?h) = 0" "td_fs s1 ?dst = Some []"
    using assms(4,5) by (simp_all add: s1_def relayed_init td_frame_def beginChunkedTransfer_def new_reassembly_def create_file_def
        install_def filing_def)
  define s2 where "s2 = file_sink.takes env ?r rid 0 ?cl s1"
  have s2: "filing rid ?r ?h ?dst s s2" unfolding s2_def by (rule filing_takes [OF s1(1)])
  have ne: "?cl \<noteq> []" using assms(2,3) by (simp add: chunk_list_empty_iff)
  have "td_reassembly s1 rid = Some ?r" using s1(1) by (simp add: filing_def)
  from feed_chunks [OF this assms(1) chunks_nonempty [OF assms(2)] ne]
  have run: "td_frames env ord (map (relayed rid) (transfer_frames senv base cs data)) s = finishReassembly env ?r s2"
    by (simp add: transfer_frames_def td_frames_def s1_def [symmetric] s2_def)
  have fid: "fr_id (td_objs s2 ?r) = rid" unfolding s2_def by (rule takes_id [OF ne])
  have "td_fs s2 ?dst = Some []" if "\<forall>pos d. os_write env ?dst pos d = Some 0"
  proof -
    have "file_bytes ?dst s2 = []"
      unfolding s2_def by (rule lost_takes [OF s1(1) that s1(2)]) (simp add: file_bytes_def s1(3))
    moreover have "td_fs s2 ?dst \<noteq> None" unfolding s2_def by (rule takes_keeps) (simp add: s1(3))
    ultimately show ?thesis by (auto simp: file_bytes_def)
  qed
  then show ?thesis
    unfolding run using s2 fid
    by (simp add: finishReassembly_def filing_def dropReassembly_def closeFileWriter_def td_send_def upd_obj_def upd_handle_def Let_def)
qed

theorem failed_writes_reported_ok_witness:
  "let env = demo_os\<lparr>os_write := (\<lambda>p pos d. Some 0)\<rparr>;
       s' = td_frames env [] (map (relayed ''r1'') (transfer_frames demo_send demo_base 2 [65, 66, 67])) demo_idle in
    td_sent s' = td_sent demo_idle @ [transfer_ok env ''r1''] \<and> td_fs s' (m_dst_path demo_base) = Some []"
proof -
  have "gzip_ok demo_send (demo_os\<lparr>os_write := (\<lambda>p pos d. Some 0)\<rparr>)" using demo_send_ok(2) by (simp add: gzip_ok_def)
  from failed_writes_reported_ok [OF this, of 2 "[65, 66, 67]" demo_base "[]" "''r1''" demo_idle]
  show ?thesis by (simp add: demo_os_def Let_def)
qed

end
