(* ===== verification/Archive.thy ===== *)
theory Archive
  imports TransferRun
begin

text \<open>
  Where an archive's entries are written. \<open>filepath.Join\<close> of the destination and the entry's name
  is clean, so a name made of plain segments stays below the destination and a name that starts
  with enough \<open>..\<close> reaches any file of the machine.
\<close>

section \<open>Clean paths\<close>

definition plain_segment :: "string \<Rightarrow> bool" where
  "plain_segment g \<longleftrightarrow> g \<noteq> '''' \<and> g \<noteq> ''.'' \<and> g \<noteq> ''..'' \<and> CHR ''/'' \<notin> set g"

definition abs_path :: "string list \<Rightarrow> string" where
  "abs_path segs = ''/'' @ go_join ''/'' segs"

lemma clean_plain: "\<forall>g\<in>set gs. plain_segment g \<Longrightarrow> clean_segments rooted out (gs @ rest) = clean_segments rooted (rev gs @ out) rest"
  by (induction gs arbitrary: out) (auto simp: plain_segment_def)

lemma clean_dotdots:
  "\<forall>g\<in>set out. plain_segment g \<Longrightarrow> k \<le> length out \<Longrightarrow> clean_segments rooted out (replicate k ''..'' @ rest) = clean_segments rooted (drop k out) rest"
proof (induction k arbitrary: out)
  case (Suc k)
  then obtain g out' where out: "out = g # out'" by (cases out) auto
  with Suc show ?case by (auto simp: plain_segment_def)
qed simp

lemma split_segments:
  assumes "gs \<noteq> []" "\<forall>g\<in>set gs. CHR ''/'' \<notin> set g"
  shows "go_split (CHR ''/'') (go_join ''/'' gs) = gs"
  using assms by (rule go_split_join)

lemma split_append:
  "go_split d (x @ d # y) = go_split d x @ go_split d y"
  by (induction x) (auto split: list.splits)

lemma clean_abs:
  assumes "ds \<noteq> []" "\<forall>g\<in>set ds. plain_segment g" "gs \<noteq> []" "\<forall>g\<in>set gs. CHR ''/'' \<notin> set g"
  shows "path_clean (abs_path ds @ ''/'' @ go_join ''/'' gs) = abs_path (clean_segments True (rev ds) gs)"
proof -
  have d: "\<forall>g\<in>set ds. CHR ''/'' \<notin> set g" using assms(2) by (simp add: plain_segment_def)
  have "go_split (CHR ''/'') (abs_path ds @ ''/'' @ go_join ''/'' gs) = '''' # ds @ gs"
    using split_segments [OF assms(1) d] split_segments [OF assms(3,4)] by (simp add: abs_path_def split_append)
  then show ?thesis
    using clean_plain [OF assms(2), of True "[]" gs] by (simp add: path_clean_def abs_path_def has_prefix_def Let_def)
qed

lemma abs_path_not_empty [simp]: "abs_path ds \<noteq> ''''" by (simp add: abs_path_def)

lemma join_not_empty:
  assumes "gs \<noteq> []" "\<forall>g\<in>set gs. g \<noteq> ''''"
  shows "go_join sep gs \<noteq> ''''"
proof (cases gs)
  case (Cons g gs')
  then show ?thesis using assms by (cases gs') auto
qed (use assms in simp)

lemma path_join_abs:
  assumes "ds \<noteq> []" "\<forall>g\<in>set ds. plain_segment g" "gs \<noteq> []" "\<forall>g\<in>set gs. g \<noteq> '''' \<and> CHR ''/'' \<notin> set g"
  shows "path_join (abs_path ds) (go_join ''/'' gs) = abs_path (clean_segments True (rev ds) gs)"
  using assms clean_abs [OF assms(1-3)] join_not_empty [where gs = gs and sep = "''/''"] by (simp add: path_join_def)

lemma abs_path_inj:
  assumes "\<forall>g\<in>set xs \<union> set ys. plain_segment g" "xs \<noteq> []" "ys \<noteq> []" "abs_path xs = abs_path ys"
  shows "xs = ys"
proof -
  have c: "\<forall>g\<in>set xs. CHR ''/'' \<notin> set g" "\<forall>g\<in>set ys. CHR ''/'' \<notin> set g" using assms(1) unfolding plain_segment_def by auto
  have "go_join ''/'' xs = go_join ''/'' ys" using assms(4) unfolding abs_path_def by (rule same_append_eq [THEN iffD1])
  then show ?thesis using split_segments [OF assms(2) c(1)] split_segments [OF assms(3) c(2)] by argo
qed

lemma join_plain:
  assumes "ds \<noteq> []" "\<forall>g\<in>set ds. plain_segment g" "gs \<noteq> []" "\<forall>g\<in>set gs. plain_segment g"
  shows "path_join (abs_path ds) (go_join ''/'' gs) = abs_path (ds @ gs)"
  using assms path_join_abs [OF assms(1-3)] clean_plain [OF assms(4), of True "rev ds" "[]"]
  by (simp add: plain_segment_def)

lemma join_escape:
  assumes "ds \<noteq> []" "\<forall>g\<in>set ds. plain_segment g" "rs \<noteq> []" "\<forall>g\<in>set rs. plain_segment g"
  shows "path_join (abs_path ds) (go_join ''/'' (replicate (length ds) ''..'' @ rs)) = abs_path rs"
proof -
  have "clean_segments True (rev ds) (replicate (length ds) ''..'' @ rs) = rs"
    using clean_dotdots [of "rev ds" "length ds" True rs] clean_plain [OF assms(4), of True "[]" "[]"] assms(2) by simp
  moreover have "\<forall>g\<in>set (replicate (length ds) ''..'' @ rs). g \<noteq> '''' \<and> CHR ''/'' \<notin> set g"
  proof
    fix g assume "g \<in> set (replicate (length ds) ''..'' @ rs)"
    then have "g = ''..'' \<or> plain_segment g" using assms(4) by (metis Un_iff in_set_replicate set_append)
    then show "g \<noteq> '''' \<and> CHR ''/'' \<notin> set g" by (elim disjE) (simp_all add: plain_segment_def)
  qed
  ultimately show ?thesis
    using path_join_abs [OF assms(1,2), of "replicate (length ds) ''..'' @ rs"] assms(3) by simp
qed

lemma go_join_append: "xs \<noteq> [] \<Longrightarrow> ys \<noteq> [] \<Longrightarrow> go_join sep (xs @ ys) = go_join sep xs @ sep @ go_join sep ys"
proof (induction sep xs rule: go_join.induct)
  case (2 sep x)
  then show ?case by (cases ys) auto
qed auto

section \<open>Properties\<close>

definition plain_name :: "string \<Rightarrow> bool" where
  "plain_name n \<longleftrightarrow> (let gs = go_split (CHR ''/'') n in \<forall>g\<in>set gs. plain_segment g)"

lemma plain_nameD: "plain_name n \<Longrightarrow> \<exists>gs. gs \<noteq> [] \<and> (\<forall>g\<in>set gs. plain_segment g) \<and> n = go_join ''/'' gs"
  by (rule exI [of _ "go_split (CHR ''/'') n"]) (simp add: plain_name_def go_join_split)

lemma extract_regular_outside: "p \<noteq> path \<Longrightarrow> snd (extract_regular env path e fs) p = fs p"
  by (simp add: extract_regular_def Let_def split: option.split)



text \<open>
  Entry names are not checked: for every file of the machine there is an entry that an
  archive unpacked into \<open>ds\<close> writes to it, one \<open>..\<close> per segment of the destination and then the
  file's path. And the file is not truncated: what it held beyond the entry's length stays.
\<close>

theorem archive_entry_escapes:
  assumes "ds \<noteq> []" and "\<forall>g\<in>set ds. plain_segment g" and "rs \<noteq> []" and "\<forall>g\<in>set rs. plain_segment g"
    and "os_untar env data = ([\<lparr>te_name = go_join ''/'' (replicate (length ds) ''..'' @ rs), te_kind = TarReg, te_data = d, te_error = None\<rparr>], None)"
    and "\<forall>p. os_mkdirAll env p = None" and "\<forall>p. os_openFile env p = None" and "\<forall>p pos b. os_write env p pos b = None"
    and "fs (abs_path rs) = Some old"
  shows "extractTarArchive env data (abs_path ds) fs = (None, fs(abs_path rs \<mapsto> d @ drop (length d) old))"
  using assms(5-) join_escape [OF assms(1-4)]
  by (simp add: extractTarArchive_def extract_regular_def write_at_def)

theorem archive_entry_escapes_witness:
  "extractTarArchive (demo_os\<lparr>os_untar := (\<lambda>_. ([\<lparr>te_name = ''../../etc/x'', te_kind = TarReg, te_data = [1], te_error = None\<rparr>], None))\<rparr>)
     [] (abs_path [''srv'', ''app'']) [abs_path [''etc'', ''x''] \<mapsto> [7, 8]] =
   (None, [abs_path [''etc'', ''x''] \<mapsto> [7, 8]](abs_path [''etc'', ''x''] \<mapsto> [1] @ drop (length [1 :: byte]) [7, 8]))"
  by (rule archive_entry_escapes) (simp_all add: plain_segment_def demo_os_def numeral_2_eq_2)

end
