(* ===== verification/QueueOrder.thy ===== *)
theory QueueOrder
  imports RelayQueue
begin

text \<open>
  The order in which the byte-level write queue delivers, by refinement to the abstract one.
\<close>

section \<open>Schedules of the byte-level queue\<close>

datatype raw_send = RawBinary bytes | RawText bytes | RawPair bytes bytes

primrec raw_frames :: "raw_send \<Rightarrow> rawframe list" where
  "raw_frames (RawBinary d) = [RBin d]"
| "raw_frames (RawText d) = [RText d]"
| "raw_frames (RawPair h b) = [RText h, RBin b]"

primrec raw_ok :: "raw_send \<Rightarrow> bool" where
  "raw_ok (RawBinary d) = True"
| "raw_ok (RawText d) = True"
| "raw_ok (RawPair h b) = (length h < 2 ^ 32)"

primrec raw_call :: "raw_send \<Rightarrow> (bytes, rawframe) wqueue \<Rightarrow> (bytes, rawframe) wqueue" where
  "raw_call (RawBinary d) q = snd (sendRawBytes d q)"
| "raw_call (RawText d) q = snd (sendRawJSON d q)"
| "raw_call (RawPair h b) q = snd (sendRawHeaderAndBinary h b q)"

text \<open>\<open>Some m\<close>: a read loop calls a sender; \<open>None\<close>: the writer goroutine takes one entry.\<close>

primrec raw_run :: "raw_send option list \<Rightarrow> (bytes, rawframe) wqueue \<Rightarrow> (bytes, rawframe) wqueue" where
  "raw_run [] q = q"
| "raw_run (a # as) q = raw_run as (case a of None \<Rightarrow> writer_step decoded q | Some m \<Rightarrow> raw_call m q)"

primrec raw_room :: "raw_send option list \<Rightarrow> (bytes, rawframe) wqueue \<Rightarrow> bool" where
  "raw_room [] q = True"
| "raw_room (a # as) q = (case a of None \<Rightarrow> raw_room as (writer_step decoded q)
     | Some m \<Rightarrow> ((wq_open q \<and> length (wq_chan q) < queue_capacity) \<or> wq_chan q = []) \<and> raw_room as (raw_call m q))"

lemma raw_call_refines: "raw_ok m \<Longrightarrow> abs_queue (raw_call m q) = snd (send_unit (raw_frames m) (abs_queue q))"
proof (cases m)
  case (RawBinary d)
  show ?thesis using arg_cong [OF sendRawBytes_refines [of d q], of snd] RawBinary by simp
next
  case (RawText d)
  show ?thesis using arg_cong [OF sendRawJSON_refines [of d q], of snd] RawText by simp
next
  case (RawPair h b)
  assume "raw_ok m"
  then show ?thesis using arg_cong [OF sendRawHeaderAndBinary_refines [of h b q], of snd] RawPair by simp
qed

lemma abs_room: "q_room (abs_queue q) \<longleftrightarrow> (wq_open q \<and> length (wq_chan q) < queue_capacity) \<or> wq_chan q = []"
  by (simp add: q_room_def abs_queue_def)

lemma raw_run_refines:
  assumes "\<forall>m. Some m \<in> set as \<longrightarrow> raw_ok m"
  shows "abs_queue (raw_run as q) = relayq.exec (map (map_option raw_frames) as) (abs_queue q) \<and>
    (raw_room as q \<longleftrightarrow> relayq.never_full (map (map_option raw_frames) as) (abs_queue q))"
  using assms
proof (induction as arbitrary: q)
  case (Cons a as)
  then have IH: "abs_queue (raw_run as q') = relayq.exec (map (map_option raw_frames) as) (abs_queue q') \<and>
    (raw_room as q' \<longleftrightarrow> relayq.never_full (map (map_option raw_frames) as) (abs_queue q'))" for q'
    by (meson list.set_intros(2))
  show ?case
  proof (cases a)
    case None
    then show ?thesis using IH [of "writer_step decoded q"] by (simp only: writer_step_refines raw_run.simps raw_room.simps
        list.map option.map relayq.exec.simps relayq.never_full.simps option.case)
  next
    case (Some m)
    then have "raw_ok m" using Cons.prems by simp
    then show ?thesis using IH [of "raw_call m q"] Some by (simp only: raw_call_refines abs_room raw_run.simps raw_room.simps
        list.map option.map relayq.exec.simps relayq.never_full.simps option.case)
  qed
qed simp

lemma abs_drain: "abs_queue ((writer_step decoded ^^ n) q) = (writer_step id ^^ n) (abs_queue q)"
proof (induction n)
  case (Suc n)
  show ?case by (simp only: funpow.simps comp_apply writer_step_refines Suc)
qed simp

section \<open>Properties\<close>

text \<open>
  C17. The write queue delivers in order. Over a working socket, for any interleaving of the three
  senders with the writer goroutine in which no send finds the queue full, once the queue has
  drained the socket has carried exactly the frames of the sends, in their order, each header
  directly followed by its payload.
\<close>

theorem queue_delivers_in_order:
  assumes "wq_net q = None" and "\<not> wq_dead q" and "wq_chan q = []"
    and "\<forall>m. Some m \<in> set as \<longrightarrow> raw_ok m" and "raw_room as q" and "length (wq_chan (raw_run as q)) \<le> n"
  shows "wire ((writer_step decoded ^^ n) (raw_run as q)) = wire q @ concat (map raw_frames (List.map_filter id as))"
proof -
  have ok: "q_ok (abs_queue q)" using assms(1,2) by (simp add: q_ok_def abs_queue_def)
  note r = raw_run_refines [OF assms(4), of q, THEN conjunct1] raw_run_refines [OF assms(4), of q, THEN conjunct2]
  have full: "relayq.never_full (map (map_option raw_frames) as) (abs_queue q)" using r(2) assms(5) by simp
  have chan: "length (wq_chan (abs_queue (raw_run as q))) \<le> n" using assms(6) by (simp add: abs_queue_def)
  have "List.map_filter id (map (map_option raw_frames) as) = map raw_frames (List.map_filter id as)"
    by (induction as) (auto simp: List.map_filter_def split: option.splits)
  then have "q_stream (abs_queue (raw_run as q)) = q_stream (abs_queue q) @ concat (map raw_frames (List.map_filter id as))"
    unfolding r(1) using relayq.exec_stream [OF ok full] by simp
  moreover have "wire ((writer_step id ^^ n) (abs_queue (raw_run as q))) = q_stream (abs_queue (raw_run as q))"
    by (rule drained_wire [OF _ chan]) (unfold r(1), rule relayq.exec_ok [OF ok full])
  ultimately show ?thesis
    using assms(3) unfolding abs_drain [symmetric] by (simp add: abs_queue_def q_stream_def)
qed

definition demo_queue :: "(bytes, rawframe) wqueue" where
  "demo_queue = startWriter \<lparr>wq_open = False, wq_started = False, wq_chan = [], wq_err = None, wq_dead = False, wq_net = None, wire = []\<rparr>"

theorem queue_delivers_in_order_witness:
  "wire ((writer_step decoded ^^ 2) (raw_run [Some (RawText [9]), None, Some (RawPair [1, 2] [3]), Some (RawBinary [4])] demo_queue)) =
    [RText [9], RText [1, 2], RBin [3], RBin [4]]"
  using queue_delivers_in_order [of demo_queue "[Some (RawText [9]), None, Some (RawPair [1, 2] [3]), Some (RawBinary [4])]" 2]
  by (simp add: demo_queue_def startWriter_def queue_capacity_def sendRawJSON_def sendRawBytes_def sendRawHeaderAndBinary_def queue_or_write_def
      writer_step_def Let_def conn_write_def List.map_filter_def split: prod.splits)

text \<open>
  A full queue is overtaken. When 128 entries wait and one more chunk is sent, the send falls
  back to writing at once: after the queue has drained, the new chunk is on the wire before every
  entry that was queued before it. The daemon appends chunks in the order they arrive, so the
  file it writes has them in the wrong order.
\<close>

theorem full_queue_is_overtaken:
  fixes q :: "(bytes, rawframe) wqueue"
  assumes "wq_net q = None" and "\<not> wq_dead q" and "length (wq_chan q) = queue_capacity" and "wq_chan q = waiting"
    and "length (wq_chan q) \<le> n"
  shows "wire ((writer_step decoded ^^ n) (snd (sendRawHeaderAndBinary h b q))) =
    wire q @ [RText h, RBin b] @ concat (map decoded waiting)"
proof -
  let ?q = "q\<lparr>wire := wire q @ [RText h, RBin b]\<rparr>"
  have sent: "snd (sendRawHeaderAndBinary h b q) = ?q"
    using assms(1,3) by (simp add: sendRawHeaderAndBinary_def queue_or_write_def conn_write_def)
  have "wire ((writer_step id ^^ n) (abs_queue ?q)) = q_stream (abs_queue ?q)"
    using assms(1,2,5) by (intro drained_wire) (simp_all add: q_ok_def abs_queue_def)
  then show ?thesis
    unfolding sent abs_drain [symmetric] using assms(4) by (simp add: abs_queue_def q_stream_def)
qed

theorem full_queue_is_overtaken_witness:
  "wire ((writer_step decoded ^^ 128) (snd (sendRawHeaderAndBinary [1] [2] (demo_queue\<lparr>wq_chan := replicate 128 (enc_binary [7])\<rparr>)))) =
    [RText [1], RBin [2]] @ concat (map decoded (replicate 128 (enc_binary [7])))"
  using full_queue_is_overtaken [of "demo_queue\<lparr>wq_chan := replicate 128 (enc_binary [7])\<rparr>" "replicate 128 (enc_binary [7])" 128 "[1]" "[2]"]
  by (simp add: demo_queue_def startWriter_def queue_capacity_def)

end
