(* ===== verification/RelayCopy.thy ===== *)
theory RelayCopy
  imports TransferRun RelayScenario
begin

text \<open>
  A copy through the relay: the client's frames arrive on its connection \<open>c\<close>, the relay's read
  loop forwards them to the connection \<open>d\<close> of the daemon, and the writer goroutine of \<open>d\<close> runs at
  any moment in between.
\<close>

section \<open>Schedules\<close>

datatype copy_event = Sends wsframe | WriterRuns

text \<open>The read loop takes a frame where it waits: at its top, or for a chunk's payload.\<close>

definition client_frame :: "conn_id \<Rightarrow> wsframe \<Rightarrow> relay_server \<Rightarrow> relay_server" where
  "client_frame c f s =
     (case rs_ctxs s c of
        None \<Rightarrow> s
      | Some x \<Rightarrow>
          (case wc_phase x of
             Reading \<Rightarrow> ws_frame (wc_authenticated x) c f s
           | AwaitBinary m \<Rightarrow> set_phase c Reading (fileChunkPayload c m (Inr f) s)
           | _ \<Rightarrow> s))"

definition copy_step :: "conn_id \<Rightarrow> conn_id \<Rightarrow> copy_event \<Rightarrow> relay_server \<Rightarrow> relay_server" where
  "copy_step c d e s = (case e of Sends f \<Rightarrow> client_frame c f s | WriterRuns \<Rightarrow> upd_rc d (writer_step id) s)"

primrec copy_run :: "conn_id \<Rightarrow> conn_id \<Rightarrow> copy_event list \<Rightarrow> relay_server \<Rightarrow> relay_server" where
  "copy_run c d [] s = s"
| "copy_run c d (e # es) s = copy_run c d es (copy_step c d e s)"

text \<open>Every frame finds room in the daemon's queue.\<close>

primrec finds_room :: "conn_id \<Rightarrow> conn_id \<Rightarrow> copy_event list \<Rightarrow> relay_server \<Rightarrow> bool" where
  "finds_room c d [] s = True"
| "finds_room c d (e # es) s =
     ((e = WriterRuns \<or> q_room (rs_rcs s d)) \<and> finds_room c d es (copy_step c d e s))"

primrec sent_frames :: "copy_event list \<Rightarrow> wsframe list" where
  "sent_frames [] = []"
| "sent_frames (e # es) = (case e of Sends f \<Rightarrow> [f] | WriterRuns \<Rightarrow> []) @ sent_frames es"

lemma copy_step_simps [simp]:
  "copy_step c d (Sends f) s = client_frame c f s" "copy_step c d WriterRuns s = upd_rc d (writer_step id) s"
  by (simp_all add: copy_step_def)

section \<open>The connection's state\<close>

definition conn_waits :: "conn_id \<Rightarrow> ws_phase \<Rightarrow> relay_server \<Rightarrow> bool" where
  "conn_waits c p s \<longleftrightarrow> rs_ctxs s c \<noteq> None \<and> wc_authenticated (the (rs_ctxs s c)) \<and> wc_phase (the (rs_ctxs s c)) = p"

definition writer_well :: "conn_id \<Rightarrow> relay_server \<Rightarrow> bool" where
  "writer_well d s \<longleftrightarrow> q_ok (rs_rcs s d) \<and> wq_err (rs_rcs s d) = None"

lemma conn_waits_phase [simp]: "conn_waits c p s \<Longrightarrow> conn_waits c p' (set_phase c p' s)"
  by (auto simp: conn_waits_def set_phase_def set_ctx_def)

lemma conn_waits_upd [simp]: "conn_waits c p (upd_rc d f s) = conn_waits c p s"
  by (simp add: conn_waits_def)

lemma writer_well_phase [simp]: "writer_well d (set_phase c p s) = writer_well d s"
  by (simp add: writer_well_def)

lemma writer_step_well:
  "writer_well d s \<Longrightarrow> writer_well d (upd_rc d (writer_step id) s)"
  by (auto simp: writer_well_def q_ok_def queue_defs Let_def split: list.splits)

lemma read_header:
  assumes "conn_waits c Reading s" "rc_chunkRoutes (rs_rcs s c) tid = Some route"
  shows "client_frame c (Json (chunk_head tid i fin z)) s = set_phase c (AwaitBinary (chunk_head tid i fin z)) s"
  using assms
  by (auto simp: conn_waits_def client_frame_def ws_frame_def ws_dispatch_def handleFileChunk_def Let_def)

lemma read_payload:
  assumes "conn_waits c (AwaitBinary m) s" "rc_chunkRoutes (rs_rcs s c) (m_id m) = Some \<lparr>cr_target = d, cr_reqID = rid\<rparr>"
    "c \<noteq> d" "writer_well d s" "q_room (rs_rcs s d)"
  shows "conn_waits c Reading (client_frame c (Binary p) s)"
    "writer_well d (client_frame c (Binary p) s)"
    "q_stream (rs_rcs (client_frame c (Binary p) s) d) =
       q_stream (rs_rcs s d) @ [Json (chunk_header \<lparr>cr_target = d, cr_reqID = rid\<rparr> m), Binary p]"
    "rc_chunkRoutes (rs_rcs (client_frame c (Binary p) s) c) (m_id m) =
       (if m_final m then None else Some \<lparr>cr_target = d, cr_reqID = rid\<rparr>)"
    "rs_pending (client_frame c (Binary p) s) = rs_pending s" "rs_rcs (client_frame c (Binary p) s) c = 
       (if m_final m then (rs_rcs s c)\<lparr>rc_chunkRoutes := (rc_chunkRoutes (rs_rcs s c))(m_id m := None)\<rparr> else rs_rcs s c)"
proof -
  let ?fs = "[Json (chunk_header \<lparr>cr_target = d, cr_reqID = rid\<rparr> m), Binary p]"
  have e: "fst (send_unit ?fs (rs_rcs s d)) = None"
    using assms(4) by (simp add: writer_well_def q_ok_def send_unit_def queue_or_write_def)
  define s1 where "s1 = upd_rc d (\<lambda>rc. snd (send_unit ?fs rc)) s"
  have run: "client_frame c (Binary p) s = set_phase c Reading (if m_final m then drop_route c (m_id m) s1 else s1)"
    using assms(1,2) e by (auto simp: conn_waits_def client_frame_def fileChunkPayload_def rc_send_unit_def s1_def)
  have w: "q_ok (snd (send_unit ?fs (rs_rcs s d)))" "wq_err (snd (send_unit ?fs (rs_rcs s d))) = None"
    using assms(4) by (auto simp: writer_well_def send_unit_ok) (simp add: send_unit_def queue_or_write_def conn_write_def q_ok_def)
  have st: "q_stream (snd (send_unit ?fs (rs_rcs s d))) = q_stream (rs_rcs s d) @ ?fs"
    using assms(4,5) by (simp add: writer_well_def send_unit_stream)
  show "writer_well d (client_frame c (Binary p) s)"
    using w assms(3) by (simp add: run s1_def writer_well_def drop_route_def)
  show "conn_waits c Reading (client_frame c (Binary p) s)"
    using assms(1) unfolding run by (intro conn_waits_phase [of c "AwaitBinary m"]) (simp add: s1_def drop_route_def)
  show "q_stream (rs_rcs (client_frame c (Binary p) s) d) = q_stream (rs_rcs s d) @ ?fs"
    using st assms(3) by (simp add: run s1_def drop_route_def)
  show "rc_chunkRoutes (rs_rcs (client_frame c (Binary p) s) c) (m_id m) =
       (if m_final m then None else Some \<lparr>cr_target = d, cr_reqID = rid\<rparr>)"
    using assms(2,3) by (simp add: run s1_def drop_route_def)
  show "rs_pending (client_frame c (Binary p) s) = rs_pending s"
    by (simp add: run s1_def drop_route_def)
  show "rs_rcs (client_frame c (Binary p) s) c = 
       (if m_final m then (rs_rcs s c)\<lparr>rc_chunkRoutes := (rc_chunkRoutes (rs_rcs s c))(m_id m := None)\<rparr> else rs_rcs s c)"
    using assms(3) by (simp add: run s1_def drop_route_def)
qed

section \<open>All chunks\<close>

text \<open>What the loop holds back while it waits for a payload.\<close>

primrec held :: "ws_phase \<Rightarrow> wsframe list" where
  "held Reading = []"
| "held (AwaitBinary m) = [Json m]"
| "held (ArmMulti mid n t) = []"
| "held Closing = []"

lemma chunk_frames_pair:
  assumes "gzip_ok senv env" "x \<noteq> []"
  obtains z p where "chunk_frames senv tid i fin x = [Json (chunk_head tid i fin z), Binary p]"
proof (cases rule: chunk_payload_cases [of senv x])
  case 1
  then show thesis using that [of False x] assms by (simp add: chunk_frames_def)
next
  case 2
  then show thesis using that [of True "sv_gzip senv x"] assms by (simp add: chunk_frames_def gzip_ok_def)
qed

lemma relayed_head [simp]:
  "Json (chunk_header \<lparr>cr_target = d, cr_reqID = rid\<rparr> (chunk_head tid i fin z)) = relayed rid (Json (chunk_head tid i fin z))"
  "relayed rid (Binary p) = Binary p"
  by (simp_all add: relayed_def chunk_header_def)

lemma forward_chunks:
  assumes "gzip_ok senv env" "c \<noteq> d"
    and "conn_waits c ph s" "writer_well d s" "finds_room c d evs s"
    and "(ph = Reading \<and> sent_frames evs = numbered_frames senv tid i cs) \<or>
      (\<exists>z p. ph = AwaitBinary (chunk_head tid i (cs = []) z) \<and> sent_frames evs = Binary p # numbered_frames senv tid (Suc i) cs)"
    and "\<forall>x\<in>set cs. x \<noteq> []"
    and "sent_frames evs \<noteq> [] \<longrightarrow> rc_chunkRoutes (rs_rcs s c) tid = Some \<lparr>cr_target = d, cr_reqID = rid\<rparr>"
  shows "writer_well d (copy_run c d evs s) \<and> rs_pending (copy_run c d evs s) = rs_pending s \<and>
    wire (rs_rcs (copy_run c d evs s) c) = wire (rs_rcs s c) \<and> wq_net (rs_rcs (copy_run c d evs s) c) = wq_net (rs_rcs s c) \<and>
    q_stream (rs_rcs (copy_run c d evs s) d) = q_stream (rs_rcs s d) @ map (relayed rid) (held ph @ sent_frames evs)"
  using assms(3-)
proof (induction evs arbitrary: ph s i cs)
  case (Cons e evs)
  show ?case
  proof (cases e)
    case WriterRuns
    have "q_stream (writer_step id (rs_rcs s d)) = q_stream (rs_rcs s d)"
      using Cons.prems(2) by (simp add: writer_well_def writer_step_stream)
    moreover have "rs_rcs (upd_rc d (writer_step id) s) c = rs_rcs s c" using assms(2) by simp
    ultimately show ?thesis
      using Cons.IH [of ph "upd_rc d (writer_step id) s" i cs] Cons.prems WriterRuns by (simp add: writer_step_well)
  next
    case (Sends f)
    have route: "rc_chunkRoutes (rs_rcs s c) tid = Some \<lparr>cr_target = d, cr_reqID = rid\<rparr>" using Cons.prems(6) Sends by simp
    from Cons.prems(4) show ?thesis
    proof
      assume r: "ph = Reading \<and> sent_frames (e # evs) = numbered_frames senv tid i cs"
      then obtain x xs where cs: "cs = x # xs" using Sends by (cases cs) auto
      obtain z p where zp: "chunk_frames senv tid i (xs = []) x = [Json (chunk_head tid i (xs = []) z), Binary p]"
        by (rule chunk_frames_pair [OF assms(1)]) (use Cons.prems(5) cs in auto)
      let ?h = "chunk_head tid i (xs = []) z"
      have f: "f = Json ?h" "sent_frames evs = Binary p # numbered_frames senv tid (Suc i) xs" using r zp cs Sends by auto
      have "client_frame c f s = set_phase c (AwaitBinary ?h) s"
        unfolding f(1) by (rule read_header) (use r Cons.prems(1) route in auto)
      then show ?thesis
        using Cons.IH [of "AwaitBinary ?h" "set_phase c (AwaitBinary ?h) s" i xs] Cons.prems r cs Sends f route by auto
    next
      assume "\<exists>z p. ph = AwaitBinary (chunk_head tid i (cs = []) z) \<and> sent_frames (e # evs) = Binary p # numbered_frames senv tid (Suc i) cs"
      then obtain z p where ph: "ph = AwaitBinary (chunk_head tid i (cs = []) z)" and f: "f = Binary p"
        and rest: "sent_frames evs = numbered_frames senv tid (Suc i) cs" using Sends by auto
      let ?s1 = "client_frame c (Binary p) s"
      have room: "q_room (rs_rcs s d)" using Cons.prems(3) Sends by simp
      note r = read_payload [OF Cons.prems(1) [unfolded ph], unfolded m_simps, OF route assms(2) Cons.prems(2) room, of p]
      have "writer_well d (copy_run c d evs ?s1) \<and> rs_pending (copy_run c d evs ?s1) = rs_pending ?s1 \<and>
        wire (rs_rcs (copy_run c d evs ?s1) c) = wire (rs_rcs ?s1 c) \<and> wq_net (rs_rcs (copy_run c d evs ?s1) c) = wq_net (rs_rcs ?s1 c) \<and>
        q_stream (rs_rcs (copy_run c d evs ?s1) d) = q_stream (rs_rcs ?s1 d) @ map (relayed rid) (held Reading @ sent_frames evs)"
      proof (rule Cons.IH)
        show "finds_room c d evs ?s1" using Cons.prems(3) Sends f by simp
        show "sent_frames evs \<noteq> [] \<longrightarrow> rc_chunkRoutes (rs_rcs ?s1 c) tid = Some \<lparr>cr_target = d, cr_reqID = rid\<rparr>"
          using r(4) rest by (cases cs) auto
      qed (use r rest Cons.prems(5) in auto)
      then show ?thesis using r(3,5,6) ph Sends f by (simp split: if_splits)
    qed
  qed
qed auto

section \<open>The announcement\<close>

lemma announce:
  fixes base tot n s
  defines "init \<equiv> init_message base tot n" and "rid \<equiv> newID (rs_entropy s) (rs_draws s)"
  assumes "conn_waits c Reading s" "c \<noteq> d" "m_target base \<noteq> ''''" "rs_clients s (m_target base) = Some d"
    "rc_token (rs_rcs s d) = m_token base" "writer_well d s" "wq_chan (rs_rcs s d) = []"
  shows "conn_waits c Reading (client_frame c (Json init) s)" "writer_well d (client_frame c (Json init) s)"
    "rc_chunkRoutes (rs_rcs (client_frame c (Json init) s) c) (m_id base) = Some \<lparr>cr_target = d, cr_reqID = rid\<rparr>"
    "rs_pending (client_frame c (Json init) s) = (rs_pending s)(rid \<mapsto> \<lparr>pr_serverID = m_id base, pr_clientConn = c\<rparr>)"
    "q_stream (rs_rcs (client_frame c (Json init) s) d) = wire (rs_rcs s d) @ [relayed rid (Json init)]"
    "wire (rs_rcs (client_frame c (Json init) s) c) = wire (rs_rcs s c)"
    "wq_net (rs_rcs (client_frame c (Json init) s) c) = wq_net (rs_rcs s c)"
proof -
  let ?q = "startWriter ((rs_rcs s d)\<lparr>wire := wire (rs_rcs s d) @ [relayed rid (Json init)]\<rparr>)"
  have fields: "m_type init = ''file_transfer''" "m_target init = m_target base" "m_token init = m_token base"
    "m_id init = m_id base" "m_chunked init" "relayed rid (Json init) = Json (forward_transfer rid init)"
    by (simp_all add: init_def init_message_def relayed_def empty_message_def)
  have run: "client_frame c (Json init) s = handleFileTransfer c init s"
    using assms(3) fields(1) by (auto simp: conn_waits_def client_frame_def ws_frame_def ws_dispatch_def)
  have net: "wq_net (rs_rcs s d) = None" using assms(8) by (simp add: writer_well_def q_ok_def)
  have rcs: "rs_rcs (client_frame c (Json init) s) d = ?q"
      "rs_rcs (client_frame c (Json init) s) c = (rs_rcs s c)\<lparr>rc_chunkRoutes := (rc_chunkRoutes (rs_rcs s c))(m_id base \<mapsto> \<lparr>cr_target = d, cr_reqID = rid\<rparr>)\<rparr>"
      "rs_ctxs (client_frame c (Json init) s) = rs_ctxs s"
      "rs_pending (client_frame c (Json init) s) = (rs_pending s)(rid \<mapsto> \<lparr>pr_serverID = m_id base, pr_clientConn = c\<rparr>)"
    using assms(4-7) net fields
    by (simp_all add: run handleFileTransfer_def tokenEqual_def draw_id_def rid_def rc_send_eq rcs_tell conn_write_def)
  show "conn_waits c Reading (client_frame c (Json init) s)" using assms(3) by (simp add: conn_waits_def rcs)
  show "writer_well d (client_frame c (Json init) s)"
    using assms(8) by (simp add: rcs writer_well_def q_ok_def startWriter_def)
  show "q_stream (rs_rcs (client_frame c (Json init) s) d) = wire (rs_rcs s d) @ [relayed rid (Json init)]"
    using assms(9) by (simp add: rcs q_stream_def startWriter_def)
  show "rc_chunkRoutes (rs_rcs (client_frame c (Json init) s) c) (m_id base) = Some \<lparr>cr_target = d, cr_reqID = rid\<rparr>"
    "rs_pending (client_frame c (Json init) s) = (rs_pending s)(rid \<mapsto> \<lparr>pr_serverID = m_id base, pr_clientConn = c\<rparr>)"
    "wire (rs_rcs (client_frame c (Json init) s) c) = wire (rs_rcs s c)"
    "wq_net (rs_rcs (client_frame c (Json init) s) c) = wq_net (rs_rcs s c)"
    by (simp_all add: rcs)
qed

text \<open>Turns of the writer before anything was queued do nothing.\<close>

lemma first_frame:
  assumes "sent_frames evs = f # fs" "finds_room c d evs s" "wq_chan (rs_rcs s d) = []"
  shows "\<exists>evs'. sent_frames evs' = fs \<and> finds_room c d evs' (client_frame c f s) \<and>
    copy_run c d evs s = copy_run c d evs' (client_frame c f s)"
  using assms
proof (induction evs)
  case (Cons e evs)
  have "upd_rc d (writer_step id) s = s" using Cons.prems(3) by (simp add: upd_rc_def writer_step_def)
  with Cons show ?case by (cases e) auto
qed simp

section \<open>From the client's disk to the daemon's, and back\<close>

text \<open>The whole way of a copy: the frames of the sender, through the relay, to the daemon, and the answer back.\<close>

lemma copy_arrives:
  assumes sender: "link_up senv" "cs > 0" "data \<noteq> []" "int (length data) + int cs \<le> 2 ^ 63" "m_mode base = ''scp''"
      "sendFileStreaming senv base \<lparr>rd_data = data, rd_fail = None\<rparr> (int (length data)) cs [] = Some (r, sent_frames evs)"
    and daemon: "gzip_ok senv env" "os_create env (m_dst_path base) = None" "\<forall>pos d. os_write env (m_dst_path base) pos d = None"
    and relay: "conn_waits c Reading s" "c \<noteq> d" "m_target base \<noteq> ''''" "rs_clients s (m_target base) = Some d"
      "rc_token (rs_rcs s d) = m_token base" "writer_well d s" "wq_chan (rs_rcs s d) = []" "wq_net (rs_rcs s c) = None"
    and room: "finds_room c d evs s"
  shows "let s' = copy_run c d evs s; answer = transfer_ok env (newID (rs_entropy s) (rs_draws s))
    in \<exists>frames. q_stream (rs_rcs s' d) = wire (rs_rcs s d) @ frames \<and>
         td_fs (td_frames env ord frames t) = (td_fs t)(m_dst_path base \<mapsto> data) \<and>
         td_sent (td_frames env ord frames t) = td_sent t @ [answer] \<and>
         wire (rs_rcs (ws_frame a d (Json answer) s') c) = wire (rs_rcs s c) @ [Json (answer\<lparr>m_id := m_id base, m_type := ''result''\<rparr>)]"
proof -
  define s' where "s' = copy_run c d evs s"
  define rid where "rid = newID (rs_entropy s) (rs_draws s)"
  let ?init = "Json (init_message base (int (length (chunk_list cs data))) (int (length data)))" and ?cl = "chunk_list cs data"
  let ?s1 = "client_frame c ?init s"
  have fr: "sent_frames evs = transfer_frames senv base cs data"
    using streaming_frames [OF sender(1-4), of base] sender(6) by simp
  then have fr': "sent_frames evs = ?init # numbered_frames senv (m_id base) 0 ?cl" by (simp add: transfer_frames_def)
  obtain evs' where evs': "sent_frames evs' = numbered_frames senv (m_id base) 0 ?cl" "finds_room c d evs' ?s1"
      "s' = copy_run c d evs' ?s1"
    using first_frame [OF fr' room relay(7)] by (auto simp: s'_def)
  note a = announce [OF relay(1-7), of "int (length ?cl)" "int (length data)", folded rid_def]
  have f: "writer_well d s' \<and> rs_pending s' = rs_pending ?s1 \<and> wire (rs_rcs s' c) = wire (rs_rcs ?s1 c) \<and>
      wq_net (rs_rcs s' c) = wq_net (rs_rcs ?s1 c) \<and>
      q_stream (rs_rcs s' d) = q_stream (rs_rcs ?s1 d) @ map (relayed rid) (held Reading @ sent_frames evs')"
    unfolding evs'(3)
    by (rule forward_chunks [OF daemon(1) relay(2) a(1,2) evs'(2), where cs = ?cl])
       (use evs'(1) chunks_nonempty [OF sender(2), of data] a(3) in auto)
  have stream: "q_stream (rs_rcs s' d) = wire (rs_rcs s d) @ map (relayed rid) (transfer_frames senv base cs data)"
    using f a(5) evs'(1) by (simp add: transfer_frames_def)
  note copied = daemon_copies [OF sender(2,3) daemon(1) sender(5) daemon(2,3)]
  have "m_type (transfer_ok env rid) = ''file_transfer_result''" "m_id (transfer_ok env rid) = rid"
    by (simp_all add: transfer_ok_def stampVersion_def)
  then have "wire (rs_rcs (ws_frame a d (Json (transfer_ok env rid)) s') c) =
      wire (rs_rcs s c) @ [Json ((transfer_ok env rid)\<lparr>m_id := m_id base, m_type := ''result''\<rparr>)]"
    using f a(4,6,7) relay(2,8)
    by (simp add: ws_frame_def ws_dispatch_def clientOnlyMessages_def handleFileTransferResult_def cleanupPending_def wire_tell)
  with stream copied show ?thesis unfolding Let_def s'_def [symmetric] rid_def [symmetric] by blast
qed

text \<open>
  A copy through the relay arrives and is acknowledged. The client streams a non-empty file
  over its authenticated connection \<open>c\<close>; the target's daemon is registered on \<open>d\<close> under the
  token given. However the relay's read loop and the writer goroutine of \<open>d\<close> interleave, as long
  as the queue is never full when a frame arrives: what is written and queued to the daemon are
  frames from which it stores exactly the file's bytes, and its one answer, read by the relay,
  is written to the client as the result of its request.
\<close>

theorem copy_end_to_end:
  assumes sender: "link_up senv" "cs > 0" "data \<noteq> []" "int (length data) + int cs \<le> 2 ^ 63" "m_mode base = ''scp''"
      "sendFileStreaming senv base \<lparr>rd_data = data, rd_fail = None\<rparr> (int (length data)) cs [] = Some (r, sent_frames evs)"
    and daemon: "gzip_ok senv env" "os_create env (m_dst_path base) = None" "\<forall>pos d. os_write env (m_dst_path base) pos d = None"
    and relay: "conn_waits c Reading s" "c \<noteq> d" "m_target base \<noteq> ''''" "rs_clients s (m_target base) = Some d"
      "rc_token (rs_rcs s d) = m_token base" "writer_well d s" "wq_chan (rs_rcs s d) = []" "wq_net (rs_rcs s c) = None"
    and room: "finds_room c d evs s"
  shows "let s' = copy_run c d evs s; answer = transfer_ok env (newID (rs_entropy s) (rs_draws s))
    in \<exists>frames. q_stream (rs_rcs s' d) = wire (rs_rcs s d) @ frames \<and>
         td_fs (td_frames env ord frames t) = (td_fs t)(m_dst_path base \<mapsto> data) \<and>
         td_sent (td_frames env ord frames t) = td_sent t @ [answer] \<and>
         wire (rs_rcs (ws_frame a d (Json answer) s') c) = wire (rs_rcs s c) @ [Json (answer\<lparr>m_id := m_id base, m_type := ''result''\<rparr>)]"
  using assms by (rule copy_arrives)

definition demo_copy :: message where
  "demo_copy = demo_base\<lparr>m_target := ''box'', m_token := ''tok''\<rparr>"

definition demo_schedule :: "copy_event list" where
  "demo_schedule = [Sends (Json (init_message demo_copy 1 1)), WriterRuns, Sends (Json (chunk_head ''f1'' 0 True False)),
     Sends (Binary [65]), WriterRuns]"

lemma demo_copy_fields [simp]:
  "m_mode demo_copy = ''scp''" "m_dst_path demo_copy = ''/b''" "m_id demo_copy = ''f1''" "m_target demo_copy = ''box''"
  "m_token demo_copy = ''tok''"
  by (simp_all add: demo_copy_def)

lemma demo_schedule_frames:
  "sendFileStreaming demo_send demo_copy \<lparr>rd_data = [65], rd_fail = None\<rparr> (int (length [65 :: byte])) 2 [] =
    Some ((1, 1, None), sent_frames demo_schedule)"
  using streaming_frames [OF demo_send_ok(1), of 2 "[65]" demo_copy]
  by (simp add: transfer_frames_def chunk_list_step chunk_frames_def chunk_payload_def tryCompress_def demo_schedule_def)

lemma demo_waits: "conn_waits 1 Reading demo_relay" "writer_well 0 demo_relay"
  by (simp_all add: conn_waits_def writer_well_def q_ok_def demo_box_def new_relay_client_def)

lemma demo_schedule_room: "finds_room 1 0 demo_schedule demo_relay"
proof -
  have init: "m_type (init_message demo_copy 1 1) = ''file_transfer''" "m_target (init_message demo_copy 1 1) = ''box''"
    "m_token (init_message demo_copy 1 1) = ''tok''" "m_chunked (init_message demo_copy 1 1)" "m_id (init_message demo_copy 1 1) = ''f1''"
    by (simp_all add: init_message_def)
  show ?thesis
    using init
    by (simp add: demo_schedule_def client_frame_def ws_frame_def ws_dispatch_def handleFileTransfer_def handleFileChunk_def tokenEqual_def
        draw_id_def rc_send_eq tell_def upd_rc_def conn_write_def q_room_def writer_step_def startWriter_def set_phase_def set_ctx_def)
qed

theorem copy_end_to_end_witness:
  "let s' = copy_run 1 0 demo_schedule demo_relay; answer = transfer_ok demo_os (newID (rs_entropy demo_relay) (rs_draws demo_relay))
    in \<exists>frames. q_stream (rs_rcs s' 0) = wire (rs_rcs demo_relay 0) @ frames \<and>
         td_fs (td_frames demo_os [] frames demo_idle) = (td_fs demo_idle)(m_dst_path demo_copy \<mapsto> [65]) \<and>
         td_sent (td_frames demo_os [] frames demo_idle) = td_sent demo_idle @ [answer] \<and>
         wire (rs_rcs (ws_frame True 0 (Json answer) s') 1) = wire (rs_rcs demo_relay 1) @ [Json (answer\<lparr>m_id := m_id demo_copy, m_type := ''result''\<rparr>)]"
  by (rule copy_end_to_end [OF demo_send_ok(1) _ _ _ _ demo_schedule_frames demo_send_ok(2) _ _ demo_waits(1) _ _ _ _ demo_waits(2) _ _ demo_schedule_room])
     (simp_all add: demo_os_def)

end
