(* ===== verification/ClientConfig.thy ===== *)
theory ClientConfig
  imports Prelude Codecs
begin

text \<open>
  The client's configuration (config.go): the relay, the targets with their tokens and relay
  names, and groups of targets, in one file that every operation loads, changes and saves.

  The file's JSON is the value it holds. \<open>fs_env\<close> says what the file system reports when the
  directory is made, when the file is opened (which truncates it) and when it is written; a
  write that fails leaves a part of the text, which is not JSON. \<open>fmt\<close>'s \<open>%q\<close> is \<open>quoted\<close>, on text without
  characters that need escaping.
\<close>

section \<open>Data\<close>

record relay_config =
  rl_url :: string
  rl_name :: string
  rl_secret :: string

record target_config =
  tg_token :: string
  tg_relayName :: string

record config =
  cf_relay :: relay_config
  cf_targets :: "string \<rightharpoonup> target_config"
  cf_groups :: "string \<rightharpoonup> string list"

definition empty_config :: config where
  "empty_config = \<lparr>cf_relay = \<lparr>rl_url = '''', rl_name = '''', rl_secret = ''''\<rparr>, cf_targets = Map.empty, cf_groups = Map.empty\<rparr>"

datatype config_file = NoFile | ReadFails string | NotJson string | HoldsConfig config

record fs_env =
  fe_mkdir :: "string option"
  fe_open :: "string option"
  fe_write :: "string option"
  fe_torn :: string \<comment> \<open>what the decoder says of a file that was cut short\<close>

definition quoted :: "string \<Rightarrow> string" where
  "quoted s = [CHR 0x22] @ s @ [CHR 0x22]"

section \<open>Loading and saving\<close>

definition loadConfig :: "config_file \<Rightarrow> string + config" where
  "loadConfig f = (case f of NoFile \<Rightarrow> Inr empty_config | ReadFails e \<Rightarrow> Inl e | NotJson e \<Rightarrow> Inl e | HoldsConfig c \<Rightarrow> Inr c)"

text \<open>A saving operation returns its error and the file it leaves.\<close>

definition saveConfig :: "fs_env \<Rightarrow> config \<Rightarrow> config_file \<Rightarrow> string option \<times> config_file" where
  "saveConfig env c f =
     (case fe_mkdir env of Some e \<Rightarrow> (Some e, f)
      | None \<Rightarrow> (case fe_open env of Some e \<Rightarrow> (Some e, f)
          | None \<Rightarrow> (case fe_write env of Some e \<Rightarrow> (Some e, NotJson (fe_torn env)) | None \<Rightarrow> (None, HoldsConfig c))))"

definition with_config :: "(config \<Rightarrow> string + config) \<Rightarrow> fs_env \<Rightarrow> config_file \<Rightarrow> string option \<times> config_file" where
  "with_config change env f =
     (case loadConfig f of
        Inl e \<Rightarrow> (Some e, f)
      | Inr c \<Rightarrow> (case change c of Inl e \<Rightarrow> (Some e, f) | Inr c' \<Rightarrow> saveConfig env c' f))"

section \<open>Targets\<close>

definition addTargetWithRelayName :: "string \<Rightarrow> string \<Rightarrow> string \<Rightarrow> fs_env \<Rightarrow> config_file \<Rightarrow> string option \<times> config_file" where
  "addTargetWithRelayName name token relayName =
     with_config (\<lambda>c. Inr (c\<lparr>cf_targets := (cf_targets c)(name \<mapsto> \<lparr>tg_token = token, tg_relayName = relayName\<rparr>)\<rparr>))"

definition addTarget :: "string \<Rightarrow> string \<Rightarrow> fs_env \<Rightarrow> config_file \<Rightarrow> string option \<times> config_file" where
  "addTarget name token = addTargetWithRelayName name token ''''"

definition removeTarget :: "string \<Rightarrow> fs_env \<Rightarrow> config_file \<Rightarrow> string option \<times> config_file" where
  "removeTarget name = with_config (\<lambda>c. Inr (c\<lparr>cf_targets := (cf_targets c)(name := None)\<rparr>))"

text \<open>The name the relay knows a target by.\<close>

definition relay_target :: "string \<Rightarrow> target_config \<Rightarrow> string" where
  "relay_target alias t = (if tg_relayName t \<noteq> '''' then tg_relayName t else alias)"

section \<open>Groups\<close>

definition groupCreate :: "string \<Rightarrow> string list \<Rightarrow> fs_env \<Rightarrow> config_file \<Rightarrow> string option \<times> config_file" where
  "groupCreate name targets = with_config (\<lambda>c.
     if cf_groups c name \<noteq> None then Inl (''group '' @ quoted name @ '' already exists'')
     else case filter (\<lambda>t. cf_targets c t = None) targets of
            t # _ \<Rightarrow> Inl (''unknown target '' @ quoted t @ '' (add it first via add-target)'')
          | [] \<Rightarrow> Inr (c\<lparr>cf_groups := (cf_groups c)(name \<mapsto> targets)\<rparr>))"

definition groupDelete :: "string \<Rightarrow> fs_env \<Rightarrow> config_file \<Rightarrow> string option \<times> config_file" where
  "groupDelete name = with_config (\<lambda>c.
     if cf_groups c name = None then Inl (''group '' @ quoted name @ '' not found'')
     else Inr (c\<lparr>cf_groups := (cf_groups c)(name := None)\<rparr>))"

definition groupAddTargets :: "string \<Rightarrow> string list \<Rightarrow> fs_env \<Rightarrow> config_file \<Rightarrow> string option \<times> config_file" where
  "groupAddTargets name targets = with_config (\<lambda>c.
     case cf_groups c name of
       None \<Rightarrow> Inl (''group '' @ quoted name @ '' not found'')
     | Some members \<Rightarrow>
         (case filter (\<lambda>t. cf_targets c t = None) targets of
            t # _ \<Rightarrow> Inl (''unknown target '' @ quoted t)
          | [] \<Rightarrow> Inr (c\<lparr>cf_groups := (cf_groups c)(name \<mapsto> members @ filter (\<lambda>t. t \<notin> set members) targets)\<rparr>)))"

definition groupRemoveTargets :: "string \<Rightarrow> string list \<Rightarrow> fs_env \<Rightarrow> config_file \<Rightarrow> string option \<times> config_file" where
  "groupRemoveTargets name targets = with_config (\<lambda>c.
     case cf_groups c name of
       None \<Rightarrow> Inl (''group '' @ quoted name @ '' not found'')
     | Some members \<Rightarrow> Inr (c\<lparr>cf_groups := (cf_groups c)(name \<mapsto> filter (\<lambda>m. m \<notin> set targets) members)\<rparr>))"

text \<open>\<open>resolveTargets\<close>: a group's members as they are, or a comma-separated list of known targets.\<close>

definition resolveTargets :: "string \<Rightarrow> bool \<Rightarrow> config_file \<Rightarrow> string + string list" where
  "resolveTargets what isGroup f =
     (case loadConfig f of
        Inl e \<Rightarrow> Inl e
      | Inr c \<Rightarrow>
          if isGroup then
            (case cf_groups c what of None \<Rightarrow> Inl (''group '' @ quoted what @ '' not found'') | Some ms \<Rightarrow> Inr ms)
          else
            (let ts = map trim_space (go_split (CHR '','') what)
             in case filter (\<lambda>t. cf_targets c t = None) ts of
                  t # _ \<Rightarrow> Inl (''unknown target '' @ quoted t @ '' (add it first via add-target)'')
                | [] \<Rightarrow> Inr ts))"

section \<open>The relay's entry\<close>

definition setRelay :: "string \<Rightarrow> string \<Rightarrow> fs_env \<Rightarrow> config_file \<Rightarrow> string option \<times> config_file" where
  "setRelay url name = with_config (\<lambda>c. Inr (c\<lparr>cf_relay := \<lparr>rl_url = url, rl_name = name, rl_secret = rl_secret (cf_relay c)\<rparr>\<rparr>))"

definition setRelaySecret :: "string \<Rightarrow> fs_env \<Rightarrow> config_file \<Rightarrow> string option \<times> config_file" where
  "setRelaySecret s = with_config (\<lambda>c. Inr (c\<lparr>cf_relay := (cf_relay c)\<lparr>rl_secret := s\<rparr>\<rparr>))"

section \<open>Listing\<close>

definition masked_token :: "string \<Rightarrow> string" where
  "masked_token t = (if length t > 4 then take 4 t @ ''...'' else t)"

definition arrow :: string where "arrow = map char_of [226 :: nat, 134, 146]"

definition list_target :: "string \<Rightarrow> target_config \<Rightarrow> string" where
  "list_target name t =
     (if tg_relayName t \<noteq> '''' \<and> tg_relayName t \<noteq> name
      then name @ '' '' @ arrow @ '' '' @ tg_relayName t @ '' (token: '' @ masked_token (tg_token t) @ '')''
      else name @ '' (token: '' @ masked_token (tg_token t) @ '')'')"

text \<open>The lines printed; \<open>ts\<close> and \<open>gs\<close> are the names in the order the runtime visits the maps.\<close>

definition listTargets :: "string list \<Rightarrow> string list \<Rightarrow> config_file \<Rightarrow> string + string list" where
  "listTargets ts gs f =
     (case loadConfig f of
        Inl e \<Rightarrow> Inl e
      | Inr c \<Rightarrow> Inr (
          (if dom (cf_targets c) = {} then [''No targets configured'']
           else List.map_filter (\<lambda>n. map_option (list_target n) (cf_targets c n)) ts) @
          (if dom (cf_groups c) = {} then []
           else '''' # ''Groups:'' # List.map_filter (\<lambda>n. map_option (\<lambda>ms. ''  '' @ n @ '': '' @ go_join '', '' ms) (cf_groups c n)) gs)))"

definition groupList :: "string list \<Rightarrow> config_file \<Rightarrow> string + string list" where
  "groupList gs f =
     (case loadConfig f of
        Inl e \<Rightarrow> Inl e
      | Inr c \<Rightarrow> Inr (if dom (cf_groups c) = {} then [''No groups configured'']
          else List.map_filter (\<lambda>n. map_option (\<lambda>ms. n @ '': '' @ go_join '', '' ms) (cf_groups c n)) gs))"

section \<open>Tokens and pairing files\<close>

text \<open>\<open>loadToken\<close>, \<open>loadPairCode\<close> and \<open>loadActivationKey\<close> on what the file holds; \<open>saveToken\<close> and
  its like write the text as it is.\<close>

definition load_trimmed :: "string option \<Rightarrow> string option" where
  "load_trimmed file_text = map_option trim_space file_text"

definition generateToken :: "bytes \<Rightarrow> string" where
  "generateToken b = hex_of_bytes b"

section \<open>What every change does\<close>

definition config_inv :: "(config \<Rightarrow> bool) \<Rightarrow> config_file \<Rightarrow> bool" where
  "config_inv P f \<longleftrightarrow> (\<forall>c. loadConfig f = Inr c \<longrightarrow> P c)"

lemma with_config_inv:
  assumes "config_inv P f" "\<And>c c'. P c \<Longrightarrow> change c = Inr c' \<Longrightarrow> P c'"
  shows "config_inv P (snd (with_config change env f))"
  using assms unfolding config_inv_def with_config_def saveConfig_def
  by (auto simp: loadConfig_def split: sum.splits option.splits config_file.splits)

lemma with_config_loads:
  assumes "fe_write env = None" "loadConfig f = Inr c"
  shows "\<exists>c'. loadConfig (snd (with_config change env f)) = Inr c'"
  using assms by (auto simp: with_config_def saveConfig_def loadConfig_def split: sum.split option.split)

datatype config_op =
    AddTarget string string string
  | RemoveTarget string
  | GroupCreate string "string list"
  | GroupDelete string
  | GroupAdd string "string list"
  | GroupRemove string "string list"
  | SetRelay string string
  | SetSecret string

fun run_op :: "config_op \<Rightarrow> fs_env \<Rightarrow> config_file \<Rightarrow> string option \<times> config_file" where
  "run_op (AddTarget n t r) = addTargetWithRelayName n t r"
| "run_op (RemoveTarget n) = removeTarget n"
| "run_op (GroupCreate n ts) = groupCreate n ts"
| "run_op (GroupDelete n) = groupDelete n"
| "run_op (GroupAdd n ts) = groupAddTargets n ts"
| "run_op (GroupRemove n ts) = groupRemoveTargets n ts"
| "run_op (SetRelay u n) = setRelay u n"
| "run_op (SetSecret s) = setRelaySecret s"

definition groups_known :: "config \<Rightarrow> bool" where
  "groups_known c \<longleftrightarrow> (\<forall>g ms. cf_groups c g = Some ms \<longrightarrow> set ms \<subseteq> dom (cf_targets c))"

primrec run_ops :: "(config_op \<times> fs_env) list \<Rightarrow> config_file \<Rightarrow> config_file" where
  "run_ops [] f = f"
| "run_ops (o' # os) f = run_ops os (snd (run_op (fst o') (snd o') f))"

lemma filter_known: "filter (\<lambda>t. m t = None) ts = [] \<longleftrightarrow> set ts \<subseteq> dom m"
  by (auto simp: filter_empty_conv)

lemmas config_ops = addTargetWithRelayName_def removeTarget_def groupCreate_def groupDelete_def groupAddTargets_def
  groupRemoveTargets_def setRelay_def setRelaySecret_def

lemma groups_knownD: "groups_known c \<Longrightarrow> cf_groups c g = Some ms \<Longrightarrow> u \<in> set ms \<Longrightarrow> \<exists>y. cf_targets c u = Some y"
  by (auto simp: groups_known_def)

lemma run_op_keeps_groups:
  assumes "config_inv groups_known f" "\<forall>n. o' \<noteq> RemoveTarget n"
  shows "config_inv groups_known (snd (run_op o' env f))"
proof (cases o')
  case (RemoveTarget n)
  then show ?thesis using assms(2) by simp
next
  case (AddTarget a b d)
  show ?thesis unfolding AddTarget run_op.simps config_ops
    by (rule with_config_inv [OF assms(1)]) (auto simp: groups_known_def subset_iff dom_def)
next
  case (GroupCreate n ts)
  show ?thesis unfolding GroupCreate run_op.simps config_ops
    by (rule with_config_inv [OF assms(1)])
       (auto simp: groups_known_def filter_known subset_iff dom_def split: list.splits if_splits dest: groups_knownD)
next
  case (GroupDelete n)
  show ?thesis unfolding GroupDelete run_op.simps config_ops
    by (rule with_config_inv [OF assms(1)]) (fastforce simp: groups_known_def split: if_splits)
next
  case (GroupAdd n ts)
  show ?thesis unfolding GroupAdd run_op.simps config_ops
    apply (rule with_config_inv [OF assms(1)], subst groups_known_def)
    apply (auto simp: filter_known subset_iff dom_def split: option.splits list.splits if_splits)
     apply (blast dest: groups_knownD)+
    done
next
  case (GroupRemove n ts)
  show ?thesis unfolding GroupRemove run_op.simps config_ops
    by (rule with_config_inv [OF assms(1)])
       (fastforce simp: groups_known_def split: option.splits if_splits)
next
  case (SetRelay u n)
  show ?thesis unfolding SetRelay run_op.simps config_ops
    by (rule with_config_inv [OF assms(1)]) (fastforce simp: groups_known_def)
next
  case (SetSecret u)
  show ?thesis unfolding SetSecret run_op.simps config_ops
    by (rule with_config_inv [OF assms(1)]) (fastforce simp: groups_known_def)
qed

lemma run_op_loads: "fe_write env = None \<Longrightarrow> loadConfig f = Inr c \<Longrightarrow> \<exists>c'. loadConfig (snd (run_op o' env f)) = Inr c'"
  by (cases o') (simp_all add: config_ops with_config_loads)

section \<open>Properties\<close>

text \<open>
  C40. Groups only name known targets, as long as no target is removed: starting from no file,
  after every sequence of changes without \<open>remove-target\<close>, whichever of them fail and however, a
  configuration that loads has every member of every group among its targets; and the
  configuration loads unless a write broke off.
\<close>

theorem group_members_are_known:
  assumes "\<forall>(o', env)\<in>set os. \<forall>n. o' \<noteq> RemoveTarget n"
  shows "(\<forall>c. loadConfig (run_ops os NoFile) = Inr c \<longrightarrow> groups_known c) \<and>
    ((\<forall>(o', env)\<in>set os. fe_write env = None) \<longrightarrow> (\<exists>c. loadConfig (run_ops os NoFile) = Inr c))"
proof -
  have "config_inv groups_known f \<Longrightarrow> config_inv groups_known (run_ops os f)" for f
    using assms
  proof (induction os arbitrary: f)
    case (Cons x os)
    then have "\<forall>n. fst x \<noteq> RemoveTarget n" by (cases x) auto
    from run_op_keeps_groups [OF Cons.prems(1) this] show ?case using Cons by auto
  qed auto
  moreover have "\<forall>(o', env)\<in>set os. fe_write env = None \<Longrightarrow> loadConfig f = Inr c \<Longrightarrow> \<exists>c. loadConfig (run_ops os f) = Inr c" for f c
  proof (induction os arbitrary: f c)
    case (Cons x os)
    obtain o' env where x: "x = (o', env)" by (cases x)
    obtain c' where "loadConfig (snd (run_op o' env f)) = Inr c'" using run_op_loads [of env f c o'] Cons.prems by (auto simp: x)
    then show ?case using Cons by (auto simp: x)
  qed auto
  moreover have "loadConfig NoFile = Inr empty_config" "config_inv groups_known NoFile"
    by (simp_all add: config_inv_def loadConfig_def groups_known_def empty_config_def)
  ultimately show ?thesis unfolding config_inv_def by blast
qed

definition demo_fs_env :: fs_env where "demo_fs_env = \<lparr>fe_mkdir = None, fe_open = None, fe_write = None, fe_torn = ''''\<rparr>"

theorem group_members_are_known_witness:
  "\<exists>c. loadConfig (run_ops [(AddTarget ''box'' ''tok'' '''', demo_fs_env), (GroupCreate ''web'' [''box''], demo_fs_env)] NoFile) = Inr c \<and> groups_known c"
  using group_members_are_known [of "[(AddTarget ''box'' ''tok'' '''', demo_fs_env), (GroupCreate ''web'' [''box''], demo_fs_env)]"]
  by (auto simp: demo_fs_env_def)

text \<open>
  Removing a target leaves it in its groups, and a repeated name is added twice. After
  \<open>add-target\<close>, \<open>group create\<close>, \<open>remove-target\<close> the group still resolves to the removed target; and
  adding a new target twice in one call puts it into the group twice.
\<close>

theorem removed_target_stays_in_group:
  assumes "loadConfig f = Inr c" and "cf_groups c g = Some ms" and "t \<in> set ms" and "fe_mkdir env = None" and "fe_open env = None" and "fe_write env = None"
  shows "resolveTargets g True (snd (removeTarget t env f)) = Inr ms \<and>
    (u \<notin> set ms \<longrightarrow> cf_targets c u \<noteq> None \<longrightarrow> resolveTargets g True (snd (groupAddTargets g [u, u] env f)) = Inr (ms @ [u, u]))"
proof -
  have "with_config change env f = (None, HoldsConfig c')" if "change c = Inr c'" for change c'
    using assms(1,4-6) that by (simp add: with_config_def saveConfig_def)
  then show ?thesis
    using assms(2) by (auto simp: removeTarget_def groupAddTargets_def resolveTargets_def loadConfig_def)
qed

theorem removed_target_stays_in_group_witness:
  "let c = empty_config\<lparr>cf_targets := [''box'' \<mapsto> \<lparr>tg_token = ''t'', tg_relayName = ''''\<rparr>, ''two'' \<mapsto> \<lparr>tg_token = ''t'', tg_relayName = ''''\<rparr>],
      cf_groups := [''web'' \<mapsto> [''box'']]\<rparr>; f = HoldsConfig c
   in resolveTargets ''web'' True (snd (removeTarget ''box'' demo_fs_env f)) = Inr [''box''] \<and>
      resolveTargets ''web'' True (snd (groupAddTargets ''web'' [''two'', ''two''] demo_fs_env f)) = Inr [''box'', ''two'', ''two'']"
  using removed_target_stays_in_group [of "HoldsConfig (empty_config\<lparr>cf_targets := [''box'' \<mapsto> \<lparr>tg_token = ''t'', tg_relayName = ''''\<rparr>,
      ''two'' \<mapsto> \<lparr>tg_token = ''t'', tg_relayName = ''''\<rparr>], cf_groups := [''web'' \<mapsto> [''box'']]\<rparr>)" _ "''web''" "[''box'']" "''box''" demo_fs_env "''two''"]
  by (simp add: loadConfig_def demo_fs_env_def Let_def)

end
