(* ===== verification/ExitCodes.thy ===== *)
theory ExitCodes
  imports Protocol
begin

text \<open>
  How a failure becomes an exit code and a typed error (exitcode.go, clierror.go): both look at
  the text of the error. The body is printed by the standard library's JSON encoder; here it is
  the record that is encoded.
\<close>

definition ExitSuccess :: int where "ExitSuccess = 0"
definition ExitExecError :: int where "ExitExecError = 1"
definition ExitRelayError :: int where "ExitRelayError = 2"
definition ExitConfigError :: int where "ExitConfigError = 3"
definition ExitInternal :: int where "ExitInternal = 4"

lemmas exit_codes = ExitSuccess_def ExitExecError_def ExitRelayError_def ExitConfigError_def ExitInternal_def

definition mentions :: "string \<Rightarrow> string list \<Rightarrow> bool" where
  "mentions msg words \<longleftrightarrow> list_ex (str_contains msg) words"

definition classifyError :: "string option \<Rightarrow> int" where
  "classifyError err =
     (case err of
        None \<Rightarrow> ExitSuccess
      | Some msg \<Rightarrow>
          if mentions msg [''relay secret'', ''authentication required''] then ExitConfigError
          else if mentions msg [''connect to relay'', ''connection'', ''timed out waiting''] then ExitRelayError
          else if mentions msg [''unknown target'', ''not found'', ''required'', ''already exists'', ''not configured'', ''unknown command''] then ExitConfigError
          else ExitExecError)"

text \<open>\<open>multiExecExit\<close>; the order of the map does not matter. Some result is a failure when it has
  an error, is not ok, or has a non-zero exit code.\<close>

definition result_failed :: "('a) message0_scheme \<Rightarrow> bool" where
  "result_failed r \<longleftrightarrow> m_error r \<noteq> '''' \<or> m_ok r = Some False \<or> m_exit_code r \<noteq> 0"

definition multiExecExit :: "string list \<Rightarrow> message option \<Rightarrow> int" where
  "multiExecExit keys result =
     (case result of
        None \<Rightarrow> ExitRelayError
      | Some m \<Rightarrow>
          (case m_results m of
             None \<Rightarrow> ExitRelayError
           | Some rs \<Rightarrow>
               if list_ex (\<lambda>k. case rs k of None \<Rightarrow> False | Some r \<Rightarrow> result_failed r) keys then ExitExecError else ExitSuccess))"

record cliError =
  ce_code :: int
  ce_type :: string
  ce_message :: string
  ce_recoverable :: bool
  ce_suggestions :: "string list"

definition exitUpdateFail :: int where "exitUpdateFail = 100"

definition errorType :: "int \<Rightarrow> string \<Rightarrow> string" where
  "errorType code msg =
     (if code = ExitRelayError then ''relay_unreachable''
      else if code = exitUpdateFail then ''update_failed''
      else if code = ExitInternal then ''internal''
      else if code = ExitExecError then ''command_failed''
      else if mentions msg [''relay secret'', ''authentication required''] then ''auth_required''
      else if mentions msg [''unknown target'', ''not found in config''] then ''unknown_target''
      else if mentions msg [''not connected''] then ''target_offline''
      else if mentions msg [''timed out'', ''Timed out''] then ''timeout''
      else if mentions msg [''unknown command'', ''Unknown command''] then ''unknown_command''
      else if mentions msg [''not configured''] then ''not_configured''
      else if mentions msg [''required''] then ''missing_argument''
      else if mentions msg [''already exists''] then ''already_exists''
      else if mentions msg [''not found''] then ''not_found''
      else ''invalid_arguments'')"

definition defaultSuggestions :: "string \<Rightarrow> string list" where
  "defaultSuggestions typ =
     (if typ = ''unknown_target'' then [''remotecmd-cli list-targets'', ''remotecmd-cli add-target --name <n> --token <t>'']
      else if typ = ''relay_unreachable'' then [''retry with backoff'', ''remotecmd-cli list-targets --refresh'']
      else if typ = ''not_configured'' then [''remotecmd-cli set-relay --url <u> --name <n>'']
      else if typ = ''auth_required'' then [''printf %s <secret> | remotecmd-cli set-relay --secret-stdin'']
      else [])"

text \<open>\<open>fail\<close>: the error body; the process exits with its code.\<close>

definition fail :: "int \<Rightarrow> string \<Rightarrow> string \<Rightarrow> string list \<Rightarrow> cliError" where
  "fail code typ msg sugg = \<lparr>ce_code = code, ce_type = typ, ce_message = msg,
     ce_recoverable = (code = ExitRelayError \<or> (100 \<le> code \<and> code \<le> 109)), ce_suggestions = sugg\<rparr>"

definition failErrCode :: "int \<Rightarrow> string \<Rightarrow> string list \<Rightarrow> cliError" where
  "failErrCode code msg sugg =
     (let typ = errorType code msg in fail code typ msg (if sugg = [] then defaultSuggestions typ else sugg))"

definition failErr :: "string \<Rightarrow> string list \<Rightarrow> cliError" where
  "failErr msg sugg = failErrCode (classifyError (Some msg)) msg sugg"

text \<open>The body as text: the message and one line per suggestion.\<close>

definition error_text :: "cliError \<Rightarrow> string list" where
  "error_text e = (''Error: '' @ ce_message e) # map (\<lambda>s. ''  try: '' @ s) (ce_suggestions e)"

text \<open>\<open>errorFormatJSON\<close>: the variable in lower case, else whether the standard error is a terminal.\<close>

definition errorFormatJSON :: "string \<Rightarrow> bool option \<Rightarrow> bool" where
  "errorFormatJSON lower_env terminal =
     (if lower_env = ''json'' then True
      else if lower_env = ''text'' then False
      else case terminal of None \<Rightarrow> True | Some tty \<Rightarrow> \<not> tty)"

section \<open>Lemmas\<close>

lemma mentions_iff: "mentions msg ws \<longleftrightarrow> (\<exists>w\<in>set ws. \<exists>p t. msg = p @ w @ t)"
  by (auto simp: mentions_def list_ex_iff str_contains_iff)

lemma mentionsI: "w \<in> set ws \<Longrightarrow> mentions (p @ w @ t) ws"
  by (auto simp: mentions_iff)

section \<open>Properties\<close>

text \<open>
  The body of an error matches the exit status. For every error text: the code is one of 1, 2
  and 3; it is recoverable exactly when it is the relay's, and then its type is
  \<open>relay_unreachable\<close>; and an error that mentions a missing secret is never recoverable and always
  of type \<open>auth_required\<close>, whatever else it says.
\<close>

theorem error_body_matches_code:
  "ce_code (failErr msg sugg) \<in> {1, 2, 3} \<and>
   (ce_recoverable (failErr msg sugg) \<longleftrightarrow> ce_code (failErr msg sugg) = 2) \<and>
   (ce_type (failErr msg sugg) = ''relay_unreachable'' \<longleftrightarrow> ce_code (failErr msg sugg) = 2) \<and>
   (mentions msg [''relay secret'', ''authentication required''] \<longrightarrow>
     ce_code (failErr msg sugg) = 3 \<and> ce_type (failErr msg sugg) = ''auth_required'')"
  by (simp add: failErr_def failErrCode_def fail_def classifyError_def errorType_def exit_codes exitUpdateFail_def Let_def)

theorem error_body_matches_code_witness:
  "ce_code (failErr ''relay: authentication required: relay secret not provided'' []) = 3"
  using error_body_matches_code [of "''relay: authentication required: relay secret not provided''" "[]"]
    mentionsI [of "''authentication required''" "[''relay secret'', ''authentication required'']" "''relay: ''" "'': relay secret not provided''"]
  by simp

text \<open>
  A target's name can turn a configuration error into a network error. The error for an unknown
  target quotes its name; if the name contains \<open>connection\<close> (and nothing that asks for a secret)
  the exit code is the relay's and the caller is told to retry.
\<close>

theorem target_name_changes_exit_code:
  assumes "str_contains name ''connection''" and "\<not> mentions msg [''relay secret'', ''authentication required'']"
    and "msg = ''unknown target '' @ q @ name @ r"
  shows "ce_code (failErr msg []) = 2 \<and> ce_recoverable (failErr msg []) \<and>
    ce_suggestions (failErr msg []) = [''retry with backoff'', ''remotecmd-cli list-targets --refresh'']"
proof -
  obtain a b where "name = a @ ''connection'' @ b" using assms(1) by (auto simp: str_contains_iff)
  then have "mentions msg [''connect to relay'', ''connection'', ''timed out waiting'']"
    using mentionsI [of "''connection''" "[''connect to relay'', ''connection'', ''timed out waiting'']" "''unknown target '' @ q @ a" "b @ r"]
      assms(3) by simp
  then show ?thesis
    using assms(2) by (simp add: failErr_def failErrCode_def fail_def classifyError_def errorType_def defaultSuggestions_def exit_codes Let_def)
qed

theorem target_name_changes_exit_code_witness:
  "ce_code (failErr ''unknown target db-connection'' []) = 2"
proof -
  have "str_contains ''db-connection'' ''connection''" "\<not> mentions ''unknown target db-connection'' [''relay secret'', ''authentication required'']"
    by code_simp+
  from target_name_changes_exit_code [OF this, of "''''" "''''"] show ?thesis by simp
qed

end
