(* ===== verification/Client.thy ===== *)
theory Client
  imports ClientConfig ExitCodes Base64 Sender
begin

text \<open>
  The client's commands (client.go, cli_exec.go, the waiting half of filetransfer.go): building a
  request from the configuration, and reading replies until one of them ends the call. What the
  reader sees is a list of events; the result also says what was printed.
\<close>

section \<open>Requests\<close>

definition not_configured :: string where
  "not_configured = ''relay not configured. Run: remotecmd-cli set-relay --url <url> --name <name>''"

definition unknown_target :: "string \<Rightarrow> string" where
  "unknown_target t = ''unknown target '' @ quoted t @ ''. Run: remotecmd-cli add-target --name '' @ t @ '' --token <token>''"

text \<open>The configuration a call needs: the relay's URL and the target's entry.\<close>

definition find_target :: "string \<Rightarrow> string \<Rightarrow> config_file \<Rightarrow> string + (string \<times> target_config)" where
  "find_target load_text target f =
     (case loadConfig f of
        Inl e \<Rightarrow> Inl (load_text @ e)
      | Inr c \<Rightarrow>
          if rl_url (cf_relay c) = '''' then Inl not_configured
          else case cf_targets c target of
                 None \<Rightarrow> Inl (unknown_target target)
               | Some t \<Rightarrow> Inr (wsURL (rl_url (cf_relay c)), t))"

definition exec_request :: "string \<Rightarrow> string \<Rightarrow> target_config \<Rightarrow> string \<Rightarrow> int \<Rightarrow> bool \<Rightarrow> bytes \<Rightarrow> message" where
  "exec_request mid target t cmd timeout stream stdin = empty_message\<lparr>m_type := ''execute'', m_id := mid,
     m_target := relay_target target t, m_token := tg_token t, m_cmd := cmd, m_timeout := timeout, m_stream := stream,
     m_stdin_data := (if stdin = [] then '''' else b64_enc stdin)\<rparr>"

section \<open>Waiting for replies\<close>

datatype read_event = Got message | ReadError string | TimedOut

datatype client_output =
    Chunk string string \<comment> \<open>a progress line for a stream's data\<close>
  | Complete "bool option" int int
  | ErrorLine string
  | TimeoutLine
  | ToStdout string
  | ToStderr string
  | ResultJson message

datatype outcome = Returned | Failed string | Panics

text \<open>The reader of \<open>handleExecWithStdin\<close>: what it prints, and the result or the error it hands
  over; \<open>None\<close> while it still waits.\<close>

fun exec_reader :: "string \<Rightarrow> bool \<Rightarrow> string \<Rightarrow> read_event list \<Rightarrow> client_output list \<times> (string + message) option" where
  "exec_reader mid stream target [] = ([], None)"
| "exec_reader mid stream target (ReadError e # evs) =
     ((if stream then [ErrorLine e] else []), Some (Inl (''read response: '' @ e)))"
| "exec_reader mid stream target (TimedOut # evs) =
     ((if stream then [TimeoutLine] else []), Some (Inl (''timed out waiting for response from '' @ quoted target)))"
| "exec_reader mid stream target (Got m # evs) =
     (if m_id m \<noteq> mid \<and> \<not> (m_type m = ''error'' \<and> m_id m = '''') then exec_reader mid stream target evs
      else if m_type m = ''error'' then ([], Some (Inl (''relay: '' @ m_error m)))
      else if m_type m = ''stream_chunk'' then
        (let (out, r) = exec_reader mid stream target evs
         in ((if stream then Chunk (m_stream_name m) (m_data m)
              else if m_stream_name m = ''stderr'' then ToStderr (m_data m) else ToStdout (m_data m)) # out, r))
      else if m_type m = ''stream_end'' \<or> m_type m = ''result'' then
        ((if stream then [Complete (m_ok m) (m_exit_code m) (m_duration_ms m)] else []), Some (Inr m))
      else exec_reader mid stream target evs)"

text \<open>The end of the call: what is printed for a result, and the outcome.\<close>

definition exec_finish :: "bool \<Rightarrow> string + message \<Rightarrow> client_output list \<times> outcome" where
  "exec_finish stream r =
     (case r of
        Inl e \<Rightarrow> ([], Failed e)
      | Inr m \<Rightarrow>
          if m_ok m = Some False \<and> str_contains (m_error m) ''authentication required'' then ([], Failed (''relay: '' @ m_error m))
          else ((if m_type m = ''result'' \<or> \<not> stream then [ResultJson m] else []), Returned))"

text \<open>The whole call: \<open>dial\<close> and \<open>write\<close> are the errors of connecting and of sending the request;
  the third component is the request sent. \<open>None\<close> is a call that still waits.\<close>

definition handleExecWithStdin ::
    "config_file \<Rightarrow> string option \<Rightarrow> string option \<Rightarrow> string \<Rightarrow> string \<Rightarrow> string \<Rightarrow> int \<Rightarrow> bool \<Rightarrow> bytes \<Rightarrow> read_event list \<Rightarrow>
     client_output list \<times> outcome option \<times> message option" where
  "handleExecWithStdin f dial write mid target cmd timeout stream stdin evs =
     (case find_target ''load config: '' target f of
        Inl e \<Rightarrow> ([], Some (Failed e), None)
      | Inr (url, t) \<Rightarrow>
          (case dial of
             Some e \<Rightarrow> ([], Some (Failed (''connect to relay: '' @ e)), None)
           | None \<Rightarrow>
               (case write of
                  Some e \<Rightarrow> ([], Some (Failed (''send request: '' @ e)), None)
                | None \<Rightarrow>
                    (let (out, r) = exec_reader mid stream target evs
                     in case r of
                          None \<Rightarrow> (out, None, Some (exec_request mid target t cmd timeout stream stdin))
                        | Some r \<Rightarrow> (case exec_finish stream r of (out', oc) \<Rightarrow>
                            (out @ out', Some oc, Some (exec_request mid target t cmd timeout stream stdin)))))))"

text \<open>\<open>sendToRelay\<close>: any message under the request's id is the reply.\<close>

fun relay_reader :: "string \<Rightarrow> read_event list \<Rightarrow> (string + message) option" where
  "relay_reader mid [] = None"
| "relay_reader mid (ReadError e # evs) = Some (Inl (''read response: '' @ e))"
| "relay_reader mid (TimedOut # evs) = Some (Inl ''timed out waiting for response'')"
| "relay_reader mid (Got m # evs) = (if m_id m \<noteq> mid then relay_reader mid evs else Some (Inr m))"

definition sendToRelay :: "config \<Rightarrow> string option \<Rightarrow> string option \<Rightarrow> string \<Rightarrow> message \<Rightarrow> read_event list \<Rightarrow> (string + message) option" where
  "sendToRelay c dial write fresh m evs =
     (if rl_url (cf_relay c) = '''' then Some (Inl ''relay not configured'')
      else case dial of
        Some e \<Rightarrow> Some (Inl (''connect to relay: '' @ e))
      | None \<Rightarrow> (case write of
          Some e \<Rightarrow> Some (Inl (''send request: '' @ e))
        | None \<Rightarrow> relay_reader (if m_id m = '''' then fresh else m_id m) evs))"

section \<open>Several targets\<close>

fun resolve_all :: "(string \<rightharpoonup> target_config) \<Rightarrow> string list \<Rightarrow> string + (string list \<times> (string \<rightharpoonup> string))" where
  "resolve_all ts [] = Inr ([], Map.empty)"
| "resolve_all ts (a # as) =
     (case ts a of
        None \<Rightarrow> Inl (''unknown target '' @ quoted a)
      | Some t \<Rightarrow>
          (case resolve_all ts as of
             Inl e \<Rightarrow> Inl e
           | Inr (names, toks) \<Rightarrow>
               Inr (relay_target a t # names, [relay_target a t \<mapsto> tg_token t] ++ toks)))"

definition resolveRelayTargets :: "config_file \<Rightarrow> string list \<Rightarrow> string + (string list \<times> (string \<rightharpoonup> string))" where
  "resolveRelayTargets f aliases =
     (case loadConfig f of
        Inl e \<Rightarrow> Inl (''load config: '' @ e)
      | Inr c \<Rightarrow> if rl_url (cf_relay c) = '''' then Inl not_configured else resolve_all (cf_targets c) aliases)"

definition multi_request :: "string \<Rightarrow> string list \<Rightarrow> (string \<rightharpoonup> string) \<Rightarrow> string \<Rightarrow> int \<Rightarrow> message" where
  "multi_request mid names toks cmd timeout = empty_message\<lparr>m_type := ''execute_multi'', m_id := mid, m_targets := names,
     m_tokens := toks, m_cmd := cmd, m_timeout := timeout\<rparr>"

fun multi_reader :: "string \<Rightarrow> read_event list \<Rightarrow> (string + message) option" where
  "multi_reader mid [] = None"
| "multi_reader mid (ReadError e # evs) = Some (Inl (''read response: '' @ e))"
| "multi_reader mid (TimedOut # evs) = Some (Inl ''timed out waiting for multi-target results'')"
| "multi_reader mid (Got m # evs) =
     (if m_type m = ''multi_result'' \<and> m_id m = mid then
        (if m_error m \<noteq> '''' then Some (Inl (''relay: '' @ m_error m)) else Some (Inr m))
      else if m_type m = ''error'' \<and> (m_id m = mid \<or> m_id m = '''') then Some (Inl (''relay: '' @ m_error m))
      else multi_reader mid evs)"

definition multiExecRaw :: "config_file \<Rightarrow> string option \<Rightarrow> string option \<Rightarrow> string \<Rightarrow> read_event list \<Rightarrow> (string + message) option" where
  "multiExecRaw f dial write mid evs =
     (case loadConfig f of
        Inl e \<Rightarrow> Some (Inl (''load config: '' @ e))
      | Inr c \<Rightarrow>
          if rl_url (cf_relay c) = '''' then Some (Inl not_configured)
          else case dial of
            Some e \<Rightarrow> Some (Inl (''connect to relay: '' @ e))
          | None \<Rightarrow> (case write of
              Some e \<Rightarrow> Some (Inl (''send multi-exec request: '' @ e))
            | None \<Rightarrow> multi_reader mid evs))"

text \<open>The table: \<open>%-20s | %-6s | %s\<close>.\<close>

definition pad :: "nat \<Rightarrow> string \<Rightarrow> string" where
  "pad n s = s @ replicate (n - length s) CHR '' ''"

definition table_row :: "string \<Rightarrow> string \<Rightarrow> string \<Rightarrow> string" where
  "table_row a b c = pad 20 a @ '' | '' @ pad 6 b @ '' | '' @ c"

definition row_of :: "message0 option \<Rightarrow> string \<Rightarrow> bool \<times> string" where
  "row_of r target =
     (case r of
        None \<Rightarrow> (True, table_row target ''N/A'' ''no result'')
      | Some r \<Rightarrow>
          if m_ok r = Some True then
            (False, table_row target ''OK'' (if length (m_stdout r) > 60 then take 60 (m_stdout r) @ ''...'' else m_stdout r))
          else (True, table_row target ''FAIL'' (if m_error r = '''' then ''unknown error'' else m_error r)))"

definition results_of :: "message \<Rightarrow> string \<Rightarrow> message0 option" where
  "results_of m t = (case m_results m of None \<Rightarrow> None | Some rs \<Rightarrow> rs t)"

text \<open>The end of \<open>handleMultiExec\<close>: the lines printed (\<open>Inl\<close> is the message printed as JSON) and
  the error returned.\<close>

definition multi_finish :: "string \<Rightarrow> string list \<Rightarrow> message \<Rightarrow> (message + string list) \<times> string option" where
  "multi_finish format names m =
     (if format = ''json'' then (Inl m, None)
      else
        (let rows = map (\<lambda>t. row_of (results_of m t) t) names
         in (Inr (table_row ''TARGET'' ''STATUS'' ''OUTPUT/ERROR'' # ''---------------------|--------|----------------------------------------'' # map snd rows),
             if list_ex fst rows then Some ''one or more targets failed'' else None)))"

text \<open>\<open>None\<close> is a call that still waits.\<close>

definition handleMultiExec ::
    "config_file \<Rightarrow> string option \<Rightarrow> string option \<Rightarrow> string \<Rightarrow> string list \<Rightarrow> string \<Rightarrow> read_event list \<Rightarrow>
     ((message + string list) option \<times> string option) option" where
  "handleMultiExec f dial write mid targets format evs =
     (case resolveRelayTargets f targets of
        Inl e \<Rightarrow> Some (None, Some e)
      | Inr (names, toks) \<Rightarrow>
          (case multiExecRaw f dial write mid evs of
             None \<Rightarrow> None
           | Some (Inl e) \<Rightarrow> Some (None, Some e)
           | Some (Inr m) \<Rightarrow> (case multi_finish format names m of (out, e) \<Rightarrow> Some (Some out, e))))"

section \<open>Copies\<close>

text \<open>\<open>handleFileTransfer\<close> after sending: wait for the result; a result without \<open>ok\<close> is a nil
  pointer.\<close>

fun cp_reader :: "string \<Rightarrow> read_event list \<Rightarrow> outcome option" where
  "cp_reader mid [] = None"
| "cp_reader mid (ReadError e # evs) = Some (Failed (''connection error: '' @ e))"
| "cp_reader mid (TimedOut # evs) = Some (Failed ''timeout waiting for file transfer result'')"
| "cp_reader mid (Got m # evs) =
     (if m_type m = ''result'' \<and> m_id m = mid then
        (case m_ok m of
           None \<Rightarrow> Some Panics
         | Some True \<Rightarrow> Some Returned
         | Some False \<Rightarrow> Some (Failed (''file transfer failed: '' @ m_error m)))
      else cp_reader mid evs)"

definition cp_base :: "string \<Rightarrow> string \<Rightarrow> target_config \<Rightarrow> bool \<Rightarrow> string \<Rightarrow> string \<Rightarrow> message" where
  "cp_base mid target t is_dir src dst = empty_message\<lparr>m_id := mid, m_target := relay_target target t, m_token := tg_token t,
     m_mode := (if is_dir then ''rsync'' else ''scp''), m_src_path := src, m_dst_path := dst\<rparr>"

section \<open>The exec command\<close>

datatype exec_plan = ExecFail cliError | ExecSingle string | ExecMulti "string list" | ExecPanics

text \<open>\<open>handleExecSubcommand\<close> from its flags to the call it makes. A group without members is not
  multi and its first element is taken.\<close>

definition plan_targets :: "string list \<Rightarrow> exec_plan" where
  "plan_targets ts = (if length ts > 1 then ExecMulti ts else case ts of [] \<Rightarrow> ExecPanics | t # _ \<Rightarrow> ExecSingle t)"

definition handleExecSubcommand :: "config_file \<Rightarrow> string \<Rightarrow> string \<Rightarrow> string \<Rightarrow> string \<Rightarrow> exec_plan" where
  "handleExecSubcommand f target targets grp cmd =
     (if cmd = '''' then ExecFail (fail 3 ''missing_argument'' ''--cmd is required''
         [''remotecmd-cli exec --cmd <command> [--target <name> | --targets <list> | --group <name>] [--timeout <s>] [--stream] [--format json|table]''])
      else if grp \<noteq> '''' then
        (case resolveTargets grp True f of Inl e \<Rightarrow> ExecFail (failErrCode 3 e []) | Inr ts \<Rightarrow> plan_targets ts)
      else if targets \<noteq> '''' then
        (case resolveTargets targets False f of Inl e \<Rightarrow> ExecFail (failErrCode 3 e []) | Inr ts \<Rightarrow> plan_targets ts)
      else if target \<noteq> '''' then
        (case loadConfig f of
           Inl e \<Rightarrow> ExecFail (failErr e [])
         | Inr c \<Rightarrow>
             if cf_targets c target = None then
               ExecFail (fail 3 ''unknown_target'' (''unknown target '' @ quoted target) (defaultSuggestions ''unknown_target''))
             else ExecSingle target)
      else ExecFail (fail 3 ''missing_argument'' ''one of --target, --targets, or --group is required'' []))"

text \<open>\<open>readPipeWithGrace\<close>: a pipe is silent for ever, ends after some milliseconds without data,
  or delivers a first byte and then the rest, which may break off with an error. \<open>None\<close> is a call
  that never returns, an inner \<open>None\<close> no input.\<close>

datatype pipe = Silent | EndsAt int | DataAt int byte bytes bool

definition readPipeWithGrace :: "pipe \<Rightarrow> int \<Rightarrow> bytes option option" where
  "readPipeWithGrace p grace =
     (case p of
        Silent \<Rightarrow> if grace \<le> 0 then None else Some None
      | EndsAt t \<Rightarrow> Some None
      | DataAt t h tl_ broken \<Rightarrow>
          if grace \<le> 0 then Some (Some (h # tl_))
          else if t < grace then Some (Some (if broken then [h] else h # tl_))
          else Some None)"

end
