(* ===== verification/DaemonCommands.thy ===== *)
theory DaemonCommands
  imports Reassembly
begin

text \<open>
  How the daemon runs a command (daemon.go): buffered, with one result, or streaming, with a
  message per line and a final one. What the shell makes of a command, its standard input and the
  time it is given is the function \<open>shell\<close> of the environment: what the process wrote, how it
  ended, whether the deadline had passed, and how long it took. The order in which the two
  pipes of a streaming command are read is the schedule \<open>sched\<close>. \<open>strings.TrimSpace\<close> is taken on
  ASCII white space (theory Prelude).
\<close>

section \<open>Running\<close>

datatype run_error = ExitStatus int | RunError string

record cmd_outcome =
  co_stdout :: string
  co_stderr :: string
  co_error :: "run_error option"
  co_deadline :: bool
  co_ms :: int

record cmd_env =
  ce_shell :: "string \<Rightarrow> bytes option \<Rightarrow> int \<Rightarrow> cmd_outcome"
  ce_stdoutPipe :: "string option"
  ce_stderrPipe :: "string option"
  ce_start :: "string \<Rightarrow> string option"
  ce_b64_error :: "string \<Rightarrow> string"
  ce_version :: string

definition cmd_timeout :: "message \<Rightarrow> int" where
  "cmd_timeout m = (if m_timeout m \<le> 0 then 30 else m_timeout m)"

text \<open>The standard input: none, the decoded bytes, or a decoding error.\<close>

definition cmd_stdin :: "cmd_env \<Rightarrow> message \<Rightarrow> string + bytes option" where
  "cmd_stdin env m =
     (if m_stdin_data m = '''' then Inr None
      else case b64_dec (m_stdin_data m) of
             None \<Rightarrow> Inl (''failed to decode stdin data: '' @ ce_b64_error env (m_stdin_data m))
           | Some d \<Rightarrow> Inr (Some d))"

definition exit_code :: "run_error option \<Rightarrow> int" where
  "exit_code e = (case e of None \<Rightarrow> 0 | Some (ExitStatus n) \<Rightarrow> n | Some (RunError _) \<Rightarrow> 1)"

definition timed_out_text :: "message \<Rightarrow> string" where
  "timed_out_text m = ''command timed out after '' @ go_itoa (cmd_timeout m) @ ''s''"

definition executeCommandBuffered :: "cmd_env \<Rightarrow> message \<Rightarrow> message list" where
  "executeCommandBuffered env m =
     (case cmd_stdin env m of
        Inl e \<Rightarrow> [errResult (m_id m) e]
      | Inr stdin \<Rightarrow>
          (let out = ce_shell env (m_cmd m) stdin (cmd_timeout m);
               stdout = trim_space (co_stdout out); stderr = trim_space (co_stderr out)
           in if co_error out \<noteq> None \<and> co_deadline out then [errResult (m_id m) (timed_out_text m)]
              else [okResult (ce_version env) (m_id m) stdout stderr (exit_code (co_error out)) (co_ms out)]))"

section \<open>Streaming\<close>

text \<open>\<open>bufio.Scanner\<close> with its default split and buffer: lines without their terminator and
  without one carriage return before it, the last one also if it is not terminated. A line
  that does not fit the buffer of 65536 bytes together with its terminator ends the scan.\<close>

definition drop_cr :: "string \<Rightarrow> string" where
  "drop_cr line = (if line \<noteq> '''' \<and> last line = CHR 0x0D then butlast line else line)"

definition newline :: char where "newline = CHR 0x0A"

function scan_lines :: "string \<Rightarrow> string list" where
  "scan_lines s =
     (if s = '''' then []
      else (let line = takeWhile (\<lambda>c. c \<noteq> newline) s
            in if length line > 65535 then []
               else drop_cr line # scan_lines (drop (Suc (length line)) s)))"
  by pat_completeness auto
termination
  by (relation "measure length") (auto simp: Suc_le_eq)

declare scan_lines.simps [simp del]

definition stream_chunk_msg :: "string \<Rightarrow> string \<Rightarrow> string \<Rightarrow> message" where
  "stream_chunk_msg mid stream line = empty_message\<lparr>m_type := ''stream_chunk'', m_id := mid, m_stream_name := stream,
     m_data := line @ [newline]\<rparr>"

text \<open>One goroutine per pipe; \<open>True\<close> in the schedule lets the first of them go on.\<close>

fun interleave :: "bool list \<Rightarrow> 'a list \<Rightarrow> 'a list \<Rightarrow> 'a list" where
  "interleave sched [] ys = ys"
| "interleave sched xs [] = xs"
| "interleave [] (x # xs) ys = x # interleave [] xs ys"
| "interleave (b # sched) (x # xs) (y # ys) =
     (if b then x # interleave sched xs (y # ys) else y # interleave sched (x # xs) ys)"

definition executeCommandStreaming :: "cmd_env \<Rightarrow> bool list \<Rightarrow> message \<Rightarrow> message list" where
  "executeCommandStreaming env sched m =
     (case cmd_stdin env m of
        Inl e \<Rightarrow> [errResult (m_id m) e]
      | Inr stdin \<Rightarrow>
          (case ce_stdoutPipe env of
             Some e \<Rightarrow> [errResult (m_id m) (''failed to create stdout pipe: '' @ e)]
           | None \<Rightarrow> (case ce_stderrPipe env of
               Some e \<Rightarrow> [errResult (m_id m) (''failed to create stderr pipe: '' @ e)]
             | None \<Rightarrow> (case ce_start env (m_cmd m) of
                 Some e \<Rightarrow> [errResult (m_id m) (''failed to start command: '' @ e)]
               | None \<Rightarrow>
                   (let out = ce_shell env (m_cmd m) stdin (cmd_timeout m)
                    in interleave sched (map (stream_chunk_msg (m_id m) ''stdout'') (scan_lines (co_stdout out)))
                         (map (stream_chunk_msg (m_id m) ''stderr'') (scan_lines (co_stderr out))) @
                       [if co_error out \<noteq> None \<and> co_deadline out then streamEndErr (ce_version env) (m_id m) (timed_out_text m)
                        else streamEndOK (ce_version env) (m_id m) (exit_code (co_error out)) (co_ms out)])))))"

definition executeCommand :: "cmd_env \<Rightarrow> bool list \<Rightarrow> message \<Rightarrow> message list" where
  "executeCommand env sched m = (if m_stream m then executeCommandStreaming env sched m else executeCommandBuffered env m)"

section \<open>Lemmas\<close>

lemma set_interleave: "set (interleave sched xs ys) = set xs \<union> set ys"
  by (induction sched xs ys rule: interleave.induct) auto

lemma filter_interleave:
  "(\<forall>x\<in>set xs. P x) \<Longrightarrow> (\<forall>y\<in>set ys. \<not> P y) \<Longrightarrow> filter P (interleave sched xs ys) = xs"
  "(\<forall>x\<in>set xs. \<not> P x) \<Longrightarrow> (\<forall>y\<in>set ys. P y) \<Longrightarrow> filter P (interleave sched xs ys) = ys"
  by (induction sched xs ys rule: interleave.induct) auto

lemma empty_fields [simp]: "m_error empty_message = ''''" "m_stream_name empty_message = ''''"
  by (simp_all add: empty_message_def)

lemma chunk_msg_fields [simp]:
  "m_type (stream_chunk_msg mid st l) = ''stream_chunk''" "m_id (stream_chunk_msg mid st l) = mid"
  "m_stream_name (stream_chunk_msg mid st l) = st" "m_data (stream_chunk_msg mid st l) = l @ [newline]"
  by (simp_all add: stream_chunk_msg_def)

lemma scan_line:
  assumes "newline \<notin> set l" "length l \<le> 65535"
  shows "scan_lines (l @ newline # s) = drop_cr l # scan_lines s"
proof -
  have t: "takeWhile (\<lambda>c. c \<noteq> newline) (l @ newline # s) = l"
    using assms(1) by (subst takeWhile_append2) auto
  then show ?thesis using assms(2) by (subst scan_lines.simps) (simp add: Let_def)
qed

lemma scan_long_line:
  assumes "newline \<notin> set l" "length l > 65535"
  shows "scan_lines (l @ newline # s) = []"
proof -
  have t: "takeWhile (\<lambda>c. c \<noteq> newline) (l @ newline # s) = l"
    using assms(1) by (subst takeWhile_append2) auto
  then show ?thesis using assms(2) by (subst scan_lines.simps) (simp add: Let_def)
qed

definition output_of :: "string list \<Rightarrow> string" where
  "output_of lines = concat (map (\<lambda>l. l @ [newline]) lines)"

definition short_line :: "string \<Rightarrow> bool" where
  "short_line l \<longleftrightarrow> newline \<notin> set l \<and> length l \<le> 65535"

lemma scan_output:
  "\<forall>l\<in>set lines. short_line l \<Longrightarrow> scan_lines (output_of lines @ s) = map drop_cr lines @ scan_lines s"
  by (induction lines) (simp_all add: output_of_def short_line_def scan_line)

lemma scan_Nil [simp]: "scan_lines '''' = []"
  by (subst scan_lines.simps) simp

section \<open>Properties\<close>

definition demo_cmd_env :: cmd_env where
  "demo_cmd_env = \<lparr>ce_shell = (\<lambda>cmd stdin t. \<lparr>co_stdout = ''a'' @ [newline], co_stderr = '''', co_error = None, co_deadline = False, co_ms = 5\<rparr>),
     ce_stdoutPipe = None, ce_stderrPipe = None, ce_start = (\<lambda>_. None), ce_b64_error = (\<lambda>_. ''bad''), ce_version = ''1.0.0''\<rparr>"

lemma command_answers:
  "\<exists>chunks final. executeCommand env sched m = chunks @ [final] \<and> (\<forall>c\<in>set chunks. m_type c = ''stream_chunk'' \<and> m_id c = m_id m) \<and>
     m_id final = m_id m \<and> (m_type final = ''result'' \<or> m_type final = ''stream_end'') \<and>
     (\<forall>stdin. cmd_stdin env m = Inr stdin \<and> ce_stdoutPipe env = None \<and> ce_stderrPipe env = None \<and> ce_start env (m_cmd m) = None \<longrightarrow>
        (let out = ce_shell env (m_cmd m) stdin (cmd_timeout m)
         in \<not> co_deadline out \<longrightarrow> m_exit_code final = exit_code (co_error out) \<and> m_error final = ''''))"
proof (cases "m_stream m")
  case False
  then show ?thesis
    by (cases "cmd_stdin env m") (auto simp: executeCommand_def executeCommandBuffered_def errResult_def okResult_def Let_def)
next
  case True
  show ?thesis
  proof (cases "\<exists>e. executeCommand env sched m = [errResult (m_id m) e]")
    case err: True
    then show ?thesis
      using True
      by (fastforce simp: executeCommand_def executeCommandStreaming_def errResult_def Let_def streamEndErr_def streamEndOK_def
          empty_message_def split: sum.splits option.splits if_splits)
  next
    case False
    let ?out = "\<lambda>stdin. ce_shell env (m_cmd m) stdin (cmd_timeout m)"
    obtain stdin where ok: "cmd_stdin env m = Inr stdin" "ce_stdoutPipe env = None" "ce_stderrPipe env = None" "ce_start env (m_cmd m) = None"
      using True False by (auto simp: executeCommand_def executeCommandStreaming_def split: sum.splits option.splits)
    have run: "executeCommand env sched m =
        interleave sched (map (stream_chunk_msg (m_id m) ''stdout'') (scan_lines (co_stdout (?out stdin))))
                         (map (stream_chunk_msg (m_id m) ''stderr'') (scan_lines (co_stderr (?out stdin)))) @
        [if co_error (?out stdin) \<noteq> None \<and> co_deadline (?out stdin) then streamEndErr (ce_version env) (m_id m) (timed_out_text m)
         else streamEndOK (ce_version env) (m_id m) (exit_code (co_error (?out stdin))) (co_ms (?out stdin))]"
      using True ok by (simp add: executeCommand_def executeCommandStreaming_def Let_def)
    show ?thesis
      unfolding run by (intro exI conjI, rule refl)
        (auto simp: set_interleave streamEndErr_def streamEndOK_def ok Let_def)
  qed
qed



lemma stream_output:
  assumes "m_stream m" and "cmd_stdin env m = Inr stdin" and "ce_stdoutPipe env = None" and "ce_stderrPipe env = None"
    and "ce_start env (m_cmd m) = None" and "ce_shell env (m_cmd m) stdin (cmd_timeout m) = out"
    and "co_stdout out = output_of outs" and "co_stderr out = output_of errs" and "\<forall>l\<in>set outs \<union> set errs. short_line l \<and> drop_cr l = l"
  shows "concat (map m_data (filter (\<lambda>c. m_stream_name c = ''stdout'') (executeCommand env sched m))) = co_stdout out \<and>
    concat (map m_data (filter (\<lambda>c. m_stream_name c = ''stderr'') (executeCommand env sched m))) = co_stderr out"
proof -
  have lines: "scan_lines (co_stdout out) = outs" "scan_lines (co_stderr out) = errs"
    using assms(7-9) scan_output [of outs "''''"] scan_output [of errs "''''"] by (simp_all add: map_idI)
  let ?o = "map (stream_chunk_msg (m_id m) ''stdout'') outs" and ?e = "map (stream_chunk_msg (m_id m) ''stderr'') errs"
  obtain final where run: "executeCommand env sched m = interleave sched ?o ?e @ [final]" "m_stream_name final = ''''"
    using assms(1-6) lines by (auto simp: executeCommand_def executeCommandStreaming_def Let_def streamEndErr_def streamEndOK_def)
  have "filter (\<lambda>c. m_stream_name c = ''stdout'') (interleave sched ?o ?e) = ?o"
    "filter (\<lambda>c. m_stream_name c = ''stderr'') (interleave sched ?o ?e) = ?e"
    by (rule filter_interleave; simp)+
  moreover have "concat (map m_data (map (stream_chunk_msg (m_id m) st) ls)) = output_of ls" for st ls
    by (simp add: output_of_def comp_def)
  ultimately show ?thesis using run assms(7,8) by simp
qed

text \<open>
  Streaming reproduces the output. If what the command wrote to a stream are lines of at most
  65535 bytes without carriage returns at their ends, the data of that stream's chunks, in the
  order sent, is exactly what it wrote, however the two pipes are read.
\<close>

theorem stream_chunks_reproduce_output:
  assumes "m_stream m" and "cmd_stdin env m = Inr stdin" and "ce_stdoutPipe env = None" and "ce_stderrPipe env = None"
    and "ce_start env (m_cmd m) = None" and "ce_shell env (m_cmd m) stdin (cmd_timeout m) = out"
    and "co_stdout out = output_of outs" and "co_stderr out = output_of errs" and "\<forall>l\<in>set outs \<union> set errs. short_line l \<and> drop_cr l = l"
  shows "concat (map m_data (filter (\<lambda>c. m_stream_name c = ''stdout'') (executeCommand env sched m))) = co_stdout out \<and>
    concat (map m_data (filter (\<lambda>c. m_stream_name c = ''stderr'') (executeCommand env sched m))) = co_stderr out"
  by (rule stream_output [OF assms])

theorem stream_chunks_reproduce_output_witness:
  "concat (map m_data (filter (\<lambda>c. m_stream_name c = ''stdout'')
      (executeCommand demo_cmd_env [] (empty_message\<lparr>m_stream := True\<rparr>)))) = ''a'' @ [newline] \<and>
   concat (map m_data (filter (\<lambda>c. m_stream_name c = ''stderr'') (executeCommand demo_cmd_env [] (empty_message\<lparr>m_stream := True\<rparr>)))) = ''''"
proof -
  let ?out = "\<lparr>co_stdout = ''a'' @ [newline], co_stderr = '''', co_error = None, co_deadline = False, co_ms = 5\<rparr>"
  have "\<forall>l\<in>set [''a''] \<union> set []. short_line l \<and> drop_cr l = l" by (simp add: short_line_def newline_def drop_cr_def)
  from stream_chunks_reproduce_output [OF _ _ _ _ _ _ _ _ this, of "empty_message\<lparr>m_stream := True\<rparr>" demo_cmd_env None ?out "[]"]
  show ?thesis by (simp add: demo_cmd_env_def cmd_stdin_def empty_message_def output_of_def)
qed

text \<open>
  A line that does not fit the scanner's buffer silently ends the stream: nothing of it and
  nothing after it is sent, and the command is still reported as successful.
\<close>

theorem long_line_truncates_stream:
  assumes "m_stream m" and "cmd_stdin env m = Inr stdin" and "ce_stdoutPipe env = None" and "ce_stderrPipe env = None"
    and "ce_start env (m_cmd m) = None" and "ce_shell env (m_cmd m) stdin (cmd_timeout m) = out"
    and "co_stdout out = output_of outs @ long @ newline # rest" and "\<forall>l\<in>set outs. short_line l \<and> drop_cr l = l"
    and "newline \<notin> set long" and "length long > 65535" and "co_error out = None"
  shows "concat (map m_data (filter (\<lambda>c. m_stream_name c = ''stdout'') (executeCommand env sched m))) = output_of outs \<and>
    last (executeCommand env sched m) = streamEndOK (ce_version env) (m_id m) 0 (co_ms out)"
proof -
  have lines: "scan_lines (co_stdout out) = outs"
    using assms(7,8) scan_output [of outs "long @ newline # rest"] scan_long_line [OF assms(9,10)] by (simp add: map_idI)
  let ?o = "map (stream_chunk_msg (m_id m) ''stdout'') outs"
    and ?e = "map (stream_chunk_msg (m_id m) ''stderr'') (scan_lines (co_stderr out))"
  have run: "executeCommand env sched m = interleave sched ?o ?e @ [streamEndOK (ce_version env) (m_id m) 0 (co_ms out)]"
    using assms(1-6,11) lines by (simp add: executeCommand_def executeCommandStreaming_def Let_def exit_code_def)
  have "filter (\<lambda>c. m_stream_name c = ''stdout'') (interleave sched ?o ?e) = ?o" by (rule filter_interleave; simp)
  then show ?thesis unfolding run by (simp add: streamEndOK_def output_of_def comp_def)
qed

theorem long_line_truncates_stream_witness:
  "let long = replicate 65536 CHR ''x''; env = demo_cmd_env\<lparr>ce_shell := (\<lambda>cmd stdin t. \<lparr>co_stdout = output_of [''a''] @ long @ newline # ''b'',
       co_stderr = '''', co_error = None, co_deadline = False, co_ms = 5\<rparr>)\<rparr>; m = empty_message\<lparr>m_stream := True\<rparr>
   in concat (map m_data (filter (\<lambda>c. m_stream_name c = ''stdout'') (executeCommand env [] m))) = output_of [''a''] \<and>
      last (executeCommand env [] m) = streamEndOK (ce_version env) (m_id m) 0 5"
proof -
  let ?out = "\<lparr>co_stdout = output_of [''a''] @ replicate 65536 CHR ''x'' @ newline # ''b'', co_stderr = '''', co_error = None, co_deadline = False, co_ms = 5\<rparr>"
  have "\<forall>l\<in>set [''a'']. short_line l \<and> drop_cr l = l" by (simp add: short_line_def newline_def drop_cr_def)
  from long_line_truncates_stream [OF _ _ _ _ _ _ _ this, of "empty_message\<lparr>m_stream := True\<rparr>"
      "demo_cmd_env\<lparr>ce_shell := (\<lambda>cmd stdin t. ?out)\<rparr>" None ?out "replicate 65536 CHR ''x''" "''b''" "[]"]
  show ?thesis by (simp add: demo_cmd_env_def cmd_stdin_def empty_message_def newline_def Let_def)
qed

end
