(* ===== verification/Daemon.thy ===== *)
theory Daemon
  imports FileTransfer DaemonCommands
begin

text \<open>
  The target daemon (daemon.go, tunnel_daemon.go): its read loop, the goroutines it starts, the
  tunnels it holds, pairing and the wait before a restart.

  A goroutine is a \<open>task\<close> in \<open>dm_tasks\<close>: started by the read loop, it is a step of its own at any
  later time. \<open>handleTunnelOpen\<close> is three of them, since the read loop can run between its
  answer and its registration of the tunnel. Everything the daemon writes to the relay is
  appended to \<open>td_sent\<close>.
\<close>

section \<open>State\<close>

record net_conn =
  nc_written :: bytes
  nc_open :: bool

datatype task =
    RunCommand message
  | ReceiveFile message
  | SendPair
  | PairRetry
  | OpenTunnel message
  | RegisterTunnel string nat
  | ReadTunnel string nat

record daemon =
  dm_name :: string
  dm_token :: string
  dm_xfer :: transfers
  dm_tasks :: "task list"
  dm_inflight :: int
  dm_pairCode :: "string option" \<comment> \<open>the file \<open>pair_code\<close>\<close>
  dm_activationKey :: "string option"
  dm_tunnels :: "string \<rightharpoonup> nat" \<comment> \<open>\<open>activeTunnels\<close>\<close>
  dm_conns :: "nat \<Rightarrow> net_conn"
  dm_nextConn :: nat
  dm_exit :: "int option"

record daemon_env =
  de_os :: os_env
  de_cmd :: cmd_env
  de_dial :: "string \<Rightarrow> string option" \<comment> \<open>the error of \<open>net.DialTimeout\<close>\<close>
  de_netWrite :: "nat \<Rightarrow> bytes \<Rightarrow> nat option" \<comment> \<open>a write that fails after that many bytes\<close>

definition dm_send :: "message \<Rightarrow> daemon \<Rightarrow> daemon" where
  "dm_send m d = d\<lparr>dm_xfer := td_send m (dm_xfer d)\<rparr>"

definition spawn :: "task list \<Rightarrow> daemon \<Rightarrow> daemon" where
  "spawn ts d = d\<lparr>dm_tasks := dm_tasks d @ ts\<rparr>"

definition on_transfers :: "(transfers \<Rightarrow> transfers) \<Rightarrow> daemon \<Rightarrow> daemon" where
  "on_transfers f d = d\<lparr>dm_xfer := f (dm_xfer d)\<rparr>"

section \<open>Tunnels\<close>

definition tunnel_msg :: "string \<Rightarrow> string \<Rightarrow> message" where
  "tunnel_msg t tid = empty_message\<lparr>m_type := t, m_tunnel_id := tid\<rparr>"

definition registerTunnel :: "string \<Rightarrow> nat \<Rightarrow> daemon \<Rightarrow> daemon" where
  "registerTunnel tid c d = d\<lparr>dm_tunnels := (dm_tunnels d)(tid \<mapsto> c)\<rparr>"

definition dm_closeTunnel :: "string \<Rightarrow> daemon \<Rightarrow> daemon" where
  "dm_closeTunnel tid d =
     (case dm_tunnels d tid of
        None \<Rightarrow> d
      | Some c \<Rightarrow> d\<lparr>dm_conns := (dm_conns d)(c := (dm_conns d c)\<lparr>nc_open := False\<rparr>), dm_tunnels := (dm_tunnels d)(tid := None)\<rparr>)"

text \<open>\<open>conn.Write\<close> to the remote address; \<open>False\<close> is its error.\<close>

definition conn_put :: "daemon_env \<Rightarrow> nat \<Rightarrow> bytes \<Rightarrow> daemon \<Rightarrow> bool \<times> daemon" where
  "conn_put env c data d =
     (let put = (\<lambda>b. d\<lparr>dm_conns := (dm_conns d)(c := (dm_conns d c)\<lparr>nc_written := nc_written (dm_conns d c) @ b\<rparr>)\<rparr>)
      in if \<not> nc_open (dm_conns d c) then (False, d)
         else case de_netWrite env c data of None \<Rightarrow> (True, put data) | Some k \<Rightarrow> (False, put (take k data)))"

definition dm_handleTunnelData :: "daemon_env \<Rightarrow> message \<Rightarrow> daemon \<Rightarrow> daemon" where
  "dm_handleTunnelData env m d =
     (case dm_tunnels d (m_tunnel_id m) of
        None \<Rightarrow> d
      | Some c \<Rightarrow>
          (case b64_dec (m_data m) of
             None \<Rightarrow> d
           | Some data \<Rightarrow>
               (case conn_put env c data d of
                  (True, d1) \<Rightarrow> d1
                | (False, d1) \<Rightarrow> dm_send (tunnel_msg ''tunnel_close'' (m_tunnel_id m)) (dm_closeTunnel (m_tunnel_id m) d1))))"

text \<open>The first part of \<open>handleTunnelOpen\<close>: dial and answer.\<close>

definition dm_handleTunnelOpen :: "daemon_env \<Rightarrow> message \<Rightarrow> daemon \<Rightarrow> daemon" where
  "dm_handleTunnelOpen env m d =
     (case de_dial env (m_remote_addr m) of
        Some e \<Rightarrow> dm_send ((tunnel_msg ''tunnel_opened'' (m_tunnel_id m))\<lparr>m_error := ''dial failed: '' @ e\<rparr>) d
      | None \<Rightarrow>
          (let c = dm_nextConn d
           in spawn [RegisterTunnel (m_tunnel_id m) c]
                (dm_send ((tunnel_msg ''tunnel_opened'' (m_tunnel_id m))\<lparr>m_ok := Some True\<rparr>)
                  (d\<lparr>dm_conns := (dm_conns d)(c := \<lparr>nc_written = [], nc_open = True\<rparr>), dm_nextConn := Suc c\<rparr>))))"

text \<open>One turn of \<open>tunnelReadLoop\<close>: what \<open>conn.Read\<close> returned, and whether it reported an error
  (end of file included).\<close>

definition tunnelRead :: "string \<Rightarrow> bytes \<Rightarrow> bool \<Rightarrow> daemon \<Rightarrow> daemon" where
  "tunnelRead tid data ended d =
     (let d1 = (if data = [] then d else dm_send ((tunnel_msg ''tunnel_data'' tid)\<lparr>m_data := b64_enc data\<rparr>) d)
      in if ended then dm_send (tunnel_msg ''tunnel_close'' tid) (dm_closeTunnel tid d1) else d1)"

section \<open>Pairing\<close>

definition loadPairCode :: "daemon \<Rightarrow> string option" where
  "loadPairCode d = map_option trim_space (dm_pairCode d)"

definition loadActivationKey :: "daemon \<Rightarrow> string option" where
  "loadActivationKey d = map_option trim_space (dm_activationKey d)"

definition sendPairIfNeeded :: "daemon \<Rightarrow> daemon" where
  "sendPairIfNeeded d =
     (case loadPairCode d of
        None \<Rightarrow> d
      | Some code \<Rightarrow>
          if code = '''' then d
          else dm_send (empty_message\<lparr>m_type := ''pair'', m_code := code, m_token := dm_token d, m_hostname := dm_name d,
                 m_activation_key := (case loadActivationKey d of None \<Rightarrow> '''' | Some k \<Rightarrow> k)\<rparr>) d)"

section \<open>The read loop\<close>

definition ExitConfigError :: int where "ExitConfigError = 3"

definition register_msg :: "string \<Rightarrow> daemon \<Rightarrow> message" where
  "register_msg version d = empty_message\<lparr>m_type := ''register'', m_name := dm_name d, m_token := dm_token d, m_daemon_version := version\<rparr>"

text \<open>\<open>run\<close> up to its loop: forget the transfers of the last connection and register. The pair
  retry goroutine of that connection has been stopped when \<open>run\<close> returned.\<close>

definition dm_connect :: "daemon_env \<Rightarrow> string list \<Rightarrow> daemon \<Rightarrow> daemon" where
  "dm_connect env ord d =
     dm_send (register_msg (ce_version (de_cmd env)) d)
       (on_transfers (reset_transfers ord) (d\<lparr>dm_tasks := filter (\<lambda>t. t \<noteq> PairRetry) (dm_tasks d)\<rparr>))"

text \<open>One frame: the switch of \<open>run\<close>.\<close>

definition dm_frame :: "daemon_env \<Rightarrow> string list \<Rightarrow> wsframe \<Rightarrow> daemon \<Rightarrow> daemon" where
  "dm_frame env ord f d =
     (case f of
        Binary data \<Rightarrow> on_transfers (handleBinaryChunk (de_os env) data) d
      | BadJson _ \<Rightarrow> d
      | Json m \<Rightarrow>
          (let t = m_type m
           in if t = ''registered'' then spawn [SendPair, PairRetry] d
              else if t = ''command'' then spawn [RunCommand m] (d\<lparr>dm_inflight := dm_inflight d + 1\<rparr>)
              else if t = ''file_transfer'' then
                (if m_chunked m then on_transfers (beginChunkedTransfer (de_os env) ord m) d
                 else spawn [ReceiveFile m] (d\<lparr>dm_inflight := dm_inflight d + 1\<rparr>))
              else if t = ''file_chunk'' then on_transfers (td_handleFileChunk (de_os env) m) d
              else if t = ''pair_confirmed'' then d\<lparr>dm_pairCode := None, dm_activationKey := None\<rparr>
              else if t = ''tunnel_open'' then spawn [OpenTunnel m] d
              else if t = ''tunnel_data'' then dm_handleTunnelData env m d
              else if t = ''tunnel_close'' then dm_closeTunnel (m_tunnel_id m) d
              else if t = ''disconnect'' then (dm_send (empty_message\<lparr>m_type := ''disconnect_ack''\<rparr>) d)\<lparr>dm_exit := Some 0\<rparr>
              else if t = ''error'' then
                (if has_prefix (m_error m) ''pair'' then d
                 else if m_error m = ''replaced by new connection'' then d\<lparr>dm_exit := Some ExitConfigError\<rparr>
                 else d)
              else d))"

text \<open>One step of a goroutine that does not wait for the network; \<open>sched\<close> is for a streaming
  command.\<close>

definition dm_task :: "daemon_env \<Rightarrow> bool list \<Rightarrow> task \<Rightarrow> daemon \<Rightarrow> daemon" where
  "dm_task env sched t d =
     (case t of
        RunCommand m \<Rightarrow> (fold dm_send (executeCommand (de_cmd env) sched m) d)\<lparr>dm_inflight := dm_inflight d - 1\<rparr>
      | ReceiveFile m \<Rightarrow> (on_transfers (td_handleFileTransfer (de_os env) m) d)\<lparr>dm_inflight := dm_inflight d - 1\<rparr>
      | SendPair \<Rightarrow> sendPairIfNeeded d
      | PairRetry \<Rightarrow> sendPairIfNeeded d
      | OpenTunnel m \<Rightarrow> dm_handleTunnelOpen env m d
      | RegisterTunnel tid c \<Rightarrow> spawn [ReadTunnel tid c] (registerTunnel tid c d)
      | ReadTunnel tid c \<Rightarrow> d)"

section \<open>The daemon as a state machine\<close>

datatype daemon_event =
    GetFrame wsframe "string list"
  | RunTask nat "bool list" \<comment> \<open>the task at that position runs to its end\<close>
  | RetryPair \<comment> \<open>the retry timer, or SIGUSR1\<close>
  | ReadRemote string nat bytes bool
  | Reconnect "string list"

definition remove_nth :: "nat \<Rightarrow> 'a list \<Rightarrow> 'a list" where
  "remove_nth i xs = take i xs @ drop (Suc i) xs"

inductive daemon_step :: "daemon_env \<Rightarrow> daemon \<Rightarrow> daemon_event \<Rightarrow> daemon \<Rightarrow> bool" for env where
  get_frame: "dm_exit d = None \<Longrightarrow> dom (td_reassembly (dm_xfer d)) \<subseteq> set ord \<Longrightarrow> daemon_step env d (GetFrame f ord) (dm_frame env ord f d)"
| run_task: "dm_exit d = None \<Longrightarrow> i < length (dm_tasks d) \<Longrightarrow> t = dm_tasks d ! i \<Longrightarrow> t \<noteq> PairRetry \<Longrightarrow> (\<forall>tid c. t \<noteq> ReadTunnel tid c) \<Longrightarrow>
     daemon_step env d (RunTask i sched) (dm_task env sched t (d\<lparr>dm_tasks := remove_nth i (dm_tasks d)\<rparr>))"
| retry_pair: "dm_exit d = None \<Longrightarrow> daemon_step env d RetryPair (sendPairIfNeeded d)"
| read_remote: "dm_exit d = None \<Longrightarrow> ReadTunnel tid c \<in> set (dm_tasks d) \<Longrightarrow>
     daemon_step env d (ReadRemote tid c data ended)
       (tunnelRead tid data ended (if ended then d\<lparr>dm_tasks := remove1 (ReadTunnel tid c) (dm_tasks d)\<rparr> else d))"
| reconnect: "dm_exit d = None \<Longrightarrow> dom (td_reassembly (dm_xfer d)) \<subseteq> set ord \<Longrightarrow> daemon_step env d (Reconnect ord) (dm_connect env ord d)"

inductive_cases get_frameE: "daemon_step env d (GetFrame f ord) d'"
inductive_cases run_taskE: "daemon_step env d (RunTask i sched) d'"

text \<open>\<open>runDaemon\<close>: a fresh daemon under its name and token, with the pairing files as they are.\<close>

definition new_daemon :: "string \<Rightarrow> string \<Rightarrow> string option \<Rightarrow> string option \<Rightarrow> fs \<Rightarrow> daemon" where
  "new_daemon name token code key fs = \<lparr>dm_name = name, dm_token = token,
     dm_xfer = \<lparr>td_fs = fs, td_handles = (\<lambda>_. \<lparr>fh_path = '''', fh_pos = 0, fh_open = False\<rparr>), td_nextHandle = 0,
       td_objs = (\<lambda>_. new_reassembly empty_message), td_nextObj = 0, td_reassembly = Map.empty, td_pendingBinaryChunk = None, td_sent = []\<rparr>,
     dm_tasks = [], dm_inflight = 0, dm_pairCode = code, dm_activationKey = key, dm_tunnels = Map.empty,
     dm_conns = (\<lambda>_. \<lparr>nc_written = [], nc_open = False\<rparr>), dm_nextConn = 0, dm_exit = None\<rparr>"

inductive daemon_reachable :: "daemon_env \<Rightarrow> daemon \<Rightarrow> bool" for env where
  start: "daemon_reachable env (new_daemon name token code key fs)"
| step: "daemon_reachable env d \<Longrightarrow> daemon_step env d ev d' \<Longrightarrow> daemon_reachable env d'"

section \<open>The wait before a restart\<close>

text \<open>\<open>waitIdle\<close>: \<open>inflight i\<close> and \<open>clock i\<close> (milliseconds) are what its loop sees at its \<open>i\<close>-th
  test; the result is the number of tests that failed.\<close>

partial_function (option) wait_polls :: "(nat \<Rightarrow> int) \<Rightarrow> (nat \<Rightarrow> int) \<Rightarrow> nat \<Rightarrow> nat option" where
  "wait_polls inflight clock i =
     (if inflight i > 0 \<and> clock i < clock 0 + 60000 then wait_polls inflight clock (Suc i) else Some i)"

definition waitIdle :: "(nat \<Rightarrow> int) \<Rightarrow> (nat \<Rightarrow> int) \<Rightarrow> nat option" where
  "waitIdle inflight clock = wait_polls inflight clock 0"

section \<open>The pairing retries\<close>

text \<open>\<open>pairRetryLoop\<close> in seconds since the code was written: when it sends, until it gives up and
  removes the code. Sending takes no time.\<close>

definition retry_interval :: "nat \<Rightarrow> nat" where
  "retry_interval elapsed = (if elapsed < 5 * 60 then 15 else if elapsed < 60 * 60 then 60 else 5 * 60)"

function pair_retries :: "nat \<Rightarrow> nat list" where
  "pair_retries elapsed =
     (if elapsed > 24 * 60 * 60 then []
      else (elapsed + retry_interval elapsed) # pair_retries (elapsed + retry_interval elapsed))"
  by pat_completeness auto
termination
  by (relation "measure (\<lambda>e. 24 * 60 * 60 + 1 - e)") (auto simp: retry_interval_def)

declare pair_retries.simps [simp del]

end
