(* ===== verification/ExecEndToEnd.thy ===== *)
theory ExecEndToEnd
  imports Client Daemon RelayCopy
begin

text \<open>
  A command from the client's configuration to its output: the request of the client, the relay's
  forwarding, the daemon's execution, the relay's way back, and what the client prints.
\<close>

section \<open>The relay's two ways\<close>

text \<open>What the daemon receives for a request, and the relay reading the daemon's replies.\<close>

definition command_of :: "string \<Rightarrow> message \<Rightarrow> message" where
  "command_of rid m = empty_message\<lparr>m_type := ''command'', m_id := rid, m_cmd := m_cmd m, m_timeout := m_timeout m,
     m_stream := m_stream m, m_stdin_data := m_stdin_data m\<rparr>"

definition relay_replies :: "bool \<Rightarrow> conn_id \<Rightarrow> message list \<Rightarrow> relay_server \<Rightarrow> relay_server" where
  "relay_replies a d replies s = fold (\<lambda>m. ws_frame a d (Json m)) replies s"

lemma request_forwarded:
  fixes s req
  assumes "conn_waits c Reading s" "c \<noteq> d" "m_type req = ''execute''" "m_target req \<noteq> ''''" "rs_clients s (m_target req) = Some d"
    "rc_token (rs_rcs s d) = m_token req" "wq_net (rs_rcs s d) = None"
  defines "rid \<equiv> newID (rs_entropy s) (rs_draws s)"
  shows "wire (rs_rcs (client_frame c (Json req) s) d) = wire (rs_rcs s d) @ [Json (command_of rid req)]"
    "rs_pending (client_frame c (Json req) s) = (rs_pending s)(rid \<mapsto> \<lparr>pr_serverID = m_id req, pr_clientConn = c\<rparr>)"
    "rs_subToMulti (client_frame c (Json req) s) = rs_subToMulti s"
    "wire (rs_rcs (client_frame c (Json req) s) c) = wire (rs_rcs s c)"
    "wq_net (rs_rcs (client_frame c (Json req) s) c) = wq_net (rs_rcs s c)"
proof -
  have run: "client_frame c (Json req) s = handleExecute c req s"
    using assms(1,3) by (auto simp: conn_waits_def client_frame_def ws_frame_def ws_dispatch_def)
  show "wire (rs_rcs (client_frame c (Json req) s) d) = wire (rs_rcs s d) @ [Json (command_of rid req)]"
    "rs_pending (client_frame c (Json req) s) = (rs_pending s)(rid \<mapsto> \<lparr>pr_serverID = m_id req, pr_clientConn = c\<rparr>)"
    "rs_subToMulti (client_frame c (Json req) s) = rs_subToMulti s"
    "wire (rs_rcs (client_frame c (Json req) s) c) = wire (rs_rcs s c)"
    "wq_net (rs_rcs (client_frame c (Json req) s) c) = wq_net (rs_rcs s c)"
    using assms(2,4-7)
    by (simp_all add: run handleExecute_def tokenEqual_def draw_id_def rid_def rc_send_eq wire_tell command_of_def)
qed

lemma chunk_relayed:
  assumes "rs_pending s rid = Some \<lparr>pr_serverID = mid, pr_clientConn = c\<rparr>" "wq_net (rs_rcs s c) = None"
    "m_type m = ''stream_chunk''" "m_id m = rid"
  shows "ws_frame a d (Json m) s = tell c (m\<lparr>m_id := mid\<rparr>) s"
  using assms by (simp add: ws_frame_def ws_dispatch_def clientOnlyMessages_def handleStreamChunk_def)

lemma chunks_relayed:
  assumes "\<forall>m\<in>set ms. m_type m = ''stream_chunk'' \<and> m_id m = rid"
    "rs_pending s rid = Some \<lparr>pr_serverID = mid, pr_clientConn = c\<rparr>" "wq_net (rs_rcs s c) = None"
  shows "relay_replies a d ms s = fold (\<lambda>m. tell c (m\<lparr>m_id := mid\<rparr>)) ms s"
  using assms
proof (induction ms arbitrary: s)
  case (Cons m ms)
  have step: "ws_frame a d (Json m) s = tell c (m\<lparr>m_id := mid\<rparr>) s"
    by (rule chunk_relayed [of s rid]) (use Cons.prems in auto)
  have "relay_replies a d ms (tell c (m\<lparr>m_id := mid\<rparr>) s) = fold (\<lambda>m. tell c (m\<lparr>m_id := mid\<rparr>)) ms (tell c (m\<lparr>m_id := mid\<rparr>) s)"
    by (rule Cons.IH) (use Cons.prems in auto)
  with step show ?case by (simp add: relay_replies_def)
qed (simp add: relay_replies_def)

lemma tells:
  "wq_net (rs_rcs s c) = None \<Longrightarrow>
   wire (rs_rcs (fold (\<lambda>m. tell c (f m)) ms s) c) = wire (rs_rcs s c) @ map (\<lambda>m. Json (f m)) ms \<and>
   rs_pending (fold (\<lambda>m. tell c (f m)) ms s) = rs_pending s \<and> rs_subToMulti (fold (\<lambda>m. tell c (f m)) ms s) = rs_subToMulti s \<and>
   wq_net (rs_rcs (fold (\<lambda>m. tell c (f m)) ms s) c) = None"
  by (induction ms arbitrary: s) (simp_all add: wire_tell)

lemma replies_relayed:
  assumes "rs_pending s rid = Some \<lparr>pr_serverID = mid, pr_clientConn = c\<rparr>" "wq_net (rs_rcs s c) = None" "rs_subToMulti s rid = None"
    "\<forall>m\<in>set chunks. m_type m = ''stream_chunk'' \<and> m_id m = rid" "m_id final = rid" "m_type final = ''result'' \<or> m_type final = ''stream_end''"
  shows "wire (rs_rcs (relay_replies a d (chunks @ [final]) s) c) = wire (rs_rcs s c) @ map (\<lambda>m. Json (m\<lparr>m_id := mid\<rparr>)) (chunks @ [final])"
    "rs_pending (relay_replies a d (chunks @ [final]) s) rid = None"
proof -
  let ?s1 = "fold (\<lambda>m. tell c (m\<lparr>m_id := mid\<rparr>)) chunks s"
  have split: "relay_replies a d (chunks @ [final]) s = ws_frame a d (Json final) ?s1"
    using chunks_relayed [OF assms(4,1,2)] by (simp add: relay_replies_def)
  note t = tells [OF assms(2), of "\<lambda>m. m\<lparr>m_id := mid\<rparr>" chunks]
  have f: "ws_frame a d (Json final) ?s1 = tell c (final\<lparr>m_id := mid\<rparr>) (cleanupPending rid ?s1)"
    using assms(1,3,5,6) t
    by (auto simp: ws_frame_def ws_dispatch_def clientOnlyMessages_def handleResult_def handleStreamEnd_def)
  show "wire (rs_rcs (relay_replies a d (chunks @ [final]) s) c) = wire (rs_rcs s c) @ map (\<lambda>m. Json (m\<lparr>m_id := mid\<rparr>)) (chunks @ [final])"
    "rs_pending (relay_replies a d (chunks @ [final]) s) rid = None"
    unfolding split f using t by (simp_all add: wire_tell cleanupPending_def)
qed

section \<open>The client's reader\<close>

lemma exec_reader_chunks:
  assumes "\<forall>m\<in>set chunks. m_type m = ''stream_chunk''" "m_type final = ''result'' \<or> m_type final = ''stream_end''"
  shows "exec_reader mid True target (map (\<lambda>m. Got (m\<lparr>m_id := mid\<rparr>)) (chunks @ [final])) =
    (map (\<lambda>m. Chunk (m_stream_name m) (m_data m)) chunks @ [Complete (m_ok final) (m_exit_code final) (m_duration_ms final)],
     Some (Inr (final\<lparr>m_id := mid\<rparr>)))"
  using assms by (induction chunks) (auto simp: Let_def)

lemma shell_stdin:
  "cmd_stdin env (command_of rid (exec_request mid al t cmd timeout stream stdin)) = Inr (if stdin = [] then None else Some stdin)"
proof (cases "stdin = []")
  case False
  then have "b64_enc stdin \<noteq> ''''" using b64_dec_enc [of stdin] by (metis b64_dec_enc b64_enc.simps(1) option.inject)
  with False show ?thesis by (simp add: cmd_stdin_def command_of_def exec_request_def b64_dec_enc)
qed (simp add: cmd_stdin_def command_of_def exec_request_def)

lemma command_fields [simp]:
  "m_id (command_of rid m) = rid" "m_cmd (command_of rid m) = m_cmd m" "m_timeout (command_of rid m) = m_timeout m"
  "m_stream (command_of rid m) = m_stream m" "cmd_timeout (command_of rid m) = cmd_timeout m"
  by (simp_all add: command_of_def cmd_timeout_def)

lemma request_fields [simp]:
  "m_type (exec_request mid al t cmd timeout stream stdin) = ''execute''" "m_id (exec_request mid al t cmd timeout stream stdin) = mid"
  "m_target (exec_request mid al t cmd timeout stream stdin) = relay_target al t"
  "m_token (exec_request mid al t cmd timeout stream stdin) = tg_token t" "m_cmd (exec_request mid al t cmd timeout stream stdin) = cmd"
  "m_timeout (exec_request mid al t cmd timeout stream stdin) = timeout" "m_stream (exec_request mid al t cmd timeout stream stdin) = stream"
  by (simp_all add: exec_request_def)

text \<open>Client, relay and daemon fit together: the request finds its target.\<close>

definition connected :: "config_file \<Rightarrow> string \<Rightarrow> string \<Rightarrow> target_config \<Rightarrow> conn_id \<Rightarrow> conn_id \<Rightarrow> relay_server \<Rightarrow> bool" where
  "connected f url al t c d s \<longleftrightarrow> find_target ''load config: '' al f = Inr (url, t) \<and> conn_waits c Reading s \<and> c \<noteq> d \<and>
     relay_target al t \<noteq> '''' \<and> rs_clients s (relay_target al t) = Some d \<and> rc_token (rs_rcs s d) = tg_token t \<and>
     wq_net (rs_rcs s d) = None \<and> wq_net (rs_rcs s c) = None \<and> rs_subToMulti s (newID (rs_entropy s) (rs_draws s)) = None"

lemma exec_round_trip:
  fixes mid cmd timeout stream stdin env sched
  assumes "connected f url al t c d s"
  defines "req \<equiv> exec_request mid al t cmd timeout stream stdin"
    and "rid \<equiv> newID (rs_entropy s) (rs_draws s)"
  defines "replies \<equiv> executeCommand env sched (command_of rid req)"
  shows "wire (rs_rcs (client_frame c (Json req) s) d) = wire (rs_rcs s d) @ [Json (command_of rid req)] \<and>
    wire (rs_rcs (relay_replies a d replies (client_frame c (Json req) s)) c) = wire (rs_rcs s c) @ map (\<lambda>m. Json (m\<lparr>m_id := mid\<rparr>)) replies \<and>
    rs_pending (relay_replies a d replies (client_frame c (Json req) s)) rid = None"
proof -
  have pre: "m_target req = relay_target al t" "m_token req = tg_token t" "m_id req = mid" "m_type req = ''execute''" by (simp_all add: req_def)
  have conn: "conn_waits c Reading s" "c \<noteq> d" "m_target req \<noteq> ''''" "rs_clients s (m_target req) = Some d"
    "rc_token (rs_rcs s d) = m_token req" "wq_net (rs_rcs s d) = None" "wq_net (rs_rcs s c) = None" "rs_subToMulti s rid = None"
    using assms(1) unfolding pre by (simp_all add: connected_def rid_def)
  note r = request_forwarded [OF conn(1,2) pre(4) conn(3-6), folded rid_def, unfolded pre(3)]
  obtain chunks final where rep: "replies = chunks @ [final]" "\<forall>m\<in>set chunks. m_type m = ''stream_chunk'' \<and> m_id m = rid" "m_id final = rid"
      "m_type final = ''result'' \<or> m_type final = ''stream_end''"
    using command_answers [of env sched "command_of rid req"] by (auto simp: replies_def)
  have p: "rs_pending (client_frame c (Json req) s) rid = Some \<lparr>pr_serverID = mid, pr_clientConn = c\<rparr>"
    "wq_net (rs_rcs (client_frame c (Json req) s) c) = None" "rs_subToMulti (client_frame c (Json req) s) rid = None"
    using r(2,3,5) conn(7,8) by simp_all
  from replies_relayed [OF p rep(2-4), of a d] r(1,4) show ?thesis by (simp add: rep(1))
qed

text \<open>A command that is not streamed, does not time out and gets its input: one result.\<close>

lemma buffered_run:
  assumes "ce_shell env cmd (if stdin = [] then None else Some stdin) (if timeout \<le> 0 then 30 else timeout) = out"
    and "\<not> (co_error out \<noteq> None \<and> co_deadline out)"
  shows "executeCommand env sched (command_of rid (exec_request mid al t cmd timeout False stdin)) =
    [okResult (ce_version env) rid (trim_space (co_stdout out)) (trim_space (co_stderr out)) (exit_code (co_error out)) (co_ms out)]"
proof -
  define req where "req = exec_request mid al t cmd timeout False stdin"
  define si where "si = (if stdin = [] then None else Some stdin)"
  have "ce_shell env cmd si (cmd_timeout req) = out" "cmd_stdin env (command_of rid req) = Inr si" "m_cmd req = cmd" "m_stream req = False"
    using assms(1) shell_stdin [of env rid mid al t cmd timeout False stdin] by (auto simp: req_def cmd_timeout_def si_def split: if_splits)
  then show ?thesis
    unfolding req_def [symmetric] using assms(2) by (auto simp: executeCommand_def executeCommandBuffered_def Let_def)
qed

section \<open>Properties\<close>

text \<open>
  C5. A command's result comes back. A client whose configuration knows the target, over an
  authenticated connection to a relay on which the target is registered with that token: the
  daemon is sent exactly one command; it runs with the client's standard input and timeout (30
  seconds for none); and when the relay has carried the daemon's answer back, the client prints
  one result with the output, trimmed, the exit code and the time the shell reported, under its
  own request id, and returns without error.
\<close>

theorem exec_end_to_end:
  assumes "connected f url al t c d s"
    and "ce_shell env cmd (if stdin = [] then None else Some stdin) (if timeout \<le> 0 then 30 else timeout) = out"
    and "\<not> (co_error out \<noteq> None \<and> co_deadline out)"
  shows "let req = exec_request mid al t cmd timeout False stdin; rid = newID (rs_entropy s) (rs_draws s);
      s1 = client_frame c (Json req) s; s2 = relay_replies a d (executeCommand env sched (command_of rid req)) s1
    in wire (rs_rcs s1 d) = wire (rs_rcs s d) @ [Json (command_of rid req)] \<and> rs_pending s2 rid = None \<and>
      (\<exists>replies. wire (rs_rcs s2 c) = wire (rs_rcs s c) @ map Json replies \<and>
        handleExecWithStdin f None None mid al cmd timeout False stdin (map Got replies) =
          ([ResultJson (okResult (ce_version env) mid (trim_space (co_stdout out)) (trim_space (co_stderr out))
              (exit_code (co_error out)) (co_ms out))], Some Returned, Some req))"
proof -
  define req where "req = exec_request mid al t cmd timeout False stdin"
  define rid where "rid = newID (rs_entropy s) (rs_draws s)"
  let ?res = "\<lambda>i. okResult (ce_version env) i (trim_space (co_stdout out)) (trim_space (co_stderr out)) (exit_code (co_error out)) (co_ms out)"
  have run: "executeCommand env sched (command_of rid req) = [?res rid]" unfolding req_def by (rule buffered_run [OF assms(2,3)])
  note r = exec_round_trip [OF assms(1), where mid = mid and cmd = cmd and timeout = timeout and stream = False and stdin = stdin and env = env and sched = sched and a = a, folded req_def rid_def, unfolded run]
  have res: "m_type (?res i) = ''result''" "m_id (?res i) = i" "m_ok (?res i) = Some True" "(?res i)\<lparr>m_id := mid\<rparr> = ?res mid" for i
    by (simp_all add: okResult_def empty_message_def)
  have found: "find_target ''load config: '' al f = Inr (url, t)" using assms(1) by (simp add: connected_def)
  have "handleExecWithStdin f None None mid al cmd timeout False stdin [Got (?res mid)] = ([ResultJson (?res mid)], Some Returned, Some req)"
    using found res by (simp add: handleExecWithStdin_def exec_finish_def req_def)
  with r show ?thesis
    unfolding Let_def req_def [symmetric] rid_def [symmetric] run by (intro conjI exI [of _ "[?res mid]"]) (simp_all add: res)
qed

definition demo_file :: config_file where
  "demo_file = HoldsConfig (empty_config\<lparr>cf_relay := \<lparr>rl_url = ''http://r'', rl_name = '''', rl_secret = ''s''\<rparr>,
     cf_targets := [''b'' \<mapsto> \<lparr>tg_token = ''tok'', tg_relayName = ''box''\<rparr>]\<rparr>)"

lemma demo_connected: "connected demo_file (wsURL ''http://r'') ''b'' \<lparr>tg_token = ''tok'', tg_relayName = ''box''\<rparr> 1 0 demo_relay"
  using demo_waits(1) by (simp add: connected_def find_target_def demo_file_def loadConfig_def relay_target_def)

theorem exec_end_to_end_witness:
  "let t = \<lparr>tg_token = ''tok'', tg_relayName = ''box''\<rparr>; req = exec_request ''q'' ''b'' t ''ls'' 0 False [65]; rid = newID (rs_entropy demo_relay) (rs_draws demo_relay);
      s1 = client_frame 1 (Json req) demo_relay; s2 = relay_replies True 0 (executeCommand demo_cmd_env [] (command_of rid req)) s1
    in wire (rs_rcs s1 0) = wire (rs_rcs demo_relay 0) @ [Json (command_of rid req)] \<and> rs_pending s2 rid = None \<and>
      (\<exists>replies. wire (rs_rcs s2 1) = wire (rs_rcs demo_relay 1) @ map Json replies \<and>
        handleExecWithStdin demo_file None None ''q'' ''b'' ''ls'' 0 False [65] (map Got replies) =
          ([ResultJson (okResult (ce_version demo_cmd_env) ''q'' (trim_space (''a'' @ [newline])) (trim_space '''') (exit_code None) 5)], Some Returned, Some req))"
  using exec_end_to_end [OF demo_connected, of demo_cmd_env "''ls''" "[65]" 0 _ "''q''" True "[]"]
  by (simp add: demo_cmd_env_def Let_def)



end
