(* ===== verification/DaemonProps.thy ===== *)
theory DaemonProps
  imports Daemon
begin

text \<open>
  What the daemon keeps: the count a restart waits for, the wait itself, and the pairing retries.
\<close>

section \<open>Work in flight\<close>

definition counted :: "task \<Rightarrow> bool" where
  "counted t = (case t of RunCommand _ \<Rightarrow> True | ReceiveFile _ \<Rightarrow> True | _ \<Rightarrow> False)"

definition busy :: "task list \<Rightarrow> int" where
  "busy ts = int (length (filter counted ts))"

lemma counted_simps [simp]:
  "counted (RunCommand m)" "counted (ReceiveFile m)" "\<not> counted SendPair" "\<not> counted PairRetry" "\<not> counted (OpenTunnel m)"
  "\<not> counted (RegisterTunnel tid c)" "\<not> counted (ReadTunnel tid c)"
  by (simp_all add: counted_def)

lemma busy_simps [simp]: "busy [] = 0" "busy (ts @ us) = busy ts + busy us" "busy (t # ts) = (if counted t then 1 else 0) + busy ts"
  by (simp_all add: busy_def)

lemma busy_remove_nth:
  assumes "i < length ts"
  shows "busy ts = busy (remove_nth i ts) + (if counted (ts ! i) then 1 else 0)"
proof -
  have "busy ts = busy (take i ts @ ts ! i # drop (Suc i) ts)" using assms by (simp add: id_take_nth_drop [symmetric])
  then show ?thesis by (simp add: remove_nth_def)
qed

lemma busy_remove1: "\<not> counted t \<Longrightarrow> busy (remove1 t ts) = busy ts"
  by (induction ts) auto

lemma busy_filter: "(\<And>t. counted t \<Longrightarrow> P t) \<Longrightarrow> busy (filter P ts) = busy ts"
  by (induction ts) auto

definition work :: "daemon \<Rightarrow> int \<times> task list" where
  "work d = (dm_inflight d, dm_tasks d)"

lemma work_simps [simp]:
  "work (dm_send m d) = work d" "work (on_transfers f d) = work d" "work (dm_closeTunnel tid d) = work d"
  "work (registerTunnel tid c d) = work d" "work (sendPairIfNeeded d) = work d"
  by (auto simp: work_def dm_send_def on_transfers_def dm_closeTunnel_def registerTunnel_def sendPairIfNeeded_def split: option.splits)

lemma work_fold_send [simp]: "work (fold dm_send ms d) = work d"
  by (induction ms arbitrary: d) simp_all

lemma work_conn_put: "work (snd (conn_put env c data d)) = work d"
  by (simp add: conn_put_def work_def Let_def split: option.split)

lemma work_tunnel_data [simp]: "work (dm_handleTunnelData env m d) = work d"
proof -
  have "conn_put env c data d = (b, d1) \<Longrightarrow> work d1 = work d" for c data b d1
    using work_conn_put [of env c data d] by simp
  then show ?thesis by (simp add: dm_handleTunnelData_def split: option.split prod.split bool.split)
qed

lemma work_tunnelRead [simp]: "work (tunnelRead tid data ended d) = work d"
  by (simp add: tunnelRead_def Let_def)

text \<open>The invariant, through every operation.\<close>

definition steady :: "daemon \<Rightarrow> bool" where
  "steady d \<longleftrightarrow> fst (work d) = busy (snd (work d))"

lemma steady_simps [simp]:
  "steady (dm_send m d) = steady d" "steady (on_transfers f d) = steady d" "steady (dm_closeTunnel tid d) = steady d"
  "steady (sendPairIfNeeded d) = steady d" "steady (registerTunnel tid c d) = steady d"
  "steady (dm_handleTunnelData env m d) = steady d" "steady (tunnelRead tid data ended d) = steady d"
  "steady (d\<lparr>dm_exit := x\<rparr>) = steady d" "steady (d\<lparr>dm_pairCode := y, dm_activationKey := z\<rparr>) = steady d"
  "steady (spawn ts d) = (dm_inflight d = busy (dm_tasks d) + busy ts)"
  "steady (spawn ts (d\<lparr>dm_inflight := n\<rparr>)) = (n = busy (dm_tasks d) + busy ts)"
  "steady (d\<lparr>dm_tasks := ts\<rparr>) = (dm_inflight d = busy ts)"
  by (simp_all add: steady_def) (simp_all add: work_def spawn_def)

lemma steadyD: "steady d \<Longrightarrow> dm_inflight d = busy (dm_tasks d)"
  by (simp add: steady_def work_def)

lemma steady_frame: "steady d \<Longrightarrow> steady (dm_frame env ord f d)"
  by (cases f) (simp_all add: dm_frame_def Let_def steadyD)

lemma steady_task:
  assumes "dm_inflight d = busy (dm_tasks d) + (if counted t then 1 else 0)"
  shows "steady (dm_task env sched t d)"
proof -
  have fin: "steady (d'\<lparr>dm_inflight := dm_inflight d - 1\<rparr>)" if "work d' = work d" "counted t" for d'
    using assms that by (simp add: steady_def work_def)
  have rest: "steady d" if "\<not> counted t" using assms that by (simp add: steady_def work_def)
  show ?thesis
  proof (cases t)
    case (OpenTunnel m)
    then show ?thesis using assms
      by (auto simp: dm_task_def dm_handleTunnelOpen_def Let_def rest split: option.split) (simp add: dm_send_def)
  next
    case (RegisterTunnel tid c)
    then show ?thesis using assms by (simp add: dm_task_def) (simp add: registerTunnel_def)
  qed (use fin rest in \<open>simp_all add: dm_task_def\<close>)
qed

lemma steady_step: "daemon_step env d ev d' \<Longrightarrow> steady d \<Longrightarrow> steady d'"
proof (induction rule: daemon_step.induct)
  case (run_task d i t sched)
  have "dm_inflight d = busy (remove_nth i (dm_tasks d)) + (if counted t then 1 else 0)"
    using busy_remove_nth [OF run_task(2)] steadyD [OF run_task(6)] run_task(3) by simp
  then show ?case by (intro steady_task) simp
next
  case (read_remote d tid c data ended)
  then show ?case by (simp add: steadyD busy_remove1)
next
  case (reconnect d ord)
  have "busy (filter (\<lambda>t. t \<noteq> PairRetry) (dm_tasks d)) = busy (dm_tasks d)" by (rule busy_filter) auto
  then show ?case using reconnect by (simp add: dm_connect_def steadyD)
qed (simp_all add: steady_frame)

text \<open>
  C28. The count a restart waits for is right. In every state the daemon reaches, by any frames from
  the relay, in any order of its goroutines and over reconnections, \<open>inflight\<close> is the number of
  commands and whole-file transfers whose goroutine has not finished; it never goes below zero.
\<close>

theorem inflight_counts_work:
  assumes "daemon_reachable env d"
  shows "dm_inflight d = int (length (filter counted (dm_tasks d))) \<and> dm_inflight d \<ge> 0"
proof -
  have "steady d"
    using assms
  proof (induction rule: daemon_reachable.induct)
    case (start name token code key fs)
    show ?case by (simp add: steady_def work_def new_daemon_def)
  qed (rule steady_step)
  then show ?thesis using steadyD by (simp add: busy_def)
qed

definition demo_daemon_env :: daemon_env where
  "demo_daemon_env = \<lparr>de_os = \<lparr>os_create = (\<lambda>_. None), os_write = (\<lambda>_ _ _. None), os_writeFile = (\<lambda>_. None), os_mkdirAll = (\<lambda>_. None),
     os_openFile = (\<lambda>_. None), os_gunzip = (\<lambda>d. GzOk d), os_untar = (\<lambda>_. ([], None)), os_b64_error = (\<lambda>_. ''bad''), os_version = ''1.0.0''\<rparr>,
     de_cmd = demo_cmd_env, de_dial = (\<lambda>_. None), de_netWrite = (\<lambda>_ _. None)\<rparr>"

definition demo_daemon :: daemon where
  "demo_daemon = new_daemon ''box'' ''tok'' (Some ''abcd'') None Map.empty"

definition demo_busy :: daemon where
  "demo_busy = dm_frame demo_daemon_env [] (Json (empty_message\<lparr>m_type := ''command'', m_id := ''r'', m_cmd := ''ls''\<rparr>)) demo_daemon"

lemma demo_busy_reachable: "daemon_reachable demo_daemon_env demo_busy"
proof (rule daemon_reachable.step)
  show "daemon_reachable demo_daemon_env demo_daemon" unfolding demo_daemon_def by (rule daemon_reachable.start)
  show "daemon_step demo_daemon_env demo_daemon (GetFrame (Json (empty_message\<lparr>m_type := ''command'', m_id := ''r'', m_cmd := ''ls''\<rparr>)) []) demo_busy"
    unfolding demo_busy_def by (rule daemon_step.get_frame) (simp_all add: demo_daemon_def new_daemon_def)
qed

theorem inflight_counts_work_witness:
  "dm_inflight demo_busy = int (length (filter counted (dm_tasks demo_busy))) \<and> dm_inflight demo_busy \<ge> 0"
  by (rule inflight_counts_work [OF demo_busy_reachable])

section \<open>Waiting for it\<close>

lemma wait_polls_ends:
  assumes "\<forall>i. clock (Suc i) \<ge> clock i + 100" "i \<le> 600"
  shows "\<exists>n. wait_polls inflight clock i = Some n \<and> i \<le> n \<and> n \<le> 600 \<and> (inflight n \<le> 0 \<or> clock n \<ge> clock 0 + 60000) \<and>
    (\<forall>j. i \<le> j \<and> j < n \<longrightarrow> inflight j > 0)"
proof -
  have clock: "clock j \<ge> clock 0 + 100 * int j" for j
  proof (induction j)
    case (Suc j)
    then show ?case using assms(1) by (smt (verit) of_nat_Suc distrib_left mult.right_neutral)
  qed simp
  show ?thesis
    using assms(2)
  proof (induction "600 - i" arbitrary: i)
    case 0
    then have "i = 600" by simp
    then show ?case using clock [of 600] by (subst wait_polls.simps) auto
  next
    case (Suc k)
    then have "k = 600 - Suc i" "Suc i \<le> 600" by simp_all
    from Suc.hyps(1) [OF this] obtain n where n: "wait_polls inflight clock (Suc i) = Some n" "Suc i \<le> n" "n \<le> 600"
        "inflight n \<le> 0 \<or> clock n \<ge> clock 0 + 60000" "\<forall>j. Suc i \<le> j \<and> j < n \<longrightarrow> inflight j > 0" by auto
    show ?case
    proof (cases "inflight i > 0 \<and> clock i < clock 0 + 60000")
      case True
      then have "\<forall>j. i \<le> j \<and> j < n \<longrightarrow> inflight j > 0" using n(5) by (metis Suc_leI le_neq_implies_less)
      then show ?thesis using True n by (subst wait_polls.simps) auto
    next
      case False
      then show ?thesis using Suc.prems by (subst wait_polls.simps) auto
    qed
  qed
qed

text \<open>
  A restart waits, and not for ever. For every course of the count and every clock that
  advances by at least the 100 milliseconds slept: \<open>waitIdle\<close> returns after at most 600 polls, and
  then nothing is in flight or 60 seconds have passed; it never returns while the count is
  positive and the time has not run out.
\<close>

theorem waitIdle_ends:
  assumes "\<forall>i. clock (Suc i) \<ge> clock i + 100"
  shows "\<exists>n \<le> 600. waitIdle inflight clock = Some n \<and> (inflight n \<le> 0 \<or> clock n \<ge> clock 0 + 60000) \<and> (\<forall>j<n. inflight j > 0)"
  using wait_polls_ends [OF assms, of 0 inflight] by (auto simp: waitIdle_def)

theorem waitIdle_ends_witness:
  "\<exists>n \<le> 600. waitIdle (\<lambda>i. if i < 3 then 1 else 0) (\<lambda>i. 100 * int i) = Some n \<and>
    ((if n < 3 then 1 else 0) \<le> (0 :: int) \<or> 100 * int n \<ge> 100 * int 0 + 60000) \<and> (\<forall>j<n. (if j < 3 then 1 else 0) > (0 :: int))"
  by (rule waitIdle_ends) simp

text \<open>A chunked copy is not counted: while one is open and nothing else runs, a restart does not wait.\<close>

theorem restart_ignores_chunked_copy:
  assumes "m_type m = ''file_transfer''" and "m_chunked m" and "dm_inflight d = 0"
  shows "dm_inflight (dm_frame env ord (Json m) d) = 0 \<and> td_reassembly (dm_xfer (dm_frame env ord (Json m) d)) (m_id m) \<noteq> None \<and>
    waitIdle (\<lambda>_. dm_inflight (dm_frame env ord (Json m) d)) clock = Some 0"
proof -
  have f: "dm_frame env ord (Json m) d = on_transfers (beginChunkedTransfer (de_os env) ord m) d"
    using assms(1,2) by (simp add: dm_frame_def)
  then have z: "dm_inflight (dm_frame env ord (Json m) d) = 0" using assms(3) by (simp add: on_transfers_def)
  show ?thesis
    unfolding z waitIdle_def by (subst wait_polls.simps)
      (simp add: f on_transfers_def beginChunkedTransfer_def install_def Let_def split: option.split prod.split)
qed

section \<open>Pairing\<close>

lemma retry_step: "elapsed \<le> 86400 \<Longrightarrow> pair_retries elapsed = (elapsed + retry_interval elapsed) # pair_retries (elapsed + retry_interval elapsed)"
  by (subst pair_retries.simps) simp

text \<open>Runs of retries at one interval.\<close>

lemma retry_run:
  assumes "\<forall>j<n. retry_interval (e + j * k) = k" "e + n * k \<le> 86400 + k"
  shows "length (pair_retries e) = n + length (pair_retries (e + n * k))"
  using assms
proof (induction n arbitrary: e)
  case (Suc n)
  have k: "retry_interval e = k" using Suc.prems(1) by force
  have le: "e \<le> 86400" using Suc.prems(2) by simp
  have "\<forall>j<n. retry_interval (e + k + j * k) = k"
  proof (intro allI impI)
    fix j assume "j < n"
    then have "retry_interval (e + Suc j * k) = k" using Suc.prems(1) by blast
    then show "retry_interval (e + k + j * k) = k" by (simp add: add.assoc)
  qed
  from Suc.IH [OF this] have "length (pair_retries (e + k)) = n + length (pair_retries (e + k + n * k))" using Suc.prems(2) by simp
  then show ?case unfolding retry_step [OF le] k by (simp add: add.assoc)
qed simp

text \<open>
  Pairing is retried 352 times in a day and then given up: whenever the loop starts, it sends
  at strictly increasing times, none later than five minutes after the first day, and a loop that
  starts with a fresh code sends 352 times (the source's comment counts about 290).
\<close>

theorem pairing_gives_up:
  "sorted_wrt (<) (pair_retries e) \<and> set (pair_retries e) \<subseteq> {e<..86700} \<and> length (pair_retries 0) = 352"
proof -
  have "sorted_wrt (<) (pair_retries e) \<and> set (pair_retries e) \<subseteq> {e<..86700}"
  proof (induction e rule: pair_retries.induct)
    case (1 e)
    show ?case
    proof (cases "e > 86400")
      case False
      then have "retry_interval e > 0" "retry_interval e \<le> 300" by (simp_all add: retry_interval_def)
      moreover have "sorted_wrt (<) (pair_retries (e + retry_interval e))" "set (pair_retries (e + retry_interval e)) \<subseteq> {e + retry_interval e<..86700}"
        using 1 False by simp_all
      ultimately show ?thesis using False by (subst (1 2) pair_retries.simps) (fastforce simp: subset_iff)
    qed (simp add: pair_retries.simps)
  qed
  moreover have "length (pair_retries 0) = 20 + length (pair_retries 300)"
    using retry_run [of 20 0 15] by (simp add: retry_interval_def)
  moreover have "length (pair_retries 300) = 55 + length (pair_retries 3600)"
    using retry_run [of 55 300 60] by (simp add: retry_interval_def)
  moreover have "length (pair_retries 3600) = 277 + length (pair_retries 86700)"
    using retry_run [of 277 3600 300] by (simp add: retry_interval_def)
  moreover have "pair_retries 86700 = []" by (simp add: pair_retries.simps)
  ultimately show ?thesis by simp
qed

end
