(* ===== verification/TunnelClient.thy ===== *)
theory TunnelClient
  imports ExecEndToEnd
begin

text \<open>
  The client's end of a tunnel (tunnel.go): local connections forwarded over a relay connection that
  may be replaced, and the two ends of a tunnel joined through the relay.

  Relay connections are numbered; \<open>ct_sent\<close> records what was written on which. A local connection's
  goroutine is a sequence of operations: open, the answer (or none), registration, reads.
\<close>

section \<open>State\<close>

record client_tunnel =
  ct_targetName :: string
  ct_remoteAddr :: string
  ct_token :: string
  ct_conn :: "nat option" \<comment> \<open>\<open>None\<close> while reconnecting\<close>
  ct_pendingOpen :: "string \<rightharpoonup> message option" \<comment> \<open>channels of one message\<close>
  ct_activeConns :: "string \<rightharpoonup> nat"
  ct_locals :: "nat \<Rightarrow> net_conn"
  ct_sent :: "(nat \<times> message) list"

definition setConn :: "nat \<Rightarrow> client_tunnel \<Rightarrow> client_tunnel" where
  "setConn k ct = ct\<lparr>ct_conn := Some k\<rparr>"

definition ct_closeLocal :: "nat \<Rightarrow> client_tunnel \<Rightarrow> client_tunnel" where
  "ct_closeLocal l ct = ct\<lparr>ct_locals := (ct_locals ct)(l := (ct_locals ct l)\<lparr>nc_open := False\<rparr>)\<rparr>"

definition ct_closeTunnel :: "string \<Rightarrow> client_tunnel \<Rightarrow> client_tunnel" where
  "ct_closeTunnel tid ct =
     (case ct_activeConns ct tid of
        None \<Rightarrow> ct
      | Some l \<Rightarrow> ct_closeLocal l (ct\<lparr>ct_activeConns := (ct_activeConns ct)(tid := None)\<rparr>))"

text \<open>A non-blocking send into the channel of a pending open.\<close>

definition offer :: "message \<Rightarrow> message option \<Rightarrow> message option" where
  "offer m ch = (case ch of None \<Rightarrow> Some m | Some old \<Rightarrow> Some old)"

text \<open>\<open>dropConn\<close>: every local connection is closed, every pending open fails.\<close>

definition lost_msg :: message where
  "lost_msg = empty_message\<lparr>m_error := ''relay connection lost''\<rparr>"

definition dropConn :: "nat \<Rightarrow> client_tunnel \<Rightarrow> client_tunnel" where
  "dropConn k ct = ct\<lparr>ct_conn := (if ct_conn ct = Some k then None else ct_conn ct),
     ct_locals := (\<lambda>l. if \<exists>tid\<in>dom (ct_activeConns ct). ct_activeConns ct tid = Some l then (ct_locals ct l)\<lparr>nc_open := False\<rparr> else ct_locals ct l),
     ct_activeConns := Map.empty,
     ct_pendingOpen := (\<lambda>tid. map_option (offer lost_msg) (ct_pendingOpen ct tid))\<rparr>"

text \<open>The doubling pause between attempts to reconnect, in seconds.\<close>

definition next_backoff :: "nat \<Rightarrow> nat" where
  "next_backoff b = (if 2 * b > 30 then 30 else 2 * b)"

section \<open>The read loop\<close>

text \<open>A write to a local connection; \<open>nw\<close> is where it fails, if it does.\<close>

definition local_put :: "(nat \<Rightarrow> bytes \<Rightarrow> nat option) \<Rightarrow> nat \<Rightarrow> bytes \<Rightarrow> client_tunnel \<Rightarrow> bool \<times> client_tunnel" where
  "local_put nw l data ct =
     (let put = (\<lambda>b. ct\<lparr>ct_locals := (ct_locals ct)(l := (ct_locals ct l)\<lparr>nc_written := nc_written (ct_locals ct l) @ b\<rparr>)\<rparr>)
      in if \<not> nc_open (ct_locals ct l) then (False, ct)
         else case nw l data of None \<Rightarrow> (True, put data) | Some k \<Rightarrow> (False, put (take k data)))"

definition ct_frame :: "(nat \<Rightarrow> bytes \<Rightarrow> nat option) \<Rightarrow> message \<Rightarrow> client_tunnel \<Rightarrow> client_tunnel" where
  "ct_frame nw m ct =
     (if m_type m = ''tunnel_opened'' then
        ct\<lparr>ct_pendingOpen := (ct_pendingOpen ct)(m_tunnel_id m := map_option (offer m) (ct_pendingOpen ct (m_tunnel_id m)))\<rparr>
      else if m_type m = ''tunnel_data'' then
        (case ct_activeConns ct (m_tunnel_id m) of
           None \<Rightarrow> ct
         | Some l \<Rightarrow>
             (case b64_dec (m_data m) of
                None \<Rightarrow> ct
              | Some data \<Rightarrow>
                  (case local_put nw l data ct of (True, ct1) \<Rightarrow> ct1 | (False, ct1) \<Rightarrow> ct_closeTunnel (m_tunnel_id m) ct1)))
      else if m_type m = ''tunnel_close'' then ct_closeTunnel (m_tunnel_id m) ct
      else ct)"

section \<open>A local connection\<close>

text \<open>\<open>sendOn\<close>: refused when the relay connection has been replaced; \<open>werr\<close> is the error of the write.\<close>

definition sendOn :: "nat \<Rightarrow> string option \<Rightarrow> message \<Rightarrow> client_tunnel \<Rightarrow> string option \<times> client_tunnel" where
  "sendOn k werr m ct =
     (if ct_conn ct \<noteq> Some k then (Some ''relay connection down'', ct)
      else case werr of Some e \<Rightarrow> (Some e, ct) | None \<Rightarrow> (None, ct\<lparr>ct_sent := ct_sent ct @ [(k, m)]\<rparr>))"

definition tunnel_open_msg :: "client_tunnel \<Rightarrow> string \<Rightarrow> message" where
  "tunnel_open_msg ct tid = empty_message\<lparr>m_type := ''tunnel_open'', m_target := ct_targetName ct, m_token := ct_token ct,
     m_tunnel_id := tid, m_remote_addr := ct_remoteAddr ct\<rparr>"

text \<open>Up to the request: \<open>conn\<close> is what \<open>waitConn\<close> returned. \<open>None\<close> in the result: the goroutine has
  returned.\<close>

definition local_open :: "nat option \<Rightarrow> string option \<Rightarrow> nat \<Rightarrow> string \<Rightarrow> client_tunnel \<Rightarrow> nat option \<times> client_tunnel" where
  "local_open conn werr l tid ct =
     (case conn of
        None \<Rightarrow> (None, ct_closeLocal l ct)
      | Some k \<Rightarrow>
          (case sendOn k werr (tunnel_open_msg ct tid) (ct\<lparr>ct_pendingOpen := (ct_pendingOpen ct)(tid \<mapsto> None)\<rparr>) of
             (Some e, ct1) \<Rightarrow> (None, ct_closeLocal l (ct1\<lparr>ct_pendingOpen := (ct_pendingOpen ct1)(tid := None)\<rparr>))
           | (None, ct1) \<Rightarrow> (Some k, ct1)))"

text \<open>The answer in the channel, or none before the timeout: register the connection or close it.\<close>

definition local_opened :: "nat \<Rightarrow> string \<Rightarrow> client_tunnel \<Rightarrow> bool \<times> client_tunnel" where
  "local_opened l tid ct =
     (let resp = (case ct_pendingOpen ct tid of Some (Some m) \<Rightarrow> m | _ \<Rightarrow> empty_message\<lparr>m_error := ''no answer from relay''\<rparr>)
      in if m_error resp \<noteq> '''' then (False, ct_closeLocal l (ct\<lparr>ct_pendingOpen := (ct_pendingOpen ct)(tid := None)\<rparr>))
         else (True, ct\<lparr>ct_activeConns := (ct_activeConns ct)(tid \<mapsto> l)\<rparr>))"

text \<open>One read of the local connection: data, and whether it ended (end of file or an error); the
  result says whether the goroutine goes on.\<close>

definition local_read :: "nat \<Rightarrow> string option \<Rightarrow> string \<Rightarrow> bytes \<Rightarrow> bool \<Rightarrow> client_tunnel \<Rightarrow> bool \<times> client_tunnel" where
  "local_read k werr tid data ended ct =
     (let (e, ct1) = (if data = [] then (None, ct)
           else sendOn k werr ((tunnel_msg ''tunnel_data'' tid)\<lparr>m_data := b64_enc data\<rparr>) ct);
          leave = (\<lambda>ct. (False, ct_closeTunnel tid (ct\<lparr>ct_pendingOpen := (ct_pendingOpen ct)(tid := None)\<rparr>)))
      in if e \<noteq> None then leave ct1
         else if ended then leave (snd (sendOn k werr (tunnel_msg ''tunnel_close'' tid) ct1))
         else (True, ct1))"

section \<open>Data through the three of them\<close>

definition data_msg :: "string \<Rightarrow> bytes \<Rightarrow> message" where
  "data_msg tid b = (tunnel_msg ''tunnel_data'' tid)\<lparr>m_data := b64_enc b\<rparr>"

lemma data_msg_fields [simp]:
  "m_type (data_msg tid b) = ''tunnel_data''" "m_tunnel_id (data_msg tid b) = tid" "b64_dec (m_data (data_msg tid b)) = Some b"
  by (simp_all add: data_msg_def tunnel_msg_def b64_dec_enc)

lemma client_sends:
  assumes "ct_conn ct = Some k" "\<forall>b\<in>set bs. b \<noteq> []"
  shows "fold (\<lambda>b ct. snd (local_read k None tid b False ct)) bs ct = ct\<lparr>ct_sent := ct_sent ct @ map (\<lambda>b. (k, data_msg tid b)) bs\<rparr>"
  using assms
  by (induction bs arbitrary: ct) (simp_all add: local_read_def sendOn_def data_msg_def)

lemma daemon_sends:
  assumes "\<forall>b\<in>set bs. b \<noteq> []"
  shows "td_sent (dm_xfer (fold (\<lambda>b. tunnelRead tid b False) bs d)) = td_sent (dm_xfer d) @ map (data_msg tid) bs"
  using assms by (induction bs arbitrary: d) (simp_all add: tunnelRead_def dm_send_def td_send_def data_msg_def)

text \<open>The relay carries the messages of one end to the other, in order.\<close>

lemma relay_carries:
  assumes "rs_tunnels s tid = Some ts" "other_end c ts = e" "wq_net (rs_rcs s e) = None"
  shows "wire (rs_rcs (relay_replies a c (map (data_msg tid) bs) s) e) = wire (rs_rcs s e) @ map (\<lambda>b. Json (data_msg tid b)) bs"
proof -
  have "relay_replies a c (map (data_msg tid) bs) s = fold (\<lambda>m. tell e (id m)) (map (data_msg tid) bs) s"
    using assms
  proof (induction bs arbitrary: s)
    case (Cons b bs)
    have step: "ws_frame a c (Json (data_msg tid b)) s = tell e (data_msg tid b) s"
      using Cons.prems by (simp add: ws_frame_def ws_dispatch_def clientOnlyMessages_def handleTunnelRelay_def)
    have "relay_replies a c (map (data_msg tid) bs) (tell e (data_msg tid b) s) =
        fold (\<lambda>m. tell e (id m)) (map (data_msg tid) bs) (tell e (data_msg tid b) s)"
      by (rule Cons.IH) (use Cons.prems in simp_all)
    then show ?case using step by (simp add: relay_replies_def)
  qed (simp add: relay_replies_def)
  then show ?thesis using tells [OF assms(3), of id "map (data_msg tid) bs"] by (simp add: comp_def)
qed

lemma daemon_stores:
  assumes "dm_tunnels d tid = Some r" "nc_open (dm_conns d r)" "\<forall>data. de_netWrite env r data = None"
  shows "fold (\<lambda>b. dm_frame env ord (Json (data_msg tid b))) bs d =
    d\<lparr>dm_conns := (dm_conns d)(r := (dm_conns d r)\<lparr>nc_written := nc_written (dm_conns d r) @ concat bs\<rparr>)\<rparr>"
  using assms
proof (induction bs arbitrary: d)
  case (Cons b bs)
  let ?d1 = "d\<lparr>dm_conns := (dm_conns d)(r := (dm_conns d r)\<lparr>nc_written := nc_written (dm_conns d r) @ b\<rparr>)\<rparr>"
  have "dm_frame env ord (Json (data_msg tid b)) d = ?d1"
    using Cons.prems by (simp add: dm_frame_def dm_handleTunnelData_def conn_put_def)
  then show ?case using Cons.IH [of ?d1] Cons.prems by (simp cong: if_cong)
qed simp

lemma client_stores:
  assumes "ct_activeConns ct tid = Some l" "nc_open (ct_locals ct l)" "\<forall>data. nw l data = None"
  shows "fold (\<lambda>b. ct_frame nw (data_msg tid b)) bs ct =
    ct\<lparr>ct_locals := (ct_locals ct)(l := (ct_locals ct l)\<lparr>nc_written := nc_written (ct_locals ct l) @ concat bs\<rparr>)\<rparr>"
  using assms
proof (induction bs arbitrary: ct)
  case (Cons b bs)
  let ?ct1 = "ct\<lparr>ct_locals := (ct_locals ct)(l := (ct_locals ct l)\<lparr>nc_written := nc_written (ct_locals ct l) @ b\<rparr>)\<rparr>"
  have "ct_frame nw (data_msg tid b) ct = ?ct1"
    using Cons.prems by (simp add: ct_frame_def local_put_def)
  then show ?case using Cons.IH [of ?ct1] Cons.prems by (simp cong: if_cong)
qed simp

section \<open>Properties\<close>

text \<open>
  C20. An open tunnel carries bytes both ways. With the tunnel registered at the client, the relay
  and the daemon, and working connections: what the client reads from the local connection, in
  whatever pieces, is written to the remote one, and what the daemon reads from the remote
  connection is written to the local one, each byte once and in order.
\<close>

theorem tunnel_carries_bytes:
  assumes "ct_conn ct = Some k" and "ct_activeConns ct tid = Some l" and "nc_open (ct_locals ct l)" and "\<forall>data. nw l data = None"
    and "rs_tunnels s tid = Some \<lparr>ts_clientConn = c, ts_daemonConn = e\<rparr>" and "c \<noteq> e"
    and "wq_net (rs_rcs s c) = None" and "wq_net (rs_rcs s e) = None"
    and "dm_tunnels d tid = Some r" and "nc_open (dm_conns d r)" and "\<forall>data. de_netWrite env r data = None"
    and "\<forall>b\<in>set ups. b \<noteq> []" and "\<forall>b\<in>set downs. b \<noteq> []"
  shows "(\<exists>ms. map snd (ct_sent (fold (\<lambda>b ct. snd (local_read k None tid b False ct)) ups ct)) = map snd (ct_sent ct) @ ms \<and>
      wire (rs_rcs (relay_replies a1 c ms s) e) = wire (rs_rcs s e) @ map Json ms \<and>
      nc_written (dm_conns (fold (\<lambda>m. dm_frame env ord (Json m)) ms d) r) = nc_written (dm_conns d r) @ concat ups) \<and>
    (\<exists>ms. td_sent (dm_xfer (fold (\<lambda>b. tunnelRead tid b False) downs d)) = td_sent (dm_xfer d) @ ms \<and>
      wire (rs_rcs (relay_replies a2 e ms s) c) = wire (rs_rcs s c) @ map Json ms \<and>
      nc_written (ct_locals (fold (ct_frame nw) ms ct) l) = nc_written (ct_locals ct l) @ concat downs)"
proof (intro conjI exI)
  have ends: "other_end c \<lparr>ts_clientConn = c, ts_daemonConn = e\<rparr> = e" "other_end e \<lparr>ts_clientConn = c, ts_daemonConn = e\<rparr> = c"
    using assms(6) by (simp_all add: other_end_def)
  show "map snd (ct_sent (fold (\<lambda>b ct. snd (local_read k None tid b False ct)) ups ct)) = map snd (ct_sent ct) @ map (data_msg tid) ups"
    using client_sends [OF assms(1,12)] by (simp add: comp_def)
  show "td_sent (dm_xfer (fold (\<lambda>b. tunnelRead tid b False) downs d)) = td_sent (dm_xfer d) @ map (data_msg tid) downs"
    by (rule daemon_sends [OF assms(13)])
  show "wire (rs_rcs (relay_replies a1 c (map (data_msg tid) ups) s) e) = wire (rs_rcs s e) @ map Json (map (data_msg tid) ups)"
    using relay_carries [OF assms(5) ends(1) assms(8)] by (simp add: comp_def)
  show "wire (rs_rcs (relay_replies a2 e (map (data_msg tid) downs) s) c) = wire (rs_rcs s c) @ map Json (map (data_msg tid) downs)"
    using relay_carries [OF assms(5) ends(2) assms(7)] by (simp add: comp_def)
  show "nc_written (dm_conns (fold (\<lambda>m. dm_frame env ord (Json m)) (map (data_msg tid) ups) d) r) = nc_written (dm_conns d r) @ concat ups"
    using daemon_stores [OF assms(9-11), of ord ups] by (simp add: fold_map comp_def)
  show "nc_written (ct_locals (fold (ct_frame nw) (map (data_msg tid) downs) ct) l) = nc_written (ct_locals ct l) @ concat downs"
    using client_stores [where nw = nw and bs = downs, OF assms(2-4)] by (simp add: fold_map comp_def)
qed

definition demo_tunnel :: client_tunnel where
  "demo_tunnel = \<lparr>ct_targetName = ''box'', ct_remoteAddr = ''h:1'', ct_token = ''tok'', ct_conn = Some 0, ct_pendingOpen = Map.empty,
     ct_activeConns = [''t'' \<mapsto> 0], ct_locals = (\<lambda>_. \<lparr>nc_written = [], nc_open = True\<rparr>), ct_sent = []\<rparr>"

definition demo_far :: daemon where
  "demo_far = (new_daemon ''box'' ''tok'' None None Map.empty)\<lparr>dm_tunnels := [''t'' \<mapsto> 0], dm_conns := (\<lambda>_. \<lparr>nc_written = [], nc_open = True\<rparr>)\<rparr>"

definition demo_netenv :: daemon_env where
  "demo_netenv = \<lparr>de_os = demo_os, de_cmd = demo_cmd_env, de_dial = (\<lambda>_. None), de_netWrite = (\<lambda>_ _. None)\<rparr>"

theorem tunnel_carries_bytes_witness:
  "let s = demo_relay\<lparr>rs_tunnels := [''t'' \<mapsto> \<lparr>ts_clientConn = 1, ts_daemonConn = 0\<rparr>]\<rparr> in
   (\<exists>ms. wire (rs_rcs (relay_replies True 1 ms s) 0) = wire (rs_rcs s 0) @ map Json ms \<and>
      nc_written (dm_conns (fold (\<lambda>m. dm_frame demo_netenv [] (Json m)) ms demo_far) 0) = [1, 2, 3]) \<and>
   (\<exists>ms. wire (rs_rcs (relay_replies True 0 ms s) 1) = wire (rs_rcs s 1) @ map Json ms \<and>
      nc_written (ct_locals (fold (ct_frame (\<lambda>_ _. None)) ms demo_tunnel) 0) = [9])"
proof -
  let ?s = "demo_relay\<lparr>rs_tunnels := [''t'' \<mapsto> \<lparr>ts_clientConn = 1, ts_daemonConn = 0\<rparr>]\<rparr>"
  have "ct_conn demo_tunnel = Some 0" "ct_activeConns demo_tunnel ''t'' = Some 0" "nc_open (ct_locals demo_tunnel 0)"
    "rs_tunnels ?s ''t'' = Some \<lparr>ts_clientConn = 1, ts_daemonConn = 0\<rparr>" "wq_net (rs_rcs ?s 1) = None" "wq_net (rs_rcs ?s 0) = None"
    "dm_tunnels demo_far ''t'' = Some 0" "nc_open (dm_conns demo_far 0)" "nc_written (dm_conns demo_far 0) = []" "nc_written (ct_locals demo_tunnel 0) = []"
    by (simp_all add: demo_tunnel_def demo_far_def)
  note f = this
  show ?thesis
    using tunnel_carries_bytes [OF f(1-3) _ f(4) _ f(5-8), where ups = "[[1, 2], [3]]" and downs = "[[9]]" and nw = "\<lambda>_ _. None"
        and env = demo_netenv and ord = "[]" and ?a1.0 = True and ?a2.0 = True] f(9,10)
    by (simp add: demo_netenv_def Let_def) blast
qed

text \<open>
  Data that overtakes the registration is lost, on both ends. The daemon answers
  \<open>tunnel_opened\<close> before it registers the tunnel, and drops data that its read loop takes in between;
  the client's read loop hands the answer to another goroutine, and drops data that it reads before
  that goroutine has registered the connection (a server that speaks first, say). Neither end
  closes the tunnel or says anything.
\<close>

theorem early_tunnel_data_is_lost:
  assumes "de_dial env (m_remote_addr m) = None" and "dm_tunnels d (m_tunnel_id m) = None"
    and "ct_pendingOpen ct tid = Some None" and "ct_activeConns ct tid = None"
  shows "let d1 = dm_handleTunnelOpen env m d; opened = (tunnel_msg ''tunnel_opened'' tid)\<lparr>m_ok := Some True\<rparr>; ct1 = ct_frame nw opened ct
    in m_ok (last (td_sent (dm_xfer d1))) = Some True \<and> dm_frame env ord (Json (data_msg (m_tunnel_id m) b)) d1 = d1 \<and>
       ct_pendingOpen ct1 tid = Some (Some opened) \<and> ct_frame nw (data_msg tid b) ct1 = ct1"
  using assms
  by (simp add: dm_handleTunnelOpen_def dm_frame_def dm_handleTunnelData_def spawn_def dm_send_def td_send_def Let_def
      ct_frame_def tunnel_msg_def offer_def)

theorem early_tunnel_data_is_lost_witness:
  "let m = empty_message\<lparr>m_tunnel_id := ''u'', m_remote_addr := ''h:1''\<rparr>; d1 = dm_handleTunnelOpen demo_netenv m demo_far;
       ct = demo_tunnel\<lparr>ct_pendingOpen := [''u'' \<mapsto> None]\<rparr>; opened = (tunnel_msg ''tunnel_opened'' ''u'')\<lparr>m_ok := Some True\<rparr>; ct1 = ct_frame (\<lambda>_ _. None) opened ct
    in m_ok (last (td_sent (dm_xfer d1))) = Some True \<and> dm_frame demo_netenv [] (Json (data_msg ''u'' [1])) d1 = d1 \<and>
       ct_pendingOpen ct1 ''u'' = Some (Some opened) \<and> ct_frame (\<lambda>_ _. None) (data_msg ''u'' [1]) ct1 = ct1"
  using early_tunnel_data_is_lost [of demo_netenv "empty_message\<lparr>m_tunnel_id := ''u'', m_remote_addr := ''h:1''\<rparr>" demo_far
      "demo_tunnel\<lparr>ct_pendingOpen := [''u'' \<mapsto> None]\<rparr>" "''u''" "\<lambda>_ _. None" "[]" "[1]"]
  by (simp add: demo_netenv_def demo_far_def demo_tunnel_def Let_def)

end
