(* ===== verification/ArchiveTree.thy ===== *)
theory ArchiveTree
  imports Archive TransferCopy
begin

text \<open>
  Packing a directory (\<open>createTarArchive\<close> of filetransfer_chunk.go) and the whole way of a copied
  directory. A directory is what \<open>filepath.Walk\<close> finds, in its order; for a regular file the size
  at the time of \<open>Lstat\<close> and what \<open>os.ReadFile\<close> returns later, for a link what reading through it
  returns. The writer of \<open>archive/tar\<close> is its entries and the bytes the last header still announces;
  \<open>enc\<close> is the format of an archive.
\<close>

section \<open>Packing\<close>

datatype tree =
    RegFile nat "string + bytes"
  | Folder "(string \<times> tree) list"
  | SymLink "string + bytes"
  | Unreadable string \<comment> \<open>the walk fails at it\<close>

type_synonym tar_writer = "tar_entry list \<times> nat"

definition tar_missed :: "nat \<Rightarrow> string" where
  "tar_missed n = ''archive/tar: missed writing '' @ go_itoa (int n) @ '' bytes''"

definition tar_too_long :: string where "tar_too_long = ''archive/tar: write too long''"

definition tw_header :: "string \<Rightarrow> tar_kind \<Rightarrow> nat \<Rightarrow> tar_writer \<Rightarrow> string + tar_writer" where
  "tw_header name kind sz w =
     (case w of (es, left) \<Rightarrow>
        if left > 0 then Inl (tar_missed left)
        else Inr (es @ [\<lparr>te_name = name, te_kind = kind, te_data = [], te_error = None\<rparr>], sz))"

definition tw_write :: "bytes \<Rightarrow> tar_writer \<Rightarrow> string + tar_writer" where
  "tw_write data w =
     (case w of (es, left) \<Rightarrow>
        if length data > left then Inl tar_too_long
        else Inr (butlast es @ [(last es)\<lparr>te_data := te_data (last es) @ data\<rparr>], left - length data))"

definition rel_name :: "string list \<Rightarrow> string" where
  "rel_name rel = (if rel = [] then ''.'' else go_join ''/'' rel)"

text \<open>A header, and the contents of what is not a directory.\<close>

definition pack :: "string list \<Rightarrow> tar_kind \<Rightarrow> nat \<Rightarrow> string + bytes \<Rightarrow> tar_writer \<Rightarrow> string + tar_writer" where
  "pack rel kind sz content w =
     (case tw_header (rel_name rel) kind sz w of
        Inl e \<Rightarrow> Inl e
      | Inr w1 \<Rightarrow> (case content of Inl e \<Rightarrow> Inl e | Inr data \<Rightarrow> tw_write data w1))"

fun walk :: "string list \<Rightarrow> tree \<Rightarrow> tar_writer \<Rightarrow> string + tar_writer"
  and walk_all :: "string list \<Rightarrow> (string \<times> tree) list \<Rightarrow> tar_writer \<Rightarrow> string + tar_writer" where
  "walk rel (RegFile sz content) w = pack rel TarReg sz content w"
| "walk rel (SymLink content) w = pack rel TarSymlink 0 content w"
| "walk rel (Unreadable e) w = Inl e"
| "walk rel (Folder es) w = (case tw_header (rel_name rel) TarDir 0 w of Inl e \<Rightarrow> Inl e | Inr w1 \<Rightarrow> walk_all rel es w1)"
| "walk_all rel [] w = Inr w"
| "walk_all rel ((n, t) # es) w = (case walk (rel @ [n]) t w of Inl e \<Rightarrow> Inl e | Inr w1 \<Rightarrow> walk_all rel es w1)"

definition createTarArchive :: "(tar_entry list \<Rightarrow> bytes) \<Rightarrow> tree \<Rightarrow> string + bytes" where
  "createTarArchive enc t =
     (case walk [] t ([], 0) of
        Inl e \<Rightarrow> Inl e
      | Inr (es, left) \<Rightarrow> if left > 0 then Inl (tar_missed left) else Inr (enc es))"

section \<open>Trees that can be packed\<close>

text \<open>Directories and regular files that keep their size, under plain and distinct names.\<close>

fun tidy :: "tree \<Rightarrow> bool" and tidy_all :: "(string \<times> tree) list \<Rightarrow> bool" where
  "tidy (RegFile sz content) \<longleftrightarrow> (case content of Inl e \<Rightarrow> False | Inr d \<Rightarrow> length d = sz)"
| "tidy (SymLink content) \<longleftrightarrow> False"
| "tidy (Unreadable e) \<longleftrightarrow> False"
| "tidy (Folder es) \<longleftrightarrow> tidy_all es"
| "tidy_all [] \<longleftrightarrow> True"
| "tidy_all ((n, t) # es) \<longleftrightarrow> plain_segment n \<and> n \<notin> fst ` set es \<and> tidy t \<and> tidy_all es"

text \<open>The regular files below a directory, by their segments.\<close>

fun files :: "string list \<Rightarrow> tree \<Rightarrow> (string list \<times> bytes) list"
  and files_all :: "string list \<Rightarrow> (string \<times> tree) list \<Rightarrow> (string list \<times> bytes) list" where
  "files rel (RegFile sz content) = (case content of Inl e \<Rightarrow> [] | Inr d \<Rightarrow> [(rel, d)])"
| "files rel (SymLink content) = []"
| "files rel (Unreadable e) = []"
| "files rel (Folder es) = files_all rel es"
| "files_all rel [] = []"
| "files_all rel ((n, t) # es) = files (rel @ [n]) t @ files_all rel es"

fun entries :: "string list \<Rightarrow> tree \<Rightarrow> tar_entry list"
  and entries_all :: "string list \<Rightarrow> (string \<times> tree) list \<Rightarrow> tar_entry list" where
  "entries rel (RegFile sz content) =
     [\<lparr>te_name = rel_name rel, te_kind = TarReg, te_data = (case content of Inl e \<Rightarrow> [] | Inr d \<Rightarrow> d), te_error = None\<rparr>]"
| "entries rel (SymLink content) = []"
| "entries rel (Unreadable e) = []"
| "entries rel (Folder es) = \<lparr>te_name = rel_name rel, te_kind = TarDir, te_data = [], te_error = None\<rparr> # entries_all rel es"
| "entries_all rel [] = []"
| "entries_all rel ((n, t) # es) = entries (rel @ [n]) t @ entries_all rel es"

lemma pack_ok: "length d = n \<Longrightarrow> pack rel kind n (Inr d) (es, 0) =
    Inr (es @ [\<lparr>te_name = rel_name rel, te_kind = kind, te_data = d, te_error = None\<rparr>], 0)"
  by (simp add: pack_def tw_header_def tw_write_def)

lemma walk_tidy:
  "tidy t \<Longrightarrow> snd w = 0 \<Longrightarrow> walk rel t w = Inr (fst w @ entries rel t, 0)"
  "tidy_all es \<Longrightarrow> snd w = 0 \<Longrightarrow> walk_all rel es w = Inr (fst w @ entries_all rel es, 0)"
proof (induction rel t w and rel es w rule: walk_walk_all.induct)
  case (1 rel sz content w)
  then show ?case by (cases w) (auto simp: pack_ok split: sum.splits)
next
  case (4 rel es w)
  then show ?case by (cases w) (simp add: tw_header_def)
qed auto

lemma archive_tidy: "tidy t \<Longrightarrow> createTarArchive enc t = Inr (enc (entries [] t))"
  using walk_tidy(1) [of t "([], 0)" "[]"] by (simp add: createTarArchive_def)

section \<open>Unpacking them\<close>

text \<open>A file system of the destination that does not fail.\<close>

definition calm :: "os_env \<Rightarrow> bool" where
  "calm env \<longleftrightarrow> (\<forall>p. os_mkdirAll env p = None \<and> os_openFile env p = None \<and> (\<forall>d. os_write env p 0 d = None))"

definition put_file :: "string list \<Rightarrow> string list \<times> bytes \<Rightarrow> fs \<Rightarrow> fs" where
  "put_file ds f fs = (let p = abs_path (ds @ fst f) in fs(p \<mapsto> write_at 0 (snd f) (case fs p of None \<Rightarrow> [] | Some c \<Rightarrow> c)))"

lemma put_file_eq: "put_file ds (q, d) fs = fs(abs_path (ds @ q) \<mapsto> write_at 0 d (case fs (abs_path (ds @ q)) of None \<Rightarrow> [] | Some c \<Rightarrow> c))"
  by (simp add: put_file_def Let_def)

lemma extract_tidy:
  assumes "calm env" "ds \<noteq> []" "\<forall>g\<in>set ds. plain_segment g"
  shows "tidy t \<Longrightarrow> rel \<noteq> [] \<or> (\<exists>es. t = Folder es) \<Longrightarrow> \<forall>g\<in>set rel. plain_segment g \<Longrightarrow>
      extract_entries env (abs_path ds) (entries rel t @ rest) err fs =
      extract_entries env (abs_path ds) rest err (fold (put_file ds) (files rel t) fs)"
    and "tidy_all ts \<Longrightarrow> \<forall>g\<in>set rel. plain_segment g \<Longrightarrow>
      extract_entries env (abs_path ds) (entries_all rel ts @ rest) err fs =
      extract_entries env (abs_path ds) rest err (fold (put_file ds) (files_all rel ts) fs)"
proof (induction rel t and rel ts arbitrary: rest fs and rest fs rule: entries_entries_all.induct)
  case (1 rel sz content)
  then obtain d where d: "content = Inr d" by (auto split: sum.splits)
  have "path_join (abs_path ds) (rel_name rel) = abs_path (ds @ rel)"
    using 1 join_plain [OF assms(2,3), of rel] by (simp add: rel_name_def)
  then show ?case
    using assms(1) by (simp add: d calm_def extract_regular_def put_file_eq Let_def del: fun_upd_apply)
next
  case (4 rel es)
  then show ?case using assms(1) by (simp add: calm_def Let_def)
next
  case (6 rel n t es)
  then show ?case by simp
qed auto

lemma files_below:
  "tidy t \<Longrightarrow> f \<in> set (files rel t) \<Longrightarrow> \<exists>q. fst f = rel @ q \<and> (\<forall>g\<in>set q. plain_segment g)"
  "tidy_all ts \<Longrightarrow> f \<in> set (files_all rel ts) \<Longrightarrow> \<exists>n q. n \<in> fst ` set ts \<and> fst f = rel @ n # q \<and> (\<forall>g\<in>set (n # q). plain_segment g)"
proof (induction rel t and rel ts rule: files_files_all.induct)
  case (4 rel es)
  then obtain n q where "fst f = rel @ n # q" "\<forall>g\<in>set (n # q). plain_segment g" by auto
  then show ?case by blast
next
  case (6 rel n t es)
  show ?case
  proof (cases "f \<in> set (files (rel @ [n]) t)")
    case True
    then obtain q where "fst f = (rel @ [n]) @ q" "\<forall>g\<in>set q. plain_segment g" using 6 by fastforce
    then show ?thesis using 6(3) by (intro exI [of _ n] exI [of _ q]) simp
  next
    case False
    then have "f \<in> set (files_all rel es)" using 6(4) by simp
    then obtain n' q where "n' \<in> fst ` set es" "fst f = rel @ n' # q" "\<forall>g\<in>set (n' # q). plain_segment g" using 6(2,3) by auto
    then show ?thesis by (intro exI [of _ n'] exI [of _ q]) simp
  qed
qed (auto split: sum.splits)

lemma files_distinct:
  "tidy t \<Longrightarrow> distinct (map fst (files rel t))"
  "tidy_all ts \<Longrightarrow> distinct (map fst (files_all rel ts))"
proof (induction rel t and rel ts rule: files_files_all.induct)
  case (6 rel n t es)
  have n: "n \<notin> fst ` set es" "tidy t" "tidy_all es" using 6(3) by simp_all
  have "fst f \<noteq> fst f'" if f: "f \<in> set (files (rel @ [n]) t)" "f' \<in> set (files_all rel es)" for f f'
  proof -
    obtain q where "fst f = (rel @ [n]) @ q" using files_below(1) [OF n(2) f(1)] by blast
    moreover obtain n' q' where "n' \<in> fst ` set es" "fst f' = rel @ n' # q'" using files_below(2) [OF n(3) f(2)] by blast
    ultimately show ?thesis using n(1) by auto
  qed
  then have "fst ` set (files (rel @ [n]) t) \<inter> fst ` set (files_all rel es) = {}" by blast
  then show ?case using 6 by simp
qed (simp_all split: sum.split)

lemma write_over: "length old \<le> length d \<Longrightarrow> write_at 0 d old = d"
  by (simp add: write_at_def)

lemma put_files:
  assumes "distinct (map (\<lambda>f. abs_path (ds @ fst f)) fl)" "\<forall>f\<in>set fl. \<forall>c. fs (abs_path (ds @ fst f)) = Some c \<longrightarrow> length c \<le> length (snd f)"
  shows "fold (put_file ds) fl fs = fs ++ map_of (map (\<lambda>f. (abs_path (ds @ fst f), snd f)) fl)"
  using assms
proof (induction fl arbitrary: fs)
  case (Cons f fl)
  let ?p = "abs_path (ds @ fst f)"
  have one: "put_file ds f fs = fs(?p \<mapsto> snd f)"
    using Cons.prems(2) by (auto simp: put_file_def Let_def write_over split: option.split)
  have "fold (put_file ds) fl (fs(?p \<mapsto> snd f)) = fs(?p \<mapsto> snd f) ++ map_of (map (\<lambda>f. (abs_path (ds @ fst f), snd f)) fl)"
    using Cons.prems
  proof (intro Cons.IH)
    have other: "abs_path (ds @ fst f') \<noteq> ?p" if "f' \<in> set fl" for f' using Cons.prems(1) that by (auto simp: image_iff)
    show "\<forall>f'\<in>set fl. \<forall>c. (fs(?p \<mapsto> snd f)) (abs_path (ds @ fst f')) = Some c \<longrightarrow> length c \<le> length (snd f')"
      using Cons.prems(2) other by simp
  qed simp
  moreover have "map_of (map (\<lambda>f. (abs_path (ds @ fst f), snd f)) fl) ?p = None"
    using Cons.prems(1) by (auto simp: map_of_eq_None_iff comp_def image_iff)
  ultimately show ?case by (auto simp: one map_add_def fun_eq_iff split: option.split)
qed simp

text \<open>The files of a directory at their places below \<open>ds\<close>.\<close>

definition placed :: "string list \<Rightarrow> tree \<Rightarrow> fs" where
  "placed ds t = map_of (map (\<lambda>f. (abs_path (ds @ fst f), snd f)) (files [] t))"

lemma placed_distinct:
  assumes "tidy t" "\<forall>g\<in>set ds. plain_segment g" "ds \<noteq> []"
  shows "distinct (map (\<lambda>f. abs_path (ds @ fst f)) (files [] t))"
proof -
  have "inj_on (\<lambda>q. abs_path (ds @ q)) (fst ` set (files [] t))"
  proof (rule inj_onI)
    fix x y assume xy: "x \<in> fst ` set (files [] t)" "y \<in> fst ` set (files [] t)" "abs_path (ds @ x) = abs_path (ds @ y)"
    then have "\<forall>g\<in>set x. plain_segment g" "\<forall>g\<in>set y. plain_segment g" using files_below(1) [OF assms(1), of _ "[]"] by fastforce+
    then show "x = y" using abs_path_inj [of "ds @ x" "ds @ y"] xy(3) assms(2,3) by auto
  qed
  then have "distinct (map (\<lambda>q. abs_path (ds @ q)) (map fst (files [] t)))"
    using files_distinct(1) [OF assms(1), of "[]"] by (subst distinct_map) simp
  then show ?thesis by (simp add: comp_def)
qed

lemma unpack_tidy:
  assumes "calm env" "ds \<noteq> []" "\<forall>g\<in>set ds. plain_segment g" "tidy (Folder es)"
    and "os_untar env data = (entries [] (Folder es), None)"
    and "\<forall>p c d. placed ds (Folder es) p = Some d \<longrightarrow> fs p = Some c \<longrightarrow> length c \<le> length d"
  shows "extractTarArchive env data (abs_path ds) fs = (None, fs ++ placed ds (Folder es))"
proof -
  let ?fl = "files [] (Folder es)"
  have d: "distinct (map (\<lambda>f. abs_path (ds @ fst f)) ?fl)" by (rule placed_distinct [OF assms(4,3,2)])
  have "\<forall>f\<in>set ?fl. \<forall>c. fs (abs_path (ds @ fst f)) = Some c \<longrightarrow> length c \<le> length (snd f)"
  proof (intro ballI allI impI)
    fix f c assume f: "f \<in> set ?fl" "fs (abs_path (ds @ fst f)) = Some c"
    have "placed ds (Folder es) (abs_path (ds @ fst f)) = Some (snd f)"
      unfolding placed_def using d f(1) by (intro map_of_is_SomeI) (auto simp: comp_def)
    then show "length c \<le> length (snd f)" using assms(6) f(2) by blast
  qed
  from put_files [OF d this] show ?thesis
    using extract_tidy(1) [OF assms(1-4), where rel = "[]" and rest = "[]" and err = None and fs = fs] assms(5)
    by (simp add: extractTarArchive_def placed_def)
qed

section \<open>Properties\<close>

text \<open>
  C13. A copied directory arrives. For a directory of directories and regular files that keep their
  size, under any plain names: it is packed, sent in chunks, reassembled and unpacked, and then
  every file of it is at its place below the destination with its contents, every other file is as
  it was, and the daemon has answered once, with success. The destination's files must not be
  longer than the ones that replace them.
\<close>

theorem copied_directory_arrives:
  assumes "link_up senv" and "gzip_ok senv env" and "cs > 0" and "calm env" and "ds \<noteq> []" and "\<forall>g\<in>set ds. plain_segment g"
    and "tidy (Folder es)" and "enc (entries [] (Folder es)) \<noteq> []"
    and "os_untar env (enc (entries [] (Folder es))) = (entries [] (Folder es), None)"
    and "m_mode base = ''rsync''" and "m_dst_path base = abs_path ds"
    and "\<forall>p c d. placed ds (Folder es) p = Some d \<longrightarrow> td_fs s p = Some c \<longrightarrow> length c \<le> length d"
  shows "\<exists>data frames. createTarArchive enc (Folder es) = Inr data \<and> sendFileFramesWithSize senv base data cs [] = Some (None, frames) \<and>
    (let s' = td_frames env ord (map (relayed rid) frames) s in
       td_fs s' = td_fs s ++ placed ds (Folder es) \<and> td_sent s' = td_sent s @ [transfer_ok env rid] \<and> td_reassembly s' rid = None)"
proof -
  let ?data = "enc (entries [] (Folder es))"
  have x: "extractTarArchive env ?data (m_dst_path base) (td_fs s) = (None, td_fs s ++ placed ds (Folder es))"
    unfolding assms(11) by (rule unpack_tidy [OF assms(4-7,9,12)])
  have "os_mkdirAll env (m_dst_path base) = None" using assms(4) by (simp add: calm_def)
  from archive_unpacked [OF assms(1-3,8,10) this x, of ord rid] show ?thesis
    using archive_tidy [OF assms(7), of enc] by (intro exI [of _ ?data]) simp
qed

definition demo_tree :: "(string \<times> tree) list" where
  "demo_tree = [(''a'', RegFile 2 (Inr [65, 66])), (''d'', Folder [(''b'', RegFile 0 (Inr []))])]"

definition demo_tar :: os_env where
  "demo_tar = demo_os\<lparr>os_untar := (\<lambda>_. (entries [] (Folder demo_tree), None))\<rparr>"

definition demo_dir :: message where
  "demo_dir = demo_base\<lparr>m_mode := ''rsync'', m_dst_path := abs_path [''srv'']\<rparr>"

theorem copied_directory_arrives_witness:
  "\<exists>data frames. createTarArchive (\<lambda>_. [1, 2, 3]) (Folder demo_tree) = Inr data \<and> sendFileFramesWithSize demo_send demo_dir data 2 [] = Some (None, frames) \<and>
    (let s' = td_frames demo_tar [] (map (relayed ''r1'') frames) demo_idle in
       td_fs s' (''/srv/a'') = Some [65, 66] \<and> td_fs s' (''/srv/d/b'') = Some [] \<and> td_sent s' = td_sent demo_idle @ [transfer_ok demo_tar ''r1''])"
proof -
  have gz: "gzip_ok demo_send demo_tar" using demo_send_ok(2) by (simp add: gzip_ok_def demo_tar_def)
  have calm: "calm demo_tar" by (simp add: calm_def demo_tar_def demo_os_def)
  have tidy: "tidy (Folder demo_tree)" by (simp add: demo_tree_def plain_segment_def)
  have places: "placed [''srv''] (Folder demo_tree) ''/srv/a'' = Some [65, 66]" "placed [''srv''] (Folder demo_tree) ''/srv/d/b'' = Some []"
    by (simp_all add: placed_def demo_tree_def abs_path_def)
  obtain data frames where r: "createTarArchive (\<lambda>_. [1, 2, 3]) (Folder demo_tree) = Inr data"
      "sendFileFramesWithSize demo_send demo_dir data 2 [] = Some (None, frames)"
      "td_fs (td_frames demo_tar [] (map (relayed ''r1'') frames) demo_idle) = td_fs demo_idle ++ placed [''srv''] (Folder demo_tree)"
      "td_sent (td_frames demo_tar [] (map (relayed ''r1'') frames) demo_idle) = td_sent demo_idle @ [transfer_ok demo_tar ''r1'']"
    using copied_directory_arrives [OF demo_send_ok(1) gz _ calm _ _ tidy, of 2 "[''srv'']" "\<lambda>_. [1, 2, 3]" demo_dir demo_idle "[]" "''r1''"]
    by (auto simp: demo_dir_def demo_tar_def demo_idle_def plain_segment_def Let_def)
  then show ?thesis by (intro exI [of _ data] exI [of _ frames]) (simp add: Let_def map_add_def places)
qed

text \<open>
  A link makes the whole copy fail. A link is packed with an announced size of 0 and then the
  contents it leads to are written: unless they are empty, or cannot be read either, the packing
  ends with the writer's error and nothing is sent, although the unpacking side skips links.
\<close>

theorem link_aborts_packing:
  assumes "tidy_all before" and "content \<noteq> Inr []"
  shows "createTarArchive enc (Folder (before @ (n, SymLink content) # after)) =
    Inl (case content of Inl e \<Rightarrow> e | Inr d \<Rightarrow> ''archive/tar: write too long'')"
proof -
  have app: "walk_all rel (xs @ ys) w = (case walk_all rel xs w of Inl e \<Rightarrow> Inl e | Inr w1 \<Rightarrow> walk_all rel ys w1)" for rel xs ys w
  proof (induction xs arbitrary: w)
    case (Cons x xs)
    then show ?case by (cases x) (simp split: sum.split)
  qed simp
  have "walk rel (SymLink content) (es, 0) = Inl (case content of Inl e \<Rightarrow> e | Inr d \<Rightarrow> tar_too_long)" for rel es
    using assms(2) by (auto simp: pack_def tw_header_def tw_write_def split: sum.split)
  then show ?thesis
    using walk_tidy(2) [OF assms(1)] by (cases content) (simp_all add: createTarArchive_def tw_header_def app tar_too_long_def)
qed

theorem link_aborts_packing_witness:
  "createTarArchive (\<lambda>_. [1]) (Folder ([(''a'', RegFile 1 (Inr [65]))] @ (''l'', SymLink (Inr [66])) # [])) = Inl ''archive/tar: write too long''"
  using link_aborts_packing [of "[(''a'', RegFile 1 (Inr [65]))]" "Inr [66]" "\<lambda>_. [1]" "''l''" "[]"] by (simp add: plain_segment_def)

end
