(* ===== verification/ClientSession.thy ===== *)
theory ClientSession
  imports Client
begin

text \<open>
  The persistent client (client_session.go): one relay connection, many commands, replies routed to
  the waiting call by id. A call that waits has a channel of one message under its id. Everything
  but the waiting is one step of a call or of the read loop.
\<close>

section \<open>State\<close>

record session =
  ss_pending :: "string set" \<comment> \<open>the keys of \<open>pending\<close>\<close>
  ss_chan :: "string \<Rightarrow> message option" \<comment> \<open>the channel of a call\<close>
  ss_reading :: bool \<comment> \<open>the read loop is running\<close>
  ss_sent :: "message list"

definition newClientSession :: "string option \<Rightarrow> string + session" where
  "newClientSession dial =
     (case dial of Some e \<Rightarrow> Inl (''connect to relay: '' @ e)
      | None \<Rightarrow> Inr \<lparr>ss_pending = {}, ss_chan = (\<lambda>_. None), ss_reading = True, ss_sent = []\<rparr>)"

section \<open>The read loop\<close>

definition closed_msg :: message where
  "closed_msg = empty_message\<lparr>m_type := ''result'', m_ok := Some False, m_error := ''connection closed''\<rparr>"

definition put_chan :: "message \<Rightarrow> message option \<Rightarrow> message option" where
  "put_chan m ch = (case ch of None \<Rightarrow> Some m | Some old \<Rightarrow> Some old)"

definition session_read :: "string + message \<Rightarrow> session \<Rightarrow> session" where
  "session_read r ss =
     (if \<not> ss_reading ss then ss
      else case r of
        Inl e \<Rightarrow> ss\<lparr>ss_chan := (\<lambda>i. if i \<in> ss_pending ss then put_chan closed_msg (ss_chan ss i) else ss_chan ss i),
                  ss_pending := {}, ss_reading := False\<rparr>
      | Inr m \<Rightarrow>
          if m_id m \<in> ss_pending ss then
            ss\<lparr>ss_pending := ss_pending ss - {m_id m}, ss_chan := (ss_chan ss)(m_id m := put_chan m (ss_chan ss (m_id m)))\<rparr>
          else ss)"

section \<open>A call\<close>

text \<open>\<open>Exec\<close> up to its wait: a fresh channel is registered before the request is written.\<close>

definition exec_start :: "config_file \<Rightarrow> string \<Rightarrow> string \<Rightarrow> string \<Rightarrow> int \<Rightarrow> string option \<Rightarrow> session \<Rightarrow> string option \<times> session" where
  "exec_start f i target cmd timeout write ss =
     (case loadConfig f of
        Inl e \<Rightarrow> (Some (''load config: '' @ e), ss)
      | Inr c \<Rightarrow>
          (case cf_targets c target of
             None \<Rightarrow> (Some (''unknown target '' @ quoted target), ss)
           | Some t \<Rightarrow>
               (let ss1 = ss\<lparr>ss_pending := insert i (ss_pending ss), ss_chan := (ss_chan ss)(i := None)\<rparr>
                in case write of
                     Some e \<Rightarrow> (Some (''send request: '' @ e), ss1\<lparr>ss_pending := ss_pending ss1 - {i}\<rparr>)
                   | None \<Rightarrow> (None, ss1\<lparr>ss_sent := ss_sent ss1 @ [exec_request i target t cmd timeout False []]\<rparr>))))"

text \<open>The end of the wait: the message in the channel, or the timeout.\<close>

definition exec_wait :: "string \<Rightarrow> string \<Rightarrow> bool \<Rightarrow> session \<Rightarrow> (string + message) option \<times> session" where
  "exec_wait i target expired ss =
     (case ss_chan ss i of
        Some m \<Rightarrow> (Some (Inr m), ss)
      | None \<Rightarrow> if expired then (Some (Inl (''timed out waiting for response from '' @ quoted target)), ss\<lparr>ss_pending := ss_pending ss - {i}\<rparr>)
                else (None, ss))"

section \<open>The command loop\<close>

text \<open>A line of the standard input as the decoder finds it.\<close>

datatype session_line = Skipped | BadLine string | Command string string int

definition accept_line :: "session_line \<Rightarrow> string + (string \<times> string \<times> int) option" where
  "accept_line l =
     (case l of
        Skipped \<Rightarrow> Inr None
      | BadLine e \<Rightarrow> Inl (''Error: invalid JSON: '' @ e)
      | Command target cmd timeout \<Rightarrow>
          if target = '''' \<or> cmd = '''' then Inl ''Error: target and cmd are required''
          else Inr (Some (target, cmd, if timeout \<le> 0 then 30 else timeout)))"

text \<open>\<open>Exec\<close> as a whole: the call starts, the read loop takes what arrives before the time is over, and
  the call returns.\<close>

definition session_exec ::
    "config_file \<Rightarrow> string \<Rightarrow> string \<Rightarrow> string \<Rightarrow> int \<Rightarrow> string option \<Rightarrow> (string + message) list \<Rightarrow> session \<Rightarrow> (string + message) \<times> session" where
  "session_exec f i target cmd timeout write reads ss =
     (case exec_start f i target cmd timeout write ss of
        (Some e, ss1) \<Rightarrow> (Inl e, ss1)
      | (None, ss1) \<Rightarrow>
          (case exec_wait i target True (fold session_read reads ss1) of
             (Some r, ss2) \<Rightarrow> (r, ss2)
           | (None, ss2) \<Rightarrow> (Inl '''', ss2)))"

text \<open>What happens while one line of the input is worked on: the id drawn, the error of the write, the
  replies that arrive in its time.\<close>

record line_run =
  ln_id :: string
  ln_write :: "string option"
  ln_reads :: "(string + message) list"

datatype session_output = OutError string | OutResult message | Complains string

text \<open>\<open>handleClientSubcommand\<close>: what it refuses to start with, and its loop. \<open>OutError\<close> and \<open>OutResult\<close> are
  lines of the standard output, \<open>Complains\<close> one of the error output.\<close>

definition client_start :: "config_file \<Rightarrow> string option \<Rightarrow> cliError + session" where
  "client_start f dial =
     (case loadConfig f of
        Inl e \<Rightarrow> Inl (failErrCode ExitConfigError e [])
      | Inr c \<Rightarrow>
          if rl_url (cf_relay c) = '''' then
            Inl (fail ExitConfigError ''not_configured'' ''relay not configured'' [''remotecmd-cli set-relay --url <url> --name <name>''])
          else case newClientSession dial of Inl e \<Rightarrow> Inl (failErr e []) | Inr ss \<Rightarrow> Inr ss)"

fun client_loop :: "config_file \<Rightarrow> (session_line \<times> line_run) list \<Rightarrow> session \<Rightarrow> session_output list \<times> session" where
  "client_loop f [] ss = ([], ss)"
| "client_loop f ((l, r) # ls) ss =
     (case accept_line l of
        Inl e \<Rightarrow> (case client_loop f ls ss of (out, ss') \<Rightarrow> (Complains e # out, ss'))
      | Inr None \<Rightarrow> client_loop f ls ss
      | Inr (Some (target, cmd, timeout)) \<Rightarrow>
          (case session_exec f (ln_id r) target cmd timeout (ln_write r) (ln_reads r) ss of
             (res, ss1) \<Rightarrow>
               (case client_loop f ls ss1 of
                  (out, ss') \<Rightarrow> ((case res of Inl e \<Rightarrow> OutError e | Inr m \<Rightarrow> OutResult m) # out, ss'))))"

section \<open>Properties\<close>

definition session_reads :: "(string + message) list \<Rightarrow> session \<Rightarrow> session" where
  "session_reads rs ss = fold session_read rs ss"

text \<open>What a waiting call gets: the first message under its id, or the notice that the connection
  broke, if that comes first.\<close>

fun first_reply :: "string \<Rightarrow> (string + message) list \<Rightarrow> message option" where
  "first_reply i [] = None"
| "first_reply i (Inl e # rs) = Some closed_msg"
| "first_reply i (Inr m # rs) = (if m_id m = i then Some m else first_reply i rs)"

lemma not_pending_keeps: "i \<notin> ss_pending ss \<Longrightarrow> ss_chan (session_reads rs ss) i = ss_chan ss i"
proof (induction rs arbitrary: ss)
  case (Cons r rs)
  have "i \<notin> ss_pending (session_read r ss)" "ss_chan (session_read r ss) i = ss_chan ss i"
    using Cons.prems by (auto simp: session_read_def split: sum.split)
  with Cons.IH show ?case by (simp add: session_reads_def)
qed (simp add: session_reads_def)

lemma waiting_gets_first:
  assumes "i \<in> ss_pending ss" "ss_chan ss i = None" "ss_reading ss"
  shows "ss_chan (session_reads rs ss) i = first_reply i rs"
  using assms
proof (induction rs arbitrary: ss)
  case (Cons r rs)
  have run: "session_reads (r # rs) ss = session_reads rs (session_read r ss)" by (simp add: session_reads_def)
  show ?case
  proof (cases r)
    case (Inl e)
    have "i \<notin> ss_pending (session_read r ss)" "ss_chan (session_read r ss) i = Some closed_msg"
      using Cons.prems by (simp_all add: session_read_def Inl put_chan_def)
    then show ?thesis using run by (simp add: not_pending_keeps Inl)
  next
    case (Inr m)
    show ?thesis
    proof (cases "m_id m = i")
      case True
      have "i \<notin> ss_pending (session_read r ss)" "ss_chan (session_read r ss) i = Some m"
        using Cons.prems True by (auto simp: session_read_def Inr put_chan_def)
      then show ?thesis using True run by (simp add: not_pending_keeps Inr)
    next
      case False
      have "i \<in> ss_pending (session_read r ss)" "ss_chan (session_read r ss) i = None" "ss_reading (session_read r ss)"
        using Cons.prems False by (simp_all add: session_read_def Inr)
      from Cons.IH [OF this] show ?thesis using False run by (simp add: Inr)
    qed
  qed
qed (simp add: session_reads_def)

text \<open>
  Each call gets its own reply. On a session whose read loop runs, with any other calls waiting:
  a call whose request was written gets, whatever the loop reads, the first message under its own
  id, or the notice that the connection broke when that comes first; calls that wait already are
  not touched by its start.
\<close>

theorem session_call_gets_its_reply:
  assumes "exec_start f i target cmd timeout write ss = (None, ss1)" and "ss_reading ss" and "j \<noteq> i"
  shows "fst (exec_wait i target False (session_reads rs ss1)) = map_option Inr (first_reply i rs) \<and>
    (j \<in> ss_pending ss1 \<longleftrightarrow> j \<in> ss_pending ss) \<and> ss_chan ss1 j = ss_chan ss j \<and> m_id (last (ss_sent ss1)) = i"
proof -
  have s1: "i \<in> ss_pending ss1" "ss_chan ss1 i = None" "ss_reading ss1"
    using assms(1,2) by (auto simp: exec_start_def Let_def split: sum.splits option.splits)
  from waiting_gets_first [OF this, of rs] have "fst (exec_wait i target False (session_reads rs ss1)) = map_option Inr (first_reply i rs)"
    by (simp add: exec_wait_def split: option.split)
  then show ?thesis
    using assms(1,3) by (auto simp: exec_start_def exec_request_def Let_def split: sum.splits option.splits)
qed

definition demo_session :: session where
  "demo_session = \<lparr>ss_pending = {''other''}, ss_chan = (\<lambda>_. None), ss_reading = True, ss_sent = []\<rparr>"

theorem session_call_gets_its_reply_witness:
  "let f = HoldsConfig (empty_config\<lparr>cf_targets := [''b'' \<mapsto> \<lparr>tg_token = ''tok'', tg_relayName = ''box''\<rparr>]\<rparr>);
       ss1 = snd (exec_start f ''q'' ''b'' ''ls'' 30 None demo_session); m = empty_message\<lparr>m_id := ''q'', m_stdout := ''x''\<rparr>
   in fst (exec_wait ''q'' ''b'' False (session_reads [Inr (empty_message\<lparr>m_id := ''other''\<rparr>), Inr m] ss1)) = Some (Inr m)"
proof -
  let ?f = "HoldsConfig (empty_config\<lparr>cf_targets := [''b'' \<mapsto> \<lparr>tg_token = ''tok'', tg_relayName = ''box''\<rparr>]\<rparr>)"
  let ?m = "empty_message\<lparr>m_id := ''q'', m_stdout := ''x''\<rparr>"
  obtain ss1 where s: "exec_start ?f ''q'' ''b'' ''ls'' 30 None demo_session = (None, ss1)"
    by (simp add: exec_start_def loadConfig_def Let_def)
  have "ss_reading demo_session" by (simp add: demo_session_def)
  from session_call_gets_its_reply [OF s this, of "''other''" "[Inr (empty_message\<lparr>m_id := ''other''\<rparr>), Inr ?m]"]
  show ?thesis by (simp add: s)
qed

text \<open>
  A call made after the connection has broken waits for its timeout: the read loop is gone, so
  when its write still succeeds nothing it could be answered with is ever read, and it returns only
  when its time has expired, with the timeout's error and not with the connection's.
\<close>

theorem broken_session_times_out:
  assumes "ss_reading ss" and "exec_start f i target cmd timeout write (session_read (Inl e) ss) = (None, ss1)"
  shows "fst (exec_wait i target False (session_reads rs ss1)) = None \<and>
    fst (exec_wait i target True (session_reads rs ss1)) = Some (Inl (''timed out waiting for response from '' @ quoted target))"
proof -
  have "\<not> ss_reading ss1" "ss_chan ss1 i = None"
    using assms by (auto simp: exec_start_def session_read_def Let_def split: sum.splits option.splits)
  moreover have "\<not> ss_reading s \<Longrightarrow> session_reads rs s = s" for s
    by (induction rs arbitrary: s) (simp_all add: session_reads_def session_read_def)
  ultimately show ?thesis by (simp add: exec_wait_def)
qed

theorem broken_session_times_out_witness:
  "let f = HoldsConfig (empty_config\<lparr>cf_targets := [''b'' \<mapsto> \<lparr>tg_token = ''tok'', tg_relayName = ''box''\<rparr>]\<rparr>);
       ss1 = snd (exec_start f ''q'' ''b'' ''ls'' 30 None (session_read (Inl ''EOF'') demo_session))
   in fst (exec_wait ''q'' ''b'' False (session_reads [Inr (empty_message\<lparr>m_id := ''q''\<rparr>)] ss1)) = None"
proof -
  let ?f = "HoldsConfig (empty_config\<lparr>cf_targets := [''b'' \<mapsto> \<lparr>tg_token = ''tok'', tg_relayName = ''box''\<rparr>]\<rparr>)"
  obtain ss1 where s: "exec_start ?f ''q'' ''b'' ''ls'' 30 None (session_read (Inl ''EOF'') demo_session) = (None, ss1)"
    by (simp add: exec_start_def loadConfig_def Let_def)
  have "ss_reading demo_session" by (simp add: demo_session_def)
  from broken_session_times_out [OF this s] show ?thesis by (simp add: s)
qed

section \<open>The loop\<close>

lemma session_exec_own_reply:
  assumes "session_exec f i target cmd timeout write reads ss = (Inr m, ss')"
  shows "m_id m = i \<or> m = closed_msg"
proof -
  obtain ss1 where s: "exec_start f i target cmd timeout write ss = (None, ss1)" and w: "exec_wait i target True (session_reads reads ss1) = (Some (Inr m), ss')"
    using assms by (auto simp: session_exec_def session_reads_def split: prod.splits option.splits)
  then have c: "ss_chan (session_reads reads ss1) i = Some m" by (auto simp: exec_wait_def split: option.splits)
  have s1: "i \<in> ss_pending ss1" "ss_chan ss1 i = None" "ss_reading ss1 = ss_reading ss"
    using s by (auto simp: exec_start_def Let_def split: sum.splits option.splits)
  show ?thesis
  proof (cases "ss_reading ss")
    case True
    then have "first_reply i reads = Some m" using waiting_gets_first [of i ss1 reads] s1 c by simp
    then show ?thesis by (induction i reads rule: first_reply.induct) (auto split: if_splits)
  next
    case False
    then have "session_reads reads ss1 = ss1"
      using s1(3) by (induction reads) (simp_all add: session_reads_def session_read_def)
    then show ?thesis using c s1 by simp
  qed
qed

text \<open>The commands among the lines, with their ids.\<close>

fun commands_of :: "(session_line \<times> line_run) list \<Rightarrow> string list" where
  "commands_of [] = []"
| "commands_of ((l, r) # ls) = (case accept_line l of Inr (Some c) \<Rightarrow> ln_id r # commands_of ls | _ \<Rightarrow> commands_of ls)"

definition answers :: "session_output list \<Rightarrow> session_output list" where
  "answers out = filter (\<lambda>x. case x of Complains e \<Rightarrow> False | _ \<Rightarrow> True) out"

lemma answers_simps [simp]:
  "answers [] = []" "answers (OutError e # out) = OutError e # answers out" "answers (OutResult m # out) = OutResult m # answers out"
  "answers (Complains e # out) = answers out"
  by (simp_all add: answers_def)

text \<open>
  C34. The client keeps the replies apart. Whatever lines it is given and whatever arrives while it works
  on them, late replies to earlier commands included: it prints one answer for each command it
  accepts, in their order, and an answer that is a message from the relay carries the id of its own
  command.
\<close>

theorem client_keeps_replies_apart:
  "list_all2 (\<lambda>i x. case x of OutResult m \<Rightarrow> m_id m = i \<or> m = closed_msg | OutError e \<Rightarrow> True | Complains e \<Rightarrow> False)
     (commands_of ls) (answers (fst (client_loop f ls ss)))"
proof (induction ls arbitrary: ss)
  case (Cons lr ls)
  obtain l r where lr: "lr = (l, r)" by (cases lr) auto
  show ?case
  proof (cases "accept_line l")
    case (Inl e)
    then show ?thesis using Cons [of ss] lr by (cases "client_loop f ls ss") simp
  next
    case (Inr c)
    show ?thesis
    proof (cases c)
      case None
      then show ?thesis using Cons [of ss] Inr lr by simp
    next
      case (Some x)
      obtain target cmd timeout where x: "x = (target, cmd, timeout)" by (cases x) auto
      obtain res ss1 where e: "session_exec f (ln_id r) target cmd timeout (ln_write r) (ln_reads r) ss = (res, ss1)" by fastforce
      obtain out ss2 where o: "client_loop f ls ss1 = (out, ss2)" by fastforce
      have "m_id m = ln_id r \<or> m = closed_msg" if "res = Inr m" for m
        using session_exec_own_reply e that by blast
      then show ?thesis using Cons [of ss1] by (cases res) (simp_all add: lr Inr Some x e o)
    qed
  qed
qed simp

end
