(* ===== verification/Versions.thy ===== *)
theory Versions
  imports Prelude
begin

text \<open>
  Version numbers (version.go, the pure half of daemonversion.go): the version a build reports,
  reading a version out of a command's output, and the order on versions. The order is compared
  with a linear order on \<open>semver\<close>, the abstract versions.
\<close>

section \<open>The version of a build\<close>

definition nextVersion :: string where "nextVersion = ''2.7.0''"

text \<open>\<open>vcs\<close> is the commit and the dirty flag the build recorded.\<close>

definition resolveVersion :: "string \<Rightarrow> string \<times> bool \<Rightarrow> string" where
  "resolveVersion release vcs =
     (if release \<noteq> '''' then release
      else (let v = nextVersion @ ''-dev''; (rev, modified) = vcs
            in if rev = '''' then v
               else v @ ''+'' @ take 7 rev @ (if modified then ''.dirty'' else '''')))"

section \<open>Reading versions\<close>

text \<open>Major, minor and patch; further parts are ignored, missing ones are 0. \<open>None\<close> when one of the
  parts read is not a number.\<close>

definition versionNumbers :: "string \<Rightarrow> int list option" where
  "versionNumbers s =
     (let parts = take 3 (go_split (CHR ''.'') (takeWhile (\<lambda>c. c \<notin> {CHR ''-'', CHR ''+'', CHR '' ''}) (trim_prefix s ''v'')));
          nums = map go_atoi parts
      in if None \<in> set nums then None else Some (map the nums @ replicate (3 - length nums) 0))"

definition isPrerelease :: "string \<Rightarrow> bool" where
  "isPrerelease v \<longleftrightarrow> CHR ''-'' \<in> set (takeWhile (\<lambda>c. c \<noteq> CHR ''+'') v)"

definition versionLess :: "string \<Rightarrow> string \<Rightarrow> bool" where
  "versionLess a b =
     (case versionNumbers a of None \<Rightarrow> False
      | Some x \<Rightarrow> (case versionNumbers b of None \<Rightarrow> False
          | Some y \<Rightarrow>
              (case filter (\<lambda>i. x ! i \<noteq> y ! i) [0, 1, 2] of
                 i # _ \<Rightarrow> x ! i < y ! i
               | [] \<Rightarrow> isPrerelease a \<and> \<not> isPrerelease b)))"

fun version_in :: "string list \<Rightarrow> string option" where
  "version_in (f # g # fs) = (if f = ''version'' \<and> versionNumbers g \<noteq> None then Some g else version_in (g # fs))"
| "version_in _ = None"

definition parseDaemonVersion :: "string \<Rightarrow> string" where
  "parseDaemonVersion out =
     (case List.map_filter (\<lambda>line. version_in (go_fields line)) (go_split (CHR 0x0A) out) of v # _ \<Rightarrow> v | [] \<Rightarrow> '''')"

text \<open>What the \<open>version\<close> command prints.\<close>

definition version_line :: "string \<Rightarrow> string" where
  "version_line v = ''remotecmd-cli version '' @ v @ [CHR 0x0A]"

definition minDaemonVersion :: "string \<Rightarrow> string" where
  "minDaemonVersion feature = (if feature = ''stdin'' \<or> feature = ''cp'' then ''1.8.0'' else '''')"

section \<open>Abstract versions\<close>

datatype semver = Semver (sv_major: int) (sv_minor: int) (sv_patch: int) (sv_release: bool)

instantiation semver :: linorder
begin

definition less_semver :: "semver \<Rightarrow> semver \<Rightarrow> bool" where
  "a < b \<longleftrightarrow> sv_major a < sv_major b \<or> sv_major a = sv_major b \<and>
     (sv_minor a < sv_minor b \<or> sv_minor a = sv_minor b \<and>
       (sv_patch a < sv_patch b \<or> sv_patch a = sv_patch b \<and> \<not> sv_release a \<and> sv_release b))"

definition less_eq_semver :: "semver \<Rightarrow> semver \<Rightarrow> bool" where
  "a \<le> b \<longleftrightarrow> a = b \<or> a < (b :: semver)"

instance
proof
  fix a b c :: semver
  show "(a < b) = (a \<le> b \<and> \<not> b \<le> a)" by (auto simp: less_eq_semver_def less_semver_def)
  show "a \<le> a" by (simp add: less_eq_semver_def)
  show "a \<le> b \<Longrightarrow> b \<le> c \<Longrightarrow> a \<le> c" by (auto simp: less_eq_semver_def less_semver_def)
  show "a \<le> b \<Longrightarrow> b \<le> a \<Longrightarrow> a = b" by (auto simp: less_eq_semver_def less_semver_def)
  show "a \<le> b \<or> b \<le> a" by (cases a; cases b) (auto simp: less_eq_semver_def less_semver_def)
qed

end

definition semver_of :: "string \<Rightarrow> semver option" where
  "semver_of s = map_option (\<lambda>x. Semver (x ! 0) (x ! 1) (x ! 2) (\<not> isPrerelease s)) (versionNumbers s)"

lemma versionLess_semver: "versionLess a b = (case (semver_of a, semver_of b) of (Some x, Some y) \<Rightarrow> x < y | _ \<Rightarrow> False)"
  by (auto simp: versionLess_def semver_of_def less_semver_def split: option.split)

section \<open>Properties\<close>


lemma dev_semver: "semver_of (nextVersion @ ''-dev'' @ t) = Some (Semver 2 7 0 False)" "semver_of nextVersion = Some (Semver 2 7 0 True)"
  by (simp_all add: semver_of_def versionNumbers_def nextVersion_def trim_prefix_def has_prefix_def go_atoi_def digit_val_def
      go_int_range_def isPrerelease_def Let_def)

text \<open>
  A development build sorts between releases: whatever the commit, it is older than the next
  release, no two of them are ordered, and every release older than the next one is older than the
  build.
\<close>

theorem dev_build_sorts_between:
  assumes "versionLess a nextVersion" and "\<not> isPrerelease a"
  shows "versionLess (resolveVersion '''' vcs) nextVersion \<and> \<not> versionLess (resolveVersion '''' vcs) (resolveVersion '''' vcs') \<and>
    versionLess a (resolveVersion '''' vcs)"
proof -
  have dev: "semver_of (resolveVersion '''' v) = Some (Semver 2 7 0 False)" for v
    using dev_semver(1) [of "''''"] dev_semver(1) by (cases v) (simp add: resolveVersion_def Let_def)
  obtain x where x: "semver_of a = Some x" "x < Semver 2 7 0 True"
    using assms(1) by (auto simp: versionLess_semver dev_semver(2) split: option.splits)
  then have "sv_release x" using assms(2) by (auto simp: semver_of_def)
  then show ?thesis using x by (simp add: versionLess_semver dev dev_semver(2) less_semver_def)
qed

theorem dev_build_sorts_between_witness:
  "versionLess ''v2.6.1'' (resolveVersion '''' (''0123456789'', True))"
  using dev_build_sorts_between [of "''v2.6.1''" "(''0123456789'', True)"]
  by (simp add: versionLess_def versionNumbers_def nextVersion_def trim_prefix_def has_prefix_def go_atoi_def digit_val_def
      go_int_range_def isPrerelease_def Let_def)

text \<open>
  A version survives being printed and read: what the \<open>version\<close> command prints for a version
  that starts with numbers and has no blank in it is read back as that version.
\<close>

theorem printed_version_is_read:
  assumes "versionNumbers v \<noteq> None" and "\<not> list_ex go_space v"
  shows "parseDaemonVersion (version_line v) = v"
proof -
  have v: "\<forall>c\<in>set v. \<not> go_space c" using assms(2) by (simp add: list_ex_iff)
  have "v \<noteq> ''''" using assms(1) by (auto simp: versionNumbers_def trim_prefix_def has_prefix_def go_atoi_def)
  moreover have "go_fields_from '''' v = (if v = '''' then [] else [v])" using go_fields_word [OF v, of "''''" "''''"] by simp
  ultimately have fields: "go_fields (''remotecmd-cli version '' @ v) = [''remotecmd-cli'', ''version'', v]"
    by (simp add: go_fields_def go_space_def)
  have "CHR 0x0A \<notin> set v" using v by (auto simp: go_space_def)
  then have "go_split (CHR 0x0A) ((''remotecmd-cli version '' @ v) @ CHR 0x0A # '''') = [''remotecmd-cli version '' @ v, '''']"
    by (subst go_split_cons) simp_all
  then show ?thesis
    using fields assms(1) by (simp add: parseDaemonVersion_def version_line_def List.map_filter_def del: append_Cons)
qed

theorem printed_version_is_read_witness: "parseDaemonVersion (version_line ''1.0.0-cloud'') = ''1.0.0-cloud''"
  by (rule printed_version_is_read)
     (simp_all add: versionNumbers_def trim_prefix_def has_prefix_def go_atoi_def digit_val_def go_int_range_def go_space_def Let_def)

end
