(* ===== verification/Health.thy ===== *)
theory Health
  imports Client Versions
begin

text \<open>
  The health of the targets (health.go, and the half of daemonversion.go that reads the cache): a
  probe of many targets in one round trip, the cache of what they answered, and the two views of
  it. Times are nanoseconds; \<open>None\<close> is the zero time. A probe's network is a \<open>probe\<close>, as in
  \<open>multiExecRaw\<close>; \<open>pr_ms\<close> is how long it took.
\<close>

section \<open>The cache\<close>

record target_health =
  th_lastCheck :: "int option"
  th_lastSeen :: "int option"
  th_status :: string
  th_hostname :: string
  th_latencyMs :: int
  th_error :: string
  th_version :: string

definition no_health :: target_health where
  "no_health = \<lparr>th_lastCheck = None, th_lastSeen = None, th_status = '''', th_hostname = '''', th_latencyMs = 0, th_error = '''', th_version = ''''\<rparr>"

type_synonym health_cache = "string \<rightharpoonup> target_health"

datatype health_file = NoHealth | BadHealth string | HoldsHealth health_cache

definition loadHealthCache :: "health_file \<Rightarrow> string + health_cache" where
  "loadHealthCache f = (case f of NoHealth \<Rightarrow> Inr Map.empty | BadHealth e \<Rightarrow> Inl e | HoldsHealth c \<Rightarrow> Inr c)"

definition saveHealthCache :: "fs_env \<Rightarrow> health_cache \<Rightarrow> health_file \<Rightarrow> string option \<times> health_file" where
  "saveHealthCache env c f =
     (case fe_mkdir env of Some e \<Rightarrow> (Some e, f)
      | None \<Rightarrow> (case fe_open env of Some e \<Rightarrow> (Some e, f)
          | None \<Rightarrow> (case fe_write env of Some e \<Rightarrow> (Some e, BadHealth (fe_torn env)) | None \<Rightarrow> (None, HoldsHealth c))))"

text \<open>Reading a map at a missing key gives the zero value.\<close>

definition health_of :: "health_cache \<Rightarrow> string \<Rightarrow> target_health" where
  "health_of c alias = (case c alias of None \<Rightarrow> no_health | Some h \<Rightarrow> h)"

section \<open>Probing\<close>

record probe =
  pr_dial :: "string option"
  pr_write :: "string option"
  pr_id :: string
  pr_events :: "read_event list"
  pr_ms :: int

definition run_probe :: "config_file \<Rightarrow> probe \<Rightarrow> (string + message) option" where
  "run_probe f p = multiExecRaw f (pr_dial p) (pr_write p) (pr_id p) (pr_events p)"

definition all_down :: "int \<Rightarrow> string \<Rightarrow> string list \<Rightarrow> health_cache" where
  "all_down now e aliases =
     fold (\<lambda>a res. res(a \<mapsto> no_health\<lparr>th_lastCheck := Some now, th_status := ''down'', th_error := e\<rparr>)) aliases Map.empty"

definition probed :: "int \<Rightarrow> int \<Rightarrow> message0 option \<Rightarrow> target_health" where
  "probed now ms r =
     (case r of
        None \<Rightarrow> no_health\<lparr>th_lastCheck := Some now, th_status := ''down'', th_latencyMs := ms, th_error := ''no result from relay''\<rparr>
      | Some r \<Rightarrow>
          if m_ok r \<noteq> Some True then no_health\<lparr>th_lastCheck := Some now, th_status := ''down'', th_latencyMs := ms, th_error := m_error r\<rparr>
          else no_health\<lparr>th_lastCheck := Some now, th_lastSeen := Some now, th_status := ''up'', th_hostname := trim_space (m_stdout r),
                 th_latencyMs := ms, th_version := m_daemon_version r\<rparr>)"

text \<open>The alias of a relay name; of several aliases, the last one.\<close>

definition alias_by_relay :: "string list \<Rightarrow> string list \<Rightarrow> string \<Rightarrow> string" where
  "alias_by_relay resolved aliases r = the (map_of (rev (zip resolved aliases)) r)"

definition probeDaemonVersions :: "config_file \<Rightarrow> probe \<Rightarrow> string list \<Rightarrow> (string \<Rightarrow> string) \<Rightarrow> health_cache \<Rightarrow> health_cache option" where
  "probeDaemonVersions f p resolved by_relay results =
     (let need = filter (\<lambda>r. th_status (health_of results (by_relay r)) = ''up'' \<and> th_version (health_of results (by_relay r)) = '''') resolved
      in if need = [] then Some results
         else case run_probe f p of
           None \<Rightarrow> None
         | Some (Inl e) \<Rightarrow> Some results
         | Some (Inr m) \<Rightarrow> Some (fold (\<lambda>r res.
             case results_of m r of None \<Rightarrow> res
             | Some q \<Rightarrow>
                 let v = parseDaemonVersion (m_stdout q)
                 in if m_ok q \<noteq> Some True \<or> v = '''' then res
                    else res(by_relay r \<mapsto> (health_of res (by_relay r))\<lparr>th_version := v\<rparr>)) need results))"

text \<open>\<open>None\<close> is a call that still waits; \<open>p2\<close> is the second round trip, if there is one.\<close>

definition pingTargets :: "config_file \<Rightarrow> probe \<Rightarrow> probe \<Rightarrow> int \<Rightarrow> string list \<Rightarrow> health_cache option" where
  "pingTargets f p1 p2 now aliases =
     (if aliases = [] then Some Map.empty
      else case resolveRelayTargets f aliases of
        Inl e \<Rightarrow> Some (all_down now e aliases)
      | Inr (resolved, toks) \<Rightarrow>
          (case run_probe f p1 of
             None \<Rightarrow> None
           | Some (Inl e) \<Rightarrow> Some (all_down now e aliases)
           | Some (Inr m) \<Rightarrow>
               probeDaemonVersions f p2 resolved (alias_by_relay resolved aliases)
                 (fold (\<lambda>r res. res(alias_by_relay resolved aliases r \<mapsto> probed now (pr_ms p1) (results_of m r))) resolved Map.empty)))"

section \<open>Listing\<close>

definition healthCheckInterval :: int where "healthCheckInterval = 60 * 60 * 10 ^ 9"

definition stale_health :: "int \<Rightarrow> target_health option \<Rightarrow> bool" where
  "stale_health now h =
     (case h of None \<Rightarrow> True | Some h \<Rightarrow> (case th_lastCheck h of None \<Rightarrow> True | Some t \<Rightarrow> now - t > healthCheckInterval))"

definition merge_health :: "health_cache \<Rightarrow> health_cache \<Rightarrow> health_cache" where
  "merge_health fresh cache = (\<lambda>a.
     case fresh a of None \<Rightarrow> cache a
     | Some h \<Rightarrow> Some (if th_version h = '''' then h\<lparr>th_version := th_version (health_of cache a)\<rparr> else h))"

text \<open>What \<open>listTargetsSmart\<close> does before it prints: the cache it prints and the file it leaves.
  \<open>names\<close> are the aliases in the configuration, sorted.\<close>

definition refresh_health ::
    "config_file \<Rightarrow> fs_env \<Rightarrow> probe \<Rightarrow> probe \<Rightarrow> int \<Rightarrow> bool \<Rightarrow> bool \<Rightarrow> string list \<Rightarrow> health_file \<Rightarrow> (health_cache \<times> health_file) option" where
  "refresh_health f env p1 p2 now refresh noHealth names hf =
     (let cache = (case loadHealthCache hf of Inl e \<Rightarrow> Map.empty | Inr c \<Rightarrow> c);
          toProbe = (if noHealth then [] else filter (\<lambda>a. refresh \<or> stale_health now (cache a)) names)
      in if toProbe = [] then Some (cache, hf)
         else case pingTargets f p1 p2 now toProbe of
           None \<Rightarrow> None
         | Some fresh \<Rightarrow> (let c = merge_health fresh cache in Some (c, snd (saveHealthCache env c hf))))"

definition humanDuration :: "int \<Rightarrow> string" where
  "humanDuration d =
     (let s = 10 ^ 9 in
      if d < 30 * s then ''just now''
      else if d < 60 * s then go_itoa (d div s) @ ''s''
      else if d < 60 * 60 * s then go_itoa (d div (60 * s)) @ ''min''
      else if d < 24 * 60 * 60 * s then go_itoa (d div (60 * 60 * s)) @ ''h''
      else go_itoa (d div (60 * 60 * s) div 24) @ ''d'')"

definition agoString :: "int \<Rightarrow> string" where
  "agoString d = (let h = humanDuration d in if h = ''just now'' then h else h @ '' ago'')"

record health_entry =
  he_name :: string
  he_relayName :: string
  he_status :: string
  he_hostname :: string
  he_seenAgo :: string
  he_latencyMs :: int
  he_error :: string
  he_version :: string
  he_outdated :: bool

definition printHealthJSON :: "string \<Rightarrow> int \<Rightarrow> config \<Rightarrow> health_cache \<Rightarrow> string list \<Rightarrow> health_entry list" where
  "printHealthJSON version now c cache names = map (\<lambda>a.
     let h = health_of cache a
     in \<lparr>he_name = a, he_relayName = (case cf_targets c a of None \<Rightarrow> '''' | Some t \<Rightarrow> tg_relayName t),
          he_status = (if th_status h = '''' then ''unknown'' else th_status h), he_hostname = th_hostname h,
          he_seenAgo = (case th_lastSeen h of None \<Rightarrow> '''' | Some t \<Rightarrow> agoString (now - t)),
          he_latencyMs = th_latencyMs h, he_error = th_error h, he_version = th_version h,
          he_outdated = versionLess (th_version h) version\<rparr>) names"

text \<open>A row of the table: name, status, seen, version, hostname.\<close>

definition health_row :: "string \<Rightarrow> int \<Rightarrow> config \<Rightarrow> health_cache \<Rightarrow> string \<Rightarrow> string list" where
  "health_row version now c cache a =
     (let h = health_of cache a; rn = (case cf_targets c a of None \<Rightarrow> '''' | Some t \<Rightarrow> tg_relayName t)
      in [if rn \<noteq> '''' \<and> rn \<noteq> a then a @ '' '' @ arrow @ '' '' @ rn else a,
          if th_status h = '''' then ''unknown'' else th_status h,
          case th_lastSeen h of Some t \<Rightarrow> agoString (now - t)
          | None \<Rightarrow> (case th_lastCheck h of
                Some t \<Rightarrow> if th_status h = ''down'' then ''checked '' @ agoString (now - t) else ''never''
              | None \<Rightarrow> ''never''),
          if th_version h = '''' then ''?'' else if versionLess (th_version h) version then th_version h @ ''*'' else th_version h,
          if th_status h = ''down'' \<and> th_error h \<noteq> '''' then (if length (th_error h) > 30 then take 30 (th_error h) @ ''...'' else th_error h)
          else th_hostname h])"

text \<open>Characters of valid UTF-8: the bytes that do not continue one.\<close>

definition rune_count :: "string \<Rightarrow> nat" where
  "rune_count s = length (filter (\<lambda>c. (of_char c :: nat) div 64 \<noteq> 2) s)"

fun table_line :: "nat list \<Rightarrow> string list \<Rightarrow> string" where
  "table_line ws [] = ''''"
| "table_line ws [c] = c"
| "table_line [] (c # cs) = c @ '' '' @ table_line [] cs"
| "table_line (w # ws) (c # cs) = c @ replicate (w - rune_count c + 1) CHR '' '' @ table_line ws cs"

definition printAlignedTable :: "string list list \<Rightarrow> string list" where
  "printAlignedTable rows =
     (case rows of [] \<Rightarrow> []
      | h # body \<Rightarrow>
          let ws = map (\<lambda>i. Max ((\<lambda>r. rune_count (r ! i)) ` set rows)) [0..<length h];
              ls = map (table_line ws) rows
          in hd ls # replicate (Max (rune_count ` set ls)) CHR ''-'' # tl ls)"

text \<open>The lines printed; \<open>gs\<close> are the group names in sorted order.\<close>

definition printHealthTable :: "string \<Rightarrow> int \<Rightarrow> config \<Rightarrow> health_cache \<Rightarrow> string list \<Rightarrow> string list \<Rightarrow> string list" where
  "printHealthTable version now c cache names gs =
     (if names = [] then [''No targets configured'']
      else printAlignedTable ([''TARGET'', ''STATUS'', ''SEEN'', ''VERSION'', ''HOSTNAME''] # map (health_row version now c cache) names)
           @ ['''', ''VERSION: * = older than this client (v'' @ version @ ''), ? = not reported (Windows/macOS node, or not probed yet)''])
     @ (if dom (cf_groups c) = {} then []
        else '''' # ''Groups:'' # List.map_filter (\<lambda>n. map_option (\<lambda>ms. ''  '' @ n @ '': '' @ go_join '', '' ms) (cf_groups c n)) gs)"

text \<open>The list command: the error that ends it, or what it prints, and the cache file it leaves.
  \<open>names\<close> and \<open>gs\<close> are the sorted names; the old view prints them in the order \<open>ts\<close> and \<open>gs'\<close>
  of the runtime.\<close>

datatype target_view = OldView "string list" | Entries "health_entry list" | Table "string list"

definition listTargetsSmart ::
    "config_file \<Rightarrow> fs_env \<Rightarrow> probe \<Rightarrow> probe \<Rightarrow> string \<Rightarrow> int \<Rightarrow> bool \<Rightarrow> bool \<Rightarrow> bool \<Rightarrow> string list \<Rightarrow> string list \<Rightarrow>
     string list \<Rightarrow> string list \<Rightarrow> health_file \<Rightarrow> ((string + target_view) \<times> health_file) option" where
  "listTargetsSmart f env p1 p2 version now refresh noHealth jsonOut names gs ts gs' hf =
     (if noHealth \<and> \<not> jsonOut
      then Some (case listTargets ts gs' f of Inl e \<Rightarrow> Inl e | Inr ls \<Rightarrow> Inr (OldView ls), hf)
      else case loadConfig f of
        Inl e \<Rightarrow> Some (Inl e, hf)
      | Inr c \<Rightarrow> map_option (\<lambda>(cache, hf'). (Inr (if jsonOut then Entries (printHealthJSON version now c cache names)
                                                    else Table (printHealthTable version now c cache names gs)), hf'))
          (refresh_health f env p1 p2 now refresh noHealth names hf))"

section \<open>Versions from the cache\<close>

definition knownDaemonVersion :: "health_file \<Rightarrow> string \<Rightarrow> string" where
  "knownDaemonVersion hf alias = (case loadHealthCache hf of Inl e \<Rightarrow> '''' | Inr c \<Rightarrow> th_version (health_of c alias))"

definition noteDaemonVersion :: "fs_env \<Rightarrow> string \<Rightarrow> string \<Rightarrow> health_file \<Rightarrow> health_file" where
  "noteDaemonVersion env alias v hf =
     (if alias = '''' \<or> v = '''' then hf
      else case loadHealthCache hf of
        Inl e \<Rightarrow> hf
      | Inr c \<Rightarrow> if th_version (health_of c alias) = v then hf
                 else snd (saveHealthCache env (c(alias \<mapsto> (health_of c alias)\<lparr>th_version := v\<rparr>)) hf))"

definition warnIfDaemonTooOld :: "health_file \<Rightarrow> string \<Rightarrow> string \<Rightarrow> string \<Rightarrow> string option" where
  "warnIfDaemonTooOld hf alias feature consequence =
     (let v = knownDaemonVersion hf alias; mn = minDaemonVersion feature
      in if v = '''' \<or> mn = '''' \<or> \<not> versionLess v mn then None
         else Some (''Warning: '' @ alias @ '' runs daemon v'' @ v @ ''; '' @ feature @ '' needs v'' @ mn @ '' or newer, so '' @
           consequence @ ''. Upgrade the daemon on '' @ alias @ ''.''))"

section \<open>What a probe records\<close>

lemma resolve_all_map: "resolve_all ts as = Inr (rs, toks) \<Longrightarrow> rs = map (\<lambda>a. relay_target a (the (ts a))) as"
  by (induction as arbitrary: rs toks) (auto split: option.splits sum.splits)

lemma resolved_names:
  "resolveRelayTargets f as = Inr (rs, toks) \<Longrightarrow> \<exists>ts. rs = map (\<lambda>a. relay_target a (the (ts a))) as"
  by (auto simp: resolveRelayTargets_def split: sum.splits if_splits dest!: resolve_all_map)

lemma alias_by_relay_inj:
  assumes "inj_on g (set as)" "distinct as" "a \<in> set as"
  shows "alias_by_relay (map g as) as (g a) = a"
proof -
  have "distinct (map fst (rev (zip (map g as) as)))" using assms(1,2) by (simp add: rev_map [symmetric] distinct_map)
  moreover have "(g a, a) \<in> set (rev (zip (map g as) as))" using assms(3) by (auto simp: in_set_zip in_set_conv_nth)
  ultimately show ?thesis by (simp add: alias_by_relay_def)
qed

lemma fold_record: "fold (\<lambda>a res. res(a \<mapsto> h a)) as m = (\<lambda>a. if a \<in> set as then Some (h a) else m a)"
  by (induction as arbitrary: m) (auto simp: fun_eq_iff)

text \<open>The second round trip changes versions only.\<close>

definition sans_version :: "health_cache \<Rightarrow> health_cache" where
  "sans_version c = (\<lambda>a. map_option (\<lambda>h. h\<lparr>th_version := ''''\<rparr>) (c a))"

lemma sans_version_note: "c a = Some h \<Longrightarrow> sans_version (c(a \<mapsto> h\<lparr>th_version := v\<rparr>)) = sans_version c"
  by (auto simp: sans_version_def fun_eq_iff)

lemma probe_versions_sans:
  assumes "probeDaemonVersions f p rs g res = Some res'"
  shows "sans_version res' = sans_version res"
proof -
  define note_one where "note_one m = (\<lambda>r res. case results_of m r of None \<Rightarrow> res
    | Some q \<Rightarrow> let v = parseDaemonVersion (m_stdout q)
                in if m_ok q \<noteq> Some True \<or> v = '''' then res else res(g r \<mapsto> (health_of res (g r))\<lparr>th_version := v\<rparr>))" for m
  have one: "sans_version (note_one m r res) = sans_version res" if "g r \<in> dom res" for m r res
    using that by (auto simp: note_one_def Let_def health_of_def sans_version_note split: option.split)
  have keeps: "dom res \<subseteq> dom (note_one m r res)" for m r res
    by (auto simp: note_one_def Let_def split: option.split)
  have many: "g ` set rs \<subseteq> dom res \<Longrightarrow> sans_version (fold (note_one m) rs res) = sans_version res" for m rs res
  proof (induction rs arbitrary: res)
    case (Cons r rs)
    then have "g ` set rs \<subseteq> dom res" by simp
    then have "g ` set rs \<subseteq> dom (note_one m r res)" by (rule subset_trans [OF _ keeps])
    from Cons.IH [OF this] show ?case using one [of r res m] Cons.prems by simp
  qed simp
  define need where "need = filter (\<lambda>r. th_status (health_of res (g r)) = ''up'' \<and> th_version (health_of res (g r)) = '''') rs"
  have "g ` set need \<subseteq> dom res"
    by (auto simp: need_def health_of_def no_health_def split: option.splits)
  from many [OF this] show ?thesis
    using assms unfolding probeDaemonVersions_def need_def [symmetric] note_one_def [symmetric]
    by (auto simp: Let_def split: if_splits option.splits sum.splits)
qed

section \<open>Properties\<close>

text \<open>
  A probe records every target. When the aliases have different relay names and the relay has
  answered: the result has one entry for each alias and no other, checked now, up with the
  hostname when the relay's result for that target is ok and down otherwise.
\<close>

theorem probe_records_every_target:
  assumes "pingTargets f p1 p2 now aliases = Some res" and "run_probe f p1 = Some (Inr m)"
    and "resolveRelayTargets f aliases = Inr (resolved, toks)" and "distinct resolved"
  shows "dom res = set aliases \<and>
    (\<forall>i < length aliases. \<exists>h. res (aliases ! i) = Some h \<and>
       h\<lparr>th_version := ''''\<rparr> = (probed now (pr_ms p1) (results_of m (resolved ! i)))\<lparr>th_version := ''''\<rparr>)"
proof -
  obtain ts where rs: "resolved = map (\<lambda>a. relay_target a (the (ts a))) aliases" using resolved_names [OF assms(3)] by blast
  let ?g = "\<lambda>a. relay_target a (the (ts a))" and ?by = "alias_by_relay resolved aliases"
  have d: "distinct aliases" "inj_on ?g (set aliases)" using assms(4) by (simp_all add: rs distinct_map)
  define res0 where "res0 = fold (\<lambda>r res. res(?by r \<mapsto> probed now (pr_ms p1) (results_of m r))) resolved Map.empty"
  have "res0 = fold (\<lambda>a res. res(a \<mapsto> probed now (pr_ms p1) (results_of m (?g a)))) aliases Map.empty"
    unfolding res0_def rs fold_map comp_def by (intro fold_cong) (simp_all add: alias_by_relay_inj [OF d(2,1)])
  then have res0: "res0 = (\<lambda>a. if a \<in> set aliases then Some (probed now (pr_ms p1) (results_of m (?g a))) else None)"
    by (simp add: fold_record)
  have same: "sans_version res = sans_version res0"
  proof (cases "aliases = []")
    case True
    then show ?thesis using assms(1) by (simp add: pingTargets_def res0)
  next
    case False
    then show ?thesis using assms(1-3) by (intro probe_versions_sans) (simp add: pingTargets_def res0_def)
  qed
  have at: "map_option (\<lambda>h. h\<lparr>th_version := ''''\<rparr>) (res a) = map_option (\<lambda>h. h\<lparr>th_version := ''''\<rparr>) (res0 a)" for a
    using fun_cong [OF same, of a] by (simp add: sans_version_def)
  have "a \<in> dom res \<longleftrightarrow> a \<in> set aliases" for a using at [of a] by (cases "res a") (auto simp: res0 split: if_splits)
  moreover have "\<exists>h. res a = Some h \<and> h\<lparr>th_version := ''''\<rparr> = (probed now (pr_ms p1) (results_of m (?g a)))\<lparr>th_version := ''''\<rparr>"
    if "a \<in> set aliases" for a
    using at [of a] that by (cases "res a") (auto simp: res0)
  ultimately show ?thesis by (auto simp: rs)
qed

definition health_reply :: "string \<Rightarrow> message" where
  "health_reply n = empty_message\<lparr>m_type := ''multi_result'', m_id := ''q'',
     m_results := Some [n \<mapsto> message0.truncate (okResult ''2.6.0'' '''' ''box1'' '''' 0 3)]\<rparr>"

definition health_probe :: probe where
  "health_probe = \<lparr>pr_dial = None, pr_write = None, pr_id = ''q'', pr_events = [Got (health_reply ''box'')], pr_ms = 7\<rparr>"

definition health_config :: "(string \<rightharpoonup> target_config) \<Rightarrow> config_file" where
  "health_config ts = HoldsConfig (empty_config\<lparr>cf_relay := \<lparr>rl_url = ''http://r'', rl_name = '''', rl_secret = ''''\<rparr>, cf_targets := ts\<rparr>)"

lemma health_probe_answers: "run_probe (health_config ts) health_probe = Some (Inr (health_reply ''box''))"
  by (simp add: run_probe_def multiExecRaw_def health_config_def loadConfig_def health_probe_def health_reply_def empty_message_def)

lemma health_result: "results_of (health_reply n) n = Some (message0.truncate (okResult ''2.6.0'' '''' ''box1'' '''' 0 3))"
  by (simp add: results_of_def health_reply_def)

lemmas health_demo = health_result okResult_def empty_message_def message0.defs

theorem probe_records_every_target_witness:
  "\<exists>res. pingTargets (health_config [''b'' \<mapsto> \<lparr>tg_token = ''t'', tg_relayName = ''box''\<rparr>]) health_probe health_probe 9 [''b''] = Some res \<and>
     dom res = {''b''} \<and> (\<exists>h. res ''b'' = Some h \<and> th_status h = ''up'' \<and> th_hostname h = ''box1'')"
proof -
  let ?f = "health_config [''b'' \<mapsto> \<lparr>tg_token = ''t'', tg_relayName = ''box''\<rparr>]"
  have names: "resolveRelayTargets ?f [''b''] = Inr ([''box''], [''box'' \<mapsto> ''t''])"
    by (simp add: resolveRelayTargets_def health_config_def loadConfig_def relay_target_def)
  obtain res where res: "pingTargets ?f health_probe health_probe 9 [''b''] = Some res"
    using health_probe_answers names
    by (simp add: pingTargets_def probeDaemonVersions_def alias_by_relay_def probed_def health_of_def health_demo)
  note all = probe_records_every_target [OF res health_probe_answers names]
  have trim: "trim_space ''box1'' = ''box1''" by (rule trim_space_id) (simp add: go_space_def)
  obtain h where "res ''b'' = Some h" "h\<lparr>th_version := ''''\<rparr> = (probed 9 7 (results_of (health_reply ''box'') ''box''))\<lparr>th_version := ''''\<rparr>"
    using all by (auto simp: health_probe_def)
  then have "th_status (h\<lparr>th_version := ''''\<rparr>) = ''up''" "th_hostname (h\<lparr>th_version := ''''\<rparr>) = ''box1''"
    by (simp_all add: probed_def health_demo trim)
  then show ?thesis using res all \<open>res ''b'' = Some h\<close> by auto
qed

text \<open>
  Of two aliases for one node only the last is recorded: the other gets no entry at all, so it
  is shown as unknown and probed again by every listing.
\<close>

theorem shared_node_is_recorded_once:
  assumes "loadConfig f = Inr c" and "rl_url (cf_relay c) \<noteq> ''''" and "cf_targets c a = Some t" and "cf_targets c b = Some u"
    and "a \<noteq> b" and "relay_target a t = relay_target b u"
    and "run_probe f p1 = Some (Inr m)" and "pingTargets f p1 p2 now [a, b] = Some res"
  shows "res a = None \<and> stale_health now' (merge_health res Map.empty a)"
proof -
  let ?n = "relay_target b u"
  obtain toks where names: "resolveRelayTargets f [a, b] = Inr ([?n, ?n], toks)"
    using assms(1-6) by (auto simp: resolveRelayTargets_def)
  have by_b: "alias_by_relay [?n, ?n] [a, b] ?n = b" by (simp add: alias_by_relay_def)
  have "probeDaemonVersions f p2 [?n, ?n] (alias_by_relay [?n, ?n] [a, b]) (Map.empty(b \<mapsto> probed now (pr_ms p1) (results_of m ?n))) = Some res"
    using assms(7,8) names by (simp add: pingTargets_def by_b)
  from probe_versions_sans [OF this] have "sans_version res a = None" using assms(5) by (simp add: sans_version_def)
  then show ?thesis by (simp add: sans_version_def merge_health_def stale_health_def)
qed

theorem shared_node_is_recorded_once_witness:
  "\<exists>res. pingTargets (health_config [''a'' \<mapsto> \<lparr>tg_token = ''t'', tg_relayName = ''box''\<rparr>, ''b'' \<mapsto> \<lparr>tg_token = ''t'', tg_relayName = ''box''\<rparr>])
     health_probe health_probe 9 [''a'', ''b''] = Some res \<and> res ''a'' = None"
proof -
  let ?t = "\<lparr>tg_token = ''t'', tg_relayName = ''box''\<rparr>"
  let ?f = "health_config [''a'' \<mapsto> ?t, ''b'' \<mapsto> ?t]"
  have load: "\<exists>c. loadConfig ?f = Inr c \<and> rl_url (cf_relay c) \<noteq> '''' \<and> cf_targets c ''a'' = Some ?t \<and> cf_targets c ''b'' = Some ?t"
    by (simp add: health_config_def loadConfig_def)
  have n: "relay_target ''a'' ?t = relay_target ''b'' ?t" by (simp add: relay_target_def)
  obtain res where "pingTargets ?f health_probe health_probe 9 [''a'', ''b''] = Some res"
    using health_probe_answers
    by (simp add: pingTargets_def resolveRelayTargets_def health_config_def loadConfig_def relay_target_def
        probeDaemonVersions_def alias_by_relay_def probed_def health_of_def health_demo)
  then show ?thesis using shared_node_is_recorded_once [OF _ _ _ _ _ n health_probe_answers] load by blast
qed

text \<open>
  A node that stops answering loses the time it was last seen: whatever the cache said, after a
  refresh whose probe finds it down its entry has no \<open>LastSeen\<close> and no hostname, and the table
  shows only when it was checked.
\<close>

theorem down_node_forgets_last_seen:
  assumes "refresh_health f env p1 p2 now True False names hf = Some (c, hf')" and "pingTargets f p1 p2 now names = Some fresh"
    and "names \<noteq> []" and "fresh a = Some h" and "h = probed now ms r" and "\<forall>q. r = Some q \<longrightarrow> m_ok q \<noteq> Some True"
  shows "\<exists>h'. c a = Some h' \<and> th_lastSeen h' = None \<and> th_hostname h' = '''' \<and>
    health_row version now' cfg c a ! 2 = ''checked '' @ agoString (now' - now)"
proof -
  have c: "c a = Some (if th_version h = '''' then h\<lparr>th_version := th_version (health_of cache a)\<rparr> else h)"
    if "cache = (case loadHealthCache hf of Inl e \<Rightarrow> Map.empty | Inr c \<Rightarrow> c)" for cache
    using assms(1-4) that by (auto simp: refresh_health_def merge_health_def Let_def)
  have h: "th_lastSeen h = None \<and> th_lastCheck h = Some now \<and> th_status h = ''down'' \<and> th_hostname h = ''''"
    using assms(5,6) by (auto simp: probed_def no_health_def split: option.split)
  show ?thesis using c [OF refl] h by (simp add: health_row_def health_of_def Let_def)
qed

theorem down_node_forgets_last_seen_witness:
  "let t = \<lparr>tg_token = ''t'', tg_relayName = ''other''\<rparr>; f = health_config [''a'' \<mapsto> t];
       seen = no_health\<lparr>th_lastCheck := Some 1, th_lastSeen := Some 1, th_status := ''up'', th_hostname := ''h'', th_version := ''2.6.0''\<rparr>
   in \<exists>c hf'. refresh_health f demo_fs_env health_probe health_probe 9 True False [''a''] (HoldsHealth [''a'' \<mapsto> seen]) = Some (c, hf') \<and>
        (\<exists>h'. c ''a'' = Some h' \<and> th_lastSeen h' = None)"
proof -
  let ?f = "health_config [''a'' \<mapsto> \<lparr>tg_token = ''t'', tg_relayName = ''other''\<rparr>]"
  have ping: "pingTargets ?f health_probe health_probe 9 [''a''] = Some [''a'' \<mapsto> probed 9 7 None]"
    using health_probe_answers
    by (simp add: pingTargets_def resolveRelayTargets_def health_config_def loadConfig_def relay_target_def results_of_def health_reply_def
        probeDaemonVersions_def alias_by_relay_def probed_def health_of_def no_health_def health_probe_def)
  let ?hf = "HoldsHealth [''a'' \<mapsto> no_health\<lparr>th_lastCheck := Some 1, th_lastSeen := Some 1, th_status := ''up'', th_hostname := ''h'', th_version := ''2.6.0''\<rparr>]"
  obtain c hf' where r: "refresh_health ?f demo_fs_env health_probe health_probe 9 True False [''a''] ?hf = Some (c, hf')"
    using ping by (simp add: refresh_health_def Let_def)
  have "\<exists>h'. c ''a'' = Some h' \<and> th_lastSeen h' = None"
    using down_node_forgets_last_seen [OF r ping, of "''a''" "probed 9 7 None" 7 None, where version = "''''" and now' = 9 and cfg = empty_config] by auto
  then show ?thesis using r by (auto simp: Let_def)
qed

end
