(* ===== verification/Mcp.thy ===== *)
theory Mcp
  imports ExecEndToEnd
begin

text \<open>
  The MCP server (mcp.go, mcp_tools.go): requests read line by line from the standard input, the
  two eras of the protocol, and the tools.

  A request is what the JSON decoder finds in its line: \<open>rq_meta\<close> is what \<open>parseMeta\<close> returns,
  \<open>rq_version\<close> the version an \<open>initialize\<close> names, \<open>rq_call\<close> the name and arguments of a tool call.
  A result is the value that is encoded, not its text. What a tool meets is a \<open>mcp_world\<close>.
\<close>

section \<open>Data\<close>

record mcp_meta =
  mm_protocolVersion :: string
  mm_hasCapabilities :: bool

record tool_args =
  ta_target :: string
  ta_command :: string
  ta_timeout :: int
  ta_source :: string
  ta_destination :: string

record rpc_request =
  rq_id :: "string option" \<comment> \<open>the raw identifier; absent in a notification\<close>
  rq_method :: string
  rq_meta :: "mcp_meta option"
  rq_version :: "string option"
  rq_call :: "(string \<times> (string + tool_args)) option" \<comment> \<open>\<open>None\<close>: the parameters do not decode; \<open>Inl\<close>: the arguments do not\<close>

datatype tool_payload =
    Plain string
  | TargetList "(string \<times> string \<times> bool) list" \<comment> \<open>name, relay, \<open>connected\<close>\<close>
  | ExecResult string string string string int int bool \<comment> \<open>target, command, stdout, stderr, exit code, ms, success\<close>
  | Health string bool int int \<comment> \<open>target, healthy, ms, exit code\<close>
  | HealthError string bool string

record tool_result =
  tr_content :: tool_payload
  tr_isError :: bool

definition textResult :: "string \<Rightarrow> tool_result" where "textResult t = \<lparr>tr_content = Plain t, tr_isError = False\<rparr>"

definition errorResultMCP :: "string \<Rightarrow> tool_result" where "errorResultMCP t = \<lparr>tr_content = Plain t, tr_isError = True\<rparr>"

definition jsonResult :: "tool_payload \<Rightarrow> tool_result" where "jsonResult v = \<lparr>tr_content = v, tr_isError = False\<rparr>"

text \<open>The second argument of \<open>ListResult\<close> and \<open>CallResult\<close> is whether the modern fields are added.\<close>

datatype rpc_body =
    Discovered
  | Initialized string
  | Pong
  | ListResult bool
  | CallResult tool_result bool
  | RPCError int string "(string list \<times> string) option"

record rpc_response =
  rp_id :: "string option"
  rp_body :: rpc_body

record mcp_world =
  mw_config :: config_file
  mw_names :: "string list" \<comment> \<open>the targets in the order the runtime visits the map\<close>
  mw_stat :: "string \<Rightarrow> bool" \<comment> \<open>the file is there\<close>
  mw_dial :: "string option"
  mw_write :: "string option"
  mw_id :: string
  mw_events :: "read_event list"
  mw_copy :: "string \<Rightarrow> string \<Rightarrow> string \<Rightarrow> string option" \<comment> \<open>the error of \<open>handleFileTransfer\<close>\<close>

section \<open>Tools\<close>

definition mcpListTargets :: "mcp_world \<Rightarrow> tool_result" where
  "mcpListTargets w =
     (case loadConfig (mw_config w) of
        Inl e \<Rightarrow> errorResultMCP (''Failed to load config: '' @ e)
      | Inr c \<Rightarrow>
          (let ts = map (\<lambda>n. (n, rl_url (cf_relay c), case cf_targets c n of None \<Rightarrow> False | Some t \<Rightarrow> tg_token t \<noteq> '''')) (mw_names w)
           in if ts = [] then textResult ''No targets configured. Add one with: rcmd add-target --name <n> --token <t>''
              else jsonResult (TargetList ts)))"

text \<open>\<open>None\<close> is a call that still waits, \<open>Inl\<close> the error of a tool.\<close>

definition mcpExec :: "mcp_world \<Rightarrow> string + tool_args \<Rightarrow> (string + tool_result) option" where
  "mcpExec w args =
     (case args of Inl e \<Rightarrow> Some (Inl (''invalid arguments: '' @ e))
      | Inr a \<Rightarrow>
          if ta_target a = '''' \<or> ta_command a = '''' then Some (Inl ''target and command are required'')
          else case loadConfig (mw_config w) of
            Inl e \<Rightarrow> Some (Inr (errorResultMCP (''Failed to load config: '' @ e)))
          | Inr c \<Rightarrow>
              (case cf_targets c (ta_target a) of
                 None \<Rightarrow> Some (Inr (errorResultMCP (''Target '' @ quoted (ta_target a) @ '' not found. Use rcmd_list_targets to see available targets.'')))
               | Some t \<Rightarrow>
                   (case sendToRelay c (mw_dial w) (mw_write w) (mw_id w)
                       (exec_request '''' (ta_target a) t (ta_command a) (if ta_timeout a = 0 then 30 else ta_timeout a) False []) (mw_events w) of
                      None \<Rightarrow> None
                    | Some (Inl e) \<Rightarrow> Some (Inr (errorResultMCP (''Failed to execute: '' @ e)))
                    | Some (Inr r) \<Rightarrow> Some (Inr
                        (if m_error r \<noteq> '''' then errorResultMCP (m_error r)
                         else jsonResult (ExecResult (ta_target a) (ta_command a) (m_stdout r) (m_stderr r) (m_exit_code r) (m_duration_ms r) (m_exit_code r = 0)))))))"

definition mcpCp :: "mcp_world \<Rightarrow> string + tool_args \<Rightarrow> (string + tool_result) option" where
  "mcpCp w args =
     (case args of Inl e \<Rightarrow> Some (Inl (''invalid arguments: '' @ e))
      | Inr a \<Rightarrow>
          if ta_target a = '''' \<or> ta_source a = '''' \<or> ta_destination a = '''' then Some (Inl ''target, source, and destination are required'')
          else if \<not> mw_stat w (ta_source a) then Some (Inr (errorResultMCP (''Source file not found: '' @ ta_source a)))
          else case loadConfig (mw_config w) of
            Inl e \<Rightarrow> Some (Inr (errorResultMCP (''Failed to load config: '' @ e)))
          | Inr c \<Rightarrow>
              if cf_targets c (ta_target a) = None then Some (Inr (errorResultMCP (''Target '' @ quoted (ta_target a) @ '' not found'')))
              else (case mw_copy w (ta_target a) (ta_source a) (ta_destination a) of
                  Some e \<Rightarrow> Some (Inr (errorResultMCP (''Transfer failed: '' @ e)))
                | None \<Rightarrow> Some (Inr (textResult (''File copied: '' @ ta_source a @ '' '' @ arrow @ '' '' @ ta_target a @ '':'' @ ta_destination a)))))"

definition mcpHealth :: "mcp_world \<Rightarrow> string + tool_args \<Rightarrow> (string + tool_result) option" where
  "mcpHealth w args =
     (case args of Inl e \<Rightarrow> Some (Inl (''invalid arguments: '' @ e))
      | Inr a \<Rightarrow>
          if ta_target a = '''' then Some (Inl ''target is required'')
          else case loadConfig (mw_config w) of
            Inl e \<Rightarrow> Some (Inr (errorResultMCP (''Failed to load config: '' @ e)))
          | Inr c \<Rightarrow>
              (case cf_targets c (ta_target a) of
                 None \<Rightarrow> Some (Inr (errorResultMCP (''Target '' @ quoted (ta_target a) @ '' not found'')))
               | Some t \<Rightarrow>
                   (case sendToRelay c (mw_dial w) (mw_write w) (mw_id w) (exec_request '''' (ta_target a) t ''echo ok'' 5 False []) (mw_events w) of
                      None \<Rightarrow> None
                    | Some (Inl e) \<Rightarrow> Some (Inr (jsonResult (HealthError (ta_target a) False e)))
                    | Some (Inr r) \<Rightarrow> Some (Inr (jsonResult (Health (ta_target a) (m_exit_code r = 0) (m_duration_ms r) (m_exit_code r)))))))"

definition executeMCPTool :: "mcp_world \<Rightarrow> string \<Rightarrow> string + tool_args \<Rightarrow> (string + tool_result) option" where
  "executeMCPTool w name args =
     (if name = ''rcmd_list_targets'' then Some (Inr (mcpListTargets w))
      else if name = ''rcmd_exec'' then mcpExec w args
      else if name = ''rcmd_cp'' then mcpCp w args
      else if name = ''rcmd_health'' then mcpHealth w args
      else Some (Inl (''unknown tool: '' @ name)))"

section \<open>Requests\<close>

definition mcpProtocolVersion :: string where "mcpProtocolVersion = ''2026-07-28''"

definition meta_required :: "string \<Rightarrow> rpc_body" where
  "meta_required key = RPCError (-32602) (''Invalid params: _meta['' @ [CHR 0x27] @ ''io.modelcontextprotocol/'' @ key @ [CHR 0x27] @ ''] is required'') None"

definition validateModernRequest :: "mcp_meta option \<Rightarrow> rpc_body option" where
  "validateModernRequest meta =
     (case meta of
        None \<Rightarrow> Some (meta_required ''protocolVersion'')
      | Some m \<Rightarrow>
          if mm_protocolVersion m = '''' then Some (meta_required ''protocolVersion'')
          else if mm_protocolVersion m \<noteq> mcpProtocolVersion then
            Some (RPCError (-32022) ''Unsupported protocol version'' (Some ([mcpProtocolVersion], mm_protocolVersion m)))
          else if \<not> mm_hasCapabilities m then
            Some (meta_required ''clientCapabilities'')
          else None)"

text \<open>The response, the tool that was run with its arguments, and whether the session is legacy
  afterwards; \<open>None\<close> while a tool waits.\<close>

type_synonym mcp_step = "rpc_response option \<times> (string \<times> (string + tool_args)) option \<times> bool"

definition handleToolCall :: "mcp_world \<Rightarrow> rpc_request \<Rightarrow> bool \<Rightarrow> (rpc_response \<times> (string \<times> (string + tool_args)) option) option" where
  "handleToolCall w req legacy =
     (case rq_call req of
        None \<Rightarrow> Some (\<lparr>rp_id = rq_id req, rp_body = RPCError (-32602) ''Invalid params'' None\<rparr>, None)
      | Some (name, args) \<Rightarrow>
          (case executeMCPTool w name args of
             None \<Rightarrow> None
           | Some r \<Rightarrow> Some (\<lparr>rp_id = rq_id req, rp_body = CallResult (case r of Inl e \<Rightarrow> errorResultMCP e | Inr t \<Rightarrow> t) (\<not> legacy)\<rparr>, Some (name, args))))"

definition handleMCPRequest :: "mcp_world \<Rightarrow> rpc_request \<Rightarrow> bool \<Rightarrow> mcp_step option" where
  "handleMCPRequest w req sess =
     (let answer = (\<lambda>b. Some \<lparr>rp_id = rq_id req, rp_body = b\<rparr>);
          modern = (case rq_meta req of None \<Rightarrow> False | Some m \<Rightarrow> mm_protocolVersion m \<noteq> '''');
          legacy = (sess \<and> \<not> modern); t = rq_method req
      in if t = ''server/discover'' then Some (answer Discovered, None, sess)
         else if t = ''initialize'' then
           Some (answer (Initialized (case rq_version req of None \<Rightarrow> ''2024-11-05'' | Some v \<Rightarrow> if v = '''' then ''2024-11-05'' else v)), None, True)
         else if t = ''notifications/initialized'' then Some (None, None, sess)
         else if t = ''ping'' then Some (answer Pong, None, sess)
         else case (if legacy then None else validateModernRequest (rq_meta req)) of
           Some e \<Rightarrow> Some (answer e, None, sess)
         | None \<Rightarrow>
             if t = ''tools/list'' then Some (answer (ListResult (\<not> legacy)), None, sess)
             else if t = ''tools/call'' then
               (case handleToolCall w req legacy of None \<Rightarrow> None | Some (r, run) \<Rightarrow> Some (Some r, run, sess))
             else Some (answer (RPCError (-32601) (''Method not found: '' @ t) None), None, sess))"

section \<open>The server\<close>

datatype mcp_line = Blank | NotRequest | Request rpc_request mcp_world

text \<open>One line: the responses written, the tool run, the session.\<close>

definition mcp_line_step :: "mcp_line \<Rightarrow> bool \<Rightarrow> (rpc_response list \<times> (string \<times> (string + tool_args)) option \<times> bool) option" where
  "mcp_line_step l sess =
     (case l of
        Blank \<Rightarrow> Some ([], None, sess)
      | NotRequest \<Rightarrow> Some ([\<lparr>rp_id = None, rp_body = RPCError (-32700) ''Parse error'' None\<rparr>], None, sess)
      | Request req w \<Rightarrow>
          (case handleMCPRequest w req sess of
             None \<Rightarrow> None
           | Some (resp, run, sess') \<Rightarrow>
               Some (if rq_id req = None \<or> rq_id req = Some ''null'' then []
                     else (case resp of None \<Rightarrow> [] | Some r \<Rightarrow> [r]), run, sess')))"

text \<open>A run of the server over lines; it stops at a tool that waits for ever. Each line comes with
  its responses and the tool it ran.\<close>

fun runMCPServer :: "mcp_line list \<Rightarrow> bool \<Rightarrow> (mcp_line \<times> rpc_response list \<times> (string \<times> (string + tool_args)) option) list" where
  "runMCPServer [] sess = []"
| "runMCPServer (l # ls) sess =
     (case mcp_line_step l sess of None \<Rightarrow> [] | Some (rs, run, sess') \<Rightarrow> (l, rs, run) # runMCPServer ls sess')"

section \<open>Properties\<close>

lemma validated: "validateModernRequest meta = None \<longleftrightarrow>
    (\<exists>m. meta = Some m \<and> mm_protocolVersion m = mcpProtocolVersion \<and> mm_hasCapabilities m)"
  by (auto simp: validateModernRequest_def mcpProtocolVersion_def split: option.split)

definition opens_legacy :: "mcp_line \<Rightarrow> bool" where
  "opens_legacy l \<longleftrightarrow> (case l of Request r w \<Rightarrow> rq_method r = ''initialize'' | _ \<Rightarrow> False)"

lemma mcp_session: "mcp_line_step l sess = Some (rs, run, sess') \<Longrightarrow> sess' = (sess \<or> opens_legacy l)"
  by (auto simp: mcp_line_step_def handleMCPRequest_def opens_legacy_def Let_def split: mcp_line.splits option.splits if_splits)

lemma mcp_tool_run:
  "mcp_line_step (Request req w) sess = Some (rs, Some call, sess') \<Longrightarrow> rq_method req = ''tools/call'' \<and> rq_call req = Some call \<and>
     (sess \<and> (case rq_meta req of None \<Rightarrow> True | Some m \<Rightarrow> mm_protocolVersion m = '''') \<or> validateModernRequest (rq_meta req) = None)"
  by (auto simp: mcp_line_step_def handleMCPRequest_def handleToolCall_def Let_def split: option.splits if_splits)

lemma mcp_response:
  "handleMCPRequest w req sess = Some (resp, run, sess') \<Longrightarrow>
    (if rq_method req = ''notifications/initialized'' then resp = None else map_option rp_id resp = Some (rq_id req))"
  by (auto simp: handleMCPRequest_def handleToolCall_def Let_def split: option.splits if_splits)

lemma mcp_responses:
  "mcp_line_step l sess = Some (rs, run, sess') \<Longrightarrow> map rp_id rs = (case l of Blank \<Rightarrow> [] | NotRequest \<Rightarrow> [None]
     | Request req w \<Rightarrow> if rq_id req \<in> {None, Some ''null''} \<or> rq_method req = ''notifications/initialized'' then [] else [rq_id req])"
proof (cases l)
  case (Request req w)
  assume step: "mcp_line_step l sess = Some (rs, run, sess')"
  then obtain resp where h: "handleMCPRequest w req sess = Some (resp, run, sess')"
      "rs = (if rq_id req = None \<or> rq_id req = Some ''null'' then [] else (case resp of None \<Rightarrow> [] | Some r \<Rightarrow> [r]))"
    by (auto simp: mcp_line_step_def Request split: option.splits)
  show ?thesis using mcp_response [OF h(1)] by (cases resp) (simp_all add: h(2) Request split: if_splits)
qed (auto simp: mcp_line_step_def)

text \<open>
  C31. A tool only runs for a request that may run it. In every run of the server, a line that runs
  a tool is a \<open>tools/call\<close> naming it, and either it names the supported protocol version and the
  client's capabilities, or it names no version and the client has opened this process with
  \<open>initialize\<close> in an earlier line.
\<close>

theorem mcp_tools_need_a_valid_opening:
  assumes "i < length (runMCPServer ls False)" and "runMCPServer ls False ! i = (Request req w, rs, Some call)"
  shows "rq_method req = ''tools/call'' \<and> rq_call req = Some call \<and> ls ! i = Request req w \<and>
    ((case rq_meta req of None \<Rightarrow> True | Some m \<Rightarrow> mm_protocolVersion m = '''') \<and> (\<exists>j<i. opens_legacy (ls ! j)) \<or>
     (\<exists>m. rq_meta req = Some m \<and> mm_protocolVersion m = mcpProtocolVersion \<and> mm_hasCapabilities m))"
proof -
  have "i < length (runMCPServer ls sess) \<Longrightarrow> runMCPServer ls sess ! i = (Request req w, rs, Some call) \<Longrightarrow>
      rq_method req = ''tools/call'' \<and> rq_call req = Some call \<and> ls ! i = Request req w \<and>
      ((case rq_meta req of None \<Rightarrow> True | Some m \<Rightarrow> mm_protocolVersion m = '''') \<and> (sess \<or> (\<exists>j<i. opens_legacy (ls ! j))) \<or>
       validateModernRequest (rq_meta req) = None)" for sess i
  proof (induction ls arbitrary: sess i)
    case (Cons l ls)
    obtain rs0 run sess' where step: "mcp_line_step l sess = Some (rs0, run, sess')"
      using Cons.prems(1) by (cases "mcp_line_step l sess") auto
    show ?case
    proof (cases i)
      case 0
      then show ?thesis using Cons.prems(2) step mcp_tool_run [of req w sess rs0 call sess'] by auto
    next
      case (Suc k)
      have "k < length (runMCPServer ls sess')" "runMCPServer ls sess' ! k = (Request req w, rs, Some call)"
        using Cons.prems step Suc by simp_all
      note ih = Cons.IH [OF this]
      have "sess' \<or> (\<exists>j<k. opens_legacy (ls ! j)) \<Longrightarrow> sess \<or> (\<exists>j<i. opens_legacy ((l # ls) ! j))"
        using mcp_session [OF step] Suc by (auto intro: exI [of _ 0] dest: Suc_mono)
      then show ?thesis using ih Suc by auto
    qed
  qed simp
  from this [OF assms] show ?thesis by (simp add: validated)
qed


definition demo_mcp_call :: rpc_request where
  "demo_mcp_call = \<lparr>rq_id = Some ''1'', rq_method = ''tools/call'', rq_meta = None, rq_version = None,
     rq_call = Some (''rcmd_list_targets'', Inr \<lparr>ta_target = '''', ta_command = '''', ta_timeout = 0, ta_source = '''', ta_destination = ''''\<rparr>)\<rparr>"

definition demo_mcp_world :: mcp_world where
  "demo_mcp_world = \<lparr>mw_config = demo_file, mw_names = [''b''], mw_stat = (\<lambda>_. True), mw_dial = None, mw_write = None, mw_id = ''m1'',
     mw_events = [], mw_copy = (\<lambda>_ _ _. None)\<rparr>"

definition demo_mcp_lines :: "mcp_line list" where
  "demo_mcp_lines = [Request (demo_mcp_call\<lparr>rq_method := ''initialize'', rq_call := None\<rparr>) demo_mcp_world, Request demo_mcp_call demo_mcp_world]"

lemma demo_mcp_run: "\<exists>r0 rs. runMCPServer demo_mcp_lines False =
    [(demo_mcp_lines ! 0, r0, None), (Request demo_mcp_call demo_mcp_world, rs, rq_call demo_mcp_call)]"
  by (simp add: demo_mcp_lines_def mcp_line_step_def handleMCPRequest_def handleToolCall_def executeMCPTool_def demo_mcp_call_def Let_def)

theorem mcp_tools_need_a_valid_opening_witness: "\<exists>j<1. opens_legacy (demo_mcp_lines ! j)"
proof -
  obtain r0 rs where r: "runMCPServer demo_mcp_lines False =
      [(demo_mcp_lines ! 0, r0, None), (Request demo_mcp_call demo_mcp_world, rs, rq_call demo_mcp_call)]" using demo_mcp_run by blast
  obtain call where c: "rq_call demo_mcp_call = Some call" by (simp add: demo_mcp_call_def)
  have "1 < length (runMCPServer demo_mcp_lines False)" "runMCPServer demo_mcp_lines False ! 1 = (Request demo_mcp_call demo_mcp_world, rs, Some call)"
    using c by (simp_all add: r)
  from mcp_tools_need_a_valid_opening [OF this] show ?thesis by (simp add: demo_mcp_call_def)
qed


text \<open>
  The health tool calls a dead target healthy. For a configured target that is not connected to
  the relay: the relay answers the probe with an error and no exit code, and \<open>rcmd_health\<close> reports
  the target as healthy, with exit code 0; for the same answer \<open>rcmd_exec\<close> reports the error.
\<close>

theorem mcp_health_of_dead_target:
  fixes s :: relay_server
  assumes "loadConfig (mw_config w) = Inr c" and "rl_url (cf_relay c) \<noteq> ''''" and "cf_targets c (ta_target a) = Some t" and "ta_target a \<noteq> ''''"
    and "mw_dial w = None" and "mw_write w = None" and "mw_id w \<noteq> ''''"
    and "conn_waits k Reading s" and "wq_net (rs_rcs s k) = None" and "rs_clients s (relay_target (ta_target a) t) = None"
  shows "\<exists>reply. wire (rs_rcs (client_frame k (Json (exec_request (mw_id w) (ta_target a) t cmd tmo False [])) s) k) = wire (rs_rcs s k) @ [Json reply] \<and>
     mcpHealth (w\<lparr>mw_events := [Got reply]\<rparr>) (Inr a) = Some (Inr (jsonResult (Health (ta_target a) True 0 0))) \<and>
     (ta_command a \<noteq> '''' \<longrightarrow> mcpExec (w\<lparr>mw_events := [Got reply]\<rparr>) (Inr a) =
        Some (Inr (errorResultMCP (''target not connected: '' @ relay_target (ta_target a) t))))"
proof -
  let ?e = "''target not connected: '' @ relay_target (ta_target a) t" and ?req = "exec_request (mw_id w) (ta_target a) t cmd tmo False []"
  have "relay_target (ta_target a) t \<noteq> ''''" using assms(4) by (simp add: relay_target_def)
  then have "client_frame k (Json ?req) s = tell k (errResult (mw_id w) ?e) s"
    using assms(8,10) by (auto simp: conn_waits_def client_frame_def ws_frame_def ws_dispatch_def handleExecute_def)
  then have "wire (rs_rcs (client_frame k (Json ?req) s) k) = wire (rs_rcs s k) @ [Json (errResult (mw_id w) ?e)]"
    using assms(9) by (simp add: wire_tell)
  moreover have "m_id (errResult (mw_id w) ?e) = mw_id w" "m_exit_code (errResult (mw_id w) ?e) = 0" "m_duration_ms (errResult (mw_id w) ?e) = 0"
    "m_error (errResult (mw_id w) ?e) = ?e" by (simp_all add: errResult_def empty_message_def)
  ultimately show ?thesis
    using assms(1-7) by (intro exI [of _ "errResult (mw_id w) ?e"]) (simp add: mcpHealth_def mcpExec_def sendToRelay_def jsonResult_def)
qed

theorem mcp_health_of_dead_target_witness:
  "let t = \<lparr>tg_token = ''tk'', tg_relayName = ''gone''\<rparr>; a = \<lparr>ta_target = ''g'', ta_command = '''', ta_timeout = 0, ta_source = '''', ta_destination = ''''\<rparr>;
       w = demo_mcp_world\<lparr>mw_config := HoldsConfig (empty_config\<lparr>cf_relay := \<lparr>rl_url = ''http://r'', rl_name = '''', rl_secret = ''''\<rparr>, cf_targets := [''g'' \<mapsto> t]\<rparr>)\<rparr>
   in \<exists>reply. wire (rs_rcs (client_frame 1 (Json (exec_request ''m1'' ''g'' t ''echo ok'' 5 False [])) demo_relay) 1) = wire (rs_rcs demo_relay 1) @ [Json reply] \<and>
      mcpHealth (w\<lparr>mw_events := [Got reply]\<rparr>) (Inr a) = Some (Inr (jsonResult (Health ''g'' True 0 0)))"
proof -
  let ?t = "\<lparr>tg_token = ''tk'', tg_relayName = ''gone''\<rparr>"
  let ?c = "empty_config\<lparr>cf_relay := \<lparr>rl_url = ''http://r'', rl_name = '''', rl_secret = ''''\<rparr>, cf_targets := [''g'' \<mapsto> ?t]\<rparr>"
  let ?a = "\<lparr>ta_target = ''g'', ta_command = '''', ta_timeout = 0, ta_source = '''', ta_destination = ''''\<rparr>"
  have "rs_clients demo_relay (relay_target ''g'' ?t) = None" by (simp add: relay_target_def)
  then show ?thesis
    using mcp_health_of_dead_target [of "demo_mcp_world\<lparr>mw_config := HoldsConfig ?c\<rparr>" ?c ?a ?t 1 demo_relay "''echo ok''" 5] demo_waits(1)
    by (auto simp: loadConfig_def demo_mcp_world_def Let_def)
qed

end
