(* ===== verification/Pairing.thy ===== *)
theory Pairing
  imports ExecEndToEnd RelayLifecycle
begin

text \<open>
  Pairing from both ends (pair.go, cli_pair_disconnect.go): listening for a code, accepting one on
  the new machine, disconnecting a paired target, and the exchange of client, relay and daemon.
  Names of the source that the relay uses as well have a \<open>pc_\<close> (pairing client).
\<close>

section \<open>Listening\<close>

definition generateShortCode :: "bytes \<Rightarrow> string" where
  "generateShortCode b = hex_of_bytes b"

definition pair_listen_msg :: "string \<Rightarrow> bool \<Rightarrow> message" where
  "pair_listen_msg code requireKey = empty_message\<lparr>m_type := ''pair_listen'', m_code := code, m_require_activation_key := requireKey\<rparr>"

definition one_liner :: "string \<Rightarrow> string \<Rightarrow> string" where
  "one_liner url code = ''curl -sSL https://raw.githubusercontent.com/javimosch/remotecmd-cli/master/install.sh | sh -s -- --relay '' @ url @ '' --code '' @ code"

fun pair_reader :: "int \<Rightarrow> string \<Rightarrow> read_event list \<Rightarrow> (cliError + message) option" where
  "pair_reader tmo code [] = None"
| "pair_reader tmo code (read_event.ReadError e # evs) = Some (Inl (failErrCode ExitRelayError (''connection error: '' @ e) []))"
| "pair_reader tmo code (TimedOut # evs) = Some (Inl (fail ExitConfigError ''timeout'' (''timed out waiting for peer after '' @ go_itoa tmo @ ''s'')
     [''run the printed one-liner on the new machine, or retry with a longer --timeout'']))"
| "pair_reader tmo code (Got m # evs) =
     (if m_type m = ''pair_done'' \<and> m_code m = code then Some (Inr m)
      else if m_type m = ''error'' \<and> str_contains (m_error m) ''authentication required'' then
        Some (Inl (failErrCode ExitRelayError (''connection error: relay: '' @ m_error m) []))
      else pair_reader tmo code evs)"

datatype pair_outcome = Paired string | PairFails cliError | PairPanics

text \<open>The target saved for a peer that has connected. Without a host name in the message the first
  four characters of the code are cut out of it.\<close>

definition save_peer :: "string \<Rightarrow> string \<Rightarrow> message \<Rightarrow> fs_env \<Rightarrow> config_file \<Rightarrow> pair_outcome \<times> config_file" where
  "save_peer name code m env f =
     (if m_hostname m = '''' \<and> length code < 4 then (PairPanics, f)
      else let host = (if m_hostname m = '''' then ''peer-'' @ take 4 code else m_hostname m)
        in if name \<noteq> '''' \<and> name \<noteq> host then
             (case addTargetWithRelayName name (m_token m) host env f of
                (Some e, f') \<Rightarrow> (PairFails (failErrCode ExitConfigError (''saving target: '' @ e) []), f')
              | (None, f') \<Rightarrow> (Paired name, f'))
           else
             (case addTarget host (m_token m) env f of
                (Some e, f') \<Rightarrow> (PairFails (failErrCode ExitConfigError (''saving target: '' @ e) []), f')
              | (None, f') \<Rightarrow> (Paired host, f')))"

text \<open>The whole command; \<open>None\<close> is one that still waits. \<open>rand\<close> are the random bytes of a code that
  was not given.\<close>

definition pc_handlePairListen ::
    "config_file \<Rightarrow> fs_env \<Rightarrow> string option \<Rightarrow> string option \<Rightarrow> bytes \<Rightarrow> string \<Rightarrow> int \<Rightarrow> string \<Rightarrow> bool \<Rightarrow> read_event list \<Rightarrow>
     (pair_outcome \<times> config_file) option \<times> message option" where
  "pc_handlePairListen f env dial write rand name tmo codeFlag requireKey evs =
     (case loadConfig f of
        Inl e \<Rightarrow> (Some (PairFails (failErrCode ExitConfigError (''loading config: '' @ e) []), f), None)
      | Inr c \<Rightarrow>
          if rl_url (cf_relay c) = '''' then
            (Some (PairFails (fail ExitConfigError ''not_configured'' ''relay not configured'' [''remotecmd-cli set-relay --url <url> --name <name>'']), f), None)
          else (let code = (if codeFlag = '''' then generateShortCode rand else codeFlag)
            in case dial of
                 Some e \<Rightarrow> (Some (PairFails (failErrCode ExitRelayError (''connecting to relay: '' @ e) []), f), None)
               | None \<Rightarrow>
                   (case write of
                      Some e \<Rightarrow> (Some (PairFails (failErrCode ExitRelayError (''sending pair_listen: '' @ e) []), f), None)
                    | None \<Rightarrow>
                        ((case pair_reader tmo code evs of
                            None \<Rightarrow> None
                          | Some (Inl e) \<Rightarrow> Some (PairFails e, f)
                          | Some (Inr m) \<Rightarrow> Some (save_peer name code m env f)),
                         Some (pair_listen_msg code requireKey)))))"

section \<open>Accepting\<close>

text \<open>The files \<open>pair_code\<close> and \<open>activation_key\<close>, and what the command reports. The process id is
  what \<open>Sscanf\<close> made of the daemon's pid file, if there is one.\<close>

record pair_files =
  pf_code :: "string option"
  pf_key :: "string option"

datatype accept_outcome = AcceptFails cliError | NotSignalled string | Signalled int

definition handlePairAccept ::
    "string option \<Rightarrow> string option \<Rightarrow> int option option \<Rightarrow> string option \<Rightarrow> string \<Rightarrow> string \<Rightarrow> pair_files \<Rightarrow> accept_outcome \<times> pair_files" where
  "handlePairAccept saveCodeErr saveKeyErr pid signalErr code key fs =
     (if code = '''' then
        (AcceptFails (fail ExitConfigError ''missing_argument'' ''--code is required'' [''remotecmd-cli pair accept --code <code> [--activation-key <key>]'']), fs)
      else case saveCodeErr of
        Some e \<Rightarrow> (AcceptFails (failErrCode ExitConfigError (''could not save pair code: '' @ e) []), fs)
      | None \<Rightarrow>
          (let fs1 = fs\<lparr>pf_code := Some code\<rparr>
           in if key \<noteq> '''' \<and> saveKeyErr \<noteq> None then
                (AcceptFails (failErrCode ExitConfigError (''could not save activation key: '' @ the saveKeyErr) []), fs1)
              else
                (let fs2 = fs1\<lparr>pf_key := (if key \<noteq> '''' then Some key else None)\<rparr>
                 in (case pid of
                       None \<Rightarrow> NotSignalled ''daemon PID file not found (daemon not running?)''
                     | Some None \<Rightarrow> NotSignalled ''could not parse daemon PID''
                     | Some (Some p) \<Rightarrow>
                         if p = 0 then NotSignalled ''could not parse daemon PID''
                         else (case signalErr of Some e \<Rightarrow> NotSignalled (''could not signal daemon: '' @ e) | None \<Rightarrow> Signalled p),
                     fs2))))"

section \<open>Disconnecting\<close>

fun disconnect_reader :: "read_event list \<Rightarrow> (cliError + message) option" where
  "disconnect_reader [] = None"
| "disconnect_reader (read_event.ReadError e # evs) = Some (Inl (failErrCode ExitRelayError (''connection error: '' @ e) []))"
| "disconnect_reader (TimedOut # evs) = Some (Inl (fail ExitRelayError ''timeout''
     ''timed out waiting for disconnect confirmation (target may already be offline)'' [''remotecmd-cli list-targets --refresh'']))"
| "disconnect_reader (Got m # evs) =
     (if m_type m = ''disconnect_confirmed'' \<or> m_type m = ''error'' then Some (Inr m) else disconnect_reader evs)"

definition disconnect_msg :: "string \<Rightarrow> target_config \<Rightarrow> message" where
  "disconnect_msg target t = empty_message\<lparr>m_type := ''disconnect'', m_target := target, m_token := tg_token t\<rparr>"

text \<open>\<open>Inr\<close>: disconnected.\<close>

definition handlePairDisconnect ::
    "config_file \<Rightarrow> string option \<Rightarrow> string option \<Rightarrow> string \<Rightarrow> read_event list \<Rightarrow> (cliError + unit) option \<times> message option" where
  "handlePairDisconnect f dial write target evs =
     (if target = '''' then (Some (Inl (fail ExitConfigError ''missing_argument'' ''--target is required'' [''remotecmd-cli pair disconnect --target <name>''])), None)
      else case loadConfig f of
        Inl e \<Rightarrow> (Some (Inl (failErrCode ExitConfigError (''loading config: '' @ e) [])), None)
      | Inr c \<Rightarrow>
          if rl_url (cf_relay c) = '''' then
            (Some (Inl (fail ExitConfigError ''not_configured'' ''relay not configured'' [''remotecmd-cli set-relay --url <url> --name <name>''])), None)
          else case cf_targets c target of
            None \<Rightarrow> (Some (Inl (fail ExitConfigError ''unknown_target'' (''target '' @ quoted target @ '' not found in config'') (defaultSuggestions ''unknown_target''))), None)
          | Some t \<Rightarrow>
              (case dial of
                 Some e \<Rightarrow> (Some (Inl (failErrCode ExitRelayError (''connecting to relay: '' @ e) [])), None)
               | None \<Rightarrow>
                   (case write of
                      Some e \<Rightarrow> (Some (Inl (failErrCode ExitRelayError (''sending disconnect: '' @ e) [])), None)
                    | None \<Rightarrow>
                        ((case disconnect_reader evs of
                            None \<Rightarrow> None
                          | Some (Inl e) \<Rightarrow> Some (Inl e)
                          | Some (Inr m) \<Rightarrow> if m_type m = ''error'' then Some (Inl (failErrCode ExitConfigError (m_error m) [])) else Some (Inr ())),
                         Some (disconnect_msg target t)))))"

section \<open>Properties\<close>

definition pair_msg :: "string \<Rightarrow> daemon \<Rightarrow> message" where
  "pair_msg code d = empty_message\<lparr>m_type := ''pair'', m_code := code, m_token := dm_token d, m_hostname := dm_name d,
     m_activation_key := (case loadActivationKey d of None \<Rightarrow> '''' | Some k \<Rightarrow> k)\<rparr>"

lemma pair_msg_fields [simp]:
  "m_type (pair_msg code d) = ''pair''" "m_code (pair_msg code d) = code" "m_token (pair_msg code d) = dm_token d" "m_hostname (pair_msg code d) = dm_name d"
  by (simp_all add: pair_msg_def)

lemma daemon_sends_pair:
  "loadPairCode d = Some code \<Longrightarrow> code \<noteq> '''' \<Longrightarrow> td_sent (dm_xfer (sendPairIfNeeded d)) = td_sent (dm_xfer d) @ [pair_msg code d]"
  by (simp add: sendPairIfNeeded_def pair_msg_def dm_send_def td_send_def)

text \<open>
  C25. Pairing, from end to end. A client listens for a code on an authenticated connection; the new
  machine's daemon, which has the code in its file (and an acceptable key, if one is required),
  sends its pair message. Then the relay writes one \<open>pair_done\<close> to the client and one confirmation
  to the daemon; the client saves a target under the chosen name, with the daemon's token and
  under the relay name by which the daemon is registered, so that requests for it can be built; and
  the daemon forgets the code and the key.
\<close>

theorem pairing_end_to_end:
  fixes s :: relay_server and dm :: daemon
  assumes "conn_waits c Reading s" and "c \<noteq> d" and "wq_net (rs_rcs s c) = None" and "wq_net (rs_rcs s d) = None"
    and "loadConfig f = Inr cfg" and "rl_url (cf_relay cfg) \<noteq> ''''" and "fe_mkdir env = None" and "fe_open env = None" and "fe_write env = None"
    and "code \<noteq> ''''" and "name \<noteq> ''''" and "dm_token dm \<noteq> ''''" and "dm_name dm \<noteq> ''''" and "loadPairCode dm = Some code"
    and "requireKey \<longrightarrow> fst (isValid (m_activation_key (pair_msg code dm)) (rs_keyFile s) (rs_keys s))"
  shows "let s1 = client_frame c (Json (pair_listen_msg code requireKey)) s; s2 = relay_replies a d [pair_msg code dm] s1
    in td_sent (dm_xfer (sendPairIfNeeded dm)) = td_sent (dm_xfer dm) @ [pair_msg code dm] \<and>
       (\<exists>reply confirm. wire (rs_rcs s2 c) = wire (rs_rcs s c) @ [Json reply] \<and> wire (rs_rcs s2 d) = wire (rs_rcs s d) @ [Json confirm] \<and>
          (\<exists>f'. pc_handlePairListen f env None None rand name tmo code requireKey [Got reply] = (Some (Paired name, f'), Some (pair_listen_msg code requireKey)) \<and>
             (\<exists>t. find_target err name f' = Inr (wsURL (rl_url (cf_relay cfg)), t) \<and> tg_token t = dm_token dm \<and> relay_target name t = dm_name dm)) \<and>
          (let dm' = dm_frame denv ord (Json confirm) (sendPairIfNeeded dm) in dm_pairCode dm' = None \<and> dm_activationKey dm' = None))"
proof -
  let ?m = "pair_msg code dm" and ?l = "\<lparr>pl_conn = c, pl_requireActivationKey = requireKey\<rparr>"
  define s1 where "s1 = client_frame c (Json (pair_listen_msg code requireKey)) s"
  have s1: "s1 = s\<lparr>rs_pairListeners := (rs_pairListeners s)(code \<mapsto> ?l)\<rparr>"
    using assms(1,10) by (auto simp: s1_def conn_waits_def client_frame_def ws_frame_def ws_dispatch_def pair_listen_msg_def handlePairListen_def)
  have keys: "key_accepted s1 ?m ?l" using assms(15) by (simp add: key_accepted_def s1)
  have at: "rs_pairListeners s1 (m_code ?m) = Some ?l" "m_code ?m \<noteq> ''''" "m_token ?m \<noteq> ''''" using assms(10,12) by (simp_all add: s1)
  have run: "relay_replies a d [?m] s1 = handlePair d ?m s1"
    by (simp add: relay_replies_def ws_frame_def ws_dispatch_def clientOnlyMessages_def)
  have wires: "wire (rs_rcs (relay_replies a d [?m] s1) c) = wire (rs_rcs s c) @ [Json (pair_done_msg ?m)]"
    "wire (rs_rcs (relay_replies a d [?m] s1) d) = wire (rs_rcs s d) @ [Json (pair_confirmed_msg ?m)]"
    unfolding run handlePair_accepts [OF at(2,3,1) keys]
    using assms(2-4) by (simp_all add: pair_accept_def wire_tell pair_done_msg_def pair_confirmed_msg_def s1)
  have saved: "\<exists>f'. save_peer name code (pair_done_msg ?m) env f = (Paired name, f') \<and>
      (\<exists>t. find_target err name f' = Inr (wsURL (rl_url (cf_relay cfg)), t) \<and> tg_token t = dm_token dm \<and> relay_target name t = dm_name dm)"
    using assms(5-9,11,13)
    by (auto simp: save_peer_def pair_done_msg_def addTarget_def addTargetWithRelayName_def with_config_def saveConfig_def find_target_def
        loadConfig_def relay_target_def Let_def)
  have found: "pair_reader tmo code [Got (pair_done_msg ?m)] = Some (Inr (pair_done_msg ?m))" by (simp add: pair_done_msg_def)
  have "\<exists>f'. pc_handlePairListen f env None None rand name tmo code requireKey [Got (pair_done_msg ?m)] = (Some (Paired name, f'), Some (pair_listen_msg code requireKey)) \<and>
      (\<exists>t. find_target err name f' = Inr (wsURL (rl_url (cf_relay cfg)), t) \<and> tg_token t = dm_token dm \<and> relay_target name t = dm_name dm)"
    using saved assms(5,6,10) unfolding pc_handlePairListen_def by (auto simp: found Let_def simp del: pair_reader.simps)
  moreover have "dm_pairCode (dm_frame denv ord (Json (pair_confirmed_msg ?m)) dm1) = None \<and>
      dm_activationKey (dm_frame denv ord (Json (pair_confirmed_msg ?m)) dm1) = None" for dm1
    by (simp add: dm_frame_def pair_confirmed_msg_def)
  ultimately show ?thesis
    using daemon_sends_pair [OF assms(14,10)] wires unfolding s1_def [symmetric] Let_def by blast
qed

definition demo_new :: daemon where
  "demo_new = new_daemon ''n'' ''tk'' (Some (''c0de'' @ [newline])) None Map.empty"

theorem pairing_end_to_end_witness:
  "let s1 = client_frame 1 (Json (pair_listen_msg ''c0de'' False)) demo_relay; s2 = relay_replies True 0 [pair_msg ''c0de'' demo_new] s1
    in \<exists>reply confirm f'. wire (rs_rcs s2 1) = wire (rs_rcs demo_relay 1) @ [Json reply] \<and> wire (rs_rcs s2 0) = wire (rs_rcs demo_relay 0) @ [Json confirm] \<and>
       pc_handlePairListen demo_file demo_fs_env None None [] ''prod'' 300 ''c0de'' False [Got reply] =
         (Some (Paired ''prod'', f'), Some (pair_listen_msg ''c0de'' False)) \<and>
       (\<exists>t. find_target ''load config: '' ''prod'' f' = Inr (wsURL ''http://r'', t) \<and> tg_token t = ''tk'' \<and> relay_target ''prod'' t = ''n'')"
proof -
  have code: "loadPairCode demo_new = Some ''c0de''"
    by (simp add: loadPairCode_def demo_new_def new_daemon_def trim_space_def go_space_def newline_def)
  have cfg: "\<exists>cfg. loadConfig demo_file = Inr cfg \<and> rl_url (cf_relay cfg) = ''http://r''" by (simp add: demo_file_def loadConfig_def)
  then obtain cfg where c: "loadConfig demo_file = Inr cfg" "rl_url (cf_relay cfg) = ''http://r''" by blast
  have d: "dm_token demo_new = ''tk''" "dm_name demo_new = ''n''" by (simp_all add: demo_new_def new_daemon_def)
  have "rl_url (cf_relay cfg) \<noteq> ''''" using c(2) by simp
  note all = pairing_end_to_end [OF demo_waits(1) _ _ _ c(1) this, where d = 0 and code = "''c0de''" and dm = demo_new and name = "''prod''" and requireKey = False
      and env = demo_fs_env and err = "''load config: ''" and rand = "[]" and tmo = 300 and a = True and denv = "\<lparr>de_os = demo_os, de_cmd = demo_cmd_env, de_dial = (\<lambda>_. None), de_netWrite = (\<lambda>_ _. None)\<rparr>" and ord = "[]"]
  show ?thesis using all code c(2) d unfolding Let_def by (simp add: demo_fs_env_def) metis
qed

text \<open>
  Disconnecting goes by the alias. For a target that is paired under an alias and is registered
  on the relay under its own name, where a command would reach it: the disconnect request names
  the alias, the relay answers that no such target is connected, the daemon is told nothing and
  keeps running, and the command exits with the configuration error.
\<close>

theorem disconnect_misses_aliased_target:
  fixes s :: relay_server
  assumes "connected f url al t c d s" and "al \<noteq> ''''" and "rs_clients s al = None"
  shows "let s1 = client_frame c (Json (disconnect_msg al t)) s; reply = error_msg (''target not connected: '' @ al)
    in wire (rs_rcs s1 c) = wire (rs_rcs s c) @ [Json reply] \<and> wire (rs_rcs s1 d) = wire (rs_rcs s d) \<and> rs_clients s1 (relay_target al t) = Some d \<and>
       (\<exists>e. handlePairDisconnect f None None al [Got reply] = (Some (Inl e), Some (disconnect_msg al t)) \<and> ce_code e = ExitConfigError)"
proof -
  define s1 where "s1 = client_frame c (Json (disconnect_msg al t)) s"
  have "s1 = tell c (error_msg (''target not connected: '' @ al)) s"
    using assms by (auto simp: s1_def connected_def conn_waits_def client_frame_def ws_frame_def ws_dispatch_def disconnect_msg_def handleDisconnect_def)
  then have r: "wire (rs_rcs s1 c) = wire (rs_rcs s c) @ [Json (error_msg (''target not connected: '' @ al))]"
    "wire (rs_rcs s1 d) = wire (rs_rcs s d)" "rs_clients s1 = rs_clients s"
    using assms(1) by (simp_all add: connected_def wire_tell)
  have "find_target ''load config: '' al f = Inr (url, t)" using assms(1) by (simp add: connected_def)
  then obtain cfg where "loadConfig f = Inr cfg" "rl_url (cf_relay cfg) \<noteq> ''''" "cf_targets cfg al = Some t"
    by (auto simp: find_target_def split: sum.splits if_splits option.splits)
  then have "\<exists>e. handlePairDisconnect f None None al [Got (error_msg (''target not connected: '' @ al))] = (Some (Inl e), Some (disconnect_msg al t)) \<and>
      ce_code e = ExitConfigError"
    using assms(2) by (simp add: handlePairDisconnect_def error_msg_def failErrCode_def fail_def Let_def)
  then show ?thesis using r assms(1) unfolding s1_def [symmetric] Let_def by (simp add: connected_def)
qed

theorem disconnect_misses_aliased_target_witness:
  "let t = \<lparr>tg_token = ''tok'', tg_relayName = ''box''\<rparr>; s1 = client_frame 1 (Json (disconnect_msg ''b'' t)) demo_relay
   in wire (rs_rcs s1 0) = wire (rs_rcs demo_relay 0) \<and>
      (\<exists>e. handlePairDisconnect demo_file None None ''b'' [Got (error_msg ''target not connected: b'')] = (Some (Inl e), Some (disconnect_msg ''b'' t)) \<and>
         ce_code e = ExitConfigError)"
  using disconnect_misses_aliased_target [OF demo_connected] by (simp add: demo_clients Let_def)

end
