(* ===== verification/Update.thy ===== *)
theory Update
  imports ExitCodes Versions Reassembly
begin

text \<open>
  Replacing the program by its latest release (update.go): choosing the asset, the checksum list,
  the checks a download has to pass, the swap on the disk, the decision of the \<open>update\<close> command
  and the passive nudge. A disk maps a path to contents and permission bits. The network, SHA-256,
  running a binary and the errors of the file system are the fields of \<open>update_env\<close>.
\<close>

section \<open>Assets\<close>

record release =
  rel_tag :: string
  rel_assets :: "(string \<times> string) list" \<comment> \<open>name, download URL\<close>

definition assetCandidates :: "string \<Rightarrow> string \<Rightarrow> string list" where
  "assetCandidates goos goarch =
     (let base = ''remotecmd-cli-'' @ goos @ ''-'' @ goarch
      in if goos = ''linux'' then [base @ ''-static'', base]
         else if goos = ''windows'' then [base @ ''.exe''] else [base])"

type_synonym upd_file = "bytes \<times> nat"
type_synonym disk = "string \<rightharpoonup> upd_file"

text \<open>A fetch fails, or gives the status, the bytes that arrived and the error that ended them.
  A created file may be refused (with the error and whether it is a permission), a write may stop
  after some bytes; \<open>ue_rename\<close>, \<open>ue_remove\<close>, \<open>ue_chmod\<close> and \<open>ue_open\<close> are the errors of those
  calls. \<open>ue_run\<close> is the output of \<open><binary> version\<close>.\<close>

record update_env =
  ue_goos :: string
  ue_goarch :: string
  ue_pid :: int
  ue_fetch :: "string \<Rightarrow> string + (int \<times> bytes \<times> string option)"
  ue_sha256 :: "bytes \<Rightarrow> bytes"
  ue_run :: "upd_file \<Rightarrow> string + string"
  ue_umask :: "nat \<Rightarrow> nat"
  ue_create :: "string \<Rightarrow> (string \<times> bool) option"
  ue_write :: "string \<Rightarrow> (nat \<times> string) option"
  ue_open :: "string \<Rightarrow> string option"
  ue_chmod :: "string \<Rightarrow> bool"
  ue_remove :: "string \<Rightarrow> bool"
  ue_rename :: "string \<Rightarrow> string \<Rightarrow> string option"

definition asset_url :: "release \<Rightarrow> string \<Rightarrow> string option" where
  "asset_url rel name = map_option snd (find (\<lambda>a. fst a = name) (rel_assets rel))"

definition findAsset :: "update_env \<Rightarrow> release \<Rightarrow> string + (string \<times> string)" where
  "findAsset env rel =
     (case List.map_filter (\<lambda>want. map_option (\<lambda>u. (u, want)) (asset_url rel want)) (assetCandidates (ue_goos env) (ue_goarch env)) of
        r # _ \<Rightarrow> Inr r
      | [] \<Rightarrow> Inl (''no binary for '' @ ue_goos env @ ''/'' @ ue_goarch env @ '' in release '' @ rel_tag rel))"

definition findChecksumsURL :: "release \<Rightarrow> string" where
  "findChecksumsURL rel = (case asset_url rel ''checksums.txt'' of None \<Rightarrow> '''' | Some u \<Rightarrow> u)"

section \<open>Files\<close>

definition file_mode :: "update_env \<Rightarrow> string \<Rightarrow> nat \<Rightarrow> disk \<Rightarrow> nat" where
  "file_mode env p perm fs = (case fs p of None \<Rightarrow> ue_umask env perm | Some (_, m) \<Rightarrow> m)"

text \<open>Create or truncate a file and copy bytes into it.\<close>

definition write_file :: "update_env \<Rightarrow> string \<Rightarrow> nat \<Rightarrow> bytes \<Rightarrow> disk \<Rightarrow> string option \<times> disk" where
  "write_file env p perm d fs =
     (case ue_write env p of
        None \<Rightarrow> (None, fs(p \<mapsto> (d, file_mode env p perm fs)))
      | Some (k, e) \<Rightarrow> (Some e, fs(p \<mapsto> (take k d, file_mode env p perm fs))))"

definition os_remove :: "update_env \<Rightarrow> string \<Rightarrow> disk \<Rightarrow> disk" where
  "os_remove env p fs = (if ue_remove env p then fs(p := None) else fs)"

definition no_such_file :: string where "no_such_file = ''no such file or directory''"

definition os_rename :: "update_env \<Rightarrow> string \<Rightarrow> string \<Rightarrow> disk \<Rightarrow> string option \<times> disk" where
  "os_rename env a b fs =
     (case ue_rename env a b of Some e \<Rightarrow> (Some e, fs)
      | None \<Rightarrow> (case fs a of None \<Rightarrow> (Some no_such_file, fs) | Some f \<Rightarrow> (None, (fs(a := None))(b \<mapsto> f))))"

definition os_chmod :: "update_env \<Rightarrow> string \<Rightarrow> nat \<Rightarrow> disk \<Rightarrow> disk" where
  "os_chmod env p m fs = (if ue_chmod env p then fs(p := map_option (\<lambda>(d, _). (d, m)) (fs p)) else fs)"

text \<open>\<open>copyFile\<close>: through \<open><dst>.tmp\<close>; an error of \<open>Close\<close> is an error of the write.\<close>

definition copyFile :: "update_env \<Rightarrow> string \<Rightarrow> string \<Rightarrow> disk \<Rightarrow> string option \<times> disk" where
  "copyFile env src dst fs =
     (case (fs src, ue_open env src) of
        (None, _) \<Rightarrow> (Some no_such_file, fs)
      | (_, Some e) \<Rightarrow> (Some e, fs)
      | (Some (d, m), None) \<Rightarrow>
          (let tmp = dst @ ''.tmp''
           in case ue_create env tmp of
                Some (e, _) \<Rightarrow> (Some e, fs)
              | None \<Rightarrow> (case write_file env tmp m d fs of
                    (Some e, fs1) \<Rightarrow> (Some e, os_remove env tmp fs1)
                  | (None, fs1) \<Rightarrow> os_rename env tmp dst fs1)))"

text \<open>\<open>downloadFile\<close>: the error, with whether it is a permission.\<close>

definition downloadFile :: "update_env \<Rightarrow> string \<Rightarrow> string \<Rightarrow> disk \<Rightarrow> (string \<times> bool) option \<times> disk" where
  "downloadFile env url dest fs =
     (case ue_fetch env url of
        Inl e \<Rightarrow> (Some (e, False), fs)
      | Inr (status, body, err) \<Rightarrow>
          if status \<noteq> 200 then (Some (''download returned '' @ go_itoa status, False), fs)
          else case ue_create env dest of
            Some e \<Rightarrow> (Some e, fs)
          | None \<Rightarrow> (case write_file env dest 438 body fs of
                (Some e, fs1) \<Rightarrow> (Some (e, False), fs1)
              | (None, fs1) \<Rightarrow> (map_option (\<lambda>e. (e, False)) err, fs1)))"

section \<open>The checks\<close>

text \<open>Bytes read as text, and \<open>strings.ToLower\<close> on ASCII.\<close>

definition text_of :: "bytes \<Rightarrow> string" where
  "text_of d = map (\<lambda>b. char_of (unat b)) d"

definition ascii_lower :: "string \<Rightarrow> string" where
  "ascii_lower s = map (\<lambda>c. let n = (of_char c :: nat) in if 65 \<le> n \<and> n \<le> 90 then char_of (n + 32) else c) s"

definition checksum_line :: "string \<Rightarrow> (string \<rightharpoonup> string) \<Rightarrow> (string \<rightharpoonup> string)" where
  "checksum_line line m = (case go_fields line of [h, n] \<Rightarrow> m(trim_prefix n ''*'' \<mapsto> ascii_lower h) | _ \<Rightarrow> m)"

definition parse_checksums :: "string \<Rightarrow> (string \<rightharpoonup> string)" where
  "parse_checksums s = fold checksum_line (go_split (CHR 0x0A) s) Map.empty"

definition checksums_limit :: nat where "checksums_limit = 2 ^ 20"

definition fetchChecksums :: "update_env \<Rightarrow> string \<Rightarrow> string + (string \<rightharpoonup> string)" where
  "fetchChecksums env url =
     (case ue_fetch env url of
        Inl e \<Rightarrow> Inl e
      | Inr (status, body, err) \<Rightarrow>
          if status \<noteq> 200 then Inl (''checksums.txt returned '' @ go_itoa status)
          else case (if length body < checksums_limit then err else None) of
            Some e \<Rightarrow> Inl e
          | None \<Rightarrow> Inr (parse_checksums (text_of (take checksums_limit body))))"

definition fileSHA256 :: "update_env \<Rightarrow> string \<Rightarrow> disk \<Rightarrow> string + string" where
  "fileSHA256 env p fs =
     (case (fs p, ue_open env p) of
        (None, _) \<Rightarrow> Inl no_such_file
      | (_, Some e) \<Rightarrow> Inl e
      | (Some (d, _), None) \<Rightarrow> Inr (hex_of_bytes (ue_sha256 env d)))"

definition em_dash :: string where "em_dash = map char_of [226 :: nat, 128, 148]"

definition verifyReleaseChecksum :: "update_env \<Rightarrow> release \<Rightarrow> string \<Rightarrow> string \<Rightarrow> disk \<Rightarrow> string option" where
  "verifyReleaseChecksum env rel path asset fs =
     (let url = findChecksumsURL rel
      in if url = '''' then Some (''release '' @ rel_tag rel @ '' has no checksums.txt '' @ em_dash @ '' refusing to install an unverified binary'')
         else case fetchChecksums env url of
           Inl e \<Rightarrow> Some (''cannot fetch checksums.txt: '' @ e)
         | Inr sums \<Rightarrow>
             (case sums asset of
                None \<Rightarrow> Some (''checksums.txt has no entry for '' @ asset)
              | Some want \<Rightarrow>
                  if length want \<noteq> 64 then Some (''checksums.txt entry for '' @ asset @ '' is not a sha256 digest'')
                  else case fileSHA256 env path fs of
                    Inl e \<Rightarrow> Some (''cannot hash download: '' @ e)
                  | Inr got \<Rightarrow> if got \<noteq> want then Some (''hash mismatch ('' @ take 12 got @ '' != '' @ take 12 want @ '')'') else None))"

definition smokeTestBinary :: "update_env \<Rightarrow> string \<Rightarrow> disk \<Rightarrow> string option" where
  "smokeTestBinary env path fs =
     (case fs path of None \<Rightarrow> Some (''smoke test failed: '' @ no_such_file)
      | Some f \<Rightarrow> (case ue_run env f of
            Inl e \<Rightarrow> Some (''smoke test failed: '' @ e)
          | Inr out \<Rightarrow> if str_contains out ''remotecmd-cli version'' then None
                       else Some (''smoke test: unexpected output: '' @ trim_space out)))"

section \<open>Installing\<close>

text \<open>\<open>filepath.Ext\<close>: from the last dot of the last path element.\<close>

definition path_ext :: "(char \<Rightarrow> bool) \<Rightarrow> string \<Rightarrow> string" where
  "path_ext is_sep p =
     (let r = takeWhile (\<lambda>c. \<not> is_sep c) (rev p)
      in if CHR ''.'' \<in> set r then CHR ''.'' # rev (takeWhile (\<lambda>c. c \<noteq> CHR ''.'') r) else '''')"

definition windows_sep :: "char \<Rightarrow> bool" where
  "windows_sep c \<longleftrightarrow> c = CHR ''/'' \<or> c = CHR 0x5C"

definition winExeExt :: "string \<Rightarrow> string \<Rightarrow> string" where
  "winExeExt goos exe =
     (if goos = ''windows'' \<and> ascii_lower (path_ext windows_sep exe) = ''.exe'' then path_ext windows_sep exe else '''')"

definition new_path :: "update_env \<Rightarrow> string \<Rightarrow> string" where
  "new_path env exe =
     (let ext = winExeExt (ue_goos env) exe in trim_suffix exe ext @ ''.new.'' @ go_itoa (ue_pid env) @ ext)"

datatype install_error = PermissionError string string | InstallError string

definition swap_in :: "update_env \<Rightarrow> string \<Rightarrow> string \<Rightarrow> disk \<Rightarrow> string option \<times> disk" where
  "swap_in env tmp exe fs =
     (if ue_goos env = ''windows'' then
        (let old = exe @ ''.old''
         in case os_rename env exe old (os_remove env old fs) of
              (Some e, fs1) \<Rightarrow> (Some (''cannot move the running binary aside: '' @ e), os_remove env tmp fs1)
            | (None, fs1) \<Rightarrow>
                (case os_rename env tmp exe fs1 of
                   (Some e, fs2) \<Rightarrow>
                     (Some (''swap failed, current binary restored: '' @ e), os_remove env tmp (snd (os_rename env old exe fs2)))
                 | (None, fs2) \<Rightarrow> (None, fs2)))
      else case os_rename env tmp exe fs of
          (Some e, fs1) \<Rightarrow> (Some (''swap failed, current binary untouched: '' @ e), os_remove env tmp fs1)
        | (None, fs1) \<Rightarrow> (None, fs1))"

definition installRelease :: "update_env \<Rightarrow> release \<Rightarrow> string \<Rightarrow> disk \<Rightarrow> (install_error + string) \<times> disk" where
  "installRelease env rel exe fs =
     (case findAsset env rel of
        Inl e \<Rightarrow> (Inl (InstallError e), fs)
      | Inr (url, asset) \<Rightarrow>
          (let tmp = new_path env exe; bak = exe @ ''.bak''
           in case downloadFile env url tmp fs of
                (Some (e, perm), fs1) \<Rightarrow>
                  (Inl (if perm then PermissionError (path_dir exe) e else InstallError (''download failed: '' @ e)), os_remove env tmp fs1)
              | (None, fs1) \<Rightarrow>
                  (case verifyReleaseChecksum env rel tmp asset fs1 of
                     Some e \<Rightarrow> (Inl (InstallError e), os_remove env tmp fs1)
                   | None \<Rightarrow>
                       (let fs2 = os_chmod env tmp 493 fs1
                        in case smokeTestBinary env tmp fs2 of
                             Some e \<Rightarrow> (Inl (InstallError e), os_remove env tmp fs2)
                           | None \<Rightarrow>
                               (case copyFile env exe bak fs2 of
                                  (Some e, fs3) \<Rightarrow> (Inl (InstallError (''cannot back up current binary: '' @ e)), os_remove env tmp fs3)
                                | (None, fs3) \<Rightarrow>
                                    (case swap_in env tmp exe fs3 of
                                       (Some e, fs4) \<Rightarrow> (Inl (InstallError e), fs4)
                                     | (None, fs4) \<Rightarrow> (Inr bak, fs4)))))))"

definition failInstall :: "string list \<Rightarrow> install_error \<Rightarrow> cliError" where
  "failInstall args e =
     (case e of
        PermissionError dir err \<Rightarrow> fail ExitConfigError ''permission_denied'' (''cannot write to '' @ dir @ '': '' @ err)
          [''sudo -n '' @ go_join '' '' args, ''or run it as a user that can write to '' @ dir]
      | InstallError err \<Rightarrow> failErrCode exitUpdateFail err [])"

section \<open>The command and the nudge\<close>

text \<open>\<open>latestReleaseInfo\<close>: the answer of the \<open>gh\<close> program, else the one over HTTP.\<close>

definition latestReleaseInfo :: "string + release \<Rightarrow> string + release \<Rightarrow> string + release" where
  "latestReleaseInfo gh http = (case gh of Inr rel \<Rightarrow> Inr rel | Inl _ \<Rightarrow> http)"

text \<open>The flags, in order; an unknown one ends the command.\<close>

fun update_flags :: "string list \<Rightarrow> bool \<Rightarrow> bool \<Rightarrow> cliError + (bool \<times> bool)" where
  "update_flags [] check force = Inr (check, force)"
| "update_flags (a # as) check force =
     (if a = ''--check'' then update_flags as True force
      else if a = ''--force'' then update_flags as check True
      else Inl (fail ExitConfigError ''invalid_arguments'' (''unknown update flag: '' @ a) [''remotecmd-cli update [--check] [--force]'']))"

text \<open>\<open>UpToDate\<close> and \<open>Available\<close> carry the current and the latest version, \<open>Updated\<close> the backup
  too. \<open>exe\<close> is the path of the running program with links followed, or why it is unknown.\<close>

datatype update_outcome =
    UpToDate string string
  | Available string string
  | Updated string string string
  | UpdateFails cliError

definition exitUpdateAvail :: int where "exitUpdateAvail = 5"

definition update_exit :: "update_outcome \<Rightarrow> int" where
  "update_exit r = (case r of Available _ _ \<Rightarrow> exitUpdateAvail | UpdateFails e \<Rightarrow> ce_code e | _ \<Rightarrow> 0)"

definition handleUpdate ::
    "update_env \<Rightarrow> string \<Rightarrow> string list \<Rightarrow> string + release \<Rightarrow> string + release \<Rightarrow> string + string \<Rightarrow> string list \<Rightarrow> disk \<Rightarrow>
     update_outcome \<times> disk" where
  "handleUpdate env version argv gh http exe args fs =
     (case update_flags args False False of
        Inl e \<Rightarrow> (UpdateFails e, fs)
      | Inr (check, force) \<Rightarrow>
          (case latestReleaseInfo gh http of
             Inl e \<Rightarrow> (UpdateFails (failErrCode exitUpdateFail (''cannot reach GitHub: '' @ e) []), fs)
           | Inr rel \<Rightarrow>
               (let latest = trim_prefix (rel_tag rel) ''v''
                in if \<not> versionLess version latest \<and> \<not> force then (UpToDate version latest, fs)
                   else if check then (Available version latest, fs)
                   else case exe of
                     Inl e \<Rightarrow> (UpdateFails (failErrCode exitUpdateFail (''cannot determine executable path: '' @ e) []), fs)
                   | Inr path \<Rightarrow>
                       (case installRelease env rel path fs of
                          (Inl e, fs') \<Rightarrow> (UpdateFails (failInstall argv e), fs')
                        | (Inr bak, fs') \<Rightarrow> (Updated version latest bak, fs')))))"

text \<open>\<open>maybeNudge\<close>: whether the check is made (and the time of the check file renewed), and the version
  the user is told about. Times are nanoseconds; without a check file there is no last check.\<close>

definition updateNudgeFreq :: int where "updateNudgeFreq = 60 * 60 * 10 ^ 9"

definition nudge_due :: "string \<Rightarrow> int option \<Rightarrow> int \<Rightarrow> bool" where
  "nudge_due no_nudge prev now \<longleftrightarrow>
     no_nudge \<noteq> ''1'' \<and> (case prev of None \<Rightarrow> True | Some t \<Rightarrow> \<not> now - t < updateNudgeFreq)"

definition maybeNudge :: "string \<Rightarrow> string \<Rightarrow> int option \<Rightarrow> int \<Rightarrow> string + release \<Rightarrow> string option" where
  "maybeNudge version no_nudge prev now rel =
     (if \<not> nudge_due no_nudge prev now then None
      else case rel of Inl _ \<Rightarrow> None
        | Inr r \<Rightarrow> (let latest = trim_prefix (rel_tag r) ''v''
                    in if latest \<noteq> '''' \<and> versionLess version latest then Some latest else None))"

end
