(* ===== verification/UpdateProps.thy ===== *)
theory UpdateProps
  imports Update
begin

text \<open>
  What an update guarantees: the binary it puts in place has the checksum that the release lists
  for it and passed the smoke test, a failed update leaves the program as it was, and the command
  never moves to an older version unless it is told to.
\<close>

section \<open>Paths\<close>

lemma path_ext_suffix: "\<exists>b. p = b @ path_ext sep p"
proof -
  let ?r = "takeWhile (\<lambda>c. \<not> sep c) (rev p)"
  let ?t = "takeWhile (\<lambda>c. c \<noteq> CHR ''.'') ?r"
  obtain u where u: "rev p = ?r @ u" by (metis takeWhile_dropWhile_id)
  show ?thesis
  proof (cases "CHR ''.'' \<in> set ?r")
    case True
    then obtain a v where r: "?r = a @ CHR ''.'' # v" and a: "CHR ''.'' \<notin> set a" by (metis split_list_first)
    have "?t = a" unfolding r using a by (induction a) auto
    moreover have "p = rev (v @ u) @ CHR ''.'' # rev a"
      using arg_cong [OF u, of rev] by (simp add: r)
    ultimately show ?thesis using True by (auto simp: path_ext_def Let_def)
  qed (simp add: path_ext_def)
qed

lemma winExeExt_cases:
  obtains "winExeExt goos exe = ''''"
  | c d e where "winExeExt goos exe = c # d # e" "d \<noteq> CHR ''n''"
proof -
  have "length (ascii_lower s) = length s" for s by (simp add: ascii_lower_def)
  then have "ascii_lower s = ''.exe'' \<Longrightarrow> \<exists>c d e. s = c # d # e \<and> d \<noteq> CHR ''n''" for s
    by (cases s; cases "tl s") (auto simp: ascii_lower_def Let_def)
  then show thesis using that by (metis winExeExt_def)
qed

lemma exe_base: "\<exists>b. exe = b @ winExeExt goos exe \<and> trim_suffix exe (winExeExt goos exe) = b"
proof -
  have "\<exists>b. exe = b @ winExeExt goos exe" using path_ext_suffix [of exe windows_sep] by (simp add: winExeExt_def)
  then obtain b where "exe = b @ winExeExt goos exe" by blast
  moreover have "trim_suffix (b @ s) s = b" for b s by (simp add: trim_suffix_def has_suffix_def)
  ultimately show ?thesis by metis
qed

lemma new_path_not: "s = '''' \<or> take 2 s \<noteq> ''.n'' \<Longrightarrow> new_path env exe \<noteq> exe @ s"
proof
  assume s: "s = '''' \<or> take 2 s \<noteq> ''.n''" and eq: "new_path env exe = exe @ s"
  let ?x = "winExeExt (ue_goos env) exe"
  obtain b where b: "exe = b @ ?x" "trim_suffix exe ?x = b" using exe_base by blast
  have "''.new.'' @ go_itoa (ue_pid env) @ ?x = ?x @ s"
  proof -
    have "new_path env exe = b @ ''.new.'' @ go_itoa (ue_pid env) @ ?x" by (simp add: new_path_def b(2) Let_def)
    then show ?thesis using eq by (subst (asm) (2) b(1)) simp
  qed
  then show False using s by (cases rule: winExeExt_cases [of "ue_goos env" exe]) auto
qed

lemma new_path_distinct [simp]:
  "new_path env exe \<noteq> exe" "new_path env exe \<noteq> exe @ ''.bak''" "new_path env exe \<noteq> exe @ ''.bak.tmp''" "new_path env exe \<noteq> exe @ ''.old''"
  using new_path_not [of "''''" env exe] new_path_not [of "''.bak''" env exe] new_path_not [of "''.bak.tmp''" env exe]
    new_path_not [of "''.old''" env exe] by simp_all

lemmas new_path_distinct' [simp] = new_path_distinct [symmetric]

section \<open>The steps of an installation\<close>

lemma write_file_else: "p \<noteq> q \<Longrightarrow> snd (write_file env q perm d fs) p = fs p"
  by (simp add: write_file_def split: option.split)

lemma os_remove_else: "p \<noteq> q \<Longrightarrow> os_remove env q fs p = fs p"
  by (simp add: os_remove_def)

lemma os_chmod_else: "p \<noteq> q \<Longrightarrow> os_chmod env q m fs p = fs p"
  by (simp add: os_chmod_def)

lemma os_chmod_at: "fs p = Some (d, m) \<Longrightarrow> \<exists>m'. os_chmod env p k fs p = Some (d, m')"
  by (simp add: os_chmod_def)

lemma os_rename_else: "p \<noteq> a \<Longrightarrow> p \<noteq> b \<Longrightarrow> snd (os_rename env a b fs) p = fs p"
  by (simp add: os_rename_def split: option.split)

lemma os_rename_ok: "os_rename env a b fs = (None, fs') \<Longrightarrow> \<exists>f. fs a = Some f \<and> fs' = (fs(a := None))(b \<mapsto> f)"
  by (auto simp: os_rename_def split: option.splits)

lemma os_rename_fails: "os_rename env a b fs = (Some e, fs') \<Longrightarrow> fs' = fs"
  by (auto simp: os_rename_def split: option.splits)

lemma downloadFile_ok:
  "downloadFile env url dest fs = (None, fs') \<Longrightarrow> \<exists>d m. ue_fetch env url = Inr (200, d, None) \<and> fs' = fs(dest \<mapsto> (d, m))"
  by (auto simp: downloadFile_def write_file_def split: sum.splits option.splits if_splits prod.splits)

lemma downloadFile_else: "p \<noteq> dest \<Longrightarrow> snd (downloadFile env url dest fs) p = fs p"
  using write_file_else [of p dest env 438]
  by (auto simp: downloadFile_def split: sum.split option.split prod.split) (metis snd_conv)+

lemma copyFile_ok:
  "copyFile env src dst fs = (None, fs') \<Longrightarrow> \<exists>d m m'. fs src = Some (d, m) \<and> fs' = (fs(dst @ ''.tmp'' := None))(dst \<mapsto> (d, m'))"
  by (auto simp: copyFile_def write_file_def Let_def dest!: os_rename_ok split: option.splits prod.splits)

lemma copyFile_else: "p \<noteq> dst \<Longrightarrow> p \<noteq> dst @ ''.tmp'' \<Longrightarrow> snd (copyFile env src dst fs) p = fs p"
  by (auto simp: copyFile_def write_file_def Let_def os_remove_else os_rename_else split: option.split prod.split)

lemma verify_ok:
  assumes "verifyReleaseChecksum env rel path asset fs = None"
  shows "\<exists>sums d m. fetchChecksums env (findChecksumsURL rel) = Inr sums \<and> fs path = Some (d, m) \<and>
    sums asset = Some (hex_of_bytes (ue_sha256 env d))"
  using assms by (auto simp: verifyReleaseChecksum_def fileSHA256_def Let_def split: if_splits sum.splits option.splits)

lemma smoke_ok:
  "smokeTestBinary env path fs = None \<Longrightarrow> \<exists>f out. fs path = Some f \<and> ue_run env f = Inr out \<and> str_contains out ''remotecmd-cli version''"
  by (auto simp: smokeTestBinary_def split: option.splits sum.splits if_splits)

lemma swap_ok:
  assumes "swap_in env tmp exe fs = (None, fs')" and "tmp \<noteq> exe" and "tmp \<noteq> exe @ ''.old''"
  shows "fs' exe = fs tmp \<and> (\<forall>p. p \<notin> {tmp, exe, exe @ ''.old''} \<longrightarrow> fs' p = fs p)"
  using assms by (auto simp: swap_in_def Let_def os_remove_def dest!: os_rename_ok split: if_splits option.splits prod.splits)

lemma swap_fails:
  assumes "swap_in env tmp exe fs = (Some e, fs')" and "tmp \<noteq> exe" and "tmp \<noteq> exe @ ''.old''"
  shows "(fs' exe = fs exe \<or>
      ue_goos env = ''windows'' \<and> ue_rename env (exe @ ''.old'') exe \<noteq> None \<and> fs' exe = None \<and> fs' (exe @ ''.old'') = fs exe) \<and>
    (\<forall>p. p \<notin> {tmp, exe, exe @ ''.old''} \<longrightarrow> fs' p = fs p)"
proof (cases "ue_goos env = ''windows''")
  case False
  then show ?thesis using assms by (auto simp: swap_in_def os_remove_else dest!: os_rename_fails split: option.splits prod.splits)
next
  case True
  let ?old = "exe @ ''.old''"
  let ?fs0 = "os_remove env ?old fs"
  have keep: "?fs0 exe = fs exe" "p \<noteq> ?old \<Longrightarrow> ?fs0 p = fs p" for p by (simp_all add: os_remove_else)
  show ?thesis
  proof (cases "os_rename env exe ?old ?fs0")
    case (Pair r fs1)
    show ?thesis
    proof (cases r)
      case (Some e1)
      then show ?thesis using assms True Pair os_rename_fails [of env exe ?old ?fs0] keep
        by (auto simp: swap_in_def Let_def os_remove_else)
    next
      case None
      then obtain f where f: "?fs0 exe = Some f" "fs1 = (?fs0(exe := None))(?old \<mapsto> f)" using Pair os_rename_ok by blast
      obtain r2 fs2 where r2: "os_rename env tmp exe fs1 = (r2, fs2)" by (cases "os_rename env tmp exe fs1")
      then obtain e2 where "r2 = Some e2" using assms(1) True Pair None by (cases r2) (auto simp: swap_in_def Let_def)
      then have fs2: "fs2 = fs1" using r2 os_rename_fails by blast
      have fs': "fs' = os_remove env tmp (snd (os_rename env ?old exe fs1))"
        using assms(1) True Pair None r2 \<open>r2 = Some e2\<close> fs2 by (auto simp: swap_in_def Let_def)
      show ?thesis using f keep assms(2,3) True unfolding fs'
        by (cases "ue_rename env ?old exe") (auto simp: os_remove_else os_rename_def)
    qed
  qed
qed

section \<open>Properties\<close>

lemma install_verified:
  assumes "installRelease env rel exe fs = (Inr bak, fs')"
  shows "\<exists>url asset data mode old sums out. findAsset env rel = Inr (url, asset) \<and> ue_fetch env url = Inr (200, data, None) \<and>
    fetchChecksums env (findChecksumsURL rel) = Inr sums \<and> sums asset = Some (hex_of_bytes (ue_sha256 env data)) \<and>
    ue_run env (data, mode) = Inr out \<and> str_contains out ''remotecmd-cli version'' \<and> fs' exe = Some (data, mode) \<and>
    fs exe = Some old \<and> bak = exe @ ''.bak'' \<and> map_option fst (fs' bak) = Some (fst old)"
proof -
  let ?tmp = "new_path env exe" and ?bak = "exe @ ''.bak''"
  obtain url asset where asset: "findAsset env rel = Inr (url, asset)"
    using assms by (auto simp: installRelease_def split: sum.splits)
  obtain fs1 where dl: "downloadFile env url ?tmp fs = (None, fs1)"
    using assms asset by (auto simp: installRelease_def Let_def split: prod.splits option.splits)
  define fs2 where "fs2 = os_chmod env ?tmp 493 fs1"
  have verify: "verifyReleaseChecksum env rel ?tmp asset fs1 = None" and smoke: "smokeTestBinary env ?tmp fs2 = None"
    using assms asset dl by (auto simp: installRelease_def Let_def fs2_def split: option.splits)
  obtain fs3 where cp: "copyFile env exe ?bak fs2 = (None, fs3)"
    using assms asset dl verify smoke by (auto simp: installRelease_def Let_def fs2_def split: prod.splits option.splits)
  have swap: "swap_in env ?tmp exe fs3 = (None, fs')" and bak: "bak = ?bak"
    using assms asset dl verify smoke cp by (auto simp: installRelease_def Let_def fs2_def split: prod.splits option.splits)
  obtain d m where d: "ue_fetch env url = Inr (200, d, None)" "fs1 = fs(?tmp \<mapsto> (d, m))" using downloadFile_ok [OF dl] by blast
  obtain mode where mode: "fs2 ?tmp = Some (d, mode)" using os_chmod_at [of fs1 ?tmp d m] by (auto simp: fs2_def d(2))
  have exe2: "fs2 exe = fs exe" by (simp add: fs2_def d(2) os_chmod_else)
  obtain b mb mb' where b: "fs exe = Some (b, mb)" "fs3 = (fs2(exe @ ''.bak.tmp'' := None))(?bak \<mapsto> (b, mb'))"
    using copyFile_ok [OF cp] by (auto simp: exe2)
  note s = swap_ok [OF swap]
  have "fs' exe = Some (d, mode)" "fs' ?bak = Some (b, mb')" using s mode by (auto simp: b(2))
  then show ?thesis using asset d verify_ok [OF verify] smoke_ok [OF smoke] mode b(1) bak by auto
qed

text \<open>
  C14. An installed binary is verified. When an installation succeeds, the file in place is the
  complete download of the asset chosen for the platform; the release's checksum list has an entry
  for that very asset and it is the file's SHA-256; the file was run and printed its version; and
  the previous binary's contents are kept beside it.
\<close>

theorem installed_binary_is_verified:
  assumes "installRelease env rel exe fs = (Inr bak, fs')"
  shows "\<exists>url asset data mode old sums out. findAsset env rel = Inr (url, asset) \<and> ue_fetch env url = Inr (200, data, None) \<and>
    fetchChecksums env (findChecksumsURL rel) = Inr sums \<and> sums asset = Some (hex_of_bytes (ue_sha256 env data)) \<and>
    ue_run env (data, mode) = Inr out \<and> str_contains out ''remotecmd-cli version'' \<and> fs' exe = Some (data, mode) \<and>
    fs exe = Some old \<and> bak = exe @ ''.bak'' \<and> map_option fst (fs' bak) = Some (fst old)"
  by (rule install_verified [OF assms])

lemma failed_keeps:
  assumes "installRelease env rel exe fs = (Inl e, fs')"
  shows "(fs' exe = fs exe \<or>
      ue_goos env = ''windows'' \<and> ue_rename env (exe @ ''.old'') exe \<noteq> None \<and> fs' exe = None \<and> fs' (exe @ ''.old'') = fs exe) \<and>
    (\<forall>p. p \<notin> {exe, new_path env exe, exe @ ''.bak'', exe @ ''.bak.tmp'', exe @ ''.old''} \<longrightarrow> fs' p = fs p)"
proof -
  let ?tmp = "new_path env exe" and ?bak = "exe @ ''.bak''"
  let ?same = "\<lambda>fs1. \<forall>p. p \<notin> {?tmp, ?bak, ?bak @ ''.tmp''} \<longrightarrow> fs1 p = fs p"
  have done_if: ?thesis if "?same fs1" "fs' = os_remove env ?tmp fs1" for fs1 using that by (auto simp: os_remove_else)
  show ?thesis
  proof (cases "findAsset env rel")
    case (Inl a)
    then show ?thesis using assms by (simp add: installRelease_def)
  next
    case (Inr ua)
    obtain url asset where ua: "ua = (url, asset)" by (cases ua)
    obtain r1 fs1 where r1: "downloadFile env url ?tmp fs = (r1, fs1)" by (cases "downloadFile env url ?tmp fs")
    then have same1: "?same fs1" using downloadFile_else [of _ ?tmp env url fs] by simp
    define fs2 where "fs2 = os_chmod env ?tmp 493 fs1"
    have same2: "?same fs2" using same1 by (simp add: fs2_def os_chmod_else)
    obtain r3 fs3 where r3: "copyFile env exe ?bak fs2 = (r3, fs3)" by (cases "copyFile env exe ?bak fs2")
    have same3: "?same fs3" using same2 copyFile_else [of _ ?bak env exe fs2] r3 by simp
    obtain r4 fs4 where r4: "swap_in env ?tmp exe fs3 = (r4, fs4)" by (cases "swap_in env ?tmp exe fs3")
    note inst = assms [unfolded installRelease_def Inr ua, simplified, unfolded Let_def r1, simplified]
    consider "r1 \<noteq> None" | "r1 = None" "verifyReleaseChecksum env rel ?tmp asset fs1 \<noteq> None"
      | "r1 = None" "verifyReleaseChecksum env rel ?tmp asset fs1 = None" "smokeTestBinary env ?tmp fs2 \<noteq> None"
      | "r1 = None" "verifyReleaseChecksum env rel ?tmp asset fs1 = None" "smokeTestBinary env ?tmp fs2 = None" "r3 \<noteq> None"
      | "r1 = None" "verifyReleaseChecksum env rel ?tmp asset fs1 = None" "smokeTestBinary env ?tmp fs2 = None" "r3 = None"
      by blast
    then show ?thesis
    proof cases
      case 1
      then show ?thesis using inst by (intro done_if [OF same1]) (auto split: if_splits)
    next
      case 2
      then show ?thesis using inst by (intro done_if [OF same1]) auto
    next
      case 3
      then show ?thesis using inst by (intro done_if [OF same2]) (auto simp: fs2_def)
    next
      case 4
      then show ?thesis using inst r3 by (intro done_if [OF same3]) (auto simp: fs2_def)
    next
      case 5
      then obtain e4 where "r4 = Some e4" "fs' = fs4" using inst r3 r4 by (cases r4) (auto simp: fs2_def)
      then show ?thesis using swap_fails [of env ?tmp exe fs3 e4 fs4] r4 same3 by auto
    qed
  qed
qed

text \<open>
  C26. A failed installation leaves the program alone. Whatever step fails, the file in place is
  what it was, and no file changes but the download, the backup and its temporary copy, and the
  file moved aside. The exception is Windows when putting the running binary back fails too: then
  it is the file moved aside, although the error says that it was restored.
\<close>

theorem failed_install_keeps_binary:
  assumes "installRelease env rel exe fs = (Inl e, fs')"
  shows "(fs' exe = fs exe \<or>
      ue_goos env = ''windows'' \<and> ue_rename env (exe @ ''.old'') exe \<noteq> None \<and> fs' exe = None \<and> fs' (exe @ ''.old'') = fs exe) \<and>
    (\<forall>p. p \<notin> {exe, new_path env exe, exe @ ''.bak'', exe @ ''.bak.tmp'', exe @ ''.old''} \<longrightarrow> fs' p = fs p)"
  by (rule failed_keeps [OF assms])

lemma update_flags_iff:
  "update_flags as c f = Inr (c', f') \<Longrightarrow> c' = (c \<or> ''--check'' \<in> set as) \<and> f' = (f \<or> ''--force'' \<in> set as)"
  by (induction as c f rule: update_flags.induct) (auto split: if_splits)

text \<open>
  The update command moves forward or does nothing. It reports an update only when the latest
  release is newer than the running version or \<open>--force\<close> was given, never with \<open>--check\<close>, and then
  the program is the one that was installed; with every other outcome the program is what it was
  (but for a binary that Windows would not move back).
\<close>

theorem update_moves_forward:
  assumes "handleUpdate env version argv gh http (Inr exe) args fs = (r, fs')"
  shows "case r of
      Updated current latest bak \<Rightarrow> current = version \<and> ''--check'' \<notin> set args \<and> (versionLess version latest \<or> ''--force'' \<in> set args) \<and>
        (\<exists>rel. latestReleaseInfo gh http = Inr rel \<and> latest = trim_prefix (rel_tag rel) ''v'' \<and> installRelease env rel exe fs = (Inr bak, fs'))
    | _ \<Rightarrow> fs' exe = fs exe \<or> ue_goos env = ''windows'' \<and> fs' exe = None \<and> fs' (exe @ ''.old'') = fs exe"
proof (cases "update_flags args False False")
  case (Inl e)
  then show ?thesis using assms by (auto simp: handleUpdate_def)
next
  case (Inr cf)
  obtain check force where cf: "cf = (check, force)" by (cases cf)
  have flags: "check = (''--check'' \<in> set args)" "force = (''--force'' \<in> set args)" using update_flags_iff Inr cf by blast+
  show ?thesis
  proof (cases "latestReleaseInfo gh http")
    case (Inl e)
    then show ?thesis using assms Inr cf by (auto simp: handleUpdate_def)
  next
    fix rel assume rel: "latestReleaseInfo gh http = Inr rel"
    let ?latest = "trim_prefix (rel_tag rel) ''v''"
    obtain ri fi where i: "installRelease env rel exe fs = (ri, fi)" by (cases "installRelease env rel exe fs")
    note u = assms [unfolded handleUpdate_def Inr cf rel, simplified, unfolded rel Let_def i, simplified]
    show ?thesis
    proof (cases ri)
      case (Inl e)
      then show ?thesis using u i failed_keeps [of env rel exe fs e fi] by (auto split: if_splits)
    next
      case (Inr bak)
      then show ?thesis using u i flags rel by (auto split: if_splits)
    qed
  qed
qed

section \<open>The checksum list\<close>

definition plain_word :: "string \<Rightarrow> bool" where
  "plain_word n \<longleftrightarrow> n \<noteq> '''' \<and> hd n \<noteq> CHR ''*'' \<and> \<not> list_ex go_space n"

text \<open>A line of \<open>sha256sum\<close> (or of \<open>sha256sum -b\<close>) for a name and a digest.\<close>

definition sum_line :: "string \<times> bool \<times> bytes \<Rightarrow> string" where
  "sum_line e = (case e of (n, binary, d) \<Rightarrow> hex_of_bytes d @ (if binary then '' *'' else ''  '') @ n)"

lemma hex_digit_char: "d < 16 \<Longrightarrow> of_char (hex_digit d) = (if d < 10 then 48 + d else 87 + d :: nat)"
  by (simp add: hex_digit_def of_char_of take_bit_nat_eq_self)

lemma hex_text:
  "c \<in> set (hex_of_bytes d) \<Longrightarrow> \<not> go_space c" "ascii_lower (hex_of_bytes d) = hex_of_bytes d" "hex_of_bytes d = '''' \<longleftrightarrow> d = []"
proof -
  have digit: "\<exists>k < 16. c = hex_digit k" if c: "c \<in> set (hex_of_bytes d)" for c
  proof -
    obtain x :: byte where "c = hex_digit (unat x div 16) \<or> c = hex_digit (unat x mod 16)"
      using c by (fastforce simp: hex_of_bytes_def hex_byte_def)
    moreover have "unat x div 16 < 16" using unat_byte_lt [of x] by (simp add: less_mult_imp_div_less)
    ultimately show ?thesis by (metis mod_less_divisor zero_less_numeral)
  qed
  show "\<not> go_space c" if "c \<in> set (hex_of_bytes d)" using digit [OF that] by (auto simp: go_space_def hex_digit_char split: if_splits)
  show "ascii_lower (hex_of_bytes d) = hex_of_bytes d"
    unfolding ascii_lower_def by (rule map_idI) (use digit in \<open>fastforce simp: hex_digit_char Let_def split: if_splits\<close>)
  show "hex_of_bytes d = '''' \<longleftrightarrow> d = []" by (cases d) (simp_all add: hex_of_bytes_def hex_byte_def)
qed

lemma checksum_sum_line:
  assumes "plain_word n" and "d \<noteq> []"
  shows "checksum_line (sum_line (n, b, d)) m = m(n \<mapsto> hex_of_bytes d)"
proof -
  let ?h = "hex_of_bytes d" and ?n = "if b then CHR ''*'' # n else n"
  have n: "\<forall>c\<in>set ?n. \<not> go_space c" "?n \<noteq> ''''"
    using assms(1) by (auto simp: plain_word_def list_ex_iff go_space_def)
  have h: "\<forall>c\<in>set ?h. \<not> go_space c" using hex_text(1) by blast
  have "sum_line (n, b, d) = ?h @ CHR '' '' # (if b then '''' else '' '') @ ?n" by (simp add: sum_line_def)
  moreover have "go_fields_from '''' ((if b then '''' else '' '') @ ?n) = [?n]"
    using go_fields_word [OF n(1), of "''''" "''''"] n(2) by (cases b) (simp_all add: go_space_def)
  ultimately have "go_fields (sum_line (n, b, d)) = [?h, ?n]"
    using go_fields_word [OF h, of "''''" "CHR '' '' # (if b then '''' else '' '') @ ?n"] hex_text(3) [of d] assms(2)
    by (simp add: go_fields_def go_space_def)
  moreover have "trim_prefix ?n ''*'' = n"
    using assms(1) by (cases n) (auto simp: trim_prefix_def has_prefix_def plain_word_def)
  ultimately show ?thesis by (simp add: checksum_line_def hex_text(2))
qed

lemma sum_line_no_newline: "plain_word n \<Longrightarrow> CHR 0x0A \<notin> set (sum_line (n, b, d))"
  using hex_text(1) [of "CHR 0x0A" d] by (auto simp: sum_line_def plain_word_def list_ex_iff go_space_def)

lemma split_lines:
  "\<forall>l\<in>set ls. CHR 0x0A \<notin> set l \<Longrightarrow> go_split (CHR 0x0A) (concat (map (\<lambda>l. l @ [CHR 0x0A]) ls)) = ls @ ['''']"
  by (induction ls) (auto simp: go_split_cons)

lemma fold_upd: "fold (\<lambda>e m. m(k e \<mapsto> v e)) es m = m ++ map_of (rev (map (\<lambda>e. (k e, v e)) es))"
  by (induction es arbitrary: m) (auto simp: map_add_def fun_eq_iff split: option.split)

lemma checksums_read:
  assumes "\<forall>(n, b, d)\<in>set es. plain_word n \<and> d \<noteq> []"
  shows "parse_checksums (concat (map (\<lambda>e. sum_line e @ [CHR 0x0A]) es)) = map_of (rev (map (\<lambda>(n, b, d). (n, hex_of_bytes d)) es))"
proof -
  have "\<forall>l\<in>set (map sum_line es). CHR 0x0A \<notin> set l" using assms sum_line_no_newline by fastforce
  from split_lines [OF this]
  have "parse_checksums (concat (map (\<lambda>e. sum_line e @ [CHR 0x0A]) es)) = checksum_line '''' (fold checksum_line (map sum_line es) Map.empty)"
    by (simp add: parse_checksums_def comp_def)
  also have "\<dots> = fold (\<lambda>e m. checksum_line (sum_line e) m) es Map.empty"
  proof -
    have "checksum_line '''' m = m" for m by (simp add: checksum_line_def go_fields_def)
    then show ?thesis by (simp add: fold_map comp_def)
  qed
  also have "\<dots> = fold (\<lambda>e m. m(fst e \<mapsto> hex_of_bytes (snd (snd e)))) es Map.empty"
    by (rule fold_cong) (use assms checksum_sum_line in \<open>fastforce+\<close>)
  also have "\<dots> = map_of (rev (map (\<lambda>(n, b, d). (n, hex_of_bytes d)) es))"
    unfolding fold_upd by (simp add: case_prod_unfold)
  finally show ?thesis .
qed

text \<open>
  The checksum list is read as it was written: from the output of \<open>sha256sum\<close>, in text or binary
  mode, the parser gives each name its digest in lower case and knows no other name; a later line
  for the same name replaces an earlier one.
\<close>

theorem checksums_roundtrip:
  assumes "\<forall>(n, b, d)\<in>set es. plain_word n \<and> d \<noteq> []"
  shows "parse_checksums (concat (map (\<lambda>e. sum_line e @ [CHR 0x0A]) es)) = map_of (rev (map (\<lambda>(n, b, d). (n, hex_of_bytes d)) es))"
  by (rule checksums_read [OF assms])

theorem checksums_roundtrip_witness:
  "parse_checksums (concat (map (\<lambda>e. sum_line e @ [CHR 0x0A]) [(''a'', False, [171, 0]), (''b'', True, [1]), (''a'', True, [2])])) =
     [''a'' \<mapsto> ''02'', ''b'' \<mapsto> ''01'', ''a'' \<mapsto> ''02'']"
proof -
  have "\<forall>(n, b, d)\<in>set [(''a'', False, [171 :: byte, 0]), (''b'', True, [1]), (''a'', True, [2])]. plain_word n \<and> d \<noteq> []"
    by (simp add: plain_word_def go_space_def)
  note r = checksums_roundtrip [OF this]
  have "hex_of_bytes [1] = ''01''" "hex_of_bytes [2] = ''02''" by code_simp+
  then show ?thesis by (subst r) (simp add: fun_eq_iff)
qed

section \<open>A concrete release\<close>

definition demo_release :: release where
  "demo_release = \<lparr>rel_tag = ''v2.8.0'', rel_assets = [(''remotecmd-cli-linux-amd64'', ''u1''), (''checksums.txt'', ''u2'')]\<rparr>"

definition demo_sums :: bytes where
  "demo_sums = map (\<lambda>c. word_of_nat (of_char c)) (sum_line (''remotecmd-cli-linux-amd64'', False, replicate 32 7) @ [CHR 0x0A])"

definition demo_update :: update_env where
  "demo_update = \<lparr>ue_goos = ''linux'', ue_goarch = ''amd64'', ue_pid = 42,
     ue_fetch = (\<lambda>u. if u = ''u1'' then Inr (200, [1, 2], None) else Inr (200, demo_sums, None)),
     ue_sha256 = (\<lambda>d. replicate 32 (if d = [1, 2] then 7 else 8)), ue_run = (\<lambda>f. Inr (version_line ''2.8.0'')), ue_umask = id,
     ue_create = (\<lambda>_. None), ue_write = (\<lambda>_. None), ue_open = (\<lambda>_. None), ue_chmod = (\<lambda>_. True), ue_remove = (\<lambda>_. True),
     ue_rename = (\<lambda>_ _. None)\<rparr>"

definition demo_disk :: disk where "demo_disk = [''/b/rc'' \<mapsto> ([9], 493)]"

lemma text_of_bytes: "text_of (map (\<lambda>c. word_of_nat (of_char c)) s) = s"
  unfolding text_of_def map_map by (rule map_idI) (simp add: unat_of_nat del: of_nat_of_char)

lemma demo_checks:
  "findAsset demo_update demo_release = Inr (''u1'', ''remotecmd-cli-linux-amd64'')"
  "findChecksumsURL demo_release = ''u2''"
  "fetchChecksums demo_update ''u2'' = Inr [''remotecmd-cli-linux-amd64'' \<mapsto> hex_of_bytes (replicate 32 7)]"
  "new_path demo_update ''/b/rc'' = ''/b/rc.new.42''" "hex_of_bytes (replicate 32 7) = concat (replicate 32 ''07'')"
proof -
  show "findAsset demo_update demo_release = Inr (''u1'', ''remotecmd-cli-linux-amd64'')" by code_simp
  show "findChecksumsURL demo_release = ''u2''" by code_simp
  show hex: "hex_of_bytes (replicate 32 7) = concat (replicate 32 ''07'')" by code_simp
  show "new_path demo_update ''/b/rc'' = ''/b/rc.new.42''" by code_simp
  have "parse_checksums (text_of demo_sums) = [''remotecmd-cli-linux-amd64'' \<mapsto> hex_of_bytes (replicate 32 7)]"
    using checksums_read [of "[(''remotecmd-cli-linux-amd64'', False, replicate 32 7)]"]
    by (simp add: demo_sums_def text_of_bytes plain_word_def go_space_def del: map_append)
  moreover have "length demo_sums = 92" by code_simp
  ultimately show "fetchChecksums demo_update ''u2'' = Inr [''remotecmd-cli-linux-amd64'' \<mapsto> hex_of_bytes (replicate 32 7)]"
    by (simp add: fetchChecksums_def demo_update_def checksums_limit_def)
qed

lemma demo_install:
  "\<exists>fs'. installRelease demo_update demo_release ''/b/rc'' demo_disk = (Inr ''/b/rc.bak'', fs') \<and> fs' ''/b/rc'' = Some ([1, 2], 493)"
proof -
  have size: "length (concat (replicate 32 ''07'')) = 64" by code_simp
  have smoke: "str_contains (version_line ''2.8.0'') ''remotecmd-cli version''" by code_simp
  note env = demo_update_def downloadFile_def write_file_def file_mode_def verifyReleaseChecksum_def fileSHA256_def os_chmod_def
    smokeTestBinary_def copyFile_def swap_in_def os_rename_def
  have dl: "downloadFile demo_update ''u1'' ''/b/rc.new.42'' demo_disk = (None, demo_disk(''/b/rc.new.42'' \<mapsto> ([1, 2], 438)))"
    by (simp add: env demo_disk_def)
  have verify: "verifyReleaseChecksum demo_update demo_release ''/b/rc.new.42'' ''remotecmd-cli-linux-amd64''
      (demo_disk(''/b/rc.new.42'' \<mapsto> ([1, 2], 438))) = None"
    unfolding verifyReleaseChecksum_def demo_checks(2) Let_def using size
    by (simp add: demo_checks(3,5) fileSHA256_def) (simp add: demo_update_def demo_checks(5))
  have "installRelease demo_update demo_release ''/b/rc'' demo_disk =
     (Inr ''/b/rc.bak'', [''/b/rc.bak'' \<mapsto> ([9], 493), ''/b/rc'' \<mapsto> ([1, 2], 493)])"
    unfolding installRelease_def demo_checks(1) Let_def demo_checks(4)
    by (simp add: dl verify) (simp add: env smoke demo_disk_def fun_eq_iff)
  then show ?thesis by simp
qed

theorem installed_binary_is_verified_witness:
  "\<exists>fs' sums. installRelease demo_update demo_release ''/b/rc'' demo_disk = (Inr ''/b/rc.bak'', fs') \<and>
    fetchChecksums demo_update (findChecksumsURL demo_release) = Inr sums \<and>
    sums ''remotecmd-cli-linux-amd64'' = Some (hex_of_bytes (ue_sha256 demo_update [1, 2]))"
proof -
  obtain fs' where i: "installRelease demo_update demo_release ''/b/rc'' demo_disk = (Inr ''/b/rc.bak'', fs')" using demo_install by blast
  from installed_binary_is_verified [OF i] obtain url asset d sums
    where "findAsset demo_update demo_release = Inr (url, asset)" "ue_fetch demo_update url = Inr (200, d, None)"
      "fetchChecksums demo_update (findChecksumsURL demo_release) = Inr sums" "sums asset = Some (hex_of_bytes (ue_sha256 demo_update d))"
    by blast
  then show ?thesis using i demo_checks(1) by (auto simp: demo_update_def)
qed

text \<open>The same release when the download is refused.\<close>

theorem failed_install_keeps_binary_witness:
  "\<exists>e fs'. installRelease (demo_update\<lparr>ue_create := \<lambda>_. Some (''permission denied'', True)\<rparr>) demo_release ''/b/rc'' demo_disk = (Inl e, fs') \<and>
    fs' ''/b/rc'' = demo_disk ''/b/rc''"
proof -
  let ?env = "demo_update\<lparr>ue_create := \<lambda>_. Some (''permission denied'', True)\<rparr>"
  have "findAsset ?env demo_release = Inr (''u1'', ''remotecmd-cli-linux-amd64'')" by code_simp
  then obtain e fs' where i: "installRelease ?env demo_release ''/b/rc'' demo_disk = (Inl e, fs')"
    by (simp add: installRelease_def downloadFile_def Let_def) (simp add: demo_update_def)
  then show ?thesis using failed_install_keeps_binary [OF i] by (auto simp: demo_update_def)
qed

theorem update_moves_forward_witness:
  "\<exists>bak fs'. handleUpdate demo_update ''2.7.0'' [''rc'', ''update''] (Inl '''') (Inr demo_release) (Inr ''/b/rc'') [] demo_disk =
    (Updated ''2.7.0'' ''2.8.0'' bak, fs') \<and> versionLess ''2.7.0'' ''2.8.0''"
proof -
  have v: "trim_prefix (rel_tag demo_release) ''v'' = ''2.8.0''" "versionLess ''2.7.0'' ''2.8.0''" by code_simp+
  obtain fs' where i: "installRelease demo_update demo_release ''/b/rc'' demo_disk = (Inr ''/b/rc.bak'', fs')" using demo_install by blast
  have u: "handleUpdate demo_update ''2.7.0'' [''rc'', ''update''] (Inl '''') (Inr demo_release) (Inr ''/b/rc'') [] demo_disk =
    (Updated ''2.7.0'' ''2.8.0'' ''/b/rc.bak'', fs')"
    by (simp add: handleUpdate_def latestReleaseInfo_def v Let_def i)
  then show ?thesis using update_moves_forward [OF u] by simp
qed

end
