(* ===== verification/ProcUpdate.thy ===== *)
theory ProcUpdate
  imports UpdateProps
begin

text \<open>
  Updating the binary of running daemons and relays (procupdate.go): finding the processes, one
  installation per binary, and the choice of how each process is restarted. The process table, the
  supervisor, signals and the output of a binary are parameters.
\<close>

section \<open>Command lines\<close>

fun names_instance :: "string \<Rightarrow> string list \<Rightarrow> bool" where
  "names_instance n [] = False"
| "names_instance n (a # rest) =
     ((a = ''-name'' \<or> a = ''--name'') \<and> rest \<noteq> [] \<and> hd rest = n \<or> a = ''-name='' @ n \<or> a = ''--name='' @ n \<or> names_instance n rest)"

definition start_words :: "string \<Rightarrow> string list" where
  "start_words kind = (if kind = ''relay'' then [''relay'', ''daemon'', ''start''] else [''daemon'', ''start''])"

definition matchesProc :: "string list \<Rightarrow> string \<Rightarrow> string \<Rightarrow> bool" where
  "matchesProc argv kind name \<longleftrightarrow>
     (let want = start_words kind
      in length argv \<ge> length want + 1 \<and> take (length want) (tl argv) = want \<and>
         (kind = ''daemon'' \<and> name \<noteq> '''' \<longrightarrow> names_instance name (drop (length want + 1) argv)))"

text \<open>\<open>splitWindowsCommandLine\<close>: the arguments so far, the one being read, inside quotes, and
  whether one is being read.\<close>

fun split_command :: "string \<Rightarrow> bool \<Rightarrow> bool \<Rightarrow> string \<Rightarrow> string list" where
  "split_command cur quoted have [] = (if have then [cur] else [])"
| "split_command cur quoted have (c # s) =
     (if c = CHR 0x22 then split_command cur (\<not> quoted) True s
      else if (c = CHR '' '' \<or> c = CHR 0x09) \<and> \<not> quoted
        then (if have then cur # split_command '''' quoted False s else split_command cur quoted have s)
      else split_command (cur @ [c]) quoted True s)"

definition splitWindowsCommandLine :: "string \<Rightarrow> string list" where
  "splitWindowsCommandLine s = split_command '''' False False s"

section \<open>The supervising unit\<close>

text \<open>\<open>strings.SplitN\<close>.\<close>

fun go_splitn :: "nat \<Rightarrow> char \<Rightarrow> string \<Rightarrow> string list" where
  "go_splitn 0 d s = []"
| "go_splitn (Suc 0) d s = [s]"
| "go_splitn (Suc (Suc n)) d s =
     (if d \<in> set s then takeWhile (\<lambda>c. c \<noteq> d) s # go_splitn (Suc n) d (tl (dropWhile (\<lambda>c. c \<noteq> d) s)) else [s])"

text \<open>The path segments from the last to the first.\<close>

fun service_of :: "string list \<Rightarrow> (string \<times> bool) option" where
  "service_of [] = None"
| "service_of (s # before) =
     (if has_suffix s ''.service'' \<and> \<not> has_prefix s ''user@''
      then Some (s, list_ex (\<lambda>p. has_prefix p ''user@'') before) else service_of before)"

definition unit_of_line :: "string \<Rightarrow> (string \<times> bool) option" where
  "unit_of_line line =
     (case go_splitn 3 (CHR '':'') line of [_, _, path] \<Rightarrow> service_of (rev (go_split (CHR ''/'') path)) | _ \<Rightarrow> None)"

definition unitFromCgroup :: "string \<Rightarrow> string \<times> bool" where
  "unitFromCgroup cgroup =
     (case List.map_filter unit_of_line (go_split (CHR 0x0A) cgroup) of u # _ \<Rightarrow> u | [] \<Rightarrow> ('''', False))"

text \<open>\<open>main_pid\<close>: the main process systemd knows for a (user) unit, 0 if none.\<close>

definition supervisingUnit :: "(string \<Rightarrow> bool \<Rightarrow> int) \<Rightarrow> int \<Rightarrow> string \<Rightarrow> string \<times> bool" where
  "supervisingUnit main_pid pid cgroup =
     (case unitFromCgroup cgroup of (u, user) \<Rightarrow>
        if u = '''' \<or> main_pid u user \<noteq> pid then ('''', False) else (u, user))"

section \<open>The running processes\<close>

record running_proc =
  rp_pid :: int
  rp_exe :: string
  rp_args :: "string list"
  rp_kind :: string
  rp_unit :: string
  rp_userUnit :: bool
  rp_version :: string
  rp_canReexec :: bool

text \<open>A directory of \<open>/proc\<close>: its name, what its files hold (\<open>None\<close>: not readable), and what the
  binary behind it prints for \<open>version\<close> and \<open>help-json\<close>.\<close>

record proc_entry =
  pe_name :: string
  pe_cmdline :: "string option"
  pe_exe :: "string option"
  pe_cgroup :: "string option"
  pe_versionOut :: string
  pe_helpOut :: string

definition drop_trailing :: "char \<Rightarrow> string \<Rightarrow> string" where
  "drop_trailing c s = rev (dropWhile (\<lambda>d. d = c) (rev s))"

definition proc_argv :: "string \<Rightarrow> string list" where
  "proc_argv raw = go_split (CHR 0x00) (drop_trailing (CHR 0x00) raw)"

text \<open>\<open>ns\<close> reads a namespace of a process, \<open>self\<close> being our own.\<close>

definition inOurNamespaces :: "(string \<Rightarrow> string \<Rightarrow> string option) \<Rightarrow> int \<Rightarrow> bool" where
  "inOurNamespaces ns pid \<longleftrightarrow>
     list_all (\<lambda>k. case (ns ''self'' k, ns (go_itoa pid) k) of (Some a, Some b) \<Rightarrow> a = b | _ \<Rightarrow> False) [''pid'', ''mnt'']"

definition probeRunning :: "string \<Rightarrow> string \<Rightarrow> string \<Rightarrow> running_proc \<Rightarrow> running_proc" where
  "probeRunning goos versionOut helpOut p =
     p\<lparr>rp_version := parseDaemonVersion versionOut,
       rp_canReexec := goos \<noteq> ''windows'' \<and> str_contains helpOut ([CHR 0x22] @ ''daemon update'' @ [CHR 0x22])\<rparr>"

definition proc_of_entry ::
    "string \<Rightarrow> (string \<Rightarrow> string \<Rightarrow> string option) \<Rightarrow> (string \<Rightarrow> bool \<Rightarrow> int) \<Rightarrow> int \<Rightarrow> string \<Rightarrow> string \<Rightarrow> proc_entry \<Rightarrow> running_proc option" where
  "proc_of_entry goos ns main_pid self kind name e =
     (case go_atoi (pe_name e) of
        None \<Rightarrow> None
      | Some pid \<Rightarrow>
          if pid = self then None
          else case pe_cmdline e of
            None \<Rightarrow> None
          | Some raw \<Rightarrow>
              if raw = '''' \<or> \<not> matchesProc (proc_argv raw) kind name \<or> \<not> inOurNamespaces ns pid then None
              else case pe_exe e of
                None \<Rightarrow> None
              | Some exe \<Rightarrow>
                  (let (u, user) = (case pe_cgroup e of None \<Rightarrow> ('''', False) | Some cg \<Rightarrow> supervisingUnit main_pid pid cg)
                   in Some (probeRunning goos (pe_versionOut e) (pe_helpOut e)
                        \<lparr>rp_pid = pid, rp_exe = trim_suffix exe '' (deleted)'', rp_args = proc_argv raw, rp_kind = kind,
                         rp_unit = u, rp_userUnit = user, rp_version = '''', rp_canReexec = False\<rparr>)))"

definition findRunning ::
    "string \<Rightarrow> (string \<Rightarrow> string \<Rightarrow> string option) \<Rightarrow> (string \<Rightarrow> bool \<Rightarrow> int) \<Rightarrow> int \<Rightarrow> string \<Rightarrow> string \<Rightarrow> proc_entry list \<Rightarrow> running_proc list" where
  "findRunning goos ns main_pid self kind name entries = List.map_filter (proc_of_entry goos ns main_pid self kind name) entries"

text \<open>On Windows: the processes with their executable path and command line.\<close>

definition parseWindowsProcs :: "(int \<times> string \<times> string) list \<Rightarrow> string \<Rightarrow> string \<Rightarrow> int \<Rightarrow> running_proc list" where
  "parseWindowsProcs cims kind name self =
     List.map_filter (\<lambda>(pid, path, cmdline).
       let argv = splitWindowsCommandLine cmdline
       in if pid = self \<or> \<not> matchesProc argv kind name then None
          else Some \<lparr>rp_pid = pid, rp_exe = path, rp_args = path # tl argv, rp_kind = kind, rp_unit = '''', rp_userUnit = False,
                     rp_version = '''', rp_canReexec = False\<rparr>) cims"

definition findRunningWindows ::
    "(string \<Rightarrow> string \<times> string) \<Rightarrow> (int \<times> string \<times> string) list \<Rightarrow> string \<Rightarrow> string \<Rightarrow> int \<Rightarrow> running_proc list" where
  "findRunningWindows outputs cims kind name self =
     map (\<lambda>p. probeRunning ''windows'' (fst (outputs (rp_exe p))) (snd (outputs (rp_exe p))) p) (parseWindowsProcs cims kind name self)"

definition selectPID :: "running_proc list \<Rightarrow> int \<Rightarrow> string + running_proc list" where
  "selectPID procs pid =
     (case find (\<lambda>p. rp_pid p = pid) procs of
        Some p \<Rightarrow> Inr [p]
      | None \<Rightarrow> Inl (''no running daemon with pid '' @ go_itoa pid @ '' (found: '' @ go_join '', '' (map (go_itoa \<circ> rp_pid) procs) @ '')''))"

section \<open>Restarting\<close>

definition restartTimerArgs :: "running_proc \<Rightarrow> string list" where
  "restartTimerArgs p =
     (if rp_userUnit p then [''--user''] else []) @
     [''--on-active=2'', ''--timer-property=AccuracySec=100ms'', ''--quiet'', ''--collect'', ''--unit=remotecmd-restart-'' @ go_itoa (rp_pid p)] @
     (if rp_userUnit p then [''systemctl'', ''--user'', ''restart'', rp_unit p] else [''systemctl'', ''restart'', rp_unit p])"

text \<open>The outside world of a restart: the error of a signal, of systemd-run (with its output), and
  the helper that was spawned (its log) or why not.\<close>

record restart_env =
  re_signal :: "int \<Rightarrow> string option"
  re_systemd :: "string list \<Rightarrow> (string \<times> string) option"
  re_helper :: "running_proc \<Rightarrow> string \<Rightarrow> string + string"

datatype restart_method = Reexec | Systemd | Helper | Manual

record restart_result =
  rr_pid :: int
  rr_method :: restart_method
  rr_ok :: bool
  rr_note :: string

definition restartProc :: "restart_env \<Rightarrow> running_proc \<Rightarrow> restart_result" where
  "restartProc env p =
     (let res = (\<lambda>m good note. \<lparr>rr_pid = rp_pid p, rr_method = m, rr_ok = good, rr_note = note\<rparr>)
      in if rp_canReexec p then
           (case re_signal env (rp_pid p) of
              Some e \<Rightarrow> res Reexec False e
            | None \<Rightarrow> res Reexec True ''re-executes in place once in-flight commands finish'')
         else if rp_unit p \<noteq> '''' then
           (case re_systemd env (restartTimerArgs p) of
              Some (e, out) \<Rightarrow> res Systemd False (e @ '': '' @ trim_space out)
            | None \<Rightarrow> res Systemd True (''unit '' @ rp_unit p @ '' restarts in 2s''))
         else if rp_args p = [] then res Manual False ''command line unknown: restart it by hand''
         else (case re_helper env p (if rp_kind p = '''' then ''daemon'' else rp_kind p) of
              Inl e \<Rightarrow> res Manual False (''could not start the restart helper ('' @ e @ ''): restart it by hand'')
            | Inr log \<Rightarrow> res Helper True (''restarts in ~3s via a detached helper that rolls back to the .bak binary if the new one doesn'' @
                [CHR 0x27] @ ''t come up; log: '' @ log)))"

section \<open>The command\<close>

record binary_result =
  br_exe :: string
  br_onDisk :: string
  br_installed :: bool
  br_backup :: string
  br_processes :: "running_proc list"
  br_restarts :: "restart_result list"

text \<open>\<open>quiet\<close> is what a binary prints for \<open>version\<close>, whatever its exit status.\<close>

definition runQuiet :: "(upd_file \<Rightarrow> string) \<Rightarrow> string \<Rightarrow> disk \<Rightarrow> string" where
  "runQuiet quiet exe fs = (case fs exe of None \<Rightarrow> '''' | Some f \<Rightarrow> quiet f)"

definition exe_order :: "running_proc list \<Rightarrow> string list" where
  "exe_order procs = foldl (\<lambda>seen p. if rp_exe p \<in> set seen then seen else seen @ [rp_exe p]) [] procs"

text \<open>Whether a binary is installed, and the processes to restart.\<close>

definition binary_plan :: "bool \<Rightarrow> string \<Rightarrow> string \<Rightarrow> running_proc list \<Rightarrow> bool \<times> running_proc list" where
  "binary_plan force latest onDisk ps =
     (let needInstall = (force \<or> versionLess onDisk latest); target = (if needInstall then latest else onDisk)
      in (needInstall, filter (\<lambda>p. force \<or> needInstall \<or> rp_version p \<noteq> target) ps))"

text \<open>The loop over the binaries: the error that ended it, the results, the disk.\<close>

fun update_binaries ::
    "update_env \<Rightarrow> restart_env \<Rightarrow> (upd_file \<Rightarrow> string) \<Rightarrow> string list \<Rightarrow> release \<Rightarrow> bool \<Rightarrow> running_proc list \<Rightarrow> string list \<Rightarrow> disk \<Rightarrow>
     cliError option \<times> binary_result list \<times> disk" where
  "update_binaries env renv quiet argv rel force procs [] fs = (None, [], fs)"
| "update_binaries env renv quiet argv rel force procs (exe # exes) fs =
     (let ps = filter (\<lambda>p. rp_exe p = exe) procs; onDisk = parseDaemonVersion (runQuiet quiet exe fs);
          (needInstall, toRestart) = binary_plan force (trim_prefix (rel_tag rel) ''v'') onDisk ps;
          step = (\<lambda>bak fs'. case update_binaries env renv quiet argv rel force procs exes fs' of
             (e, rs, fs'') \<Rightarrow> (e, \<lparr>br_exe = exe, br_onDisk = onDisk, br_installed = needInstall, br_backup = bak,
                                 br_processes = ps, br_restarts = map (restartProc renv) toRestart\<rparr> # rs, fs''))
      in if needInstall
         then (case installRelease env rel exe fs of
                 (Inl e, fs') \<Rightarrow> (Some (failInstall argv e), [], fs')
               | (Inr bak, fs') \<Rightarrow> step bak fs')
         else step '''' fs)"

definition check_binaries :: "(upd_file \<Rightarrow> string) \<Rightarrow> running_proc list \<Rightarrow> disk \<Rightarrow> binary_result list" where
  "check_binaries quiet procs fs =
     map (\<lambda>exe. \<lparr>br_exe = exe, br_onDisk = parseDaemonVersion (runQuiet quiet exe fs), br_installed = False, br_backup = '''',
                 br_processes = filter (\<lambda>p. rp_exe p = exe) procs, br_restarts = []\<rparr>) (exe_order procs)"

text \<open>\<open>ProcReport\<close>: the field \<open>ok\<close>, the latest version, the binaries, and with \<open>--check\<close> whether
  everything is up to date.\<close>

datatype proc_outcome = ProcFails cliError | ProcReport bool string "binary_result list" "bool option"

definition proc_exit :: "proc_outcome \<Rightarrow> int" where
  "proc_exit r =
     (case r of
        ProcFails e \<Rightarrow> ce_code e
      | ProcReport good latest rs upToDate \<Rightarrow>
          if upToDate = Some False then exitUpdateAvail
          else if upToDate = None \<and> \<not> good then ExitConfigError else 0)"

definition daemon_words :: "string \<Rightarrow> string" where
  "daemon_words kind = (if kind = ''relay'' then ''relay daemon'' else ''daemon'')"

definition select_procs :: "string \<Rightarrow> int \<Rightarrow> running_proc list \<Rightarrow> cliError + running_proc list" where
  "select_procs kind onlyPID procs =
     (case (if onlyPID \<noteq> 0 \<and> procs \<noteq> [] then selectPID procs onlyPID else Inr procs) of
        Inl e \<Rightarrow> Inl (fail ExitConfigError ''not_found'' e [''remotecmd-cli '' @ daemon_words kind @ '' update --check   (lists them)''])
      | Inr [] \<Rightarrow> Inl (fail ExitConfigError ''not_found'' (''no running '' @ kind @ '' found on this machine'')
          [''remotecmd-cli '' @ daemon_words kind @ '' start'', ''remotecmd-cli update   (update this CLI binary only)''])
      | Inr ps \<Rightarrow> Inr ps)"

definition handleProcUpdate ::
    "update_env \<Rightarrow> restart_env \<Rightarrow> (upd_file \<Rightarrow> string) \<Rightarrow> string list \<Rightarrow> string + release \<Rightarrow> string \<Rightarrow> bool \<Rightarrow> bool \<Rightarrow> int \<Rightarrow>
     running_proc list \<Rightarrow> disk \<Rightarrow> proc_outcome \<times> disk" where
  "handleProcUpdate env renv quiet argv release kind check force onlyPID found fs =
     (case select_procs kind onlyPID found of
        Inl e \<Rightarrow> (ProcFails e, fs)
      | Inr procs \<Rightarrow>
          (case release of
             Inl e \<Rightarrow> (ProcFails (failErrCode exitUpdateFail (''cannot reach GitHub: '' @ e) []), fs)
           | Inr rel \<Rightarrow>
               (let latest = trim_prefix (rel_tag rel) ''v''
                in if check then
                     (let rs = check_binaries quiet procs fs;
                          pending = list_ex (\<lambda>r. case binary_plan force latest (br_onDisk r) (br_processes r) of (i, ps) \<Rightarrow> i \<or> ps \<noteq> []) rs
                      in (ProcReport True latest rs (Some (\<not> pending)), fs))
                   else
                     (case update_binaries env renv quiet argv rel force procs (exe_order procs) fs of
                        (Some e, _, fs') \<Rightarrow> (ProcFails e, fs')
                      | (None, rs, fs') \<Rightarrow> (ProcReport (list_all (\<lambda>r. list_all rr_ok (br_restarts r)) rs) latest rs None, fs')))))"

section \<open>Restarting in place\<close>

text \<open>\<open>listenForRestartSignal\<close>: what a process runs after the signal; it goes on with the old image when
  the binary cannot be executed.\<close>

definition listenForRestartSignal :: "string + string \<Rightarrow> disk \<Rightarrow> upd_file \<Rightarrow> upd_file" where
  "listenForRestartSignal exe fs old =
     (case exe of Inl e \<Rightarrow> old | Inr p \<Rightarrow> (case fs p of None \<Rightarrow> old | Some f \<Rightarrow> f))"

section \<open>Lemmas\<close>

lemma exe_order_fold:
  "distinct seen \<Longrightarrow> distinct (foldl (\<lambda>seen p. if rp_exe p \<in> set seen then seen else seen @ [rp_exe p]) seen procs) \<and>
   set (foldl (\<lambda>seen p. if rp_exe p \<in> set seen then seen else seen @ [rp_exe p]) seen procs) = set seen \<union> rp_exe ` set procs"
  by (induction procs arbitrary: seen) auto

lemma exe_order: "distinct (exe_order procs)" "set (exe_order procs) = rp_exe ` set procs"
  using exe_order_fold [of "[]" procs] by (simp_all add: exe_order_def)

lemma update_binaries_results:
  assumes "update_binaries env renv quiet argv rel force procs exes fs = (None, rs, fs')"
  shows "map br_exe rs = exes \<and> (\<forall>r\<in>set rs. br_processes r = filter (\<lambda>p. rp_exe p = br_exe r) procs \<and>
    br_installed r = (force \<or> versionLess (br_onDisk r) (trim_prefix (rel_tag rel) ''v'')) \<and>
    br_restarts r = map (restartProc renv) (filter (\<lambda>p. force \<or> br_installed r \<or> rp_version p \<noteq> br_onDisk r) (br_processes r)))"
  using assms
proof (induction exes arbitrary: fs rs)
  case (Cons exe exes)
  let ?onDisk = "parseDaemonVersion (runQuiet quiet exe fs)" and ?ps = "filter (\<lambda>p. rp_exe p = exe) procs"
  obtain i toRestart where plan: "binary_plan force (trim_prefix (rel_tag rel) ''v'') ?onDisk ?ps = (i, toRestart)"
    by (cases "binary_plan force (trim_prefix (rel_tag rel) ''v'') ?onDisk ?ps")
  obtain bak fs1 rs1 where "update_binaries env renv quiet argv rel force procs exes fs1 = (None, rs1, fs')"
    and rs: "rs = \<lparr>br_exe = exe, br_onDisk = ?onDisk, br_installed = i, br_backup = bak, br_processes = ?ps,
                  br_restarts = map (restartProc renv) toRestart\<rparr> # rs1"
    using Cons.prems plan by (auto simp: Let_def split: if_splits prod.splits sum.splits)
  from Cons.IH [OF this(1)] show ?case using plan by (cases force) (auto simp: rs binary_plan_def Let_def)
qed simp

section \<open>Properties\<close>


text \<open>A word of a Windows command line in quotes, and a line of them.\<close>

definition quoted_line :: "string list \<Rightarrow> string" where
  "quoted_line args = go_join '' '' (map (\<lambda>a. [CHR 0x22] @ a @ [CHR 0x22]) args)"

lemma split_quoted: "CHR 0x22 \<notin> set a \<Longrightarrow> split_command cur True have (a @ CHR 0x22 # s) = split_command (cur @ a) False True s"
  by (induction a arbitrary: cur "have") auto

lemma split_quoted_line: "\<forall>a\<in>set args. CHR 0x22 \<notin> set a \<Longrightarrow> split_command '''' False False (quoted_line args) = args"
proof (induction args)
  case (Cons a args)
  then show ?case
    using split_quoted [of a "''''" True "''''"] split_quoted [of a "''''" True "CHR '' '' # quoted_line args"]
    by (cases args) (simp_all add: quoted_line_def)
qed (simp add: quoted_line_def)

text \<open>
  A command line is taken apart as it was put together: words without quotes, empty ones and
  ones with blanks included, come back from the line in which each is quoted, and a running
  process with that command line is found with its executable in the place of the first word.
\<close>

theorem command_line_roundtrip:
  assumes "\<not> list_ex (\<lambda>a. CHR 0x22 \<in> set a) args"
  shows "splitWindowsCommandLine (quoted_line args) = args \<and>
    (matchesProc args kind name \<and> pid \<noteq> self \<longrightarrow>
      map rp_args (parseWindowsProcs [(pid, path, quoted_line args)] kind name self) = [path # tl args])"
  using split_quoted_line [of args] assms
  by (simp add: splitWindowsCommandLine_def list_ex_iff parseWindowsProcs_def List.map_filter_def)

theorem command_line_roundtrip_witness:
  "splitWindowsCommandLine (quoted_line [''C:/Program Files/rc.exe'', ''daemon'', ''start'', '''', ''-name'', ''a b'']) =
     [''C:/Program Files/rc.exe'', ''daemon'', ''start'', '''', ''-name'', ''a b'']"
  using command_line_roundtrip [of "[''C:/Program Files/rc.exe'', ''daemon'', ''start'', '''', ''-name'', ''a b'']"] by simp

text \<open>The examples of the comment of \<open>unitFromCgroup\<close>.\<close>

lemma cgroup_examples:
  "unitFromCgroup ''0::/system.slice/remotecmd-daemon.service'' = (''remotecmd-daemon.service'', False)"
  "unitFromCgroup ''0::/user.slice/user-0.slice/user@0.service/app.slice/remotecmd.service'' = (''remotecmd.service'', True)"
  "unitFromCgroup ''0::/user.slice/user-0.slice/session-12.scope'' = ('''', False)"
  by code_simp+

definition demo_proc :: "int \<Rightarrow> string \<Rightarrow> string \<Rightarrow> running_proc" where
  "demo_proc pid exe v = \<lparr>rp_pid = pid, rp_exe = exe, rp_args = [exe, ''daemon'', ''start''], rp_kind = ''daemon'', rp_unit = '''',
     rp_userUnit = False, rp_version = v, rp_canReexec = True\<rparr>"

definition demo_restart :: restart_env where
  "demo_restart = \<lparr>re_signal = (\<lambda>_. None), re_systemd = (\<lambda>_. None), re_helper = (\<lambda>_ _. Inl '''')\<rparr>"

definition demo_procs :: "running_proc list" where
  "demo_procs = [demo_proc 7 ''/b/rc'' ''2.6.0'', demo_proc 8 ''/b/rc'' ''2.7.0'']"


end
