(* ===== verification/RestartHelper.thy ===== *)
theory RestartHelper
  imports ProcUpdate
begin

text \<open>
  The detached helper that replaces a process which can neither re-execute itself nor be restarted
  by a supervisor (restarthelper.go): stop the old process, start its command line again, and when
  the new process does not come up put the backup in place and start that. What a binary does when
  it is started is a field of \<open>helper_env\<close>.
\<close>

section \<open>Processes\<close>

text \<open>\<open>he_path\<close> is the file that the first word of a command line names; \<open>he_polls\<close> is what each look
  at a process that runs a binary shows until the deadline (alive, output so far), and \<open>he_stays\<close>
  whether it is alive then; \<open>he_dies\<close> are the processes that are gone ten seconds after they are
  told to end; \<open>he_pid\<close> numbers the processes started.\<close>

record helper_env =
  he_fs :: update_env
  he_path :: "string \<Rightarrow> string option"
  he_polls :: "upd_file \<Rightarrow> (bool \<times> string) list"
  he_stays :: "upd_file \<Rightarrow> bool"
  he_dies :: "int \<Rightarrow> bool"
  he_pid :: "nat \<Rightarrow> int"

record helper_world =
  hw_disk :: disk
  hw_running :: "int \<rightharpoonup> upd_file" \<comment> \<open>the image each process runs\<close>
  hw_started :: nat

text \<open>\<open>zombie\<close> on a line of \<open>/proc/<pid>/stat\<close>: the state after the last parenthesis.\<close>

definition zombie :: "string \<Rightarrow> bool" where
  "zombie stat \<longleftrightarrow>
     CHR '')'' \<in> set stat \<and>
     (let after = rev (takeWhile (\<lambda>c. c \<noteq> CHR '')'') (rev stat)) in length after > 1 \<and> after ! 1 = CHR ''Z'')"

definition stopProcess :: "helper_env \<Rightarrow> int \<Rightarrow> helper_world \<Rightarrow> helper_world" where
  "stopProcess env pid w = (if he_dies env pid then w\<lparr>hw_running := (hw_running w)(pid := None)\<rparr> else w)"

text \<open>The watch over a started process: confirmed, and still running.\<close>

fun watch :: "string \<Rightarrow> bool \<Rightarrow> (bool \<times> string) list \<Rightarrow> bool \<times> bool" where
  "watch kind stays [] = (kind = ''relay'' \<and> stays, stays)"
| "watch kind stays ((alive, out) # polls) =
     (if \<not> alive then (False, False)
      else if kind = ''daemon'' \<and> str_contains out ''Registered as'' then (True, True) else watch kind stays polls)"

definition confirms :: "helper_env \<Rightarrow> string \<Rightarrow> upd_file \<Rightarrow> bool \<times> bool" where
  "confirms env kind f = watch kind (he_stays env f) (he_polls env f)"

definition startAndConfirm :: "helper_env \<Rightarrow> string list \<Rightarrow> string \<Rightarrow> helper_world \<Rightarrow> (int \<times> bool) \<times> helper_world" where
  "startAndConfirm env argv kind w =
     (case (case he_path env (hd argv) of None \<Rightarrow> None | Some p \<Rightarrow> hw_disk w p) of
        None \<Rightarrow> ((0, False), w)
      | Some f \<Rightarrow>
          (let pid = he_pid env (hw_started w); (good, alive) = confirms env kind f
           in ((pid, good), w\<lparr>hw_running := (hw_running w)(pid := if alive then Some f else None), hw_started := hw_started w + 1\<rparr>)))"

section \<open>The helper\<close>

datatype helper_outcome =
    BadUsage cliError
  | NewRunning int
  | NoBackup
  | RestoreFailed string
  | RolledBack int
  | RollbackFailed

definition handleRestartHelper :: "helper_env \<Rightarrow> int \<Rightarrow> string \<Rightarrow> string \<Rightarrow> string list \<Rightarrow> helper_world \<Rightarrow> helper_outcome \<times> helper_world" where
  "handleRestartHelper env pid exe kind argv w =
     (if pid = 0 \<or> exe = '''' \<or> argv = [] then
        (BadUsage (fail ExitConfigError ''missing_argument'' ''restart-helper needs --pid, --exe and the command line after --'' []), w)
      else case startAndConfirm env argv kind (stopProcess env pid w) of
        ((new, True), w1) \<Rightarrow> (NewRunning new, w1)
      | ((new, False), w1) \<Rightarrow>
          (let w2 = (if new > 0 then stopProcess env new w1 else w1); bak = exe @ ''.bak''
           in if hw_disk w2 bak = None then (NoBackup, w2)
              else case copyFile (he_fs env) bak exe (snd (os_rename (he_fs env) exe (exe @ ''.failed'') (hw_disk w2))) of
                (Some e, d) \<Rightarrow> (RestoreFailed e, w2\<lparr>hw_disk := d\<rparr>)
              | (None, d) \<Rightarrow>
                  (case startAndConfirm env argv kind (w2\<lparr>hw_disk := d\<rparr>) of
                     ((again, True), w3) \<Rightarrow> (RolledBack again, w3)
                   | ((again, False), w3) \<Rightarrow> (RollbackFailed, w3))))"

text \<open>The command line \<open>spawnRestartHelper\<close> starts; the stamp is part of the log's name.\<close>

definition helper_args :: "running_proc \<Rightarrow> string \<Rightarrow> string \<Rightarrow> string list" where
  "helper_args p kind log =
     [''daemon'', ''restart-helper'', ''--pid'', go_itoa (rp_pid p), ''--exe'', rp_exe p, ''--kind'', kind, ''--log'', log, ''--''] @ rp_args p"

section \<open>Lemmas\<close>

lemma watch_alive: "fst (watch kind stays polls) \<Longrightarrow> snd (watch kind stays polls)"
  by (induction kind stays polls rule: watch.induct) (auto split: if_splits)

lemma stop_keeps [simp]: "hw_disk (stopProcess env pid w) = hw_disk w" "hw_started (stopProcess env pid w) = hw_started w"
  by (simp_all add: stopProcess_def)

lemma start_disk [simp]: "hw_disk (snd (startAndConfirm env argv kind w)) = hw_disk w"
  by (simp add: startAndConfirm_def Let_def split: option.split prod.split)

lemma start_confirms:
  assumes "he_path env (hd argv) = Some p" and "hw_disk w p = Some f"
  shows "startAndConfirm env argv kind w = ((he_pid env (hw_started w), fst (confirms env kind f)),
    w\<lparr>hw_running := (hw_running w)(he_pid env (hw_started w) := if snd (confirms env kind f) then Some f else None), hw_started := hw_started w + 1\<rparr>)"
  using assms by (cases "confirms env kind f") (simp add: startAndConfirm_def Let_def)

lemma copyFile_works:
  assumes "fs src = Some (d, m)" and "ue_open env src = None" and "ue_create env (dst @ ''.tmp'') = None"
    and "ue_write env (dst @ ''.tmp'') = None" and "ue_rename env (dst @ ''.tmp'') dst = None"
  shows "\<exists>m' fs'. copyFile env src dst fs = (None, fs') \<and> fs' dst = Some (d, m')"
  using assms by (simp add: copyFile_def write_file_def os_rename_def Let_def)

section \<open>Properties\<close>


text \<open>The helper runs the file that the first word of the command line names, found through the search
  path when it is not a path; that need not be the binary that was updated.\<close>

lemma helper_starts_named_file:
  assumes "he_path env (hd argv) = Some other" and "hw_disk w other = Some f" and "fst (confirms env kind f)"
    and "argv \<noteq> []" and "pid \<noteq> 0" and "exe \<noteq> ''''"
  shows "\<exists>w'. handleRestartHelper env pid exe kind argv w = (NewRunning (he_pid env (hw_started w)), w') \<and>
    hw_running w' (he_pid env (hw_started w)) = Some f \<and> hw_disk w' = hw_disk w"
  using assms start_confirms [OF assms(1), of "stopProcess env pid w" f kind] watch_alive
  by (simp add: handleRestartHelper_def confirms_def)

text \<open>A release whose binary exits at once, and the old one that registers.\<close>

definition demo_helper :: helper_env where
  "demo_helper = \<lparr>he_fs = demo_update, he_path = Some, he_polls = (\<lambda>f. if fst f = [9] then [(True, ''''), (True, ''Registered as n'')] else [(False, '''')]),
     he_stays = (\<lambda>_. True), he_dies = (\<lambda>_. True), he_pid = (\<lambda>n. 100 + int n)\<rparr>"


end
