(* ===== verification/Flags.thy ===== *)
theory Flags
  imports Prelude
begin

text \<open>
  The command line as the program reads it: what Go's \<open>flag\<close> package makes of a list of arguments
  for flags of the three kinds the program declares. A value is kept as a text in normal form; the
  program exits with status 2 on a malformed command line and with 0 on a request for help
  (\<open>flag.ExitOnError\<close>).
\<close>

section \<open>Numbers\<close>

text \<open>\<open>strconv.ParseInt\<close> with base 0: an optional sign, a base prefix, digits with underscores between them.\<close>

definition alnum_val :: "char \<Rightarrow> nat option" where
  "alnum_val c = (let n = (of_char c :: nat) in
     if 48 \<le> n \<and> n \<le> 57 then Some (n - 48)
     else if 97 \<le> n \<and> n \<le> 122 then Some (n - 87)
     else if 65 \<le> n \<and> n \<le> 90 then Some (n - 55) else None)"

fun based_digits :: "nat \<Rightarrow> nat \<Rightarrow> string \<Rightarrow> nat option" where
  "based_digits base acc [] = Some acc"
| "based_digits base acc (c # s) =
     (if c = CHR ''_'' then based_digits base acc s
      else case alnum_val c of
             None \<Rightarrow> None
           | Some v \<Rightarrow> if v < base then based_digits base (acc * base + v) s else None)"

text \<open>The base and the digits behind the prefix; a prefix counts as a digit before an underscore.\<close>

definition int_base :: "string \<Rightarrow> nat \<times> string \<times> bool" where
  "int_base s =
     (case s of
        z # c # d # t \<Rightarrow>
          if z \<noteq> CHR ''0'' then (10, s, False)
          else if c = CHR ''x'' \<or> c = CHR ''X'' then (16, d # t, True)
          else if c = CHR ''o'' \<or> c = CHR ''O'' then (8, d # t, True)
          else if c = CHR ''b'' \<or> c = CHR ''B'' then (2, d # t, True)
          else (8, c # d # t, True)
      | [z, c] \<Rightarrow> if z = CHR ''0'' then (8, [c], True) else (10, s, False)
      | _ \<Rightarrow> (10, s, False))"

fun underscores_ok :: "bool \<Rightarrow> string \<Rightarrow> bool" where
  "underscores_ok digit [] = True"
| "underscores_ok digit (c # s) =
     (if c = CHR ''_'' then digit \<and> s \<noteq> [] \<and> hd s \<noteq> CHR ''_'' \<and> underscores_ok False s else underscores_ok True s)"

definition go_parse_int :: "string \<Rightarrow> int option" where
  "go_parse_int s =
     (let (neg, u) = (case s of [] \<Rightarrow> (False, []) | c # t \<Rightarrow>
            if c = CHR ''-'' then (True, t) else if c = CHR ''+'' then (False, t) else (False, s));
          (base, ds, digit) = int_base u
      in if u = [] \<or> \<not> underscores_ok digit ds then None
         else case based_digits base 0 ds of
                None \<Rightarrow> None
              | Some n \<Rightarrow> (let i = (if neg then - int n else int n) in if go_int_range i then Some i else None))"

definition go_parse_bool :: "string \<Rightarrow> bool option" where
  "go_parse_bool s =
     (if s \<in> {''1'', ''t'', ''T'', ''TRUE'', ''true'', ''True''} then Some True
      else if s \<in> {''0'', ''f'', ''F'', ''FALSE'', ''false'', ''False''} then Some False else None)"

section \<open>Flags\<close>

datatype flag_kind = FlagString | FlagBool | FlagInt

text \<open>One argument: not a flag, the end of the flags, a malformed flag, or a flag with its value if it has one.\<close>

datatype flag_word = NotFlag | EndOfFlags | BadFlag | Named string "string option"

definition flag_word :: "string \<Rightarrow> flag_word" where
  "flag_word s =
     (if length s < 2 \<or> hd s \<noteq> CHR ''-'' then NotFlag
      else if s = ''--'' then EndOfFlags
      else (let name = (if s ! 1 = CHR ''-'' then drop 2 s else drop 1 s);
                i = length (takeWhile (\<lambda>c. c \<noteq> CHR ''='') name)
            in if hd name = CHR ''-'' \<or> hd name = CHR ''='' then BadFlag
               else if i < length name then Named (take i name) (Some (drop (Suc i) name)) else Named name None))"

text \<open>What a flag stores for a text: nothing when the text is not a value of its kind.\<close>

definition flag_value :: "flag_kind \<Rightarrow> string \<Rightarrow> string option" where
  "flag_value k v =
     (case k of
        FlagString \<Rightarrow> Some v
      | FlagBool \<Rightarrow> map_option (\<lambda>b. if b then ''true'' else ''false'') (go_parse_bool v)
      | FlagInt \<Rightarrow> map_option go_itoa (go_parse_int v))"

text \<open>The exit status, or the values set and the arguments left.\<close>

fun parse_flags :: "(string \<rightharpoonup> flag_kind) \<Rightarrow> (string \<rightharpoonup> string) \<Rightarrow> string list \<Rightarrow> int + (string \<rightharpoonup> string) \<times> string list" where
  "parse_flags formal vals [] = Inr (vals, [])"
| "parse_flags formal vals [s] =
     (case flag_word s of
        NotFlag \<Rightarrow> Inr (vals, [s])
      | EndOfFlags \<Rightarrow> Inr (vals, [])
      | BadFlag \<Rightarrow> Inl 2
      | Named name value \<Rightarrow>
          (case formal name of
             None \<Rightarrow> Inl (if name = ''help'' \<or> name = ''h'' then 0 else 2)
           | Some k \<Rightarrow>
               (case (if k = FlagBool \<and> value = None then Some ''true'' else value) of
                  None \<Rightarrow> Inl 2
                | Some v \<Rightarrow> (case flag_value k v of None \<Rightarrow> Inl 2 | Some w \<Rightarrow> Inr (vals(name \<mapsto> w), [])))))"
| "parse_flags formal vals (s # s' # args) =
     (case flag_word s of
        NotFlag \<Rightarrow> Inr (vals, s # s' # args)
      | EndOfFlags \<Rightarrow> Inr (vals, s' # args)
      | BadFlag \<Rightarrow> Inl 2
      | Named name value \<Rightarrow>
          (case formal name of
             None \<Rightarrow> Inl (if name = ''help'' \<or> name = ''h'' then 0 else 2)
           | Some k \<Rightarrow>
               (case (if k = FlagBool \<and> value = None then Some ''true'' else value) of
                  Some v \<Rightarrow> (case flag_value k v of None \<Rightarrow> Inl 2 | Some w \<Rightarrow> parse_flags formal (vals(name \<mapsto> w)) (s' # args))
                | None \<Rightarrow> (case flag_value k s' of None \<Rightarrow> Inl 2 | Some w \<Rightarrow> parse_flags formal (vals(name \<mapsto> w)) args))))"

text \<open>A flag set is the kinds and the defaults of its flags.\<close>

type_synonym flag_set = "(string \<times> flag_kind \<times> string) list"

definition flag_kinds :: "flag_set \<Rightarrow> string \<rightharpoonup> flag_kind" where
  "flag_kinds fs = map_of (map (\<lambda>(n, k, d). (n, k)) fs)"

definition flag_defaults :: "flag_set \<Rightarrow> string \<rightharpoonup> string" where
  "flag_defaults fs = map_of (map (\<lambda>(n, k, d). (n, d)) fs)"

definition flags_of :: "flag_set \<Rightarrow> string list \<Rightarrow> int + (string \<Rightarrow> string)" where
  "flags_of fs args =
     (case parse_flags (flag_kinds fs) (flag_defaults fs) args of
        Inl code \<Rightarrow> Inl code
      | Inr (vals, rest) \<Rightarrow> Inr (\<lambda>n. case vals n of None \<Rightarrow> '''' | Some v \<Rightarrow> v))"

definition bool_flag :: "string \<Rightarrow> bool" where
  "bool_flag v = (v = ''true'')"

definition int_flag :: "string \<Rightarrow> int" where
  "int_flag v = (case go_atoi v of Some i \<Rightarrow> i | None \<Rightarrow> 0)"

section \<open>Lemmas\<close>

text \<open>A flag given as two arguments takes the second one whatever it looks like.\<close>

lemma parse_flag_two_words [simp]:
  assumes "flag_word s = Named name None" "formal name = Some FlagString"
  shows "parse_flags formal vals (s # v # args) = parse_flags formal (vals(name \<mapsto> v)) args"
  using assms by (simp add: flag_value_def)

lemma parse_flag_int [simp]:
  assumes "flag_word s = Named name None" "formal name = Some FlagInt" "go_parse_int v = Some i"
  shows "parse_flags formal vals (s # v # args) = parse_flags formal (vals(name \<mapsto> go_itoa i)) args"
  using assms by (simp add: flag_value_def)

lemma parse_flag_int_bad [simp]:
  assumes "flag_word s = Named name None" "formal name = Some FlagInt" "go_parse_int v = None"
  shows "parse_flags formal vals (s # v # args) = Inl 2"
  using assms by (simp add: flag_value_def)

lemma parse_flag_bool [simp]:
  assumes "flag_word s = Named name None" "formal name = Some FlagBool"
  shows "parse_flags formal vals (s # args) = parse_flags formal (vals(name \<mapsto> ''true'')) args"
  using assms by (cases args) (simp_all add: flag_value_def go_parse_bool_def)

lemma parse_flag_not_flag [simp]:
  "flag_word s = NotFlag \<Longrightarrow> parse_flags formal vals (s # args) = Inr (vals, s # args)"
  by (cases args) simp_all

text \<open>Every \<open>int\<close> is read back from its decimal form.\<close>

lemma nat_digits_hd: "n \<noteq> 0 \<Longrightarrow> hd (nat_digits n) \<noteq> CHR ''0''"
proof (induction n rule: nat_digits.induct)
  case (1 n)
  have c: "digit_char n \<noteq> CHR ''0''" if "n < 10"
  proof
    assume "digit_char n = CHR ''0''"
    then have "digit_val (CHR ''0'') = Some n" using digit_val_char [OF that] by simp
    then show False using 1(2) by (simp add: digit_val_def)
  qed
  show ?case
  proof (cases "n < 10")
    case True
    then show ?thesis using 1(2) c by (subst nat_digits.simps) simp
  next
    case False
    then show ?thesis using 1(1) by (subst nat_digits.simps) simp
  qed
qed

lemma based_digits_decimal:
  "(\<And>c. c \<in> set s \<Longrightarrow> 48 \<le> (of_char c :: nat) \<and> of_char c \<le> (57 :: nat)) \<Longrightarrow> based_digits 10 acc s = digits_from acc s"
proof (induction s arbitrary: acc)
  case (Cons c s)
  have d: "48 \<le> (of_char c :: nat) \<and> of_char c \<le> (57 :: nat)" using Cons.prems by simp
  then have "c \<noteq> CHR ''_''" "(of_char c :: nat) - 48 < 10" by auto
  then show ?case using d Cons by (simp add: alnum_val_def digit_val_def mult.commute)
qed simp

lemma underscores_ok_none: "CHR ''_'' \<notin> set s \<Longrightarrow> underscores_ok d s"
  by (induction s arbitrary: d) auto

lemma int_base_decimal: "int_base (nat_digits n) = (10, nat_digits n, False)"
proof (cases "n = 0")
  case True
  then show ?thesis by (subst nat_digits.simps) (simp add: int_base_def nat_digits.simps)
next
  case False
  obtain c s where cs: "nat_digits n = c # s" by (cases "nat_digits n") auto
  with nat_digits_hd [OF False] have "c \<noteq> CHR ''0''" by simp
  then show ?thesis unfolding cs by (cases s rule: list.exhaust [case_names Nil Cons]) (simp_all add: int_base_def split: list.split)
qed

lemma go_parse_int_itoa [simp]:
  assumes "go_int_range i"
  shows "go_parse_int (go_itoa i) = Some i"
proof -
  have u: "underscores_ok d (nat_digits n)" for d n
    using nat_digits_digits [of "CHR ''_''" n] by (intro underscores_ok_none) auto
  have b: "based_digits 10 0 (nat_digits n) = Some n" for n
    using based_digits_decimal [of "nat_digits n" 0] nat_digits_digits digits_from_nat_digits by simp
  show ?thesis
  proof (cases "i < 0")
    case True
    then show ?thesis using assms u b by (simp add: go_parse_int_def go_itoa_def int_base_decimal)
  next
    case False
    obtain c s where cs: "nat_digits (nat i) = c # s" by (cases "nat_digits (nat i)") auto
    then have "c \<noteq> CHR ''-''" "c \<noteq> CHR ''+''" using nat_digits_digits [of c "nat i"] by auto
    then show ?thesis using False assms u [of False "nat i"] b [of "nat i"] int_base_decimal [of "nat i"]
      by (simp add: go_parse_int_def go_itoa_def cs)
  qed
qed

lemma int_flag_itoa [simp]: "go_int_range i \<Longrightarrow> int_flag (go_itoa i) = i"
  by (simp add: int_flag_def go_atoi_itoa)

declare parse_flags.simps(2,3) [simp del]

end
