(* ===== verification/Dial.thy ===== *)
theory Dial
  imports ExecEndToEnd
begin

text \<open>
  Dialling the relay (utils.go) and setting it up (cli\_config.go): the secret a client presents,
  what it says when the relay refuses it, and the commands that change the configuration. The
  standard library's dialer is the answer it gives.
\<close>

section \<open>The secret\<close>

text \<open>The secret of the configuration, else of the environment.\<close>

definition relaySecret :: "config_file \<Rightarrow> string \<Rightarrow> string" where
  "relaySecret f env =
     (case loadConfig f of Inl e \<Rightarrow> env | Inr c \<Rightarrow> if rl_secret (cf_relay c) \<noteq> '''' then rl_secret (cf_relay c) else env)"

text \<open>The \<open>Authorization\<close> header, if any.\<close>

definition relayAuthHeaders :: "config_file \<Rightarrow> string \<Rightarrow> string option" where
  "relayAuthHeaders f env = (let s = relaySecret f env in if s = '''' then None else Some (''Bearer '' @ s))"

datatype dial_answer = Upgraded | Unreachable string | Refused int string

definition errRelaySecret :: string where
  "errRelaySecret = ''set it with: printf %s <secret> | remotecmd-cli set-relay --secret-stdin''"

text \<open>The error of \<open>dialRelay\<close>.\<close>

definition dialRelay :: "config_file \<Rightarrow> string \<Rightarrow> dial_answer \<Rightarrow> string option" where
  "dialRelay f env ans =
     (case ans of
        Upgraded \<Rightarrow> None
      | Unreachable e \<Rightarrow> Some e
      | Refused status e \<Rightarrow>
          if status = 401
          then Some (''relay requires a secret ('' @
            (if relaySecret f env \<noteq> '''' then ''the configured relay secret was rejected'' else ''no relay secret is configured'') @
            ''): '' @ errRelaySecret)
          else Some e)"

text \<open>What the relay answers to a handshake.\<close>

definition relay_answer :: "string option \<Rightarrow> relay_server \<Rightarrow> dial_answer" where
  "relay_answer header s =
     (case ws_handshake (case header of None \<Rightarrow> '''' | Some h \<Rightarrow> h) s of
        None \<Rightarrow> Refused 401 ''websocket: bad handshake'' | Some a \<Rightarrow> Upgraded)"

text \<open>\<open>net.JoinHostPort\<close> of the address the relay listens on.\<close>

definition relayListenAddr :: "string \<Rightarrow> int \<Rightarrow> string" where
  "relayListenAddr addr port =
     (if CHR '':'' \<in> set addr \<or> CHR ''%'' \<in> set addr then ''['' @ addr @ '']:'' @ go_itoa port else addr @ '':'' @ go_itoa port)"

section \<open>Commands that change the configuration\<close>

text \<open>A command returns the error that ends it and the file it leaves.\<close>

definition handleAddTarget :: "string \<Rightarrow> string \<Rightarrow> fs_env \<Rightarrow> config_file \<Rightarrow> cliError option \<times> config_file" where
  "handleAddTarget name token env f =
     (if name = '''' \<or> token = ''''
      then (Some (fail ExitConfigError ''missing_argument'' ''--name and --token are required'' [''remotecmd-cli add-target --name <n> --token <t>'']), f)
      else case addTarget name token env f of (e, f') \<Rightarrow> (map_option (\<lambda>m. failErrCode ExitInternal m []) e, f'))"

definition handleRemoveTarget :: "string \<Rightarrow> fs_env \<Rightarrow> config_file \<Rightarrow> cliError option \<times> config_file" where
  "handleRemoveTarget name env f =
     (if name = '''' then (Some (fail ExitConfigError ''missing_argument'' ''--name is required'' [''remotecmd-cli remove-target --name <n>'']), f)
      else case removeTarget name env f of (e, f') \<Rightarrow> (map_option (\<lambda>m. failErrCode ExitInternal m []) e, f'))"

text \<open>The secret of \<open>set-relay\<close>: the flag, or with \<open>--secret-stdin\<close> the standard input (at most 4096 bytes).\<close>

definition secret_of :: "string \<Rightarrow> (string + string) option \<Rightarrow> cliError + string" where
  "secret_of flag stdin =
     (case stdin of
        None \<Rightarrow> Inr flag
      | Some (Inl e) \<Rightarrow> Inl (failErrCode ExitInternal (''reading secret from stdin: '' @ e) [])
      | Some (Inr s) \<Rightarrow>
          (let t = trim_space (take 4096 s)
           in if t = '''' then Inl (fail ExitConfigError ''missing_argument'' ''--secret-stdin: no secret on stdin''
                [''printf %s <secret> | remotecmd-cli set-relay --secret-stdin''])
              else Inr t))"

definition handleSetRelay ::
    "string \<Rightarrow> string \<Rightarrow> string \<Rightarrow> (string + string) option \<Rightarrow> fs_env \<Rightarrow> fs_env \<Rightarrow> config_file \<Rightarrow> cliError option \<times> config_file" where
  "handleSetRelay url name flag stdin env env' f =
     (case secret_of flag stdin of
        Inl e \<Rightarrow> (Some e, f)
      | Inr secret \<Rightarrow>
          (let secretOnly = (url = '''' \<and> name = '''' \<and> secret \<noteq> '''')
           in if \<not> secretOnly \<and> (url = '''' \<or> name = '''') then
                (Some (fail ExitConfigError ''missing_argument'' ''--url and --name are required (or only --secret / --secret-stdin to change just the secret)''
                   [''remotecmd-cli set-relay --url <u> --name <n> [--secret <s>]'', ''printf %s <secret> | remotecmd-cli set-relay --secret-stdin'']), f)
              else case (if secretOnly then (None, f) else setRelay url name env f) of
                (Some e, f1) \<Rightarrow> (Some (failErrCode ExitInternal e []), f1)
              | (None, f1) \<Rightarrow>
                  if secret = '''' then (None, f1)
                  else case setRelaySecret secret env' f1 of
                    (Some e, f2) \<Rightarrow> (Some (failErrCode ExitInternal (''saving secret: '' @ e) []), f2)
                  | (None, f2) \<Rightarrow> (None, f2)))"

text \<open>The target lists of the group commands.\<close>

definition target_list :: "string \<Rightarrow> string list" where
  "target_list s = map trim_space (go_split (CHR '','') s)"

definition group_change ::
    "(string \<Rightarrow> string list \<Rightarrow> fs_env \<Rightarrow> config_file \<Rightarrow> string option \<times> config_file) \<Rightarrow> string \<Rightarrow> string \<Rightarrow> fs_env \<Rightarrow> config_file \<Rightarrow>
     cliError option \<times> config_file" where
  "group_change change name targets env f =
     (if name = '''' \<or> targets = ''''
      then (Some (fail ExitConfigError ''missing_argument'' ''--name and --targets are required''
              [''remotecmd-cli group create|add|remove --name <n> --targets <t1,t2,...>'']), f)
      else case change name (target_list targets) env f of (e, f') \<Rightarrow> (map_option (\<lambda>m. failErrCode ExitConfigError m []) e, f'))"

definition handleGroupCreate :: "string \<Rightarrow> string \<Rightarrow> fs_env \<Rightarrow> config_file \<Rightarrow> cliError option \<times> config_file" where
  "handleGroupCreate = group_change groupCreate"

definition handleGroupAdd :: "string \<Rightarrow> string \<Rightarrow> fs_env \<Rightarrow> config_file \<Rightarrow> cliError option \<times> config_file" where
  "handleGroupAdd = group_change groupAddTargets"

definition handleGroupRemove :: "string \<Rightarrow> string \<Rightarrow> fs_env \<Rightarrow> config_file \<Rightarrow> cliError option \<times> config_file" where
  "handleGroupRemove = group_change groupRemoveTargets"

definition handleGroupDelete :: "string \<Rightarrow> fs_env \<Rightarrow> config_file \<Rightarrow> cliError option \<times> config_file" where
  "handleGroupDelete name env f =
     (if name = '''' then (Some (fail ExitConfigError ''missing_argument'' ''--name is required'' [''remotecmd-cli group delete --name <n>'']), f)
      else case groupDelete name env f of (e, f') \<Rightarrow> (map_option (\<lambda>m. failErrCode ExitConfigError m []) e, f'))"

section \<open>Properties\<close>

lemma with_config_ok: "with_config g env f = (None, f') \<Longrightarrow> \<exists>c c'. loadConfig f = Inr c \<and> g c = Inr c' \<and> f' = HoldsConfig c'"
  by (auto simp: with_config_def saveConfig_def split: sum.splits option.splits)

text \<open>
  What \<open>set-relay\<close> changes. When it succeeds, the URL and the name are the ones given, or both
  are as they were when only a secret was given; the secret is the one given (from the standard input
  without its surrounding space), or as it was; and the targets and groups are as they were.
\<close>

theorem set_relay_changes_only_relay:
  assumes "handleSetRelay url name flag stdin env env' f = (None, f')"
  shows "\<exists>c c' secret. loadConfig f = Inr c \<and> f' = HoldsConfig c' \<and> secret_of flag stdin = Inr secret \<and>
    cf_relay c' = \<lparr>rl_url = (if url = '''' then rl_url (cf_relay c) else url), rl_name = (if url = '''' then rl_name (cf_relay c) else name),
                   rl_secret = (if secret = '''' then rl_secret (cf_relay c) else secret)\<rparr> \<and>
    (url = '''') = (name = '''') \<and> cf_targets c' = cf_targets c \<and> cf_groups c' = cf_groups c"
proof -
  obtain secret where s: "secret_of flag stdin = Inr secret" using assms by (auto simp: handleSetRelay_def split: sum.splits)
  show ?thesis
  proof (cases "url = '''' \<and> name = '''' \<and> secret \<noteq> ''''")
    case True
    then have "setRelaySecret secret env' f = (None, f')"
      using assms by (auto simp: handleSetRelay_def s split: prod.splits option.splits)
    then show ?thesis using True s with_config_ok [of _ env' f f'] by (fastforce simp: setRelaySecret_def)
  next
    case False
    then have un: "url \<noteq> ''''" "name \<noteq> ''''" using assms by (auto simp: handleSetRelay_def s split: if_splits)
    then obtain f1 where f1: "setRelay url name env f = (None, f1)"
      and f2: "if secret = '''' then f' = f1 else setRelaySecret secret env' f1 = (None, f')"
      using assms by (auto simp: handleSetRelay_def s Let_def split: prod.splits option.splits if_splits)
    obtain c where c: "loadConfig f = Inr c"
      "f1 = HoldsConfig (c\<lparr>cf_relay := \<lparr>rl_url = url, rl_name = name, rl_secret = rl_secret (cf_relay c)\<rparr>\<rparr>)"
      using with_config_ok [OF f1 [unfolded setRelay_def]] by auto
    show ?thesis
    proof (cases "secret = ''''")
      case True
      then show ?thesis using c s un f2 by auto
    next
      case False
      then have "setRelaySecret secret env' f1 = (None, f')" using f2 by simp
      from with_config_ok [OF this [unfolded setRelaySecret_def]] show ?thesis
        using c s un False by (auto simp: loadConfig_def)
    qed
  qed
qed

theorem set_relay_changes_only_relay_witness:
  "\<exists>c'. handleSetRelay '''' '''' '''' (Some (Inr '' k1 '')) \<lparr>fe_mkdir = None, fe_open = None, fe_write = None, fe_torn = ''''\<rparr>
      \<lparr>fe_mkdir = None, fe_open = None, fe_write = None, fe_torn = ''''\<rparr> NoFile = (None, HoldsConfig c') \<and> rl_secret (cf_relay c') = ''k1''"
proof -
  let ?env = "\<lparr>fe_mkdir = None, fe_open = None, fe_write = None, fe_torn = ''''\<rparr>"
  have t: "trim_space '' k1 '' = ''k1''" by code_simp
  obtain c' where h: "handleSetRelay '''' '''' '''' (Some (Inr '' k1 '')) ?env ?env NoFile = (None, HoldsConfig c')"
    by (simp add: handleSetRelay_def secret_of_def t setRelaySecret_def with_config_def loadConfig_def saveConfig_def)
  then show ?thesis using set_relay_changes_only_relay [OF h] by (auto simp: secret_of_def t)
qed

text \<open>
  C8. The secret opens the relay, and a wrong one is not taken for a network error. A client whose
  secret is the relay's (or a relay without one) gets an authenticated connection. Otherwise, when
  nothing is exempt, the relay refuses the handshake, and a command that runs into it fails with
  exit code 3 and type \<open>auth_required\<close> and is not to be retried.
\<close>

theorem secret_opens_relay:
  assumes "find_target ''load config: '' target f = Inr (url, t)"
  shows "let header = relayAuthHeaders f env; mine = relaySecret f env; e = dialRelay f env (relay_answer header s)
    in (rs_secret s = '''' \<or> mine = rs_secret s \<longrightarrow> e = None \<and> ws_handshake (case header of None \<Rightarrow> '''' | Some h \<Rightarrow> h) s = Some True) \<and>
       (rs_secret s \<noteq> '''' \<and> mine \<noteq> rs_secret s \<and> rs_secretExempt s = {} \<longrightarrow>
         (\<exists>msg. handleExecWithStdin f e werr mid target cmd timeout stream stdin evs = ([], Some (Failed msg), None) \<and>
            ce_code (failErr msg []) = 3 \<and> ce_type (failErr msg []) = ''auth_required'' \<and> \<not> ce_recoverable (failErr msg [])))"
proof -
  let ?mine = "relaySecret f env"
  let ?h = "case relayAuthHeaders f env of None \<Rightarrow> '''' | Some h \<Rightarrow> h"
  have header: "?h = (if ?mine = '''' then '''' else ''Bearer '' @ ?mine)" by (simp add: relayAuthHeaders_def Let_def)
  have good: "ws_handshake ?h s = Some True" if "rs_secret s = '''' \<or> ?mine = rs_secret s"
    using that by (auto simp: ws_handshake_def header tokenEqual_def)
  have bad: "ws_handshake ?h s = None" if "rs_secret s \<noteq> ''''" "?mine \<noteq> rs_secret s" "rs_secretExempt s = {}"
    using that by (auto simp: ws_handshake_def header tokenEqual_def)
  have refused: "\<exists>a b. dialRelay f env (Refused 401 x) = Some (a @ ''relay secret'' @ b)" for x
  proof (cases "?mine = ''''")
    case True
    show ?thesis
      by (rule exI [of _ "''relay requires a secret (no ''"], rule exI [of _ "'' is configured): '' @ errRelaySecret"]) (simp add: dialRelay_def True)
  next
    case False
    show ?thesis
      by (rule exI [of _ "''relay requires a secret (the configured ''"], rule exI [of _ "'' was rejected): '' @ errRelaySecret"])
         (simp add: dialRelay_def False)
  qed
  have err: "ce_code (failErr (''connect to relay: '' @ a @ ''relay secret'' @ b) []) = 3 \<and>
      ce_type (failErr (''connect to relay: '' @ a @ ''relay secret'' @ b) []) = ''auth_required'' \<and>
      \<not> ce_recoverable (failErr (''connect to relay: '' @ a @ ''relay secret'' @ b) [])" for a b
  proof -
    have "mentions (''connect to relay: '' @ a @ ''relay secret'' @ b) [''relay secret'', ''authentication required'']"
      using mentionsI [of "''relay secret''" "[''relay secret'', ''authentication required'']" "''connect to relay: '' @ a" b] by simp
    then show ?thesis
      by (simp add: failErr_def failErrCode_def fail_def classifyError_def errorType_def exit_codes exitUpdateFail_def Let_def)
  qed
  have "\<exists>msg. handleExecWithStdin f (dialRelay f env (Refused 401 x)) werr mid target cmd timeout stream stdin evs = ([], Some (Failed msg), None) \<and>
      ce_code (failErr msg []) = 3 \<and> ce_type (failErr msg []) = ''auth_required'' \<and> \<not> ce_recoverable (failErr msg [])" for x
  proof -
    obtain a b where "dialRelay f env (Refused 401 x) = Some (a @ ''relay secret'' @ b)" using refused by blast
    then show ?thesis using err [of a b] assms by (simp add: handleExecWithStdin_def)
  qed
  then show ?thesis using good bad by (auto simp: relay_answer_def dialRelay_def Let_def)
qed

text \<open>A client whose secret is not the relay's.\<close>

theorem secret_opens_relay_witness:
  "\<exists>msg. handleExecWithStdin demo_file (dialRelay demo_file '''' (relay_answer (relayAuthHeaders demo_file '''') ((NewRelayServer demo_entropy None)\<lparr>rs_secret := ''other''\<rparr>)))
      None ''q'' ''b'' ''ls'' 0 False [] [] = ([], Some (Failed msg), None) \<and> ce_code (failErr msg []) = 3"
proof -
  have f: "find_target ''load config: '' ''b'' demo_file = Inr (wsURL ''http://r'', \<lparr>tg_token = ''tok'', tg_relayName = ''box''\<rparr>)"
    using demo_connected by (simp add: connected_def)
  have r: "relaySecret demo_file '''' \<noteq> ''other''" by (simp add: relaySecret_def demo_file_def loadConfig_def)
  have e: "rs_secretExempt ((NewRelayServer demo_entropy None)\<lparr>rs_secret := ''other''\<rparr>) = {}" by (simp add: NewRelayServer_def)
  show ?thesis
    using secret_opens_relay [OF f, where s = "(NewRelayServer demo_entropy None)\<lparr>rs_secret := ''other''\<rparr>" and env = "''''" and werr = None
      and mid = "''q''" and cmd = "''ls''" and timeout = 0 and stream = False and stdin = "[]" and evs = "[]"] r e
    by (auto simp: Let_def)
qed

end
