(* ===== verification/Processes.thy ===== *)
theory Processes
  imports ProcUpdate ClientConfig
begin

text \<open>
  Background processes and their PID files (daemonize\_unix.go, and the commands of cli\_daemon.go
  that use them). A host holds the PID files and the processes a null signal reaches, each with its
  command line; \<open>host_env\<close> gives the errors of the operating system.
\<close>

record host =
  ho_files :: "string \<rightharpoonup> string"
  ho_procs :: "int \<rightharpoonup> string list"

text \<open>\<open>hx_mine\<close> are the processes we may signal, \<open>hx_ends\<close> how many polls a process lives after it is
  told to end (\<open>None\<close>: it does not listen), \<open>hx_new\<close> the number of the next process.\<close>

record host_env =
  hx_mine :: "int \<Rightarrow> bool"
  hx_remove :: "string \<Rightarrow> bool"
  hx_exe :: "string + string"
  hx_log :: "string \<Rightarrow> string option"
  hx_start :: "string list \<Rightarrow> string option"
  hx_writePid :: "string \<Rightarrow> string option"
  hx_new :: int
  hx_ends :: "int \<Rightarrow> nat option"

definition relayPidFile :: string where "relayPidFile = ''/tmp/remotecmd-relay.pid''"
definition daemonPidFile :: string where "daemonPidFile = ''/tmp/remotecmd-daemon.pid''"

definition remove_file :: "host_env \<Rightarrow> string \<Rightarrow> host \<Rightarrow> host" where
  "remove_file env f h = (if hx_remove env f then h\<lparr>ho_files := (ho_files h)(f := None)\<rparr> else h)"

definition isRunning :: "host_env \<Rightarrow> string \<Rightarrow> host \<Rightarrow> (bool \<times> int) \<times> host" where
  "isRunning env f h =
     (case ho_files h f of
        None \<Rightarrow> ((False, 0), h)
      | Some s \<Rightarrow>
          (case go_atoi (trim_space s) of
             None \<Rightarrow> ((False, 0), remove_file env f h)
           | Some pid \<Rightarrow> if ho_procs h pid \<noteq> None \<and> hx_mine env pid then ((True, pid), h) else ((False, 0), remove_file env f h)))"

definition end_process :: "int \<Rightarrow> host \<Rightarrow> host" where
  "end_process pid h = h\<lparr>ho_procs := (ho_procs h)(pid := None)\<rparr>"

text \<open>The error of \<open>startBackground\<close>; \<open>args\<close> follow the path of the program.\<close>

definition startBackground :: "host_env \<Rightarrow> string \<Rightarrow> string \<Rightarrow> string list \<Rightarrow> host \<Rightarrow> string option \<times> host" where
  "startBackground env pidFile logFile args h =
     (case isRunning env pidFile h of
        ((True, _), h1) \<Rightarrow> (Some (''already running (PID file: '' @ pidFile @ '')''), h1)
      | ((False, _), h1) \<Rightarrow>
          (case hx_exe env of
             Inl e \<Rightarrow> (Some (''get executable path: '' @ e), h1)
           | Inr exe \<Rightarrow>
               (case hx_log env logFile of
                  Some e \<Rightarrow> (Some (''open log file: '' @ e), h1)
                | None \<Rightarrow>
                    (case hx_start env (exe # args) of
                       Some e \<Rightarrow> (Some (''start process: '' @ e), h1)
                     | None \<Rightarrow>
                         (case hx_writePid env pidFile of
                            Some e \<Rightarrow> (Some (''write PID file: '' @ e), end_process (hx_new env) h1)
                          | None \<Rightarrow> (None, h1\<lparr>ho_files := (ho_files h1)(pidFile \<mapsto> go_itoa (hx_new env)),
                                            ho_procs := (ho_procs h1)(hx_new env \<mapsto> exe # args)\<rparr>))))))"

text \<open>The polls after the signal: \<open>i\<close> have been made, \<open>k\<close> are left, then the process is killed.\<close>

fun stop_polls :: "host_env \<Rightarrow> string \<Rightarrow> int \<Rightarrow> nat \<Rightarrow> nat \<Rightarrow> host \<Rightarrow> host" where
  "stop_polls env f pid i 0 h = remove_file env f (end_process pid h)"
| "stop_polls env f pid i (Suc k) h =
     (let h1 = (case hx_ends env pid of None \<Rightarrow> h | Some n \<Rightarrow> if n \<le> i then end_process pid h else h)
      in case isRunning env f h1 of ((running, _), h2) \<Rightarrow> if running then stop_polls env f pid (Suc i) k h2 else h2)"

text \<open>\<open>stopBackground\<close> never fails.\<close>

definition stopBackground :: "host_env \<Rightarrow> string \<Rightarrow> host \<Rightarrow> host" where
  "stopBackground env f h =
     (case isRunning env f h of ((running, pid), h1) \<Rightarrow>
        if running then stop_polls env f pid 0 10 h1 else remove_file env f h1)"

section \<open>The commands\<close>

definition namedDaemonPidFile :: "string \<Rightarrow> string" where
  "namedDaemonPidFile name = (if name = '''' then daemonPidFile else daemonPidFile @ ''-'' @ name)"

definition daemon_child_args :: "string \<Rightarrow> string \<Rightarrow> string list" where
  "daemon_child_args token name =
     [''daemon'', ''start''] @ (if token \<noteq> '''' then [''-token'', token] else []) @ (if name \<noteq> '''' then [''-name'', name] else [])"

definition relay_child_args :: "int \<Rightarrow> string \<Rightarrow> string \<Rightarrow> string \<Rightarrow> string list" where
  "relay_child_args port bind cert key =
     [''relay'', ''daemon'', ''start'', ''-port'', go_itoa port] @ (if bind \<noteq> '''' then [''-host'', bind] else []) @
     (if cert \<noteq> '''' then [''-tls-cert'', cert] else []) @ (if key \<noteq> '''' then [''-tls-key'', key] else [])"

text \<open>Starting in the background: the error, and the process whose number is reported.\<close>

definition daemonLogFile :: string where "daemonLogFile = ''/tmp/remotecmd-daemon.log''"

definition daemon_start_bg :: "host_env \<Rightarrow> string \<Rightarrow> string \<Rightarrow> host \<Rightarrow> cliError option \<times> host" where
  "daemon_start_bg env token name h =
     (case startBackground env (namedDaemonPidFile name) (daemonLogFile @ (if name = '''' then '''' else ''-'' @ name)) (daemon_child_args token name) h of
        (e, h') \<Rightarrow> (map_option (\<lambda>m. failErr m []) e, h'))"

text \<open>The token of a daemon in the foreground: the one given, else the stored one, else a new one,
  which is stored.\<close>

definition daemon_token :: "string \<Rightarrow> string option \<Rightarrow> bytes \<Rightarrow> string \<times> string option" where
  "daemon_token given file rand =
     (if given \<noteq> '''' then (given, None)
      else case load_trimmed file of
        Some t \<Rightarrow> if t \<noteq> '''' then (t, None) else (generateToken rand, Some (generateToken rand))
      | None \<Rightarrow> (generateToken rand, Some (generateToken rand)))"

definition handleDaemonStop :: "host_env \<Rightarrow> string \<Rightarrow> host \<Rightarrow> host" where
  "handleDaemonStop env name h = stopBackground env (namedDaemonPidFile name) h"

text \<open>\<open>reportStatus\<close> as JSON: running, the number, and the exit status.\<close>

definition reportStatus :: "host_env \<Rightarrow> string \<Rightarrow> host \<Rightarrow> (bool \<times> int \<times> int) \<times> host" where
  "reportStatus env f h =
     (case isRunning env f h of ((running, pid), h1) \<Rightarrow> ((running, pid, if running then 0 else ExitConfigError), h1))"

definition mask_key :: "string \<Rightarrow> string" where
  "mask_key k = (if length k > 8 then take 4 k @ ''...'' @ drop (length k - 4) k else k)"

section \<open>Lemmas\<close>

lemma trim_itoa: "trim_space (go_itoa i) = go_itoa i"
proof (rule trim_space_id)
  have "\<not> go_space c" if "c \<in> set (go_itoa i)" for c
    using that nat_digits_digits [of c] by (auto simp: go_itoa_def go_space_def split: if_splits)
  moreover have "go_itoa i \<noteq> ''''" by (simp add: go_itoa_def)
  ultimately show "go_itoa i = '''' \<or> \<not> go_space (hd (go_itoa i)) \<and> \<not> go_space (last (go_itoa i))" by simp
qed

lemma isRunning_at:
  "go_int_range pid \<Longrightarrow> ho_files h f = Some (go_itoa pid) \<Longrightarrow>
   isRunning env f h = (if ho_procs h pid \<noteq> None \<and> hx_mine env pid then ((True, pid), h) else ((False, 0), remove_file env f h))"
  by (simp add: isRunning_def trim_itoa go_atoi_itoa)

lemma isRunning_procs: "ho_procs (snd (isRunning env f h)) = ho_procs h"
  by (simp add: isRunning_def remove_file_def split: option.split)

lemma isRunning_files: "g \<noteq> f \<Longrightarrow> ho_files (snd (isRunning env f h)) g = ho_files h g"
  by (simp add: isRunning_def remove_file_def split: option.split)

lemma stop_polls_effect:
  assumes "ho_files h f = Some (go_itoa pid)" and "go_int_range pid" and "hx_remove env f"
  shows "ho_files (stop_polls env f pid i k h) = (ho_files h)(f := None) \<and>
    (\<forall>p. p \<noteq> pid \<longrightarrow> ho_procs (stop_polls env f pid i k h) p = ho_procs h p) \<and>
    (hx_mine env pid \<longrightarrow> ho_procs (stop_polls env f pid i k h) pid = None)"
  using assms(1)
proof (induction k arbitrary: i h)
  case 0
  then show ?case using assms(3) by (simp add: remove_file_def end_process_def)
next
  case (Suc k)
  define h1 where "h1 = (case hx_ends env pid of None \<Rightarrow> h | Some n \<Rightarrow> if n \<le> i then end_process pid h else h)"
  have h1: "ho_files h1 = ho_files h" "\<forall>p. p \<noteq> pid \<longrightarrow> ho_procs h1 p = ho_procs h p"
    by (simp_all add: h1_def end_process_def split: option.split)
  then have rec: "ho_files h1 f = Some (go_itoa pid)" using Suc.prems by simp
  note r = isRunning_at [OF assms(2) rec, of env]
  show ?case
  proof (cases "ho_procs h1 pid \<noteq> None \<and> hx_mine env pid")
    case True
    then have "stop_polls env f pid i (Suc k) h = stop_polls env f pid (Suc i) k h1"
      using r by (simp add: Let_def h1_def [symmetric])
    then show ?thesis using Suc.IH [OF rec, of "Suc i"] h1 by simp
  next
    case False
    then have "isRunning env f h1 = ((False, 0), remove_file env f h1)" using r by auto
    then have "stop_polls env f pid i (Suc k) h = remove_file env f h1"
      by (simp add: Let_def h1_def [symmetric])
    then show ?thesis using False h1 assms(3) by (auto simp: remove_file_def)
  qed
qed

section \<open>Properties\<close>

text \<open>
  The life of a background process. When none is recorded as running and the operating system
  lets it start: it is then reported under its number with exit status 0, a second start is
  refused, and stopping it, whether or not it listens to the signal, leaves neither the process nor
  its PID file; other PID files and other processes are untouched throughout.
\<close>

theorem background_lifecycle:
  assumes "\<not> fst (fst (isRunning env f h))" and "hx_exe env = Inr exe" and "hx_log env l = None" and "hx_start env (exe # args) = None"
    and "hx_writePid env f = None" and "hx_mine env (hx_new env)" and "hx_remove env f" and "go_int_range (hx_new env)"
  shows "\<exists>h1. startBackground env f l args h = (None, h1) \<and> reportStatus env f h1 = ((True, hx_new env, 0), h1) \<and>
    startBackground env f l args' h1 = (Some (''already running (PID file: '' @ f @ '')''), h1) \<and>
    ho_files (stopBackground env f h1) f = None \<and> ho_procs (stopBackground env f h1) (hx_new env) = None \<and>
    (\<forall>g. g \<noteq> f \<longrightarrow> ho_files (stopBackground env f h1) g = ho_files h g) \<and>
    (\<forall>p. p \<noteq> hx_new env \<longrightarrow> ho_procs (stopBackground env f h1) p = ho_procs h p)"
proof -
  let ?pid = "hx_new env"
  define h0 where "h0 = snd (isRunning env f h)"
  define h1 where "h1 = h0\<lparr>ho_files := (ho_files h0)(f \<mapsto> go_itoa ?pid), ho_procs := (ho_procs h0)(?pid \<mapsto> exe # args)\<rparr>"
  obtain n where free: "isRunning env f h = ((False, n), h0)"
    using assms(1) by (cases "isRunning env f h") (auto simp: h0_def)
  have start: "startBackground env f l args h = (None, h1)"
    by (simp add: startBackground_def free assms(2-5) h1_def)
  have rec: "ho_files h1 f = Some (go_itoa ?pid)" by (simp add: h1_def)
  have up: "isRunning env f h1 = ((True, ?pid), h1)"
    using isRunning_at [OF assms(8) rec, of env] assms(6) by (simp add: h1_def)
  have stop: "stopBackground env f h1 = stop_polls env f ?pid 0 10 h1" by (simp add: stopBackground_def up)
  have "ho_files h1 g = ho_files h g" if "g \<noteq> f" for g using isRunning_files [OF that, of env h] that by (simp add: h1_def h0_def)
  moreover have "ho_procs h1 p = ho_procs h p" if "p \<noteq> ?pid" for p using isRunning_procs [of env f h] that by (simp add: h1_def h0_def)
  ultimately show ?thesis
    using start up stop_polls_effect [OF rec assms(8,7), of 0 10] assms(6)
    by (intro exI [of _ h1]) (simp add: reportStatus_def startBackground_def up stop)
qed

lemma names_instance_start:
  "has_prefix a ''-'' = False \<Longrightarrow> names_instance n (a # rest) = names_instance n rest"
  by (cases a) (auto simp: has_prefix_def)

text \<open>
  A daemon that was started can be found by its name. The command line with which
  \<open>daemon start --daemon\<close> starts an instance is recognised by \<open>daemon update\<close> without a name, and with
  a name exactly when it is that instance's own (tokens and names do not start with a dash); it is
  never taken for a relay, nor the relay's own command line for a daemon.
\<close>

theorem started_daemon_is_found:
  assumes "\<not> has_prefix token ''-''" and "\<not> has_prefix name ''-''"
  shows "matchesProc (exe # daemon_child_args token name) ''daemon'' '''' \<and>
    (q \<noteq> '''' \<longrightarrow> matchesProc (exe # daemon_child_args token name) ''daemon'' q = (name = q)) \<and>
    \<not> matchesProc (exe # daemon_child_args token name) ''relay'' q \<and>
    matchesProc (exe # relay_child_args port bind cert key) ''relay'' '''' \<and>
    \<not> matchesProc (exe # relay_child_args port bind cert key) ''daemon'' q"
proof -
  have d: "names_instance q (a # rest) = names_instance q rest" if "\<not> has_prefix a ''-''" for a rest
    using names_instance_start that by blast
  let ?rest = "(if token \<noteq> '''' then [''-token'', token] else []) @ (if name \<noteq> '''' then [''-name'', name] else [])"
  have rest: "names_instance q ?rest = (name = q)" if "q \<noteq> ''''"
  proof -
    have none: "names_instance q [name] = False" using d [OF assms(2), of "[]"] by (simp only: names_instance.simps(1))
    have "names_instance q [''-name'', name] = (name = q)" by (subst names_instance.simps(2)) (simp add: none del: names_instance.simps(2))
    moreover have "names_instance q (''-token'' # token # r) = names_instance q r" for r
      by (subst names_instance.simps(2)) (simp add: d [OF assms(1)] del: names_instance.simps(2))
    ultimately show ?thesis using that by (auto simp del: names_instance.simps(2))
  qed
  have "matchesProc (exe # daemon_child_args token name) ''daemon'' p = (p \<noteq> '''' \<longrightarrow> names_instance p ?rest)" for p
    by (simp add: matchesProc_def start_words_def daemon_child_args_def)
  moreover have "\<not> matchesProc (exe # daemon_child_args token name) ''relay'' q"
    by (simp add: matchesProc_def start_words_def daemon_child_args_def)
  moreover have "matchesProc (exe # relay_child_args port bind cert key) ''relay'' ''''"
    by (simp add: matchesProc_def start_words_def relay_child_args_def)
  moreover have "\<not> matchesProc (exe # relay_child_args port bind cert key) ''daemon'' q"
    by (simp add: matchesProc_def start_words_def relay_child_args_def)
  ultimately show ?thesis using rest by blast
qed

theorem started_daemon_is_found_witness:
  "matchesProc (''/b/rc'' # daemon_child_args ''70'' ''box'') ''daemon'' ''box''"
  using started_daemon_is_found [of "''70''" "''box''" "''/b/rc''" "''box''"] by (simp add: has_prefix_def)

definition demo_host :: host_env where
  "demo_host = \<lparr>hx_mine = (\<lambda>p. p \<noteq> 1), hx_remove = (\<lambda>_. True), hx_exe = Inr ''/b/rc'', hx_log = (\<lambda>_. None), hx_start = (\<lambda>_. None),
     hx_writePid = (\<lambda>_. None), hx_new = 42, hx_ends = (\<lambda>_. None)\<rparr>"

theorem background_lifecycle_witness:
  "\<exists>h1. startBackground demo_host ''p'' ''l'' [''daemon'', ''start''] \<lparr>ho_files = [''p'' \<mapsto> ''x''], ho_procs = Map.empty\<rparr> = (None, h1) \<and>
    reportStatus demo_host ''p'' h1 = ((True, 42, 0), h1) \<and> ho_procs (stopBackground demo_host ''p'' h1) 42 = None"
proof -
  have "go_atoi (trim_space ''x'') = None" by code_simp
  then have "\<not> fst (fst (isRunning demo_host ''p'' \<lparr>ho_files = [''p'' \<mapsto> ''x''], ho_procs = Map.empty\<rparr>))" by (simp add: isRunning_def)
  moreover have "hx_new demo_host = 42" "hx_exe demo_host = Inr ''/b/rc''" by (simp_all add: demo_host_def)
  moreover have "hx_log demo_host ''l'' = None" "hx_start demo_host [''/b/rc'', ''daemon'', ''start''] = None" "hx_writePid demo_host ''p'' = None"
    "hx_mine demo_host 42" "hx_remove demo_host ''p''" "go_int_range 42"
    by (simp_all add: demo_host_def go_int_range_def)
  ultimately show ?thesis using background_lifecycle [of demo_host "''p''" _ "''/b/rc''" "''l''" "[''daemon'', ''start'']"] by fastforce
qed

text \<open>
  A number that was used again. When the recorded process has ended and its number belongs to
  another process now, the daemon is reported as running and stopping it ends that other process.
\<close>

theorem reused_pid_is_stopped:
  assumes "ho_files h f = Some (go_itoa pid)" and "ho_procs h pid = Some other" and "hx_mine env pid" and "hx_remove env f" and "go_int_range pid"
  shows "fst (fst (reportStatus env f h)) \<and> ho_procs (stopBackground env f h) pid = None"
  using isRunning_at [OF assms(5,1), of env] stop_polls_effect [OF assms(1,5,4)] assms(2,3)
  by (simp add: reportStatus_def stopBackground_def)

text \<open>
  A process of another user counts as stopped: its PID file is removed by whoever asks for the
  status, if the directory allows it, and from then on its owner cannot stop it either.
\<close>

theorem foreign_process_is_forgotten:
  assumes "ho_files h f = Some (go_itoa pid)" and "\<not> hx_mine env pid" and "hx_remove env f" and "go_int_range pid"
  shows "reportStatus env f h = ((False, 0, ExitConfigError), h\<lparr>ho_files := (ho_files h)(f := None)\<rparr>) \<and>
    ho_procs (stopBackground env' f (snd (reportStatus env f h))) = ho_procs h"
  using isRunning_at [OF assms(4,1), of env] assms(2,3)
  by (simp add: reportStatus_def remove_file_def stopBackground_def isRunning_def)

text \<open>Instances with different names have different PID files, and what is done to one leaves the
  file of the other.\<close>

lemma named_pid_files: "namedDaemonPidFile a = namedDaemonPidFile b \<longleftrightarrow> a = b"
  by (simp add: namedDaemonPidFile_def)

end
