(* ===== verification/CommandLine.thy ===== *)
theory CommandLine
  imports Flags Dial Processes
begin

text \<open>
  From the arguments of the process to the call they ask for: the dispatch of main.go, the
  subcommand groups (cli\_exec.go, cli\_daemon.go, cli\_tunnel.go, cli\_sidecar.go, alias.go), and the
  flags of the commands that run something on a target.
\<close>

section \<open>Dispatch\<close>

datatype main_call =
    NoCommand | HelpJSON | Version bool | Help | UnknownCommand string
  | ExecFlags "string list" | AddTarget "string list" | RemoveTarget "string list" | ListTargets "string list"
  | SetRelay "string list" | RelaySub "string list" | DaemonSub "string list" | AliasSub "string list"
  | PairSub "string list" | SidecarSub "string list" | CP "string list" | ExecSub "string list"
  | GroupSub "string list" | ClientSub "string list" | Tunnel "string list" | Feedback "string list"
  | MCP "string list" | Update "string list" | Guide "string list"

definition main :: "string list \<Rightarrow> main_call" where
  "main args =
     (case args of
        [] \<Rightarrow> NoCommand
      | first # rest \<Rightarrow>
          if first = ''--help-json'' then HelpJSON
          else if has_prefix first ''--'' then ExecFlags args
          else if first = ''add-target'' then AddTarget rest
          else if first = ''remove-target'' then RemoveTarget rest
          else if first = ''list-targets'' then ListTargets rest
          else if first = ''set-relay'' then SetRelay rest
          else if first = ''relay'' then RelaySub rest
          else if first = ''daemon'' then DaemonSub rest
          else if first = ''alias'' then AliasSub rest
          else if first = ''pair'' then PairSub rest
          else if first = ''sidecar'' then SidecarSub rest
          else if first = ''cp'' then CP rest
          else if first = ''exec'' then ExecSub rest
          else if first = ''group'' then GroupSub rest
          else if first = ''client'' then ClientSub rest
          else if first = ''tunnel'' then Tunnel rest
          else if first = ''feedback'' then Feedback rest
          else if first = ''mcp'' then MCP rest
          else if first = ''update'' then Update rest
          else if first = ''version'' then Version (rest \<noteq> [] \<and> hd rest = ''--json'')
          else if first = ''guide'' then Guide rest
          else if first = ''help-json'' then HelpJSON
          else if first \<in> {''help'', ''--help'', ''-h''} then Help
          else UnknownCommand first)"

text \<open>The calls that are preceded by the update nudge: those that go to the relay.\<close>

definition main_nudges :: "string list \<Rightarrow> bool" where
  "main_nudges args =
     (case args of
        [] \<Rightarrow> False
      | first # rest \<Rightarrow> first \<noteq> ''--help-json'' \<and>
          (has_prefix first ''--'' \<or> first \<in> {''exec'', ''cp'', ''list-targets'', ''tunnel'', ''client''}))"

text \<open>A group of subcommands; without one, or with an unknown one, the usage is an error.\<close>

datatype sub_call = Sub string "string list" | NeedsSub | UnknownSub string

definition subcommand :: "string list \<Rightarrow> string list \<Rightarrow> sub_call" where
  "subcommand names args =
     (case args of [] \<Rightarrow> NeedsSub | first # rest \<Rightarrow> if first \<in> set names then Sub first rest else UnknownSub first)"

definition handleGroupSubcommand :: "string list \<Rightarrow> sub_call" where
  "handleGroupSubcommand = subcommand [''create'', ''delete'', ''add'', ''remove'', ''list'']"

definition handleRelaySubcommand :: "string list \<Rightarrow> sub_call" where
  "handleRelaySubcommand = subcommand [''daemon'', ''add-key'', ''remove-key'', ''list-keys'']"

definition handleRelayDaemon :: "string list \<Rightarrow> sub_call" where
  "handleRelayDaemon = subcommand [''start'', ''stop'', ''status'', ''update'', ''systemd'']"

text \<open>\<open>persistence\<close> is \<open>systemd\<close>, on Windows \<open>schtasks\<close>.\<close>

definition handleDaemonSubcommand :: "string \<Rightarrow> string list \<Rightarrow> sub_call" where
  "handleDaemonSubcommand persistence =
     subcommand [''start'', ''stop'', ''status'', ''update'', ''restart-helper'', persistence]"

definition handleAliasSubcommand :: "string list \<Rightarrow> sub_call" where
  "handleAliasSubcommand = subcommand [''install'', ''uninstall'']"

definition handleSidecarSubcommand :: "string list \<Rightarrow> sub_call" where
  "handleSidecarSubcommand = subcommand [''activate'']"

text \<open>\<open>tunnel\<close> without a subcommand is \<open>tunnel start\<close>.\<close>

definition handleTunnel :: "string list \<Rightarrow> sub_call" where
  "handleTunnel args =
     (case args of
        [] \<Rightarrow> Sub ''start'' []
      | first # rest \<Rightarrow>
          if first \<in> {''start'', ''stop''} then Sub first rest
          else if first = ''status'' then Sub ''status'' []
          else if first \<in> {''--help'', ''-h''} then Sub ''help'' []
          else Sub ''start'' args)"

section \<open>Commands on targets\<close>

text \<open>A command line exits in the parser, fails, or runs.\<close>

datatype 'a parsed = Exits int | Fails cliError | Runs 'a

definition with_flags :: "flag_set \<Rightarrow> string list \<Rightarrow> ((string \<Rightarrow> string) \<Rightarrow> 'a parsed) \<Rightarrow> 'a parsed" where
  "with_flags fs args k = (case flags_of fs args of Inl code \<Rightarrow> Exits code | Inr v \<Rightarrow> k v)"

record exec_call =
  ec_target :: string
  ec_cmd :: string
  ec_timeout :: int
  ec_stream :: bool

definition exec_flags :: flag_set where
  "exec_flags = [(''target'', FlagString, ''''), (''cmd'', FlagString, ''''), (''timeout'', FlagInt, ''30''), (''stream'', FlagBool, ''false'')]"

definition handleExecFlags :: "string list \<Rightarrow> exec_call parsed" where
  "handleExecFlags args =
     with_flags exec_flags args (\<lambda>v.
       if v ''target'' = '''' \<or> v ''cmd'' = ''''
       then Fails (fail ExitConfigError ''missing_argument'' ''--target and --cmd are required''
         [''remotecmd-cli --target <name> --cmd <command> [--timeout <seconds>] [--stream]''])
       else Runs \<lparr>ec_target = v ''target'', ec_cmd = v ''cmd'', ec_timeout = int_flag (v ''timeout''), ec_stream = bool_flag (v ''stream'')\<rparr>)"

text \<open>\<open>exec\<close>: the plan of its flags with the timeout, the stream flag and the format.\<close>

definition exec_sub_flags :: flag_set where
  "exec_sub_flags = [(''target'', FlagString, ''''), (''targets'', FlagString, ''''), (''group'', FlagString, ''''), (''cmd'', FlagString, ''''),
     (''timeout'', FlagInt, ''30''), (''stream'', FlagBool, ''false''), (''parallel'', FlagInt, ''0''), (''format'', FlagString, ''table'')]"

definition parse_exec_subcommand :: "config_file \<Rightarrow> string list \<Rightarrow> (exec_plan \<times> int \<times> bool \<times> string) parsed" where
  "parse_exec_subcommand f args =
     with_flags exec_sub_flags args (\<lambda>v.
       case handleExecSubcommand f (v ''target'') (v ''targets'') (v ''group'') (v ''cmd'') of
         ExecFail e \<Rightarrow> Fails e
       | plan \<Rightarrow> Runs (plan, int_flag (v ''timeout''), bool_flag (v ''stream''), v ''format''))"

record cp_call =
  cp_target :: string
  cp_src :: string
  cp_dst :: string
  cp_stream :: bool

definition cp_flags :: flag_set where
  "cp_flags = [(''target'', FlagString, ''''), (''src'', FlagString, ''''), (''dst'', FlagString, ''''), (''stream'', FlagBool, ''false'')]"

definition parse_cp :: "string list \<Rightarrow> cp_call parsed" where
  "parse_cp args =
     with_flags cp_flags args (\<lambda>v.
       if v ''target'' = '''' \<or> v ''src'' = '''' \<or> v ''dst'' = ''''
       then Fails (fail ExitConfigError ''missing_argument'' ''--target, --src, and --dst are required''
         [''remotecmd-cli cp --target <name> --src <path> --dst <path> [--stream]''])
       else Runs \<lparr>cp_target = v ''target'', cp_src = v ''src'', cp_dst = v ''dst'', cp_stream = bool_flag (v ''stream'')\<rparr>)"

definition parse_list_targets :: "string list \<Rightarrow> (bool \<times> bool \<times> bool) parsed" where
  "parse_list_targets args =
     with_flags [(''refresh'', FlagBool, ''false''), (''no-health'', FlagBool, ''false''), (''json'', FlagBool, ''false'')] args
       (\<lambda>v. Runs (bool_flag (v ''refresh''), bool_flag (v ''no-health''), bool_flag (v ''json'')))"

record tunnel_call =
  tc_target :: string
  tc_local :: string
  tc_remote :: string
  tc_bg :: bool

definition handleTunnelStart :: "string list \<Rightarrow> tunnel_call parsed" where
  "handleTunnelStart args =
     with_flags [(''target'', FlagString, ''''), (''local'', FlagString, ''''), (''remote'', FlagString, ''''), (''daemon'', FlagBool, ''false'')] args
       (\<lambda>v. if v ''target'' = '''' \<or> v ''local'' = '''' \<or> v ''remote'' = ''''
            then Fails (fail ExitConfigError ''missing_argument'' ''--target, --local and --remote are required'' [])
            else Runs \<lparr>tc_target = v ''target'', tc_local = v ''local'', tc_remote = v ''remote'', tc_bg = bool_flag (v ''daemon'')\<rparr>)"

section \<open>The daemon's and the relay's own commands\<close>

text \<open>\<open>daemon start\<close>: the token, the instance name, whether in the background.\<close>

definition parse_daemon_start :: "string list \<Rightarrow> (string \<times> string \<times> bool) parsed" where
  "parse_daemon_start args =
     with_flags [(''token'', FlagString, ''''), (''name'', FlagString, ''''), (''daemon'', FlagBool, ''false'')] args
       (\<lambda>v. Runs (v ''token'', v ''name'', bool_flag (v ''daemon'')))"

text \<open>\<open>relay daemon start\<close>: port, interface, certificate and key (else from the environment), background.\<close>

definition parse_relay_start :: "string \<Rightarrow> string \<Rightarrow> string list \<Rightarrow> (int \<times> string \<times> string \<times> string \<times> bool) parsed" where
  "parse_relay_start env_cert env_key args =
     with_flags [(''port'', FlagInt, ''3032''), (''host'', FlagString, ''''), (''daemon'', FlagBool, ''false''),
                 (''tls-cert'', FlagString, ''''), (''tls-key'', FlagString, '''')] args
       (\<lambda>v. Runs (int_flag (v ''port''), v ''host'', if v ''tls-cert'' = '''' then env_cert else v ''tls-cert'',
                   if v ''tls-key'' = '''' then env_key else v ''tls-key'', bool_flag (v ''daemon'')))"

section \<open>Tunnels in the background\<close>

definition tunnelPidsDir :: "string \<Rightarrow> string" where "tunnelPidsDir dir = path_join dir ''tunnel-pids''"
definition tunnelLogsDir :: "string \<Rightarrow> string" where "tunnelLogsDir dir = path_join dir ''tunnel-logs''"

definition tunnelPidFile :: "string \<Rightarrow> string \<Rightarrow> string \<Rightarrow> string" where
  "tunnelPidFile dir target port = path_join (tunnelPidsDir dir) (target @ ''-'' @ port @ ''.pid'')"

definition tunnelLogFile :: "string \<Rightarrow> string \<Rightarrow> string \<Rightarrow> string" where
  "tunnelLogFile dir target port = path_join (tunnelLogsDir dir) (target @ ''-'' @ port @ ''.log'')"

definition tunnel_child_args :: "tunnel_call \<Rightarrow> string list" where
  "tunnel_child_args c = [''tunnel'', ''start'', ''--target'', tc_target c, ''--local'', tc_local c, ''--remote'', tc_remote c]"

definition tunnel_start_bg :: "host_env \<Rightarrow> string \<Rightarrow> tunnel_call \<Rightarrow> host \<Rightarrow> cliError option \<times> host" where
  "tunnel_start_bg env dir c h =
     (case startBackground env (tunnelPidFile dir (tc_target c) (tc_local c)) (tunnelLogFile dir (tc_target c) (tc_local c)) (tunnel_child_args c) h of
        (e, h') \<Rightarrow> (map_option (\<lambda>m. failErr m []) e, h'))"

definition handleTunnelStop :: "host_env \<Rightarrow> string \<Rightarrow> string list \<Rightarrow> host \<Rightarrow> unit parsed \<times> host" where
  "handleTunnelStop env dir args h =
     (case with_flags [(''target'', FlagString, ''''), (''local'', FlagString, '''')] args
             (\<lambda>v. if v ''target'' = '''' \<or> v ''local'' = ''''
                  then Fails (fail ExitConfigError ''missing_argument'' ''--target and --local are required'' [])
                  else Runs (v ''target'', v ''local'')) of
        Exits n \<Rightarrow> (Exits n, h)
      | Fails e \<Rightarrow> (Fails e, h)
      | Runs (target, port) \<Rightarrow> (Runs (), stopBackground env (tunnelPidFile dir target port) h))"

text \<open>What \<open>tunnel status\<close> lists for the entries of the directory (a name, and whether it is a
  directory); the PID file of a tunnel that does not run is removed.\<close>

fun handleTunnelStatus :: "host_env \<Rightarrow> string \<Rightarrow> (string \<times> bool) list \<Rightarrow> host \<Rightarrow> (string \<times> int) list \<times> host" where
  "handleTunnelStatus env dir [] h = ([], h)"
| "handleTunnelStatus env dir ((name, is_dir) # es) h =
     (if is_dir \<or> \<not> has_suffix name ''.pid'' then handleTunnelStatus env dir es h
      else (let pidFile = path_join (tunnelPidsDir dir) name
            in case isRunning env pidFile h of ((running, pid), h1) \<Rightarrow>
                 if running
                 then (case handleTunnelStatus env dir es h1 of (l, h2) \<Rightarrow> ((trim_suffix name ''.pid'', pid) # l, h2))
                 else handleTunnelStatus env dir es (remove_file env pidFile h1)))"

section \<open>Properties\<close>

lemmas flag_defs = with_flags_def flags_of_def flag_kinds_def flag_defaults_def flag_word_def bool_flag_def

text \<open>
  C37. The process in the background gets the request. The arguments that \<open>daemon start\<close>, \<open>relay daemon
  start\<close> and \<open>tunnel start\<close> give to the process they start in the background are read by it, whatever
  the values look like, as the same request, to be run in the foreground.
\<close>

theorem background_child_gets_the_request:
  assumes "go_int_range port"
  shows "(\<exists>rest. main (daemon_child_args token name) = DaemonSub rest \<and>
      (\<exists>args. handleDaemonSubcommand ''systemd'' rest = Sub ''start'' args \<and> parse_daemon_start args = Runs (token, name, False))) \<and>
    (\<exists>rest. main (relay_child_args port host cert key) = RelaySub rest \<and>
      (\<exists>rest' args. handleRelaySubcommand rest = Sub ''daemon'' rest' \<and> handleRelayDaemon rest' = Sub ''start'' args \<and>
        parse_relay_start ec ek args =
          Runs (port, host, if cert = '''' then ec else cert, if key = '''' then ek else key, False))) \<and>
    (tc_target c \<noteq> '''' \<and> tc_local c \<noteq> '''' \<and> tc_remote c \<noteq> '''' \<longrightarrow>
      (\<exists>rest. main (tunnel_child_args c) = Tunnel rest \<and>
        (\<exists>args. handleTunnel rest = Sub ''start'' args \<and> handleTunnelStart args = Runs (c\<lparr>tc_bg := False\<rparr>))))"
proof (intro conjI impI)
  show "\<exists>rest. main (daemon_child_args token name) = DaemonSub rest \<and>
      (\<exists>args. handleDaemonSubcommand ''systemd'' rest = Sub ''start'' args \<and> parse_daemon_start args = Runs (token, name, False))"
    by (simp add: main_def has_prefix_def daemon_child_args_def handleDaemonSubcommand_def subcommand_def parse_daemon_start_def flag_defs)
  show "\<exists>rest. main (relay_child_args port host cert key) = RelaySub rest \<and>
      (\<exists>rest' args. handleRelaySubcommand rest = Sub ''daemon'' rest' \<and> handleRelayDaemon rest' = Sub ''start'' args \<and>
        parse_relay_start ec ek args = Runs (port, host, if cert = '''' then ec else cert, if key = '''' then ek else key, False))"
    using assms
    by (simp add: main_def has_prefix_def relay_child_args_def handleRelaySubcommand_def handleRelayDaemon_def subcommand_def
        parse_relay_start_def flag_defs)
  show "\<exists>rest. main (tunnel_child_args c) = Tunnel rest \<and>
        (\<exists>args. handleTunnel rest = Sub ''start'' args \<and> handleTunnelStart args = Runs (c\<lparr>tc_bg := False\<rparr>))"
    if "tc_target c \<noteq> '''' \<and> tc_local c \<noteq> '''' \<and> tc_remote c \<noteq> ''''"
    using that by (simp add: main_def has_prefix_def tunnel_child_args_def handleTunnel_def handleTunnelStart_def flag_defs)
qed

theorem background_child_gets_the_request_witness:
  "\<exists>rest. main (relay_child_args 3032 ''::1'' '''' '''') = RelaySub rest \<and>
     (\<exists>rest' args. handleRelaySubcommand rest = Sub ''daemon'' rest' \<and> handleRelayDaemon rest' = Sub ''start'' args \<and>
        parse_relay_start '''' '''' args = Runs (3032, ''::1'', '''', '''', False))"
proof -
  have "go_int_range 3032" by (simp add: go_int_range_def)
  from background_child_gets_the_request [OF this, of "''t''" "''n''" "''::1''" "''''" "''''" "''''" "''''"
      "\<lparr>tc_target = '''', tc_local = '''', tc_remote = '''', tc_bg = False\<rparr>"]
  show ?thesis by simp
qed

end
