(* ===== verification/Aliases.thy ===== *)
theory Aliases
  imports CommandLine Archive
begin

text \<open>
  The shell aliases (alias.go, alias\_wrappers.go): what each wrapper script hands to the program, and
  how the scripts are installed. A script is read as the program it is, from its arguments to the
  command it replaces itself with; its help and usage texts are left out.
\<close>

section \<open>The scripts\<close>

text \<open>The status a script ends with, or the words it executes. The path of the program stands
  unquoted in the scripts: \<open>sh\<close> is the words a shell makes of it.\<close>

datatype script_end = Ends int | Execs "string list"

definition first_arg :: "string list \<Rightarrow> string" where
  "first_arg args = (case args of [] \<Rightarrow> '''' | a # _ \<Rightarrow> a)"

definition wants_help :: "string list \<Rightarrow> bool" where
  "wants_help args \<longleftrightarrow> first_arg args = ''--help'' \<or> first_arg args = ''-h''"

definition rc_script :: "string list \<Rightarrow> string list \<Rightarrow> script_end" where
  "rc_script exe args = Execs (exe @ args)"

text \<open>The loop over the optional arguments: the stream flag, unquoted so that it disappears when it
  is empty, and the last other argument as the timeout.\<close>

fun rcx_options :: "string list \<Rightarrow> string \<Rightarrow> string list \<Rightarrow> string list \<times> string" where
  "rcx_options stream timeout [] = (stream, timeout)"
| "rcx_options stream timeout (a # as) =
     (if a = ''--stream'' then rcx_options [''--stream''] timeout as else rcx_options stream a as)"

definition rcx_script :: "string list \<Rightarrow> string list \<Rightarrow> script_end" where
  "rcx_script exe args =
     (if wants_help args then Ends 0
      else if first_arg args = ''--targets'' \<or> first_arg args = ''--group'' then
        (case args of
           mode # group_or_list # cmd # rest \<Rightarrow>
             Execs (exe @ [''exec'', mode, group_or_list, ''--cmd'', cmd, ''--timeout'',
               (case rest of [] \<Rightarrow> ''30'' | t # _ \<Rightarrow> t), ''--format'', ''table''])
         | _ \<Rightarrow> Ends 1)
      else
        (case args of
           target # cmd # rest \<Rightarrow>
             (case rcx_options [] ''10'' rest of (stream, timeout) \<Rightarrow>
                Execs (exe @ [''--target'', target, ''--cmd'', cmd, ''--timeout'', timeout] @ stream))
         | _ \<Rightarrow> Ends 1))"

definition rcl_script :: "string list \<Rightarrow> string list \<Rightarrow> script_end" where
  "rcl_script exe args = (if wants_help args then Ends 0 else Execs (exe @ [''list-targets''] @ args))"

text \<open>\<open>rcs\<close> runs a fixed command on the target.\<close>

definition rcs_command :: string where
  "rcs_command = ''if [ -f /tmp/remotecmd-daemon.pid ]; then PID=$(cat /tmp/remotecmd-daemon.pid); if kill -0 \"$PID\" 2>/dev/null; then '' @
     ''echo \"Daemon running (PID: $PID)\"; else echo \"PID file exists but daemon not running (stale PID: $PID)\"; fi; else '' @
     ''echo \"Daemon not running (no PID file)\"; fi''"

definition rcs_script :: "string list \<Rightarrow> string list \<Rightarrow> script_end" where
  "rcs_script exe args =
     (if wants_help args then Ends 0
      else case args of [] \<Rightarrow> Ends 1 | target # _ \<Rightarrow> Execs (exe @ [''--target'', target, ''--cmd'', rcs_command, ''--timeout'', ''10'']))"

definition rcc_script :: "string list \<Rightarrow> string list \<Rightarrow> script_end" where
  "rcc_script exe args =
     (if wants_help args then Ends 0
      else case args of
        target # src # dst # rest \<Rightarrow>
          Execs (exe @ [''cp'', ''--target'', target, ''--src'', src, ''--dst'', dst] @ (if ''--stream'' \<in> set rest then [''--stream''] else []))
      | _ \<Rightarrow> Ends 1)"

definition rcg_script :: "string list \<Rightarrow> string list \<Rightarrow> script_end" where
  "rcg_script exe args =
     (if wants_help args then Ends 0
      else case args of
        [] \<Rightarrow> Ends 0
      | sub # rest \<Rightarrow>
          if sub = ''list'' then Execs (exe @ [''group'', ''list''])
          else if sub \<in> {''create'', ''delete'', ''add'', ''remove''} then Execs (exe @ [''group'', sub] @ rest)
          else Ends 1)"

definition rcd_script :: "string list \<Rightarrow> string list \<Rightarrow> script_end" where
  "rcd_script exe args = (if wants_help args \<or> args = [] then Ends 0 else Execs (exe @ [''daemon''] @ args))"

definition rcr_script :: "string list \<Rightarrow> string list \<Rightarrow> script_end" where
  "rcr_script exe args =
     (if wants_help args then Ends 0
      else case args of
        [] \<Rightarrow> Ends 0
      | sub # rest \<Rightarrow>
          if sub \<in> {''start'', ''stop'', ''status''} then Execs (exe @ [''relay'', ''daemon'', sub] @ rest)
          else if sub = ''systemd'' then Execs (exe @ [''relay'', ''daemon'', ''systemd''] @ rest)
          else Ends 1)"

section \<open>Installation\<close>

text \<open>A file of the home directory: a text, or one of the scripts for a program.\<close>

datatype home_file = Plain string | Script string string

type_synonym home = "string \<rightharpoonup> home_file"

text \<open>The answers of the operating system: the home directory, the path of the program, the shell;
  the error of creating the directory, of writing a file with what it then holds, and of appending.\<close>

record alias_env =
  ae_home :: "string + string"
  ae_exe :: "string + string"
  ae_shell :: string
  ae_mkdir :: "string \<Rightarrow> string option"
  ae_write :: "string \<Rightarrow> (string \<times> home_file option) option"
  ae_append :: "string \<Rightarrow> string option"
  ae_remove :: "string \<Rightarrow> bool"

definition alias_names :: "string list" where
  "alias_names = [''rc'', ''rcx'', ''rcl'', ''rcs'', ''rcc'', ''rcg'', ''rcd'', ''rcr'']"

definition bin_dir :: "string \<Rightarrow> string" where
  "bin_dir dir = path_join dir ''.local/bin''"

text \<open>\<open>createAliasWrapper\<close> and its like: one script.\<close>

definition create_wrapper :: "alias_env \<Rightarrow> string \<Rightarrow> string \<Rightarrow> string \<Rightarrow> home \<Rightarrow> string option \<times> home" where
  "create_wrapper env name path exe h =
     (case ae_write env path of
        Some (e, left) \<Rightarrow> (Some e, h(path := left))
      | None \<Rightarrow> (None, h(path \<mapsto> Script name exe)))"

fun create_wrappers :: "alias_env \<Rightarrow> string \<Rightarrow> string \<Rightarrow> string list \<Rightarrow> home \<Rightarrow> string option \<times> home" where
  "create_wrappers env dir exe [] h = (None, h)"
| "create_wrappers env dir exe (n # ns) h =
     (case create_wrapper env n (path_join dir n) exe h of
        (Some e, h1) \<Rightarrow> (Some (''creating '' @ n @ '' alias: '' @ e), h1)
      | (None, h1) \<Rightarrow> create_wrappers env dir exe ns h1)"

definition getShellConfigPath :: "alias_env \<Rightarrow> string" where
  "getShellConfigPath env =
     (let dir = (case ae_home env of Inl e \<Rightarrow> '''' | Inr d \<Rightarrow> d)
      in if ae_shell env \<in> {''/bin/zsh'', ''/usr/bin/zsh''} then path_join dir ''.zshrc''
         else if ae_shell env \<in> {''/bin/bash'', ''/usr/bin/bash''} then path_join dir ''.bashrc''
         else '''')"

definition containsPath :: "string \<Rightarrow> string \<Rightarrow> bool" where
  "containsPath content path \<longleftrightarrow>
     (\<exists>pre\<in>{''PATH=\"'', ''PATH='' @ [CHR 0x27], ''PATH='', ''export PATH=\"'', ''export PATH='' @ [CHR 0x27], ''export PATH=''}.
        str_contains content (pre @ path))"

text \<open>A file that cannot be read has no such line; only texts are looked at here.\<close>

definition hasBinPathInConfig :: "home \<Rightarrow> string \<Rightarrow> string \<Rightarrow> bool" where
  "hasBinPathInConfig h configPath dir = (case h configPath of Some (Plain content) \<Rightarrow> containsPath content dir | _ \<Rightarrow> False)"

definition path_line :: "string \<Rightarrow> string" where
  "path_line dir = [CHR 0x0A] @ ''# remotecmd-cli aliases'' @ [CHR 0x0A] @ ''export PATH=\"'' @ dir @ '':$PATH\"'' @ [CHR 0x0A]"

text \<open>The file is opened without being created.\<close>

definition addBinPathToConfig :: "alias_env \<Rightarrow> string \<Rightarrow> string \<Rightarrow> home \<Rightarrow> string option \<times> home" where
  "addBinPathToConfig env configPath dir h =
     (case h configPath of
        Some (Plain content) \<Rightarrow>
          (case ae_append env configPath of
             Some e \<Rightarrow> (Some e, h)
           | None \<Rightarrow> (None, h(configPath \<mapsto> Plain (content @ path_line dir))))
      | _ \<Rightarrow> (Some ''no such file or directory'', h))"

definition handleAliasInstall :: "alias_env \<Rightarrow> home \<Rightarrow> cliError option \<times> home" where
  "handleAliasInstall env h =
     (case ae_home env of
        Inl e \<Rightarrow> (Some (failErrCode ExitConfigError (''cannot determine home directory: '' @ e) []), h)
      | Inr d \<Rightarrow>
          (let dir = bin_dir d
           in case ae_mkdir env dir of
                Some e \<Rightarrow> (Some (failErrCode ExitConfigError (''cannot create bin directory: '' @ e) []), h)
              | None \<Rightarrow>
                  (case ae_exe env of
                     Inl e \<Rightarrow> (Some (failErrCode ExitConfigError (''cannot get executable path: '' @ e) []), h)
                   | Inr exe \<Rightarrow>
                       (case create_wrappers env dir exe alias_names h of
                          (Some e, h1) \<Rightarrow> (Some (failErrCode ExitConfigError e []), h1)
                        | (None, h1) \<Rightarrow>
                            (let cfg = getShellConfigPath env
                             in (None, if cfg \<noteq> '''' \<and> \<not> hasBinPathInConfig h1 cfg dir then snd (addBinPathToConfig env cfg dir h1) else h1))))))"

definition handleAliasUninstall :: "alias_env \<Rightarrow> home \<Rightarrow> cliError option \<times> home" where
  "handleAliasUninstall env h =
     (case ae_home env of
        Inl e \<Rightarrow> (Some (failErrCode ExitConfigError (''cannot determine home directory: '' @ e) []), h)
      | Inr d \<Rightarrow>
          (None, fold (\<lambda>n h. let p = path_join (bin_dir d) n in if ae_remove env p then h(p := None) else h) alias_names h))"

section \<open>Properties\<close>

lemmas script_defs = rc_script_def rcx_script_def rcl_script_def rcs_script_def rcc_script_def rcg_script_def rcd_script_def
  rcr_script_def wants_help_def first_arg_def

lemmas command_defs = main_def has_prefix_def handleExecFlags_def exec_flags_def parse_exec_subcommand_def exec_sub_flags_def parse_cp_def
  cp_flags_def parse_list_targets_def flag_defs



text \<open>A path that the shell takes apart: no alias starts the program.\<close>

theorem alias_of_a_path_with_space:
  "rc_script (go_fields ''/home/my user/rc'') args = Execs (''/home/my'' # ''user/rc'' # args)"
proof -
  have "go_fields ''/home/my user/rc'' = [''/home/my'', ''user/rc'']" by code_simp
  then show ?thesis by (simp add: rc_script_def)
qed

section \<open>Installing and uninstalling\<close>

lemma create_wrappers_ok:
  assumes "\<forall>p. ae_write env p = None"
  shows "create_wrappers env dir exe ns h = (None, fold (\<lambda>n h. h(path_join dir n \<mapsto> Script n exe)) ns h)"
  using assms by (induction ns arbitrary: h) (simp_all add: create_wrapper_def)

lemma puts_other: "p \<notin> g ` set ns \<Longrightarrow> fold (\<lambda>n h. h(g n \<mapsto> v n)) ns h p = h p"
  by (induction ns arbitrary: h) auto

lemma puts_own:
  assumes "inj_on g (set ns)" "n \<in> set ns"
  shows "fold (\<lambda>n h. h(g n \<mapsto> v n)) ns h (g n) = Some (v n)"
  using assms
proof (induction ns arbitrary: h)
  case (Cons m ns)
  show ?case
  proof (cases "n \<in> set ns")
    case False
    then have n: "n = m" "g m \<notin> g ` set ns" using Cons.prems by (auto simp: inj_on_def)
    show ?thesis using puts_other [OF n(2), of v "h(g m \<mapsto> v m)"] by (simp add: n(1) comp_def del: fun_upd_apply) simp
  qed (use Cons in \<open>simp add: inj_on_def\<close>)
qed simp

lemma puts_again: "\<forall>n\<in>set ns. h (g n) = Some (v n) \<Longrightarrow> fold (\<lambda>n h. h(g n \<mapsto> v n)) ns h = h"
  by (induction ns) (simp_all add: map_upd_triv)

lemma removes:
  "fold (\<lambda>n h. h(g n := None)) ns h = (\<lambda>p. if p \<in> g ` set ns then None else h p)"
  by (induction ns arbitrary: h) (auto simp: fun_eq_iff)

lemma path_line_contains: "containsPath (c @ path_line dir) dir"
  unfolding containsPath_def
proof (rule bexI [of _ "''export PATH=\"''"])
  have "c @ path_line dir = (c @ [CHR 0x0A] @ ''# remotecmd-cli aliases'' @ [CHR 0x0A]) @ (''export PATH=\"'' @ dir) @ ('':$PATH\"'' @ [CHR 0x0A])"
    by (simp add: path_line_def)
  then show "str_contains (c @ path_line dir) (''export PATH=\"'' @ dir)" by (metis str_contains_middle)
qed simp

text \<open>The scripts below a plain home directory are different files, and none is the shell's configuration.\<close>

lemma alias_names_plain: "n \<in> set alias_names \<Longrightarrow> plain_segment n"
  by (auto simp: alias_names_def plain_segment_def)

lemma alias_path:
  assumes "ds \<noteq> []" "\<forall>g\<in>set ds. plain_segment g" "n \<in> set alias_names"
  shows "path_join (bin_dir (abs_path ds)) n = abs_path (ds @ [''.local'', ''bin'', n])"
proof -
  have b: "bin_dir (abs_path ds) = abs_path (ds @ [''.local'', ''bin''])"
    using join_plain [OF assms(1,2), of "[''.local'', ''bin'']"] by (simp add: bin_dir_def plain_segment_def)
  show ?thesis
    using join_plain [of "ds @ [''.local'', ''bin'']" "[n]"] assms alias_names_plain [OF assms(3)] by (simp add: b plain_segment_def)
qed

lemma alias_paths_differ:
  assumes "ds \<noteq> []" "\<forall>g\<in>set ds. plain_segment g"
  shows "inj_on (path_join (bin_dir (abs_path ds))) (set alias_names)"
proof (rule inj_onI)
  fix m n assume "m \<in> set alias_names" "n \<in> set alias_names" "path_join (bin_dir (abs_path ds)) m = path_join (bin_dir (abs_path ds)) n"
  then show "m = n"
    using abs_path_inj [of "ds @ [''.local'', ''bin'', m]" "ds @ [''.local'', ''bin'', n]"] alias_path [OF assms] alias_names_plain assms(2)
    by (auto simp: plain_segment_def)
qed

lemma shell_config_apart:
  assumes "ds \<noteq> []" "\<forall>g\<in>set ds. plain_segment g" "ae_home env = Inr (abs_path ds)"
  shows "getShellConfigPath env \<notin> path_join (bin_dir (abs_path ds)) ` set alias_names"
proof
  assume "getShellConfigPath env \<in> path_join (bin_dir (abs_path ds)) ` set alias_names"
  then obtain n where n: "n \<in> set alias_names" "getShellConfigPath env = abs_path (ds @ [''.local'', ''bin'', n])"
    using alias_path [OF assms(1,2)] by auto
  have c: "path_join (abs_path ds) g = abs_path (ds @ [g])" if "plain_segment g" for g
    using join_plain [OF assms(1,2), of "[g]"] that by simp
  have "abs_path (ds @ [g]) \<noteq> abs_path (ds @ [''.local'', ''bin'', n])" if "plain_segment g" for g
    using abs_path_inj [of "ds @ [g]" "ds @ [''.local'', ''bin'', n]"] that assms(2) alias_names_plain [OF n(1)] by (auto simp: plain_segment_def)
  moreover have "plain_segment ''.zshrc''" "plain_segment ''.bashrc''" by (simp_all add: plain_segment_def)
  ultimately show False using n(2) abs_path_not_empty [symmetric] by (auto simp: getShellConfigPath_def assms(3) c Let_def split: if_splits)
qed

text \<open>
  Installing the aliases. When the operating system lets it, \<open>alias install\<close> leaves the eight
  scripts for the program, touches nothing else but the shell's configuration, which, if it is a
  file that can be appended to, afterwards has the directory on the path and keeps its old text in
  front; doing it again changes nothing; and \<open>alias uninstall\<close> then removes exactly the scripts.
\<close>

theorem alias_install_settles:
  assumes "ds \<noteq> []" and "\<forall>g\<in>set ds. plain_segment g" and "ae_home env = Inr (abs_path ds)" and "ae_mkdir env (bin_dir (abs_path ds)) = None"
    and "ae_exe env = Inr exe" and "\<forall>p. ae_write env p = None"
  shows "let dir = bin_dir (abs_path ds); scripts = path_join dir ` set alias_names; cfg = getShellConfigPath env
    in \<exists>h1. handleAliasInstall env h = (None, h1) \<and>
      (\<forall>n\<in>set alias_names. h1 (path_join dir n) = Some (Script n exe)) \<and>
      (\<forall>p. p \<notin> scripts \<and> p \<noteq> cfg \<longrightarrow> h1 p = h p) \<and>
      (\<forall>c. cfg \<noteq> '''' \<and> h cfg = Some (Plain c) \<and> ae_append env cfg = None \<longrightarrow>
         (\<exists>added. h1 cfg = Some (Plain (c @ added)) \<and> containsPath (c @ added) dir)) \<and>
      handleAliasInstall env h1 = (None, h1) \<and>
      ((\<forall>p. ae_remove env p) \<longrightarrow> handleAliasUninstall env h1 = (None, \<lambda>p. if p \<in> scripts then None else h1 p))"
proof -
  define dir where "dir = bin_dir (abs_path ds)"
  define cfg where "cfg = getShellConfigPath env"
  define put where "put = fold (\<lambda>n h. h(path_join dir n \<mapsto> Script n exe)) alias_names"
  define config where "config = (\<lambda>h. if cfg \<noteq> '''' \<and> \<not> hasBinPathInConfig h cfg dir then snd (addBinPathToConfig env cfg dir h) else h)"
  have install: "handleAliasInstall env h = (None, config (put h))" for h
    using assms(3-6) create_wrappers_ok [OF assms(6)] by (simp add: handleAliasInstall_def dir_def cfg_def config_def put_def Let_def)
  have apart: "cfg \<notin> path_join dir ` set alias_names"
    using shell_config_apart [OF assms(1,2,3)] by (simp add: dir_def cfg_def)
  have own: "put h (path_join dir n) = Some (Script n exe)" if "n \<in> set alias_names" for n h
    using puts_own [OF alias_paths_differ [OF assms(1,2)] that] by (simp add: put_def dir_def)
  have other: "put h p = h p" if "p \<notin> path_join dir ` set alias_names" for p h
    using puts_other [OF that] by (simp add: put_def)
  have keeps: "config h p = h p" if "p \<noteq> cfg" for h p
    using that by (simp add: config_def addBinPathToConfig_def split: option.splits home_file.splits)
  let ?h1 = "config (put h)"
  have scripts: "?h1 (path_join dir n) = Some (Script n exe)" if "n \<in> set alias_names" for n
    using own [OF that] keeps that apart by (metis imageI)
  have appended: "\<exists>added. ?h1 cfg = Some (Plain (c @ added)) \<and> containsPath (c @ added) dir"
    if "cfg \<noteq> ''''" "h cfg = Some (Plain c)" "ae_append env cfg = None" for c
    using that other [OF apart, of h] path_line_contains [of c dir]
    by (cases "containsPath c dir") (auto simp: config_def hasBinPathInConfig_def addBinPathToConfig_def intro: exI [of _ "''''"])
  have "put ?h1 = ?h1"
    unfolding put_def by (rule puts_again) (use scripts [unfolded put_def] in blast)
  moreover have "config ?h1 = ?h1"
    using path_line_contains [of _ dir]
    by (auto simp: config_def hasBinPathInConfig_def addBinPathToConfig_def split: option.splits home_file.splits)
  ultimately have again: "handleAliasInstall env ?h1 = (None, ?h1)" by (simp add: install)
  have uninstall: "handleAliasUninstall env ?h1 = (None, \<lambda>p. if p \<in> path_join dir ` set alias_names then None else ?h1 p)"
    if "\<forall>p. ae_remove env p"
    using that removes [of "path_join dir" alias_names ?h1] by (simp add: handleAliasUninstall_def assms(3) dir_def Let_def)
  have "\<forall>p. p \<notin> path_join dir ` set alias_names \<and> p \<noteq> cfg \<longrightarrow> ?h1 p = h p" using other keeps by simp
  then show ?thesis
    using install scripts appended again uninstall unfolding Let_def dir_def [symmetric] cfg_def [symmetric] by (intro exI [of _ "?h1"]) blast
qed

theorem alias_install_settles_witness:
  "\<exists>h1. handleAliasInstall \<lparr>ae_home = Inr ''/u'', ae_exe = Inr ''/b/rc'', ae_shell = ''/bin/bash'', ae_mkdir = (\<lambda>_. None),
       ae_write = (\<lambda>_. None), ae_append = (\<lambda>_. None), ae_remove = (\<lambda>_. True)\<rparr> [''/u/.bashrc'' \<mapsto> Plain ''alias l=ls''] = (None, h1) \<and>
     h1 ''/u/.local/bin/rcx'' = Some (Script ''rcx'' ''/b/rc'') \<and> (\<exists>added. h1 ''/u/.bashrc'' = Some (Plain (''alias l=ls'' @ added)))"
proof -
  define env where "env = \<lparr>ae_home = Inr ''/u'', ae_exe = Inr ''/b/rc'', ae_shell = ''/bin/bash'', ae_mkdir = (\<lambda>_. None),
       ae_write = (\<lambda>_. None), ae_append = (\<lambda>_. None), ae_remove = (\<lambda>_. True)\<rparr>"
  have d: "abs_path [''u''] = ''/u''" "path_join (bin_dir ''/u'') ''rcx'' = ''/u/.local/bin/rcx''" "path_join ''/u'' ''.bashrc'' = ''/u/.bashrc''"
    by code_simp+
  have c: "getShellConfigPath env = ''/u/.bashrc''" by (simp add: getShellConfigPath_def env_def d)
  have "\<forall>g\<in>set [''u'']. plain_segment g" by (simp add: plain_segment_def)
  from alias_install_settles [of "[''u'']" env "''/b/rc''" "[''/u/.bashrc'' \<mapsto> Plain ''alias l=ls'']", OF _ this]
  obtain h1 where h1: "handleAliasInstall env [''/u/.bashrc'' \<mapsto> Plain ''alias l=ls''] = (None, h1)"
      "\<forall>n\<in>set alias_names. h1 (path_join (bin_dir ''/u'') n) = Some (Script n ''/b/rc'')"
      "\<forall>c. [''/u/.bashrc'' \<mapsto> Plain ''alias l=ls''] ''/u/.bashrc'' = Some (Plain c) \<longrightarrow> (\<exists>added. h1 ''/u/.bashrc'' = Some (Plain (c @ added)))"
    unfolding d c Let_def by (fastforce simp: env_def)
  have "h1 ''/u/.local/bin/rcx'' = Some (Script ''rcx'' ''/b/rc'')" using h1(2) d(2) by (simp add: alias_names_def)
  moreover have "\<exists>added. h1 ''/u/.bashrc'' = Some (Plain (''alias l=ls'' @ added))" by (rule h1(3) [rule_format]) simp
  ultimately show ?thesis unfolding env_def [symmetric] using h1(1) by blast
qed

text \<open>
  The test for the directory on the path is by prefix: a path to a directory whose name only begins
  like it is enough for the installation to leave the configuration as it is.
\<close>

theorem longer_directory_is_enough: "containsPath ''PATH=/u/.local/bin2'' ''/u/.local/bin''"
  unfolding containsPath_def by (rule bexI [of _ "''PATH=''"]) (code_simp, simp)

end
