(* ===== verification/Services.thy ===== *)
theory Services
  imports Aliases
begin

text \<open>
  The service managers (systemd.go, schtasks\_windows.go): the unit files and the start script, and the
  commands with which they are installed and removed. The calls of \<open>systemctl\<close>, \<open>schtasks\<close> and
  PowerShell are recorded in order; whether one succeeds is a parameter. What is printed is left out.
\<close>

section \<open>Unit files\<close>

definition unlines :: "string list \<Rightarrow> string" where
  "unlines ls = concat (map (\<lambda>l. l @ [CHR 0x0A]) ls)"

definition daemonServiceName :: string where "daemonServiceName = ''remotecmd-daemon''"
definition relayServiceName :: string where "relayServiceName = ''remotecmd-relay''"

definition daemonUnitContent :: "string \<Rightarrow> string" where
  "daemonUnitContent binPath = unlines
     [''[Unit]'', ''Description=remotecmd-cli Target Daemon'', ''Documentation=https://github.com/javimosch/remotecmd-cli'',
      ''After=network-online.target'', ''Wants=network-online.target'', '''',
      ''[Service]'', ''Type=simple'', ''ExecStart='' @ binPath @ '' daemon start'', ''Restart=always'', ''RestartSec=5'',
      ''StandardOutput=journal'', ''StandardError=journal'', '''',
      ''[Install]'', ''WantedBy=default.target'']"

definition relayUnitContent :: "string \<Rightarrow> int \<Rightarrow> string" where
  "relayUnitContent binPath port = unlines
     [''[Unit]'', ''Description=remotecmd-cli Relay Hub'', ''Documentation=https://github.com/javimosch/remotecmd-cli'',
      ''After=network.target'', '''',
      ''[Service]'', ''Type=simple'', ''ExecStart='' @ binPath @ '' relay daemon start --port '' @ go_itoa port, ''Restart=always'', ''RestartSec=3'',
      ''StandardOutput=journal'', ''StandardError=journal'', '''',
      ''[Install]'', ''WantedBy=multi-user.target'']"

definition validateUnitContent :: "string \<Rightarrow> string option" where
  "validateUnitContent content =
     (if \<not> str_contains content ''[Unit]'' then Some ''missing [Unit] section''
      else if \<not> str_contains content ''[Service]'' then Some ''missing [Service] section''
      else if \<not> str_contains content ''[Install]'' then Some ''missing [Install] section''
      else if \<not> str_contains content ''ExecStart='' then Some ''missing ExecStart directive''
      else None)"

section \<open>Installing\<close>

record service_env =
  sy_exe :: "string + string"
  sy_home :: "string + string"
  sy_root :: bool
  sy_mkdir :: "string \<Rightarrow> string option"
  sy_write :: "string \<Rightarrow> string option"
  sy_remove :: "string \<Rightarrow> bool"
  sy_run :: "string list \<Rightarrow> bool"
  sy_configDir :: string \<comment> \<open>\<open>RCMD_CONFIG_DIR\<close>\<close>
  sy_bat :: "string \<Rightarrow> string" \<comment> \<open>the start script beside a program\<close>

text \<open>The files, and the calls made so far. A failed write is read as one that did not open the file.\<close>

record service_state =
  ss_files :: "string \<rightharpoonup> string"
  ss_calls :: "string list list"

definition call :: "string list \<Rightarrow> service_state \<Rightarrow> service_state" where
  "call args s = s\<lparr>ss_calls := ss_calls s @ [args]\<rparr>"

definition remove_unit :: "service_env \<Rightarrow> string \<Rightarrow> service_state \<Rightarrow> service_state" where
  "remove_unit env p s = (if sy_remove env p then s\<lparr>ss_files := (ss_files s)(p := None)\<rparr> else s)"

text \<open>A failed call of \<open>systemctl\<close> is only warned about, so its result is not used.\<close>

definition enable_service :: "string list \<Rightarrow> string \<Rightarrow> service_state \<Rightarrow> service_state" where
  "enable_service user name s =
     call (''systemctl'' # user @ [''status'', ''--no-pager'', name @ ''.service''])
       (call (''systemctl'' # user @ [''enable'', ''--now'', name @ ''.service''])
         (call (''systemctl'' # user @ [''daemon-reload'']) s))"

definition daemon_unit_path :: "string \<Rightarrow> string" where
  "daemon_unit_path dir = path_join (path_join dir ''.config/systemd/user'') (daemonServiceName @ ''.service'')"

definition relay_unit_path :: string where
  "relay_unit_path = ''/etc/systemd/system/'' @ relayServiceName @ ''.service''"

definition handleDaemonInstallSystemd :: "service_env \<Rightarrow> service_state \<Rightarrow> cliError option \<times> service_state" where
  "handleDaemonInstallSystemd env s =
     (case sy_exe env of
        Inl e \<Rightarrow> (Some (failErrCode ExitInternal (''cannot get executable path: '' @ e) []), s)
      | Inr binPath \<Rightarrow>
          (case sy_home env of
             Inl e \<Rightarrow> (Some (failErrCode ExitInternal (''cannot determine user: '' @ e) []), s)
           | Inr dir \<Rightarrow>
               (case sy_mkdir env (path_join dir ''.config/systemd/user'') of
                  Some e \<Rightarrow> (Some (failErrCode ExitInternal (''cannot create systemd user directory: '' @ e) []), s)
                | None \<Rightarrow>
                    (case sy_write env (daemon_unit_path dir) of
                       Some e \<Rightarrow> (Some (failErrCode ExitInternal (''writing unit file: '' @ e) []), s)
                     | None \<Rightarrow>
                         (None, enable_service [''--user''] daemonServiceName
                            (s\<lparr>ss_files := (ss_files s)(daemon_unit_path dir \<mapsto> daemonUnitContent binPath)\<rparr>))))))"

definition handleRelayInstallSystemd :: "service_env \<Rightarrow> service_state \<Rightarrow> cliError option \<times> service_state" where
  "handleRelayInstallSystemd env s =
     (case sy_exe env of
        Inl e \<Rightarrow> (Some (failErrCode ExitInternal (''cannot get executable path: '' @ e) []), s)
      | Inr binPath \<Rightarrow>
          if \<not> sy_root env
          then (Some (fail ExitConfigError ''permission_denied'' ''the relay systemd service is system-wide and needs root''
                  [''sudo remotecmd-cli relay daemon systemd install'']), s)
          else case sy_write env relay_unit_path of
                 Some e \<Rightarrow> (Some (failErrCode ExitInternal (''writing unit file: '' @ e) []), s)
               | None \<Rightarrow>
                   (None, enable_service [] relayServiceName
                      (s\<lparr>ss_files := (ss_files s)(relay_unit_path \<mapsto> relayUnitContent binPath 3032)\<rparr>)))"

definition remove_service :: "service_env \<Rightarrow> string list \<Rightarrow> string \<Rightarrow> string \<Rightarrow> service_state \<Rightarrow> service_state" where
  "remove_service env user name p s =
     call (''systemctl'' # user @ [''daemon-reload''])
       (remove_unit env p
         (call (''systemctl'' # user @ [''disable'', name @ ''.service''])
           (call (''systemctl'' # user @ [''stop'', name @ ''.service'']) s)))"

definition handleDaemonRemoveSystemd :: "service_env \<Rightarrow> service_state \<Rightarrow> cliError option \<times> service_state" where
  "handleDaemonRemoveSystemd env s =
     (case sy_home env of
        Inl e \<Rightarrow> (Some (failErrCode ExitInternal (''cannot determine user: '' @ e) []), s)
      | Inr dir \<Rightarrow> (None, remove_service env [''--user''] daemonServiceName (daemon_unit_path dir) s))"

definition handleRelayRemoveSystemd :: "service_env \<Rightarrow> service_state \<Rightarrow> cliError option \<times> service_state" where
  "handleRelayRemoveSystemd env s = (None, remove_service env [] relayServiceName relay_unit_path s)"

text \<open>\<open>daemon systemd\<close> and \<open>relay daemon systemd\<close>.\<close>

definition systemd_subcommand ::
    "string \<Rightarrow> (service_env \<Rightarrow> service_state \<Rightarrow> cliError option \<times> service_state) \<Rightarrow> (service_env \<Rightarrow> service_state \<Rightarrow> cliError option \<times> service_state) \<Rightarrow>
     string list \<Rightarrow> service_env \<Rightarrow> service_state \<Rightarrow> cliError option \<times> service_state" where
  "systemd_subcommand what inst rem args env s =
     (case args of
        [] \<Rightarrow> (Some (fail ExitConfigError ''missing_argument'' (what @ '' needs install or remove'') [''remotecmd-cli '' @ what @ '' install|remove'']), s)
      | a # _ \<Rightarrow>
          if a = ''install'' then inst env s
          else if a = ''remove'' then rem env s
          else (Some (fail ExitConfigError ''unknown_command'' (''unknown systemd command: '' @ a) [''remotecmd-cli '' @ what @ '' install|remove'']), s))"

definition handleDaemonSystemdSubcommand :: "string list \<Rightarrow> service_env \<Rightarrow> service_state \<Rightarrow> cliError option \<times> service_state" where
  "handleDaemonSystemdSubcommand = systemd_subcommand ''daemon systemd'' handleDaemonInstallSystemd handleDaemonRemoveSystemd"

definition handleRelaySystemdSubcommand :: "string list \<Rightarrow> service_env \<Rightarrow> service_state \<Rightarrow> cliError option \<times> service_state" where
  "handleRelaySystemdSubcommand = systemd_subcommand ''relay daemon systemd'' handleRelayInstallSystemd handleRelayRemoveSystemd"

section \<open>Scheduled tasks\<close>

definition schtasksName :: string where "schtasksName = ''remotecmd-daemon''"

definition crlf :: string where "crlf = [CHR 0x0D, CHR 0x0A]"

definition wrapper_content :: "string \<Rightarrow> string \<Rightarrow> string" where
  "wrapper_content configDir binPath =
     ''@echo off'' @ crlf @ (if configDir \<noteq> '''' then ''set RCMD_CONFIG_DIR='' @ configDir @ crlf else '''') @
     [CHR 0x22] @ binPath @ [CHR 0x22] @ '' daemon start'' @ crlf"

definition ps_script :: string where
  "ps_script = ''$t = Get-ScheduledTask -TaskName '' @ [CHR 0x27] @ schtasksName @ [CHR 0x27] @ ''; $s = $t.Settings; '' @
     ''$s.DisallowStartIfOnBatteries = $false; $s.StopIfGoingOnBatteries = $false; $s.ExecutionTimeLimit = '' @ [CHR 0x27] @ ''PT0S'' @ [CHR 0x27] @
     ''; Set-ScheduledTask -TaskName '' @ [CHR 0x27] @ schtasksName @ [CHR 0x27] @ '' -Settings $s''"

definition schtasks_create :: "string \<Rightarrow> string list" where
  "schtasks_create bat = [''schtasks'', ''/create'', ''/tn'', schtasksName, ''/tr'', bat, ''/sc'', ''onstart'', ''/ru'', ''SYSTEM'', ''/rl'', ''highest'', ''/f'']"

definition handleDaemonInstallSchtasks :: "service_env \<Rightarrow> service_state \<Rightarrow> cliError option \<times> service_state" where
  "handleDaemonInstallSchtasks env s =
     (case sy_exe env of
        Inl e \<Rightarrow> (Some (failErrCode ExitInternal (''cannot get executable path: '' @ e) []), s)
      | Inr binPath \<Rightarrow>
          (let bat = sy_bat env binPath
           in case sy_write env bat of
                Some e \<Rightarrow> (Some (failErrCode ExitInternal (''writing wrapper batch file: '' @ e) []), s)
              | None \<Rightarrow>
                  (let s1 = call (schtasks_create bat) (call [''schtasks'', ''/delete'', ''/tn'', schtasksName, ''/f'']
                         (s\<lparr>ss_files := (ss_files s)(bat \<mapsto> wrapper_content (sy_configDir env) binPath)\<rparr>))
                   in if \<not> sy_run env (schtasks_create bat) then (Some (failErrCode ExitInternal ''creating scheduled task: exit status 1'' []), s1)
                      else (None, call [''schtasks'', ''/run'', ''/tn'', schtasksName] (call [''powershell'', ''-Command'', ps_script] s1)))))"

text \<open>The script stays when the task cannot be deleted.\<close>

definition handleDaemonRemoveSchtasks :: "service_env \<Rightarrow> service_state \<Rightarrow> cliError option \<times> service_state" where
  "handleDaemonRemoveSchtasks env s =
     (let del = [''schtasks'', ''/delete'', ''/tn'', schtasksName, ''/f''];
          s1 = call del (call [''schtasks'', ''/end'', ''/tn'', schtasksName] s)
      in if \<not> sy_run env del then (Some (failErrCode ExitInternal ''removing scheduled task: exit status 1'' []), s1)
         else (None, case sy_exe env of Inl e \<Rightarrow> s1 | Inr binPath \<Rightarrow> remove_unit env (sy_bat env binPath) s1))"

definition handleDaemonSchtasksSubcommand :: "string list \<Rightarrow> service_env \<Rightarrow> service_state \<Rightarrow> cliError option \<times> service_state" where
  "handleDaemonSchtasksSubcommand args env s =
     (case args of
        [] \<Rightarrow> (Some (fail ExitConfigError ''missing_argument'' ''daemon schtasks needs install or remove'' [''remotecmd-cli daemon schtasks install|remove'']), s)
      | a # _ \<Rightarrow>
          if a = ''install'' then handleDaemonInstallSchtasks env s
          else if a = ''remove'' then handleDaemonRemoveSchtasks env s
          else (Some (fail ExitConfigError ''unknown_command'' (''unknown schtasks command: '' @ a) [''remotecmd-cli daemon schtasks install|remove'']), s))"

section \<open>Reading a unit file\<close>

text \<open>What systemd executes for a unit: the words of its \<open>ExecStart\<close> line. (Quotes, backslashes, \<open>%\<close> and
  \<open>$\<close> have a meaning of their own there; the paths below have none.)\<close>

definition exec_start :: "string \<Rightarrow> string list option" where
  "exec_start content =
     map_option (\<lambda>l. go_fields (trim_prefix l ''ExecStart=''))
       (find (\<lambda>l. has_prefix l ''ExecStart='') (go_split (CHR 0x0A) content))"

definition unit_word :: "string \<Rightarrow> bool" where
  "unit_word w \<longleftrightarrow> w \<noteq> '''' \<and> (\<forall>c\<in>set w. \<not> go_space c \<and> c \<notin> {CHR 0x22, CHR 0x27, CHR 0x5C, CHR ''%'', CHR ''$''})"

lemma unlines_contains:
  assumes "pre @ x \<in> set ls"
  shows "str_contains (unlines ls) pre"
proof -
  obtain as bs where "ls = as @ (pre @ x) # bs" using split_list [OF assms] by auto
  then have "unlines ls = unlines as @ pre @ (x @ [CHR 0x0A] @ unlines bs)" by (simp add: unlines_def)
  then show ?thesis using str_contains_middle by simp
qed

lemma split_unlines: "\<forall>l\<in>set ls. CHR 0x0A \<notin> set l \<Longrightarrow> go_split (CHR 0x0A) (unlines ls) = ls @ ['''']"
proof (induction ls)
  case (Cons l ls)
  then show ?case using go_split_cons [of "CHR 0x0A" l] by (simp add: unlines_def)
qed (simp add: unlines_def)

lemma unit_word_plain: "unit_word w \<Longrightarrow> w \<noteq> '''' \<and> (\<forall>c\<in>set w. \<not> go_space c) \<and> CHR 0x0A \<notin> set w"
proof -
  have "go_space (CHR 0x0A)" by (simp add: go_space_def)
  then show "unit_word w \<Longrightarrow> ?thesis" unfolding unit_word_def by blast
qed

lemma itoa_plain: "go_itoa n \<noteq> '''' \<and> (\<forall>c\<in>set (go_itoa n). \<not> go_space c) \<and> CHR 0x0A \<notin> set (go_itoa n)"
proof -
  have "\<not> go_space c" if "c \<in> set (go_itoa n)" for c
    using that nat_digits_digits [of c] by (auto simp: go_itoa_def go_space_def split: if_splits)
  moreover have "go_space (CHR 0x0A)" by (simp add: go_space_def)
  ultimately show ?thesis by (auto simp: go_itoa_def)
qed

lemma unit_words:
  assumes "\<forall>w\<in>set ws. w \<noteq> '''' \<and> (\<forall>c\<in>set w. \<not> go_space c)" "ls = as @ (''ExecStart='' @ go_join '' '' ws) # bs"
    "\<forall>l\<in>set as. \<not> has_prefix l ''ExecStart=''" "\<forall>l\<in>set ls. CHR 0x0A \<notin> set l"
  shows "exec_start (unlines ls) = Some ws"
proof -
  have f: "find (\<lambda>l. has_prefix l ''ExecStart='') (as @ ys) = find (\<lambda>l. has_prefix l ''ExecStart='') ys" for ys
    using assms(3) by (induction as) auto
  have "find (\<lambda>l. has_prefix l ''ExecStart='') (ls @ ['''']) = Some (''ExecStart='' @ go_join '' '' ws)"
    unfolding assms(2) append_assoc f by (simp add: has_prefix_def)
  then show ?thesis
    using split_unlines [OF assms(4)] go_fields_join [OF assms(1)] by (simp add: exec_start_def trim_prefix_def has_prefix_def)
qed

section \<open>Properties\<close>

text \<open>
  The services run what they are for. The unit files are complete, and what systemd executes for
  them, the path of the program being an ordinary word, is the program with arguments that it reads
  as \<open>daemon start\<close> in the foreground with the stored token, and as \<open>relay daemon start\<close> on the
  given port; and \<open>daemon update\<close> finds the processes by these command lines.
\<close>

theorem units_start_the_program:
  assumes "unit_word exe" and "go_int_range port"
  shows "validateUnitContent (daemonUnitContent exe) = None \<and> validateUnitContent (relayUnitContent exe port) = None \<and>
    (\<exists>args. exec_start (daemonUnitContent exe) = Some (exe # args) \<and> matchesProc (exe # args) ''daemon'' '''' \<and>
      (\<exists>rest. main args = DaemonSub rest \<and>
        (\<exists>args'. handleDaemonSubcommand ''systemd'' rest = Sub ''start'' args' \<and> parse_daemon_start args' = Runs ('''', '''', False)))) \<and>
    (\<exists>args. exec_start (relayUnitContent exe port) = Some (exe # args) \<and> matchesProc (exe # args) ''relay'' '''' \<and>
      (\<exists>rest. main args = RelaySub rest \<and>
        (\<exists>rest' args'. handleRelaySubcommand rest = Sub ''daemon'' rest' \<and> handleRelayDaemon rest' = Sub ''start'' args' \<and>
          parse_relay_start cert key args' = Runs (port, '''', cert, key, False))))"
proof (intro conjI)
  note w = unit_word_plain [OF assms(1)]
  have valid: "validateUnitContent (unlines ls) = None"
    if "''[Unit]'' \<in> set ls" "''[Service]'' \<in> set ls" "''[Install]'' \<in> set ls" "''ExecStart='' @ x \<in> set ls" for ls x
    using that unlines_contains [of "''[Unit]''" "''''" ls] unlines_contains [of "''[Service]''" "''''" ls]
      unlines_contains [of "''[Install]''" "''''" ls] unlines_contains [of "''ExecStart=''" x ls]
    by (simp add: validateUnitContent_def)
  show "validateUnitContent (daemonUnitContent exe) = None"
    unfolding daemonUnitContent_def by (rule valid [where x = "exe @ '' daemon start''"]) simp_all
  show "validateUnitContent (relayUnitContent exe port) = None"
    unfolding relayUnitContent_def by (rule valid [where x = "exe @ '' relay daemon start --port '' @ go_itoa port"]) simp_all
  have "exec_start (daemonUnitContent exe) = Some [exe, ''daemon'', ''start'']"
    unfolding daemonUnitContent_def
    by (rule unit_words [where as = "[''[Unit]'', ''Description=remotecmd-cli Target Daemon'', ''Documentation=https://github.com/javimosch/remotecmd-cli'',
      ''After=network-online.target'', ''Wants=network-online.target'', '''', ''[Service]'', ''Type=simple'']"])
      (use w in \<open>simp_all add: go_space_def has_prefix_def\<close>)
  then show "\<exists>args. exec_start (daemonUnitContent exe) = Some (exe # args) \<and> matchesProc (exe # args) ''daemon'' '''' \<and>
      (\<exists>rest. main args = DaemonSub rest \<and>
        (\<exists>args'. handleDaemonSubcommand ''systemd'' rest = Sub ''start'' args' \<and> parse_daemon_start args' = Runs ('''', '''', False)))"
    by (simp add: main_def has_prefix_def handleDaemonSubcommand_def subcommand_def parse_daemon_start_def flag_defs matchesProc_def start_words_def)
  have "exec_start (relayUnitContent exe port) = Some [exe, ''relay'', ''daemon'', ''start'', ''--port'', go_itoa port]"
    unfolding relayUnitContent_def
    by (rule unit_words [where as = "[''[Unit]'', ''Description=remotecmd-cli Relay Hub'', ''Documentation=https://github.com/javimosch/remotecmd-cli'',
      ''After=network.target'', '''', ''[Service]'', ''Type=simple'']"])
      (use w itoa_plain [of port] in \<open>simp_all add: go_space_def has_prefix_def\<close>)
  then show "\<exists>args. exec_start (relayUnitContent exe port) = Some (exe # args) \<and> matchesProc (exe # args) ''relay'' '''' \<and>
      (\<exists>rest. main args = RelaySub rest \<and>
        (\<exists>rest' args'. handleRelaySubcommand rest = Sub ''daemon'' rest' \<and> handleRelayDaemon rest' = Sub ''start'' args' \<and>
          parse_relay_start cert key args' = Runs (port, '''', cert, key, False)))"
    using assms(2)
    by (simp add: main_def has_prefix_def handleRelaySubcommand_def handleRelayDaemon_def subcommand_def parse_relay_start_def flag_defs
        matchesProc_def start_words_def)
qed

theorem units_start_the_program_witness:
  "validateUnitContent (daemonUnitContent ''/b/rc'') = None \<and>
   (\<exists>args. exec_start (daemonUnitContent ''/b/rc'') = Some (''/b/rc'' # args) \<and> matchesProc (''/b/rc'' # args) ''daemon'' '''')"
proof -
  have "unit_word ''/b/rc''" "go_int_range 3032" by (simp_all add: unit_word_def go_space_def go_int_range_def)
  from units_start_the_program [OF this] show ?thesis by blast
qed

text \<open>
  Installing a service writes exactly its unit file, before systemd is told to read and to start it;
  removing it stops and disables it while the file is still there, and deletes exactly that file.
\<close>

theorem service_install_and_remove:
  assumes "sy_exe env = Inr exe" and "sy_home env = Inr dir" and "sy_mkdir env (path_join dir ''.config/systemd/user'') = None"
    and "sy_write env (daemon_unit_path dir) = None" and "sy_remove env (daemon_unit_path dir)"
  shows "\<exists>s1 s2. handleDaemonSystemdSubcommand [''install''] env s = (None, s1) \<and>
    ss_files s1 = (ss_files s)(daemon_unit_path dir \<mapsto> daemonUnitContent exe) \<and>
    handleDaemonSystemdSubcommand [''remove''] env s1 = (None, s2) \<and> ss_files s2 = (ss_files s)(daemon_unit_path dir := None) \<and>
    ss_calls s2 = ss_calls s @ map (\<lambda>args. ''systemctl'' # ''--user'' # args)
      [[''daemon-reload''], [''enable'', ''--now'', ''remotecmd-daemon.service''], [''status'', ''--no-pager'', ''remotecmd-daemon.service''],
       [''stop'', ''remotecmd-daemon.service''], [''disable'', ''remotecmd-daemon.service''], [''daemon-reload'']]"
  using assms
  by (simp add: handleDaemonSystemdSubcommand_def systemd_subcommand_def handleDaemonInstallSystemd_def handleDaemonRemoveSystemd_def
      enable_service_def remove_service_def remove_unit_def call_def daemonServiceName_def)

text \<open>The start script on Windows is found again by \<open>daemon update\<close>: cut at its quotes, its last line is the
  program with the words of a daemon.\<close>

theorem schtasks_script_starts_daemon:
  assumes "CHR 0x22 \<notin> set exe"
  shows "(\<exists>front. wrapper_content dir exe = front @ [CHR 0x22] @ exe @ [CHR 0x22] @ '' daemon start'' @ crlf) \<and>
    splitWindowsCommandLine ([CHR 0x22] @ exe @ [CHR 0x22] @ '' daemon start'') = [exe, ''daemon'', ''start''] \<and>
    matchesProc [exe, ''daemon'', ''start''] ''daemon'' ''''"
proof (intro conjI)
  show "\<exists>front. wrapper_content dir exe = front @ [CHR 0x22] @ exe @ [CHR 0x22] @ '' daemon start'' @ crlf"
    by (rule exI [of _ "''@echo off'' @ crlf @ (if dir \<noteq> '''' then ''set RCMD_CONFIG_DIR='' @ dir @ crlf else '''')"]) (simp add: wrapper_content_def)
  show "splitWindowsCommandLine ([CHR 0x22] @ exe @ [CHR 0x22] @ '' daemon start'') = [exe, ''daemon'', ''start'']"
    using split_quoted [OF assms, of "''''" True "'' daemon start''"] by (simp add: splitWindowsCommandLine_def)
qed (simp add: matchesProc_def start_words_def)

end
