(* ===== verification/Copy.thy ===== *)
theory Copy
  imports ExecEndToEnd ArchiveTree CommandLine
begin

text \<open>
  The \<open>cp\<close> command (filetransfer.go and sendFileParallel of filetransfer\_stream.go): configuration,
  source, connection, sending, waiting for the result. Progress lines are left out, as is the version
  warning in front. Numbering of the frames, compression and errors of the sender are those of
  \<open>Sender\<close>; the daemon's side is in \<open>Reassembly\<close>.
\<close>

section \<open>What the command meets\<close>

text \<open>The source path: an error of \<open>stat\<close>, a directory, or a file with its size and what opening it gives.\<close>

datatype copy_source = NoSource string | Dir tree | File int "string + reader"

text \<open>The relay connection (\<open>cw_dial\<close> is the error of dialling), the sender's environment, the tar
  encoding, the replies that arrive, and for the streams of a parallel copy their own.\<close>

record copy_world =
  cw_config :: config_file
  cw_id :: string
  cw_chunk :: "int option"
  cw_streams :: "int option"
  cw_source :: "string \<Rightarrow> copy_source"
  cw_tar :: "tar_entry list \<Rightarrow> bytes"
  cw_dial :: "string option"
  cw_send :: send_env
  cw_replies :: "read_event list"
  cw_stream_dial :: "nat \<Rightarrow> string option"
  cw_stream_open :: "nat \<Rightarrow> string option"
  cw_stream_send :: "nat \<Rightarrow> send_env"
  cw_stream_replies :: "nat \<Rightarrow> read_event list"
  cw_order :: "nat list" \<comment> \<open>in which the streams finish\<close>

section \<open>Several streams\<close>

text \<open>The wait of one stream, which has no time limit: \<open>None\<close> while it waits. An answer without a
  verdict counts as success.\<close>

fun stream_wait :: "string \<Rightarrow> nat \<Rightarrow> read_event list \<Rightarrow> string option option" where
  "stream_wait tid k [] = None"
| "stream_wait tid k (Client.ReadError e # evs) = Some (Some (''stream '' @ go_itoa (int k) @ '' read result: '' @ e))"
| "stream_wait tid k (TimedOut # evs) = stream_wait tid k evs"
| "stream_wait tid k (Got m # evs) =
     (if m_type m = ''result'' \<and> m_id m = tid
      then Some (if m_ok m = Some False then Some (''stream '' @ go_itoa (int k) @ '' failed: '' @ m_error m) else None)
      else stream_wait tid k evs)"

text \<open>A stream from its connection to its result. The file is opened after the first frame.\<close>

definition copy_stream :: "copy_world \<Rightarrow> message \<Rightarrow> bytes \<Rightarrow> int \<Rightarrow> nat \<Rightarrow> nat \<Rightarrow> nat \<Rightarrow> string option option \<times> wsframe list" where
  "copy_stream w base data sz cs n k =
     (case cw_stream_dial w k of
        Some e \<Rightarrow> (Some (Some (''stream '' @ go_itoa (int k) @ '' connect: '' @ e)), [])
      | None \<Rightarrow>
          (case cw_stream_open w k of
             Some e \<Rightarrow>
               (case chunkCount sz (int cs) of
                  None \<Rightarrow> (None, [])
                | Some tot \<Rightarrow>
                    (case write_message (cw_stream_send w k) (''stream '' @ go_itoa (int k) @ '' init'') (parallel_init base tot sz cs n) [] of
                       (Some e1, out) \<Rightarrow> (Some (Some e1), out)
                     | (None, out) \<Rightarrow> (Some (Some (''stream '' @ go_itoa (int k) @ '' open: '' @ e)), out)))
           | None \<Rightarrow>
               (case parallel_stream (cw_stream_send w k) base data sz cs n k of
                  None \<Rightarrow> (None, [])
                | Some (Some e, out) \<Rightarrow> (Some (Some e), out)
                | Some (None, out) \<Rightarrow> (stream_wait (m_id base) k (cw_stream_replies w k), out))))"

text \<open>All streams are waited for, and the first error to arrive is the result.\<close>

fun first_error :: "string option option list \<Rightarrow> string option option" where
  "first_error [] = Some None"
| "first_error (None # rs) = None"
| "first_error (Some e # rs) = (case first_error rs of None \<Rightarrow> None | Some e' \<Rightarrow> Some (case e of Some x \<Rightarrow> Some x | None \<Rightarrow> e'))"

definition sendFileParallel :: "copy_world \<Rightarrow> message \<Rightarrow> bytes \<Rightarrow> int \<Rightarrow> nat \<Rightarrow> nat \<Rightarrow> outcome option \<times> wsframe list list" where
  "sendFileParallel w base data sz cs n =
     (case chunkCount sz (int cs) of
        None \<Rightarrow> (Some Panics, [])
      | Some tot \<Rightarrow>
          (case first_error (map (\<lambda>k. fst (copy_stream w base data sz cs n k)) (cw_order w)) of
             None \<Rightarrow> None
           | Some None \<Rightarrow> Some Returned
           | Some (Some e) \<Rightarrow> Some (Failed e),
           map (\<lambda>k. snd (copy_stream w base data sz cs n k)) [0..<n]))"

section \<open>The command\<close>

text \<open>The result, \<open>None\<close> while the command waits, and the frames written, one list for each connection.\<close>

definition wait_result :: "string \<Rightarrow> read_event list \<Rightarrow> string option \<times> wsframe list \<Rightarrow> outcome option \<times> wsframe list list" where
  "wait_result mid evs r =
     (case r of (Some e, out) \<Rightarrow> (Some (Failed e), [out]) | (None, out) \<Rightarrow> (cp_reader mid evs, [out]))"

definition cp_handleFileTransfer :: "copy_world \<Rightarrow> string \<Rightarrow> string \<Rightarrow> string \<Rightarrow> outcome option \<times> wsframe list list" where
  "cp_handleFileTransfer w target src dst =
     (case find_target ''loading config: '' target (cw_config w) of
        Inl e \<Rightarrow> (Some (Failed e), [])
      | Inr (url, t) \<Rightarrow>
          (let cs = effectiveChunkSize (cw_chunk w); mid = cw_id w
           in case cw_source w src of
                NoSource e \<Rightarrow> (Some (Failed (''stat source: '' @ e)), [])
              | Dir tree \<Rightarrow>
                  (case createTarArchive (cw_tar w) tree of
                     Inl e \<Rightarrow> (Some (Failed (''creating tar archive: '' @ e)), [])
                   | Inr data \<Rightarrow>
                       (case cw_dial w of
                          Some e \<Rightarrow> (Some (Failed (''connecting to relay: '' @ e)), [])
                        | None \<Rightarrow>
                            (case sendFileFramesWithSize (cw_send w) (cp_base mid target t True src dst) data cs [] of
                               None \<Rightarrow> (Some Panics, [])
                             | Some r \<Rightarrow> wait_result mid (cw_replies w) r)))
              | File sz (Inl e) \<Rightarrow> (Some (Failed (''opening source file: '' @ e)), [])
              | File sz (Inr rd) \<Rightarrow>
                  (case cw_dial w of
                     Some e \<Rightarrow> (Some (Failed (''connecting to relay: '' @ e)), [])
                   | None \<Rightarrow>
                       (let base = cp_base mid target t False src dst; n = parallel_streams (cw_streams w) True sz
                        in if n > 1 then sendFileParallel w base (rd_data rd) sz cs (nat n)
                           else case sendFileStreaming (cw_send w) base rd sz cs [] of
                                  None \<Rightarrow> (Some Panics, [])
                                | Some ((sent, chunks, e), out) \<Rightarrow> wait_result mid (cw_replies w) (e, out)))))"

text \<open>\<open>handleCP\<close>: what the process ends with.\<close>

definition handleCP :: "copy_world \<Rightarrow> string list \<Rightarrow> outcome option parsed" where
  "handleCP w args =
     (case parse_cp args of
        Exits n \<Rightarrow> Exits n
      | Fails e \<Rightarrow> Fails e
      | Runs c \<Rightarrow>
          (case fst (cp_handleFileTransfer w (cp_target c) (cp_src c) (cp_dst c)) of
             Some (Failed e) \<Rightarrow> Fails (failErrCode ExitConfigError e [])
           | r \<Rightarrow> Runs r))"

section \<open>Properties\<close>

lemma effectiveChunkSize_pos [simp]: "effectiveChunkSize n > 0"
  by (simp add: effectiveChunkSize_def fileChunkSize_def split: option.split)

lemma chunkCount_defined: "chunkCount sz (int (effectiveChunkSize n)) \<noteq> None"
  using effectiveChunkSize_pos [of n] by (simp add: chunkCount_def del: effectiveChunkSize_pos)

lemma parse_cp_words:
  assumes "target \<noteq> ''''" "src \<noteq> ''''" "dst \<noteq> ''''"
  shows "parse_cp [''--target'', target, ''--src'', src, ''--dst'', dst] =
    Runs \<lparr>cp_target = target, cp_src = src, cp_dst = dst, cp_stream = False\<rparr>"
  using assms by (simp add: parse_cp_def cp_flags_def flag_defs)

lemma cp_single_file:
  assumes "find_target ''loading config: '' al (cw_config w) = Inr (url, t)"
    and "cw_source w src = File (int (length data)) (Inr \<lparr>rd_data = data, rd_fail = None\<rparr>)"
    and "cw_dial w = None" "parallel_streams (cw_streams w) True (int (length data)) \<le> 1"
    and "link_up (cw_send w)" "data \<noteq> []" "int (length data) + int (effectiveChunkSize (cw_chunk w)) \<le> 2 ^ 63"
  shows "cp_handleFileTransfer w al src dst =
    (cp_reader (cw_id w) (cw_replies w), [transfer_frames (cw_send w) (cp_base (cw_id w) al t False src dst) (effectiveChunkSize (cw_chunk w)) data])"
  using assms by (simp add: cp_handleFileTransfer_def streaming_frames Let_def wait_result_def)

text \<open>
  C4. \<open>cp\<close>, from the command line to the file on the target. With a configured and connected target,
  a non-empty file below the size of a parallel copy, working connections and a queue with room:
  however the relay's writer is scheduled, the daemon has the file's bytes under the destination, it
  answers once, the relay writes one result to the client, and with that result the command succeeds.
\<close>

theorem cp_end_to_end:
  assumes client: "al \<noteq> ''''" "src \<noteq> ''''" "dst \<noteq> ''''" "connected (cw_config w) url al t c d s"
      "cw_source w src = File (int (length data)) (Inr \<lparr>rd_data = data, rd_fail = None\<rparr>)" "cw_dial w = None"
      "parallel_streams (cw_streams w) True (int (length data)) \<le> 1" "link_up (cw_send w)" "data \<noteq> []"
      "int (length data) + int (effectiveChunkSize (cw_chunk w)) \<le> 2 ^ 63"
    and schedule: "snd (cp_handleFileTransfer w al src dst) = [sent_frames evs]" "finds_room c d evs s"
    and relay: "writer_well d s" "wq_chan (rs_rcs s d) = []"
    and daemon: "gzip_ok (cw_send w) env" "os_create env dst = None" "\<forall>pos b. os_write env dst pos b = None"
  shows "let s' = copy_run c d evs s; answer = transfer_ok env (newID (rs_entropy s) (rs_draws s))
    in \<exists>frames reply. q_stream (rs_rcs s' d) = wire (rs_rcs s d) @ frames \<and>
         td_fs (td_frames env ord frames x) = (td_fs x)(dst \<mapsto> data) \<and>
         td_sent (td_frames env ord frames x) = td_sent x @ [answer] \<and>
         wire (rs_rcs (ws_frame a d (Json answer) s') c) = wire (rs_rcs s c) @ [Json reply] \<and>
         handleCP (w\<lparr>cw_replies := [Got reply]\<rparr>) [''--target'', al, ''--src'', src, ''--dst'', dst] = Runs (Some Returned)"
proof -
  let ?cs = "effectiveChunkSize (cw_chunk w)" and ?base = "cp_base (cw_id w) al t False src dst"
  have ft: "find_target ''loading config: '' al (cw_config w) = Inr (url, t)"
    using client(4) by (auto simp: connected_def find_target_def split: sum.splits option.splits if_splits)
  note single = cp_single_file [OF ft client(5-10)]
  have base: "m_mode ?base = ''scp''" "m_dst_path ?base = dst" "m_target ?base = relay_target al t" "m_token ?base = tg_token t" "m_id ?base = cw_id w"
    by (simp_all add: cp_base_def)
  have sent: "sendFileStreaming (cw_send w) ?base \<lparr>rd_data = data, rd_fail = None\<rparr> (int (length data)) ?cs [] =
      Some ((length data, int (length (chunk_list ?cs data)), None), sent_frames evs)"
    using streaming_frames [OF client(8) effectiveChunkSize_pos client(9,10), of ?base] single schedule(1) by simp
  define answer where "answer = transfer_ok env (newID (rs_entropy s) (rs_draws s))"
  define reply where "reply = answer\<lparr>m_id := cw_id w, m_type := ''result''\<rparr>"
  have ok: "m_ok reply = Some True" by (simp add: reply_def answer_def transfer_ok_def stampVersion_def)
  have r: "m_type reply = ''result''" "m_id reply = cw_id w" by (simp_all add: reply_def)
  have up: "conn_waits c Reading s" "c \<noteq> d" "relay_target al t \<noteq> ''''" "rs_clients s (relay_target al t) = Some d"
      "rc_token (rs_rcs s d) = tg_token t" "wq_net (rs_rcs s c) = None"
    using client(4) by (simp_all add: connected_def)
  note arrives = copy_arrives [OF client(8) effectiveChunkSize_pos client(9,10) base(1) sent daemon(1) _ _ up(1,2) _ _ _ relay _ schedule(2),
      unfolded base, OF daemon(2,3) up(3-6), folded answer_def, folded reply_def]
  have "cp_handleFileTransfer (w\<lparr>cw_replies := [Got reply]\<rparr>) al src dst = (Some Returned, [sent_frames evs])"
    using cp_single_file [of al "w\<lparr>cw_replies := [Got reply]\<rparr>" url t src data dst] ft client(5-10) ok r schedule(1) single by simp
  then have "handleCP (w\<lparr>cw_replies := [Got reply]\<rparr>) [''--target'', al, ''--src'', src, ''--dst'', dst] = Runs (Some Returned)"
    by (simp add: handleCP_def parse_cp_words [OF client(1-3)])
  then show ?thesis using arrives unfolding Let_def answer_def [symmetric] reply_def [symmetric] by blast
qed

definition demo_copy_world :: copy_world where
  "demo_copy_world = \<lparr>cw_config = demo_file, cw_id = ''f1'', cw_chunk = Some 2, cw_streams = None,
     cw_source = (\<lambda>p. if p = ''/a'' then File 1 (Inr \<lparr>rd_data = [65], rd_fail = None\<rparr>) else NoSource ''no such file''),
     cw_tar = (\<lambda>_. []), cw_dial = None, cw_send = demo_send, cw_replies = [], cw_stream_dial = (\<lambda>_. None), cw_stream_open = (\<lambda>_. None),
     cw_stream_send = (\<lambda>_. demo_send), cw_stream_replies = (\<lambda>_. []), cw_order = []\<rparr>"

lemma demo_copy_world_fields [simp]:
  "cw_config demo_copy_world = demo_file" "cw_id demo_copy_world = ''f1''" "effectiveChunkSize (cw_chunk demo_copy_world) = 2"
  "cw_source demo_copy_world ''/a'' = File 1 (Inr \<lparr>rd_data = [65], rd_fail = None\<rparr>)" "cw_dial demo_copy_world = None"
  "cw_send demo_copy_world = demo_send" "parallel_streams (cw_streams demo_copy_world) True 1 = 0"
  by (simp_all add: demo_copy_world_def effectiveChunkSize_def parallel_streams_def)

lemma demo_copy_frames: "snd (cp_handleFileTransfer demo_copy_world ''b'' ''/a'' ''/b'') = [sent_frames demo_schedule]"
proof -
  have base: "cp_base ''f1'' ''b'' \<lparr>tg_token = ''tok'', tg_relayName = ''box''\<rparr> False ''/a'' ''/b'' = demo_copy"
    by (simp add: cp_base_def demo_copy_def demo_base_def relay_target_def)
  have ft: "find_target ''loading config: '' ''b'' demo_file = Inr (wsURL ''http://r'', \<lparr>tg_token = ''tok'', tg_relayName = ''box''\<rparr>)"
    by (simp add: find_target_def demo_file_def loadConfig_def)
  have frames: "transfer_frames demo_send demo_copy 2 [65] = sent_frames demo_schedule"
    using streaming_frames [OF demo_send_ok(1), of 2 "[65]" demo_copy] demo_schedule_frames by simp
  show ?thesis
    using cp_single_file [of "''b''" demo_copy_world _ _ "''/a''" "[65]" "''/b''"] ft demo_send_ok(1) by (simp add: base frames)
qed

theorem cp_end_to_end_witness:
  "\<exists>frames reply. let s' = copy_run 1 0 demo_schedule demo_relay; answer = transfer_ok demo_os (newID (rs_entropy demo_relay) (rs_draws demo_relay)) in
     td_fs (td_frames demo_os [] frames demo_idle) = (td_fs demo_idle)(''/b'' \<mapsto> [65]) \<and>
     wire (rs_rcs (ws_frame True 0 (Json answer) s') 1) = wire (rs_rcs demo_relay 1) @ [Json reply] \<and>
     handleCP (demo_copy_world\<lparr>cw_replies := [Got reply]\<rparr>) [''--target'', ''b'', ''--src'', ''/a'', ''--dst'', ''/b''] = Runs (Some Returned)"
proof -
  have c: "connected (cw_config demo_copy_world) (wsURL ''http://r'') ''b'' \<lparr>tg_token = ''tok'', tg_relayName = ''box''\<rparr> 1 0 demo_relay"
    using demo_connected by simp
  have os: "os_create demo_os ''/b'' = None" "\<forall>pos b. os_write demo_os ''/b'' pos b = None" by (simp_all add: demo_os_def)
  have q: "wq_chan (rs_rcs demo_relay 0) = []" by (simp add: demo_box_def new_relay_client_def)
  show ?thesis
    using cp_end_to_end [OF _ _ _ c _ _ _ _ _ _ demo_copy_frames demo_schedule_room demo_waits(2) q _ os, of "[65]" "[]" demo_idle True] demo_send_ok
    by (auto simp: Let_def)
qed



end
