(* ===== verification/DaemonStart.thy ===== *)
theory DaemonStart
  imports Copy DaemonProps
begin

text \<open>
  A daemon in the foreground (\<open>daemon start\<close> of cli\_daemon.go, \<open>runDaemon\<close> of daemon.go), from its
  command line to its registration at the relay. \<open>log.Fatalf\<close> ends the process with status 1.
\<close>

section \<open>Starting\<close>

text \<open>\<open>runDaemon\<close>: the fatal error, or the daemon and the URL it connects to.\<close>

definition runDaemon :: "config_file \<Rightarrow> string \<Rightarrow> string \<Rightarrow> string option \<Rightarrow> string option \<Rightarrow> fs \<Rightarrow> string + (daemon \<times> string)" where
  "runDaemon f token nameOverride code key fs =
     (case loadConfig f of
        Inl e \<Rightarrow> Inl (''Failed to load config: '' @ e)
      | Inr c \<Rightarrow>
          if rl_url (cf_relay c) = '''' then Inl ''Relay not configured. Run: remotecmd-cli set-relay --url <url> --name <name>''
          else (let name = (if nameOverride \<noteq> '''' then nameOverride else rl_name (cf_relay c))
                in if name = '''' then Inl ''Node name not configured. Run: remotecmd-cli set-relay --url <url> --name <name>''
                   else Inr (new_daemon name token code key fs, wsURL (rl_url (cf_relay c)))))"

text \<open>The files of a node beside its configuration: the token, the pair code, the activation key.\<close>

record node_files =
  nf_token :: "string option"
  nf_code :: "string option"
  nf_key :: "string option"

text \<open>\<open>daemon start\<close>: in the background the process is only started; in the foreground the token is
  settled (\<open>save\<close> is the error of storing a new one, which is only warned about) and the daemon runs.\<close>

datatype start_mode = Background "cliError option" | Foreground "string + (daemon \<times> string)"

definition daemon_start_fg :: "config_file \<Rightarrow> bytes \<Rightarrow> string option \<Rightarrow> fs \<Rightarrow> string \<Rightarrow> string \<Rightarrow> node_files \<Rightarrow> (string + (daemon \<times> string)) \<times> node_files" where
  "daemon_start_fg f rand save fs given name nf =
     (case daemon_token given (nf_token nf) rand of
        (token, new) \<Rightarrow>
          (runDaemon f token name (nf_code nf) (nf_key nf) fs,
           case new of None \<Rightarrow> nf | Some t \<Rightarrow> if save = None then nf\<lparr>nf_token := Some t\<rparr> else nf))"

definition handleDaemonStart ::
    "host_env \<Rightarrow> config_file \<Rightarrow> bytes \<Rightarrow> string option \<Rightarrow> fs \<Rightarrow> string list \<Rightarrow> node_files \<Rightarrow> host \<Rightarrow> start_mode parsed \<times> node_files \<times> host" where
  "handleDaemonStart env f rand save fs args nf h =
     (case parse_daemon_start args of
        Exits n \<Rightarrow> (Exits n, nf, h)
      | Fails e \<Rightarrow> (Fails e, nf, h)
      | Runs (given, name, bg) \<Rightarrow>
          if bg then (case daemon_start_bg env given name h of (e, h') \<Rightarrow> (Runs (Background e), nf, h'))
          else (case daemon_start_fg f rand save fs given name nf of (r, nf') \<Rightarrow> (Runs (Foreground r), nf', h)))"

section \<open>Lemmas\<close>

lemma hex_digit_plain: "d < 16 \<Longrightarrow> \<not> go_space (hex_digit d)"
  using hex_val_digit [of d] by (auto simp: hex_val_def go_space_def Let_def split: if_splits)

lemma hex_plain: "c \<in> set (hex_of_bytes b) \<Longrightarrow> \<not> go_space c"
proof -
  assume "c \<in> set (hex_of_bytes b)"
  then obtain x where "c \<in> set (hex_byte x)" by (auto simp: hex_of_bytes_def)
  moreover have "unat x div 16 < 16" using unat_byte_lt [of x] by (simp add: less_mult_imp_div_less)
  ultimately show ?thesis using hex_digit_plain by (auto simp: hex_byte_def)
qed

lemma trim_hex: "trim_space (hex_of_bytes b) = hex_of_bytes b"
proof (rule trim_space_id)
  show "hex_of_bytes b = '''' \<or> \<not> go_space (hd (hex_of_bytes b)) \<and> \<not> go_space (last (hex_of_bytes b))"
    using hex_plain [of _ b] by (cases "hex_of_bytes b = ''''") auto
qed

text \<open>The token a node starts with is not empty, and once settled it is the token of every later start.\<close>

lemma settled_token:
  assumes "daemon_token given file_text rand = (token, new)" "rand \<noteq> []"
  shows "token \<noteq> '''' \<and> (given = '''' \<longrightarrow>
    daemon_token '''' (case new of None \<Rightarrow> file_text | Some t \<Rightarrow> Some t) rand' = (token, None))"
proof -
  have "length (hex_of_bytes rand) > 0" using assms(2) by simp
  then have "hex_of_bytes rand \<noteq> ''''" by (metis length_0_conv less_numeral_extra(3))
  then show ?thesis
    using assms(1) trim_hex [of rand]
    by (auto simp: daemon_token_def load_trimmed_def generateToken_def split: if_splits option.splits)
qed

lemma fresh_daemon_registers:
  "td_sent (dm_xfer (dm_connect env ord (new_daemon name token code key fs))) =
     [register_msg (ce_version (de_cmd env)) (new_daemon name token code key fs)]"
proof -
  have "fold (\<lambda>tid s. case td_reassembly s tid of None \<Rightarrow> s | Some r \<Rightarrow> dropReassembly tid (closeFileWriter r s)) ord s = s"
    if "td_reassembly s = Map.empty" for s
    using that by (induction ord) simp_all
  then show ?thesis by (simp add: dm_connect_def dm_send_def td_send_def on_transfers_def reset_transfers_def new_daemon_def)
qed

text \<open>The connections of tunnels are not closed when the relay connection is lost: a daemon that has
  reconnected still holds them, under identifiers that the relay has forgotten.\<close>

lemma tunnels_outlive_connection:
  "dm_tunnels (dm_connect env ord d) = dm_tunnels d" "dm_conns (dm_connect env ord d) = dm_conns d"
  by (simp_all add: dm_connect_def dm_send_def on_transfers_def)

section \<open>Properties\<close>

text \<open>
  C35. A node comes up. When the node is configured and \<open>daemon start\<close> runs in the foreground, its
  daemon connects and announces itself under the given name, or else the configured one, with a token
  that is never empty; a relay that it is authenticated at, and where the name is free, or held with
  the same token (a daemon that was not noticed to be gone), then has the name on this connection and
  says so; and the next start without a token, the new one having been stored, uses the same token.
\<close>

theorem node_comes_up:
  assumes "parse_daemon_start args = Runs (given, override, False)" and "loadConfig f = Inr cfg" and "rl_url (cf_relay cfg) \<noteq> ''''"
    and "name = (if override \<noteq> '''' then override else rl_name (cf_relay cfg))" and "name \<noteq> ''''" and "rand \<noteq> []"
    and "daemon_token given (nf_token nf) rand = (token, new)"
    and "conn_waits k Reading s" and "wq_net (rs_rcs s k) = None"
    and "\<forall>old. rs_clients s name = Some old \<longrightarrow> old \<noteq> k \<and> rc_token (rs_rcs s old) = token"
  shows "\<exists>d url nf' announce. handleDaemonStart env f rand None fs args nf h = (Runs (Foreground (Inr (d, url))), nf', h) \<and>
    token \<noteq> '''' \<and> td_sent (dm_xfer (dm_connect denv ord d)) = [announce] \<and>
    (let s' = client_frame k (Json announce) s
     in rs_clients s' name = Some k \<and> rc_token (rs_rcs s' k) = token \<and>
        wire (rs_rcs s' k) = wire (rs_rcs s k) @ [Json (empty_message\<lparr>m_type := ''registered'', m_name := name\<rparr>)]) \<and>
    (given = '''' \<longrightarrow> daemon_token '''' (nf_token nf') rand' = (token, None))"
proof -
  define d where "d = new_daemon name token (nf_code nf) (nf_key nf) fs"
  define announce where "announce = register_msg (ce_version (de_cmd denv)) d"
  define nf' where "nf' = (case new of None \<Rightarrow> nf | Some t \<Rightarrow> nf\<lparr>nf_token := Some t\<rparr>)"
  have start: "handleDaemonStart env f rand None fs args nf h = (Runs (Foreground (Inr (d, wsURL (rl_url (cf_relay cfg))))), nf', h)"
    using assms(1-5,7) by (simp add: handleDaemonStart_def daemon_start_fg_def runDaemon_def d_def nf'_def split: option.split)
  note t = settled_token [OF assms(7,6), of rand']
  have later: "given = '''' \<longrightarrow> daemon_token '''' (nf_token nf') rand' = (token, None)"
    using t by (cases new) (simp_all add: nf'_def)
  have a: "m_type announce = ''register''" "m_name announce = name" "m_token announce = token"
    by (simp_all add: announce_def register_msg_def d_def new_daemon_def)
  obtain x where x: "rs_ctxs s k = Some x" "wc_authenticated x" "wc_phase x = Reading" using assms(8) by (auto simp: conn_waits_def)
  have "rs_clients (client_frame k (Json announce) s) name = Some k \<and> rc_token (rs_rcs (client_frame k (Json announce) s) k) = token \<and>
      wire (rs_rcs (client_frame k (Json announce) s) k) = wire (rs_rcs s k) @ [Json (empty_message\<lparr>m_type := ''registered'', m_name := name\<rparr>)]"
    using x a assms(5,9,10) t
    by (auto simp: client_frame_def ws_frame_def ws_dispatch_def clientOnlyMessages_def handleRegister_def tokenEqual_def wire_tell upd_rc_def
        split: option.split)
  moreover have "td_sent (dm_xfer (dm_connect denv ord d)) = [announce]"
    by (simp add: d_def announce_def fresh_daemon_registers)
  ultimately show ?thesis using start t later unfolding Let_def by blast
qed

text \<open>A daemon that takes the place of one with its own name and token.\<close>

theorem node_comes_up_witness:
  "\<exists>d url nf' announce. handleDaemonStart demo_host demo_file [7] None Map.empty [''-token'', ''tok'', ''-name'', ''box'']
       \<lparr>nf_token = None, nf_code = None, nf_key = None\<rparr> \<lparr>ho_files = Map.empty, ho_procs = Map.empty\<rparr> =
         (Runs (Foreground (Inr (d, url))), nf', \<lparr>ho_files = Map.empty, ho_procs = Map.empty\<rparr>) \<and>
     td_sent (dm_xfer (dm_connect demo_daemon_env [] d)) = [announce] \<and>
     rs_clients (client_frame 1 (Json announce) demo_relay) ''box'' = Some 1"
proof -
  let ?nf = "\<lparr>nf_token = None, nf_code = None, nf_key = None\<rparr>"
  let ?h = "\<lparr>ho_files = Map.empty, ho_procs = Map.empty\<rparr>"
  have p: "parse_daemon_start [''-token'', ''tok'', ''-name'', ''box''] = Runs (''tok'', ''box'', False)"
    by (simp add: parse_daemon_start_def flag_defs)
  obtain cfg where c: "loadConfig demo_file = Inr cfg" "rl_url (cf_relay cfg) \<noteq> ''''" by (simp add: demo_file_def loadConfig_def)
  have k: "daemon_token ''tok'' (nf_token ?nf) [7] = (''tok'', None)" by (simp add: daemon_token_def)
  have r: "\<forall>old. rs_clients demo_relay ''box'' = Some old \<longrightarrow> old \<noteq> 1 \<and> rc_token (rs_rcs demo_relay old) = ''tok''" by simp
  have q: "wq_net (rs_rcs demo_relay 1) = None" using demo_connected by (simp add: connected_def)
  have n: "''box'' = (if ''box'' \<noteq> '''' then ''box'' else rl_name (cf_relay cfg))" "''box'' \<noteq> ''''" "[7] \<noteq> []" by simp_all
  show ?thesis
    using node_comes_up [OF p c n k demo_waits(1) q r, of demo_host Map.empty ?h demo_daemon_env "[]"]
    unfolding Let_def by blast
qed

end
