(* ===== verification/RelayAdmin.thy ===== *)
theory RelayAdmin
  imports RelayLifecycle DaemonStart
begin

text \<open>
  Running a relay (cli\_daemon.go, \<open>startRelay\<close> of relay.go, relay\_tls.go): its command line, its routes,
  the status commands, and the commands that change its activation keys. A command is a process of its
  own: it starts with an empty key store and only leaves the file behind.
\<close>

section \<open>Activation keys from the command line\<close>

text \<open>The error and the file left; the key store of the process ends with it.\<close>

definition handleRelayAddKey :: "save_env \<Rightarrow> string list \<Rightarrow> key_file option \<Rightarrow> cliError option \<times> key_file option" where
  "handleRelayAddKey env args f =
     (case args of
        [] \<Rightarrow> (Some (fail ExitConfigError ''missing_argument'' ''relay add-key needs a key'' [''remotecmd-cli relay add-key <key>'']), f)
      | key # _ \<Rightarrow> (case addActivationKey env key f new_key_store of (e, f', _) \<Rightarrow> (map_option (\<lambda>m. failErr m []) e, f')))"

definition handleRelayRemoveKey :: "save_env \<Rightarrow> string list \<Rightarrow> key_file option \<Rightarrow> cliError option \<times> key_file option" where
  "handleRelayRemoveKey env args f =
     (case args of
        [] \<Rightarrow> (Some (fail ExitConfigError ''missing_argument'' ''relay remove-key needs a key'' [''remotecmd-cli relay remove-key <key>'']), f)
      | key # _ \<Rightarrow> (case removeActivationKey env key f new_key_store of (e, f', _) \<Rightarrow> (map_option (\<lambda>m. failErr m []) e, f')))"

definition handleRelayListKeys :: "string \<Rightarrow> key_file option \<Rightarrow> string list" where
  "handleRelayListKeys path f =
     (let keys = fst (list_keys f new_key_store)
      in if keys = [] then [''No activation keys configured.'', ''File: '' @ path]
         else (''Activation keys ('' @ go_itoa (int (length keys)) @ '') '' @ em_dash @ '' '' @ path @ '':'') # map (\<lambda>k. ''  '' @ mask_key k) keys)"

section \<open>Starting, stopping, status\<close>

definition relayLogFile :: string where "relayLogFile = ''/tmp/remotecmd-relay.log''"

text \<open>A relay in the foreground: the address it listens on, its certificate and key, its state.\<close>

datatype relay_mode = RelayBackground "cliError option" | RelayListens string "(string \<times> string) option" relay_server

definition handleRelayDaemonStart :: "host_env \<Rightarrow> string \<Rightarrow> string \<Rightarrow> relay_server \<Rightarrow> string list \<Rightarrow> host \<Rightarrow> relay_mode parsed \<times> host" where
  "handleRelayDaemonStart env env_cert env_key new_relay args h =
     (case parse_relay_start env_cert env_key args of
        Exits n \<Rightarrow> (Exits n, h)
      | Fails e \<Rightarrow> (Fails e, h)
      | Runs (port, addr, cert, key, bg) \<Rightarrow>
          if bg then (case startBackground env relayPidFile relayLogFile (relay_child_args port addr cert key) h of
                        (e, h') \<Rightarrow> (Runs (RelayBackground (map_option (\<lambda>m. failErr m []) e)), h'))
          else (Runs (RelayListens (relayListenAddr addr port) (if cert \<noteq> '''' \<and> key \<noteq> '''' then Some (cert, key) else None) new_relay), h))"

definition handleRelayDaemonStop :: "host_env \<Rightarrow> host \<Rightarrow> host" where
  "handleRelayDaemonStop env h = stopBackground env relayPidFile h"

text \<open>What a status command prints (a line, or the fields of the JSON object) and its exit status.\<close>

datatype status_report = StatusLine string | StatusBody "string option" string string "int option"

definition statusBackground :: "host_env \<Rightarrow> string \<Rightarrow> host \<Rightarrow> (string \<times> bool \<times> int) \<times> host" where
  "statusBackground env f h =
     (case isRunning env f h of ((running, pid), h1) \<Rightarrow> ((if running then ''PID: '' @ go_itoa pid else ''Not running'', running, pid), h1))"

definition print_status :: "host_env \<Rightarrow> string \<Rightarrow> string \<Rightarrow> bool \<Rightarrow> host \<Rightarrow> (status_report \<times> int) \<times> host" where
  "print_status env f name json h =
     (if \<not> json then (case statusBackground env f h of ((line, _), h1) \<Rightarrow> ((StatusLine line, 0), h1))
      else (case reportStatus env f h of ((running, pid, code), h1) \<Rightarrow>
        ((StatusBody (if name \<noteq> '''' then Some name else None) (if running then ''running'' else ''stopped'') f
            (if running then Some pid else None), code), h1)))"

definition handleRelayDaemonStatus :: "host_env \<Rightarrow> string list \<Rightarrow> host \<Rightarrow> (status_report \<times> int) parsed \<times> host" where
  "handleRelayDaemonStatus env args h =
     (case with_flags [(''json'', FlagBool, ''false'')] args (\<lambda>v. Runs (bool_flag (v ''json''))) of
        Exits n \<Rightarrow> (Exits n, h) | Fails e \<Rightarrow> (Fails e, h)
      | Runs json \<Rightarrow> apfst Runs (print_status env relayPidFile '''' json h))"

definition handleDaemonStatus :: "host_env \<Rightarrow> string list \<Rightarrow> host \<Rightarrow> (status_report \<times> int) parsed \<times> host" where
  "handleDaemonStatus env args h =
     (case with_flags [(''name'', FlagString, ''''), (''json'', FlagBool, ''false'')] args (\<lambda>v. Runs (v ''name'', bool_flag (v ''json''))) of
        Exits n \<Rightarrow> (Exits n, h) | Fails e \<Rightarrow> (Fails e, h)
      | Runs (name, json) \<Rightarrow> apfst Runs (print_status env (namedDaemonPidFile name) name json h))"

text \<open>The routes of the relay, for the paths that \<open>net/http\<close> leaves as they are.\<close>

datatype route = Healthy | Identity int string | Websocket

definition mux :: "int \<Rightarrow> string \<Rightarrow> string \<Rightarrow> route" where
  "mux pid version path = (if path = ''/health'' then Healthy else if path = ''/_health'' then Identity pid version else Websocket)"

section \<open>Lemmas\<close>

lemma added_key_listed:
  assumes "handleRelayAddKey env (key # rest) f = (None, f')" "in_sync f new_key_store"
  shows "set (file_keys f') = insert key (set (file_keys f))"
proof -
  obtain s' where "addActivationKey env key f new_key_store = (None, f', s')"
    using assms(1) by (auto simp: handleRelayAddKey_def split: prod.splits)
  then show ?thesis using addActivationKey_keys assms(2) by blast
qed

lemma removed_key_unlisted:
  assumes "handleRelayRemoveKey env (key # rest) f = (None, f')" "in_sync f new_key_store"
  shows "file_keys f' = filter (\<lambda>k. k \<noteq> key) (file_keys f)"
proof -
  obtain s' where "removeActivationKey env key f new_key_store = (None, f', s')"
    using assms(1) by (auto simp: handleRelayRemoveKey_def split: prod.splits)
  then show ?thesis using removeActivationKey_keys assms(2) by blast
qed

text \<open>A key file that is not a list of keys counts as empty: the next key added replaces it.\<close>

lemma add_key_replaces_malformed_file:
  assumes "kf_data i = Malformed" and "se_dir_error env = None" and "se_write_error env = None"
  shows "\<exists>f'. handleRelayAddKey env [key] (Some i) = (None, Some f') \<and> kf_data f' = KeyList [key]"
  using assms by (simp add: handleRelayAddKey_def addActivationKey_def list_keys_def key_reload_def saveActivationKeys_def new_key_store_def Let_def)

section \<open>Properties\<close>

text \<open>
  C38. Activation keys change without a restart. After \<open>relay add-key\<close> the running relay, once its key
  file is the one written, lets a daemon pair that presents the key to a listener that requires one; and
  after \<open>relay remove-key\<close> the same daemon is rejected, and the listener hears nothing of it. The
  relay only looks at the file's time and size, so both must differ from those it has seen when the
  contents do (\<open>in_sync\<close>).
\<close>

theorem key_changes_take_effect:
  assumes "handleRelayAddKey e1 (key # x) f0 = (None, f1)" and "key \<noteq> ''''" and "in_sync f0 new_key_store"
    and "handleRelayRemoveKey e2 (key # y) f1 = (None, f2)" and "in_sync f1 new_key_store"
    and "relay_step s (KeyFileChange f1) s1" and "in_sync f1 (rs_keys s)"
    and "relay_step t (KeyFileChange f2) t1" and "in_sync f2 (rs_keys t)"
    and "m_code m \<noteq> ''''" and "m_token m \<noteq> ''''" and "m_activation_key m = key"
    and "rs_pairListeners s (m_code m) = Some l" and "pl_conn l \<noteq> c" and "wq_net (rs_rcs s c) = None" and "wq_net (rs_rcs s (pl_conn l)) = None"
    and "rs_pairListeners t (m_code m) = Some l'" and "pl_requireActivationKey l'" and "pl_conn l' \<noteq> c" and "wq_net (rs_rcs t c) = None"
  shows "new_frames s1 (handlePair c m s1) (pl_conn l) = [Json (pair_done_msg m)] \<and>
    new_frames t1 (handlePair c m t1) (pl_conn l') = [] \<and> new_frames t1 (handlePair c m t1) c = [Json pair_rejected_msg]"
proof -
  have s1: "s1 = s\<lparr>rs_keyFile := f1\<rparr>" and t1: "t1 = t\<lparr>rs_keyFile := f2\<rparr>" using assms(6,8) by (auto elim: key_fileE)
  have "key_accepted s1 m l"
    using added_key_listed [OF assms(1,3)] isValid_iff_listed [OF assms(7)] assms(2,12) by (simp add: key_accepted_def s1)
  then have "new_frames s1 (handlePair c m s1) (pl_conn l) = [Json (pair_done_msg m)]"
    using pair_code_works_once [of m s1 l c] assms(10,11,13-16) by (simp add: s1 Let_def)
  moreover have "\<not> key_accepted t1 m l'"
    using removed_key_unlisted [OF assms(4,5)] isValid_iff_listed [OF assms(9)] assms(12,18) by (simp add: key_accepted_def t1)
  then have "new_frames t1 (handlePair c m t1) (pl_conn l') = [] \<and> new_frames t1 (handlePair c m t1) c = [Json pair_rejected_msg]"
    using pair_without_key_is_rejected [of m t1 l' c] assms(10,11,17,19,20) by (simp add: t1 Let_def)
  ultimately show ?thesis by blast
qed

definition demo_keyed :: relay_server where
  "demo_keyed = demo_relay\<lparr>rs_pairListeners := [''4711'' \<mapsto> \<lparr>pl_conn = 1, pl_requireActivationKey = True\<rparr>], rs_keys := new_key_store\<rparr>"

lemma demo_keyed_fields [simp]:
  "rs_pairListeners demo_keyed = [''4711'' \<mapsto> \<lparr>pl_conn = 1, pl_requireActivationKey = True\<rparr>]"
  "rs_rcs demo_keyed = rs_rcs demo_relay" "rs_keys demo_keyed = new_key_store"
  by (simp_all add: demo_keyed_def)

text \<open>The only key is added, and removed again a second later.\<close>

theorem key_changes_take_effect_witness:
  "let m = demo_pair\<lparr>m_activation_key := ''k''\<rparr>;
       f1 = Some \<lparr>kf_mtime = 1, kf_size = 7, kf_data = KeyList [''k'']\<rparr>; f2 = Some \<lparr>kf_mtime = 2, kf_size = 2, kf_data = KeyList []\<rparr>;
       s1 = demo_keyed\<lparr>rs_keyFile := f1\<rparr>; t1 = demo_keyed\<lparr>rs_keyFile := f2\<rparr> in
   new_frames s1 (handlePair 0 m s1) 1 = [Json (pair_done_msg m)] \<and> new_frames t1 (handlePair 0 m t1) 1 = [] \<and>
   new_frames t1 (handlePair 0 m t1) 0 = [Json pair_rejected_msg]"
proof -
  let ?m = "demo_pair\<lparr>m_activation_key := ''k''\<rparr>"
  let ?f1 = "Some \<lparr>kf_mtime = 1, kf_size = 7, kf_data = KeyList [''k'']\<rparr>"
  let ?f2 = "Some \<lparr>kf_mtime = 2, kf_size = 2, kf_data = KeyList []\<rparr>"
  let ?e = "\<lambda>t n. \<lparr>se_dir_error = None, se_write_error = None, se_mtime = t, se_size = n\<rparr>"
  let ?l = "\<lparr>pl_conn = 1, pl_requireActivationKey = True\<rparr>"
  have add: "handleRelayAddKey (?e 1 7) [''k''] None = (None, ?f1)"
    by (simp add: handleRelayAddKey_def key_defs new_key_store_def Let_def)
  have del: "handleRelayRemoveKey (?e 2 2) [''k''] ?f1 = (None, ?f2)"
    by (simp add: handleRelayRemoveKey_def key_defs new_key_store_def Let_def)
  have sync: "in_sync None new_key_store" "in_sync ?f1 new_key_store" "in_sync ?f1 (rs_keys demo_keyed)" "in_sync ?f2 (rs_keys demo_keyed)"
    by (simp_all add: in_sync_def new_key_store_def)
  have steps: "relay_step demo_keyed (KeyFileChange f) (demo_keyed\<lparr>rs_keyFile := f\<rparr>)" for f by (rule relay_step.key_file)
  have m: "m_code ?m \<noteq> ''''" "m_token ?m \<noteq> ''''" "m_activation_key ?m = ''k''" "m_code ?m = ''4711''"
    by (simp_all add: demo_pair_fields)
  have l: "rs_pairListeners demo_keyed (m_code ?m) = Some ?l" "pl_requireActivationKey ?l" "pl_conn ?l \<noteq> 0"
    "wq_net (rs_rcs demo_keyed 0) = None" "wq_net (rs_rcs demo_keyed (pl_conn ?l)) = None"
    by (simp_all add: m(4))
  show ?thesis
    using key_changes_take_effect [OF add _ sync(1) del sync(2) steps sync(3) steps sync(4) m(1-3) l(1,3,4,5) l(1,2,3,4)] by (simp add: Let_def)
qed

end
