(* ===== verification/Invocation.thy ===== *)
theory Invocation
  imports Aliases Client
begin

text \<open>
  Commands that reach outside: the piped input of a command (cli\_exec.go), the request to a sidecar
  (cli\_sidecar.go) and feedback (feedback.go). What an HTTP server answers is a parameter.
\<close>

section \<open>Piped input\<close>

text \<open>Standard input: its \<open>Stat\<close> fails, it is a terminal, a regular file (\<open>None\<close>: reading it fails), or
  anything else, read as a pipe.\<close>

datatype stdin_kind = NoStat | Terminal | RegularFile "bytes option" | PipeLike pipe

text \<open>Milliseconds; \<open>parse\<close> is \<open>time.ParseDuration\<close> of \<open>REMOTECMD_STDIN_WAIT\<close>.\<close>

definition stdinFirstByteWait :: int where "stdinFirstByteWait = 300"

definition stdinWait :: "(string \<Rightarrow> int option) \<Rightarrow> string \<Rightarrow> int" where
  "stdinWait parse raw =
     (if raw \<noteq> '''' then (case parse raw of Some d \<Rightarrow> if d \<ge> 0 then d else stdinFirstByteWait | None \<Rightarrow> stdinFirstByteWait)
      else stdinFirstByteWait)"

definition readPipedStdin :: "stdin_kind \<Rightarrow> int \<Rightarrow> bytes option option" where
  "readPipedStdin k wait =
     (case k of
        NoStat \<Rightarrow> Some None
      | Terminal \<Rightarrow> Some None
      | RegularFile d \<Rightarrow> Some d
      | PipeLike p \<Rightarrow> readPipeWithGrace p wait)"

definition input_bytes :: "bytes option \<Rightarrow> bytes" where
  "input_bytes d = (case d of None \<Rightarrow> [] | Some b \<Rightarrow> b)"

text \<open>A command from its flags to its end: \<open>None\<close> when it waits for its input for ever, else what is printed,
  the error it exits with (an outer \<open>None\<close>: it still waits), and the request sent.\<close>

definition exec_command ::
    "config_file \<Rightarrow> string option \<Rightarrow> string option \<Rightarrow> string \<Rightarrow> string list \<Rightarrow> stdin_kind \<Rightarrow> int \<Rightarrow> read_event list \<Rightarrow>
     (client_output list \<times> cliError option option \<times> message option) option parsed" where
  "exec_command f dial write mid args stdin wait evs =
     (case handleExecFlags args of
        Exits n \<Rightarrow> Exits n
      | Fails e \<Rightarrow> Fails e
      | Runs c \<Rightarrow> Runs
          (case readPipedStdin stdin wait of
             None \<Rightarrow> None
           | Some d \<Rightarrow>
               (case handleExecWithStdin f dial write mid (ec_target c) (ec_cmd c) (ec_timeout c) (ec_stream c) (input_bytes d) evs of
                  (out, oc, req) \<Rightarrow>
                    Some (out, map_option (\<lambda>x. case x of Failed e \<Rightarrow> Some (failErr e []) | _ \<Rightarrow> None) oc, req))))"

section \<open>The sidecar\<close>

definition endsWith :: "string \<Rightarrow> string \<Rightarrow> bool" where
  "endsWith s suffix = (if length suffix > length s then False else drop (length s - length suffix) s = suffix)"

definition trimSuffix :: "string \<Rightarrow> string \<Rightarrow> string" where
  "trimSuffix s suffix = (if endsWith s suffix then take (length s - length suffix) s else s)"

definition sidecar_url :: "string \<Rightarrow> string \<Rightarrow> string" where
  "sidecar_url url path = (if path \<noteq> '''' \<and> \<not> endsWith url path then trimSuffix url ''/'' @ path else url)"

record sidecar_payload =
  sp_relayUrl :: string
  sp_code :: string
  sp_activationKey :: "string option"
  sp_name :: "string option"

definition given :: "string \<Rightarrow> string option" where
  "given s = (if s \<noteq> '''' then Some s else None)"

datatype http_answer = HttpError string | HttpStatus int string

definition sidecar_flags :: flag_set where
  "sidecar_flags = [(''url'', FlagString, ''''), (''relay'', FlagString, ''''), (''code'', FlagString, ''''), (''activation-key'', FlagString, ''''),
     (''name'', FlagString, ''''), (''path'', FlagString, ''/__rcmd/pair''), (''timeout'', FlagInt, ''60'')]"

text \<open>\<open>sidecar activate\<close>: its error, or the body of the sidecar's answer. \<open>post\<close> takes the timeout in seconds,
  the URL and the payload.\<close>

definition handleSidecarActivate :: "(int \<Rightarrow> string \<Rightarrow> sidecar_payload \<Rightarrow> http_answer) \<Rightarrow> string list \<Rightarrow> string parsed" where
  "handleSidecarActivate post args =
     with_flags sidecar_flags args (\<lambda>v.
       if v ''url'' = '''' \<or> v ''relay'' = '''' \<or> v ''code'' = ''''
       then Fails (fail ExitConfigError ''missing_argument'' ''--url, --relay, and --code are required''
         [''remotecmd-cli sidecar activate --url <u> --relay <r> --code <c> [--activation-key <k>] [--name <n>]''])
       else (case post (int_flag (v ''timeout'')) (sidecar_url (v ''url'') (v ''path''))
                     \<lparr>sp_relayUrl = v ''relay'', sp_code = v ''code'', sp_activationKey = given (v ''activation-key''), sp_name = given (v ''name'')\<rparr> of
               HttpError e \<Rightarrow> Fails (failErrCode ExitConfigError e [])
             | HttpStatus st body \<Rightarrow>
                 if st \<noteq> 200 then Fails (fail ExitConfigError ''sidecar_rejected'' (''sidecar returned HTTP '' @ go_itoa st @ '': '' @ trim_space body) [])
                 else Runs body))"

section \<open>Feedback\<close>

fun feedback_options :: "string list \<Rightarrow> string \<times> string \<Rightarrow> string \<times> string" where
  "feedback_options [] kc = kc"
| "feedback_options [a] kc = kc"
| "feedback_options (a # b # rest) (kind, context) =
     (if a = ''--kind'' then feedback_options rest (b, context)
      else if a = ''--context'' then feedback_options rest (kind, b)
      else feedback_options (b # rest) (kind, context))"

record feedback =
  fb_version :: string
  fb_kind :: string
  fb_message :: string
  fb_context :: string
  fb_reporter :: string
  fb_id :: string

text \<open>The identifier and whether it was relayed, as printed; \<open>user\<close> and \<open>relay\<close> are the environment's values.\<close>

definition handleFeedback ::
    "(string \<Rightarrow> feedback \<Rightarrow> http_answer) \<Rightarrow> string \<Rightarrow> bytes \<Rightarrow> string \<Rightarrow> string \<Rightarrow> string list \<Rightarrow> (string \<times> bool) parsed" where
  "handleFeedback post version rand user relay args =
     (if args = [] \<or> hd args = '''' then
        Fails (fail ExitConfigError ''missing_argument'' ''feedback needs a message''
          [''remotecmd-cli feedback \"<message>\" [--kind bug|idea|praise] [--context \"<what you were doing>\"]''])
      else
        (let (kind, context) = feedback_options (tl args) (''note'', '''');
             i = hex_of_bytes rand;
             reporter = (if user = '''' then ''agent'' else user);
             base = (if relay = '''' then ''https://feedback.intrane.fr'' else relay);
             body = \<lparr>fb_version = version, fb_kind = kind, fb_message = hd args, fb_context = context, fb_reporter = reporter, fb_id = i\<rparr>
         in Runs (i, base \<noteq> ''off'' \<and>
              (case post (base @ ''/v1/feedback'') body of HttpError _ \<Rightarrow> False | HttpStatus st _ \<Rightarrow> st = 200))))"

section \<open>Usage errors, and where the state lives\<close>

definition handlePairSubcommand :: "string list \<Rightarrow> sub_call" where
  "handlePairSubcommand = subcommand [''listen'', ''accept'', ''disconnect'']"

text \<open>\<open>failUsage\<close>: what stands before the error on the standard error, and the error; the usage is a text
  for people, or its lines are the suggestions of the JSON error.\<close>

definition failUsage :: "bool \<Rightarrow> string \<Rightarrow> string \<Rightarrow> string \<Rightarrow> string \<times> cliError" where
  "failUsage json typ msg usage =
     (if \<not> json then (usage, fail ExitConfigError typ msg [])
      else ('''', fail ExitConfigError typ msg
        (filter (\<lambda>l. l \<noteq> '''' \<and> l \<noteq> ''Commands:'') (map trim_space (go_split (CHR ''\<newline>'') usage)))))"

definition sub_error :: "bool \<Rightarrow> string \<Rightarrow> string \<Rightarrow> sub_call \<Rightarrow> (string \<times> cliError) option" where
  "sub_error json grp usage c =
     (case c of
        Sub _ _ \<Rightarrow> None
      | NeedsSub \<Rightarrow> Some (failUsage json ''missing_argument'' (grp @ '' needs a subcommand'') usage)
      | UnknownSub n \<Rightarrow> Some (failUsage json ''unknown_command'' (''unknown '' @ grp @ '' subcommand: '' @ n) usage))"

text \<open>The directory of the program's files; the arguments are the two variables and the home directory.\<close>

definition configDir :: "string \<Rightarrow> string \<Rightarrow> string \<Rightarrow> string" where
  "configDir override test_override home =
     (if override \<noteq> '''' then override else if test_override \<noteq> '''' then test_override else path_join home ''.remotecmd'')"

definition configPath :: "string \<Rightarrow> string" where "configPath dir = path_join dir ''config.json''"
definition tokenPath :: "string \<Rightarrow> string" where "tokenPath dir = path_join dir ''token''"
definition pairCodePath :: "string \<Rightarrow> string" where "pairCodePath dir = path_join dir ''pair_code''"
definition activationKeyPath :: "string \<Rightarrow> string" where "activationKeyPath dir = path_join dir ''activation_key''"
definition activationKeysPath :: "string \<Rightarrow> string" where "activationKeysPath dir = path_join dir ''activation-keys.json''"
definition healthCachePath :: "string \<Rightarrow> string" where "healthCachePath dir = path_join dir ''health.json''"

lemmas path_defs = configPath_def tokenPath_def pairCodePath_def activationKeyPath_def activationKeysPath_def healthCachePath_def

section \<open>Lemmas\<close>

lemma endsWith_append: "endsWith (a @ b) b"
  by (simp add: endsWith_def)

lemma endsWith_iff: "endsWith s t \<longleftrightarrow> (\<exists>a. s = a @ t)"
proof
  assume "endsWith s t"
  then have "s = take (length s - length t) s @ t"
    by (metis append_take_drop_id endsWith_def)
  then show "\<exists>a. s = a @ t" by blast
qed (auto simp: endsWith_append)

lemma trimSuffix_append [simp]: "trimSuffix (a @ b) b = a"
  by (simp add: trimSuffix_def endsWith_append)

text \<open>The endpoint is the same whether the URL is the sidecar's base, with or without its last slash, or
  the endpoint itself.\<close>

lemma sidecar_url_settles:
  assumes "path \<noteq> ''''" "last path \<noteq> CHR ''/''" "\<not> endsWith base path" "\<not> endsWith base ''/''"
  shows "sidecar_url base path = base @ path" "sidecar_url (base @ ''/'') path = base @ path" "sidecar_url (base @ path) path = base @ path"
proof -
  have "\<not> endsWith (base @ ''/'') path"
    using assms(1,2) by (auto simp: endsWith_iff) (metis last_appendR last_snoc)
  then show "sidecar_url (base @ ''/'') path = base @ path" using assms(1) by (simp add: sidecar_url_def)
qed (use assms in \<open>simp_all add: sidecar_url_def trimSuffix_def endsWith_append\<close>)

text \<open>A pipe that breaks off after its first byte passes just that byte on, although more was read.\<close>

lemma broken_pipe_keeps_one_byte:
  "0 < wait \<Longrightarrow> t < wait \<Longrightarrow> readPipedStdin (PipeLike (DataAt t h rest True)) wait = Some (Some [h])"
  by (simp add: readPipedStdin_def readPipeWithGrace_def)

lemma feedback_never_fails:
  "args \<noteq> [] \<Longrightarrow> hd args \<noteq> '''' \<Longrightarrow> \<exists>ok. handleFeedback post version rand user relay args = Runs (hex_of_bytes rand, ok)"
  by (simp add: handleFeedback_def Let_def split: prod.split)

text \<open>The files of one node never share a name.\<close>

lemma state_files_apart:
  assumes "ds \<noteq> []" "\<forall>g\<in>set ds. plain_segment g" "dir = abs_path ds"
  shows "distinct [configPath dir, tokenPath dir, pairCodePath dir, activationKeyPath dir, activationKeysPath dir, healthCachePath dir]"
proof -
  have "distinct (map (path_join dir) ns)" if "distinct ns" "\<forall>n\<in>set ns. plain_segment n" for ns
  proof -
    have "path_join dir n = abs_path (ds @ [n])" if "n \<in> set ns" for n
      using join_plain [OF assms(1,2), of "[n]"] that \<open>\<forall>n\<in>set ns. plain_segment n\<close> by (simp add: assms(3))
    then have "inj_on (path_join dir) (set ns)"
      using abs_path_inj [of "ds @ [_]" "ds @ [_]"] assms(2) that(2) by (intro inj_onI) auto
    then show ?thesis using that(1) by (simp add: distinct_map)
  qed
  from this [of "[''config.json'', ''token'', ''pair_code'', ''activation_key'', ''activation-keys.json'', ''health.json'']"]
  show ?thesis unfolding path_defs by (simp add: plain_segment_def)
qed

text \<open>\<open>--help\<close> is read as a flag of \<open>exec\<close>, not as the request for the help of the program.\<close>

lemma help_flag_is_exec: "main [''--help''] = ExecFlags [''--help'']" "handleExecFlags [''--help''] = Exits 0"
  by (simp_all add: main_def has_prefix_def handleExecFlags_def exec_flags_def flag_defs parse_flags.simps)

text \<open>A group accepts its own subcommands and nothing else.\<close>

lemma usage_errors: "sub_error json grp usage (subcommand names args) = None \<longleftrightarrow> args \<noteq> [] \<and> hd args \<in> set names"
  by (cases args) (simp_all add: sub_error_def subcommand_def)

section \<open>Properties\<close>

text \<open>What a producer has written, when it writes something in time and does not break off.\<close>

fun produced :: "stdin_kind \<Rightarrow> int \<Rightarrow> bytes" where
  "produced (RegularFile d) wait = (case d of None \<Rightarrow> [] | Some b \<Rightarrow> b)"
| "produced (PipeLike (DataAt t h rest broken)) wait = (if t < wait then (if broken then [h] else h # rest) else [])"
| "produced k wait = []"



text \<open>With the wait set to zero a silent pipe holds the command back for ever.\<close>

lemma zero_wait_hangs:
  assumes "handleExecFlags args = Runs c" and "parse ''0'' = Some 0"
  shows "exec_command f dial write mid args (PipeLike Silent) (stdinWait parse ''0'') evs = Runs None"
  using assms by (simp add: exec_command_def readPipedStdin_def readPipeWithGrace_def stdinWait_def)

end
