(* ===== verification/System.thy ===== *)
theory System
  imports RelayAdmin Invocation
begin

text \<open>
  The whole system from three command lines: a relay, a node and a client that have never been in
  contact, and a command that is run.
\<close>

section \<open>A relay with one node and one client\<close>

definition auth_header :: "config_file \<Rightarrow> string \<Rightarrow> string" where
  "auth_header f env = (case relayAuthHeaders f env of None \<Rightarrow> '''' | Some h \<Rightarrow> h)"

lemma handshake_ok: "relaySecret f env = rs_secret s \<Longrightarrow> ws_handshake (auth_header f env) s = Some True"
  by (simp add: auth_header_def relayAuthHeaders_def ws_handshake_def tokenEqual_def Let_def)

lemma connect_step:
  "relaySecret f env = rs_secret s \<Longrightarrow> relay_step s (Connect (auth_header f env)) (accept_conn True s)"
  by (rule relay_step.connect) (rule handshake_ok)

text \<open>The states of the relay: started, the node connected, registered, the client connected.\<close>

definition node_connected :: "string \<Rightarrow> entropy \<Rightarrow> key_file option \<Rightarrow> relay_server" where
  "node_connected sec e kf = accept_conn True (newRelayFromEnv sec '''' e kf)"

definition node_registered :: "message \<Rightarrow> relay_server \<Rightarrow> relay_server" where
  "node_registered m s = ws_frame True 0 (Json m) s"

definition registered_client :: "string \<Rightarrow> string \<Rightarrow> relay_client" where
  "registered_client name token = new_relay_client\<lparr>rc_name := name, rc_token := token,
     wire := [Json (empty_message\<lparr>m_type := ''registered'', m_name := name\<rparr>)]\<rparr>"

lemma registered_client_fields [simp]:
  "rc_token (registered_client name token) = token" "wq_net (registered_client name token) = None"
  "wire (registered_client name token) = [Json (empty_message\<lparr>m_type := ''registered'', m_name := name\<rparr>)]"
  by (simp_all add: registered_client_def new_relay_client_def)

lemma node_connected_fields [simp]:
  "rs_secret (node_connected sec e kf) = sec" "rs_clients (node_connected sec e kf) = Map.empty"
  "rs_subToMulti (node_connected sec e kf) = Map.empty" "rs_rcs (node_connected sec e kf) = (\<lambda>_. new_relay_client)"
  "rs_ctxs (node_connected sec e kf) = [0 \<mapsto> \<lparr>wc_authenticated = True, wc_registered = False, wc_phase = Reading\<rparr>]"
  "rs_next (node_connected sec e kf) = 1" "rs_entropy (node_connected sec e kf) = e" "rs_draws (node_connected sec e kf) = 0"
  by (simp_all add: node_connected_def accept_conn_def fun_upd_idem)

lemma node_registered_eq:
  assumes "m_type m = ''register''" "m_name m = name" "m_token m = token" "name \<noteq> ''''" "token \<noteq> ''''"
  shows "node_registered m (node_connected sec e kf) = (node_connected sec e kf)\<lparr>rs_clients := [name \<mapsto> 0],
     rs_ctxs := [0 \<mapsto> \<lparr>wc_authenticated = True, wc_registered = True, wc_phase = Reading\<rparr>],
     rs_rcs := (\<lambda>_. new_relay_client)(0 := registered_client name token)\<rparr>"
  using assms by (simp add: node_registered_def ws_frame_def ws_dispatch_def handleRegister_def
      tell_def upd_rc_def conn_write_def set_ctx_def registered_client_def new_relay_client_def)

lemma client_connected_fields:
  fixes sec e kf
  assumes "m_type m = ''register''" "m_name m = name" "m_token m = token" "name \<noteq> ''''" "token \<noteq> ''''"
  defines "r \<equiv> accept_conn True (node_registered m (node_connected sec e kf))"
  shows "rs_secret r = sec" "rs_clients r = [name \<mapsto> 0]" "rs_subToMulti r = Map.empty"
    "rs_rcs r = (\<lambda>_. new_relay_client)(0 := registered_client name token)"
    "rs_ctxs r = [0 \<mapsto> \<lparr>wc_authenticated = True, wc_registered = True, wc_phase = Reading\<rparr>,
       1 \<mapsto> \<lparr>wc_authenticated = True, wc_registered = False, wc_phase = Reading\<rparr>]"
    "rs_entropy r = e" "rs_draws r = 0"
  unfolding r_def node_registered_eq [OF assms(1-5)] by (simp_all add: accept_conn_def fun_eq_iff)

section \<open>Properties\<close>

text \<open>The three processes: what each is started with.\<close>

record processes =
  ps_relay_args :: "string list"
  ps_node_args :: "string list"
  ps_node_config :: config_file
  ps_node_files :: node_files
  ps_node_secret :: string \<comment> \<open>the node's \<open>RELAY_SECRET\<close>\<close>
  ps_client_args :: "string list"
  ps_client_config :: config_file
  ps_client_secret :: string

definition node_named :: "processes \<Rightarrow> bytes \<Rightarrow> string \<Rightarrow> string \<Rightarrow> bool" where
  "node_named p rand name token \<longleftrightarrow>
     (\<exists>given override c. parse_daemon_start (ps_node_args p) = Runs (given, override, False) \<and> loadConfig (ps_node_config p) = Inr c \<and>
        rl_url (cf_relay c) \<noteq> '''' \<and> name = (if override \<noteq> '''' then override else rl_name (cf_relay c)) \<and> name \<noteq> '''' \<and>
        rand \<noteq> [] \<and> fst (daemon_token given (nf_token (ps_node_files p)) rand) = token)"

definition client_asks :: "processes \<Rightarrow> exec_call \<Rightarrow> string \<Rightarrow> string \<Rightarrow> target_config \<Rightarrow> bool" where
  "client_asks p c name token t \<longleftrightarrow>
     handleExecFlags (ps_client_args p) = Runs c \<and> \<not> ec_stream c \<and>
     (\<exists>url. find_target ''load config: '' (ec_target c) (ps_client_config p) = Inr (url, t)) \<and>
     tg_token t = token \<and> relay_target (ec_target c) t = name"

lemma node_starts:
  assumes "node_named p rand name token"
  shows "\<exists>d url nf'. handleDaemonStart env (ps_node_config p) rand save fs (ps_node_args p) (ps_node_files p) h = (Runs (Foreground (Inr (d, url))), nf', h) \<and>
    d = new_daemon name token (nf_code (ps_node_files p)) (nf_key (ps_node_files p)) fs \<and> name \<noteq> '''' \<and> token \<noteq> ''''"
proof -
  obtain given override c new where n: "parse_daemon_start (ps_node_args p) = Runs (given, override, False)" "loadConfig (ps_node_config p) = Inr c"
      "rl_url (cf_relay c) \<noteq> ''''" "name = (if override \<noteq> '''' then override else rl_name (cf_relay c))" "name \<noteq> ''''" "rand \<noteq> []"
      "daemon_token given (nf_token (ps_node_files p)) rand = (token, new)"
    using assms unfolding node_named_def by (metis prod.collapse)
  then show ?thesis
    using settled_token [OF n(7,6)] by (simp add: handleDaemonStart_def daemon_start_fg_def runDaemon_def)
qed

lemma client_ends:
  assumes "client_asks p c name token t" and "readPipedStdin stdin wait = Some input"
    and "m_type res = ''result''" and "m_id res = mid" and "m_ok res = Some True"
  shows "exec_command (ps_client_config p) None None mid (ps_client_args p) stdin wait [Got res] =
    Runs (Some ([ResultJson res], Some None,
      Some (exec_request mid (ec_target c) t (ec_cmd c) (ec_timeout c) False (input_bytes input))))"
  using assms by (auto simp: client_asks_def exec_command_def handleExecWithStdin_def exec_finish_def)

text \<open>
  C3. From three command lines to a result. A relay, a node and a client are started, with the same
  relay secret (or none) and the node's token and name in the client's configuration. Then the relay
  lets both in and registers the node's name; the node is sent exactly the client's command, with its
  input and its timeout; the answer is the only thing the relay ever writes to the client; and the
  client prints it, the trimmed output, the exit code and the time the shell reported, under its own
  request id, and ends without an error, with nothing left pending at the relay.
\<close>

theorem system_runs_a_command:
  assumes "parse_relay_start ec ek (ps_relay_args p) = Runs (port, addr, cert, key, False)"
    and "node_named p rand name token" and "client_asks p c name token t"
    and "relaySecret (ps_node_config p) (ps_node_secret p) = sec" and "relaySecret (ps_client_config p) (ps_client_secret p) = sec"
    and "readPipedStdin stdin wait = Some input"
    and "ce_shell (de_cmd denv) (ec_cmd c) (if input_bytes input = [] then None else Some (input_bytes input)) (if ec_timeout c \<le> 0 then 30 else ec_timeout c) = out"
    and "\<not> (co_error out \<noteq> None \<and> co_deadline out)"
  shows "\<exists>r0 tls d url nf' announce req answer res r4 r5.
    handleRelayDaemonStart renv ec ek (newRelayFromEnv sec '''' e kf) (ps_relay_args p) rh = (Runs (RelayListens (relayListenAddr addr port) tls r0), rh) \<and>
    handleDaemonStart nenv (ps_node_config p) rand save fs (ps_node_args p) (ps_node_files p) nh = (Runs (Foreground (Inr (d, url))), nf', nh) \<and>
    td_sent (dm_xfer (dm_connect denv ord d)) = [announce] \<and>
    relay_run r0 [Connect (auth_header (ps_node_config p) (ps_node_secret p)), Recv 0 (Json announce),
      Connect (auth_header (ps_client_config p) (ps_client_secret p)), Recv 1 (Json req)] r4 \<and>
    wire (rs_rcs r4 0) = [Json (empty_message\<lparr>m_type := ''registered'', m_name := name\<rparr>), Json (command_of (newID e 0) req)] \<and>
    executeCommand (de_cmd denv) sched (command_of (newID e 0) req) = [answer] \<and>
    relay_step r4 (Recv 0 (Json answer)) r5 \<and> wire (rs_rcs r5 1) = [Json res] \<and> rs_pending r5 (newID e 0) = None \<and>
    exec_command (ps_client_config p) None None mid (ps_client_args p) stdin wait [Got res] = Runs (Some ([ResultJson res], Some None, Some req)) \<and>
    res = okResult (ce_version (de_cmd denv)) mid (trim_space (co_stdout out)) (trim_space (co_stderr out)) (exit_code (co_error out)) (co_ms out)"
proof -
  let ?e = "de_cmd denv" and ?rid = "newID e 0" and ?al = "ec_target c"
  let ?res = "\<lambda>i. okResult (ce_version ?e) i (trim_space (co_stdout out)) (trim_space (co_stderr out)) (exit_code (co_error out)) (co_ms out)"
  define r0 where "r0 = newRelayFromEnv sec '''' e kf"
  define req where "req = exec_request mid ?al t (ec_cmd c) (ec_timeout c) False (input_bytes input)"
  obtain tls where relay: "handleRelayDaemonStart renv ec ek r0 (ps_relay_args p) rh = (Runs (RelayListens (relayListenAddr addr port) tls r0), rh)"
    using assms(1) by (simp add: handleRelayDaemonStart_def)
  obtain d nurl nf' where node: "handleDaemonStart nenv (ps_node_config p) rand save fs (ps_node_args p) (ps_node_files p) nh =
      (Runs (Foreground (Inr (d, nurl))), nf', nh)"
    and d: "d = new_daemon name token (nf_code (ps_node_files p)) (nf_key (ps_node_files p)) fs" "name \<noteq> ''''" "token \<noteq> ''''"
    using node_starts [OF assms(2)] by blast
  define announce where "announce = register_msg (ce_version ?e) d"
  have sent: "td_sent (dm_xfer (dm_connect denv ord d)) = [announce]" by (simp add: announce_def d(1) fresh_daemon_registers)
  have a: "m_type announce = ''register''" "m_name announce = name" "m_token announce = token"
    by (simp_all add: announce_def register_msg_def d(1) new_daemon_def)
  define r2 where "r2 = node_registered announce (node_connected sec e kf)"
  define r3 where "r3 = accept_conn True r2"
  note r3 = client_connected_fields [OF a d(2,3), of sec e kf, folded r2_def, folded r3_def]
  obtain url where al: "find_target ''load config: '' ?al (ps_client_config p) = Inr (url, t)" "tg_token t = token" "relay_target ?al t = name"
    using assms(3) by (auto simp: client_asks_def)
  have conn: "connected (ps_client_config p) url ?al t 1 0 r3"
    using al d(2) by (simp add: connected_def conn_waits_def r3)
  define r4 where "r4 = client_frame 1 (Json req) r3"
  define r5 where "r5 = ws_frame True 0 (Json (?res ?rid)) r4"
  have run: "executeCommand ?e sched (command_of ?rid req) = [?res ?rid]" unfolding req_def by (rule buffered_run [OF assms(7,8)])
  have trip: "wire (rs_rcs r4 0) = [Json (empty_message\<lparr>m_type := ''registered'', m_name := name\<rparr>), Json (command_of ?rid req)]"
    "wire (rs_rcs r5 1) = [Json ((?res ?rid)\<lparr>m_id := mid\<rparr>)]" "rs_pending r5 ?rid = None"
    using exec_round_trip [OF conn, where mid = mid and cmd = "ec_cmd c" and timeout = "ec_timeout c" and stream = False
        and stdin = "input_bytes input" and env = ?e and sched = sched and a = True, folded req_def, unfolded r3(6,7), unfolded run, folded r4_def]
    by (simp_all add: r3 r5_def relay_replies_def)
  have res: "(?res ?rid)\<lparr>m_id := mid\<rparr> = ?res mid" "m_type (?res mid) = ''result''" "m_id (?res mid) = mid" "m_ok (?res mid) = Some True"
    by (simp_all add: okResult_def empty_message_def)
  have r4': "r4 = ws_frame True 1 (Json req) r3" by (simp add: r4_def client_frame_def r3)
  have ctx4: "rs_ctxs r4 0 = rs_ctxs r3 0" by (simp add: r4' ws_frame_def ws_dispatch_def req_def)
  have s0: "relay_step r0 (Connect (auth_header (ps_node_config p) (ps_node_secret p))) (node_connected sec e kf)"
    unfolding node_connected_def r0_def by (rule connect_step) (simp add: assms(4))
  have s1: "relay_step (node_connected sec e kf) (Recv 0 (Json announce)) r2"
    by (rule recv_step) (auto simp: r2_def node_registered_def)
  have s2: "relay_step r2 (Connect (auth_header (ps_client_config p) (ps_client_secret p))) r3"
    unfolding r3_def by (rule connect_step) (simp add: assms(5) r2_def node_registered_eq [OF a d(2,3)])
  have s3: "relay_step r3 (Recv 1 (Json req)) r4" by (rule recv_step) (auto simp: r3 r4')
  have s4: "relay_step r4 (Recv 0 (Json (?res ?rid))) r5" by (rule recv_step) (auto simp: ctx4 r3 r5_def)
  have "relay_run r0 [Connect (auth_header (ps_node_config p) (ps_node_secret p)), Recv 0 (Json announce),
      Connect (auth_header (ps_client_config p) (ps_client_secret p)), Recv 1 (Json req)] r4"
    using s0 s1 s2 s3 by (meson relay_run.intros)
  then show ?thesis
    using relay node sent trip run s4 client_ends [OF assms(3,6) res(2-4)] unfolding r0_def [symmetric] res(1) req_def [symmetric] by blast
qed

definition demo_processes :: processes where
  "demo_processes = \<lparr>ps_relay_args = [], ps_node_args = [''-token'', ''tok'', ''-name'', ''box''], ps_node_config = demo_file,
     ps_node_files = \<lparr>nf_token = None, nf_code = None, nf_key = None\<rparr>, ps_node_secret = '''',
     ps_client_args = [''--target'', ''b'', ''--cmd'', ''ls''], ps_client_config = demo_file, ps_client_secret = ''''\<rparr>"

lemma demo_processes_fields [simp]:
  "ps_relay_args demo_processes = []" "ps_node_args demo_processes = [''-token'', ''tok'', ''-name'', ''box'']" "ps_node_config demo_processes = demo_file"
  "ps_node_files demo_processes = \<lparr>nf_token = None, nf_code = None, nf_key = None\<rparr>" "ps_node_secret demo_processes = ''''"
  "ps_client_args demo_processes = [''--target'', ''b'', ''--cmd'', ''ls'']" "ps_client_config demo_processes = demo_file" "ps_client_secret demo_processes = ''''"
  by (simp_all add: demo_processes_def)

text \<open>A relay with a secret, a node \<open>box\<close> that the client knows as \<open>b\<close>, and \<open>ls\<close> from a terminal.\<close>

theorem system_runs_a_command_witness:
  "\<exists>r0 tls announce req answer res r4 r5.
     handleRelayDaemonStart demo_host '''' '''' (newRelayFromEnv ''s'' '''' demo_entropy None) [] \<lparr>ho_files = Map.empty, ho_procs = Map.empty\<rparr> =
       (Runs (RelayListens (relayListenAddr '''' 3032) tls r0), \<lparr>ho_files = Map.empty, ho_procs = Map.empty\<rparr>) \<and>
     relay_run r0 [Connect (auth_header demo_file ''''), Recv 0 (Json announce), Connect (auth_header demo_file ''''), Recv 1 (Json req)] r4 \<and>
     relay_step r4 (Recv 0 (Json answer)) r5 \<and> wire (rs_rcs r5 1) = [Json res] \<and>
     exec_command demo_file None None ''q'' [''--target'', ''b'', ''--cmd'', ''ls''] Terminal 300 [Got res] = Runs (Some ([ResultJson res], Some None, Some req))"
proof -
  let ?t = "\<lparr>tg_token = ''tok'', tg_relayName = ''box''\<rparr>" and ?h = "\<lparr>ho_files = Map.empty, ho_procs = Map.empty\<rparr>"
  let ?c = "\<lparr>ec_target = ''b'', ec_cmd = ''ls'', ec_timeout = 30, ec_stream = False\<rparr>"
  have i: "int_flag ''30'' = 30" "int_flag ''3032'' = 3032" by code_simp+
  have relay: "parse_relay_start '''' '''' (ps_relay_args demo_processes) = Runs (3032, '''', '''', '''', False)"
    by (simp add: parse_relay_start_def flag_defs parse_flags.simps i)
  have cfg: "loadConfig demo_file = Inr (empty_config\<lparr>cf_relay := \<lparr>rl_url = ''http://r'', rl_name = '''', rl_secret = ''s''\<rparr>, cf_targets := [''b'' \<mapsto> ?t]\<rparr>)"
    by (simp add: demo_file_def loadConfig_def)
  have "parse_daemon_start [''-token'', ''tok'', ''-name'', ''box''] = Runs (''tok'', ''box'', False)"
    by (simp add: parse_daemon_start_def flag_defs)
  then have node: "node_named demo_processes [7] ''box'' ''tok''"
    using cfg by (simp add: node_named_def daemon_token_def)
  have "handleExecFlags [''--target'', ''b'', ''--cmd'', ''ls''] = Runs ?c"
    by (simp add: handleExecFlags_def exec_flags_def flag_defs i)
  then have client: "client_asks demo_processes ?c ''box'' ''tok'' ?t"
    using demo_connected by (auto simp: client_asks_def connected_def relay_target_def)
  have sec: "relaySecret (ps_node_config demo_processes) (ps_node_secret demo_processes) = ''s''"
    "relaySecret (ps_client_config demo_processes) (ps_client_secret demo_processes) = ''s''"
    using cfg by (simp_all add: relaySecret_def)
  have input: "readPipedStdin Terminal 300 = Some None" by (simp add: readPipedStdin_def)
  let ?out = "ce_shell (de_cmd demo_daemon_env) (ec_cmd ?c) (if input_bytes None = [] then None else Some (input_bytes None)) (if ec_timeout ?c \<le> 0 then 30 else ec_timeout ?c)"
  have out: "\<not> (co_error ?out \<noteq> None \<and> co_deadline ?out)" by (simp add: demo_daemon_env_def demo_cmd_env_def)
  show ?thesis
    using system_runs_a_command [OF relay node client sec input refl out, of demo_host demo_entropy None ?h demo_host None Map.empty ?h "[]" "[]" "''q''"]
    unfolding demo_processes_fields by blast
qed

end
