(* ===== verification/TunnelRun.thy ===== *)
theory TunnelRun
  imports TunnelClient Dial
begin

text \<open>
  The life of a client tunnel (tunnel.go): how it starts, how it reconnects, and the interleaving of
  its goroutines as a step relation. The relay connections are numbered in the order in which they
  are made; the local port stays bound throughout, so accepting is not a step.
\<close>

section \<open>Starting\<close>

text \<open>\<open>runTunnel\<close> up to its accept loop: the error, or the tunnel over its first connection and the
  URL to reconnect to. \<open>dial\<close> and \<open>listener\<close> are the errors of connecting and of binding the port.\<close>

definition runTunnel ::
    "config_file \<Rightarrow> string option \<Rightarrow> string option \<Rightarrow> string \<Rightarrow> string \<Rightarrow> string \<Rightarrow> string + (client_tunnel \<times> string)" where
  "runTunnel f dial listener target port remote =
     (case loadConfig f of
        Inl e \<Rightarrow> Inl (''load config: '' @ e)
      | Inr c \<Rightarrow>
          if rl_url (cf_relay c) = '''' then Inl not_configured
          else case cf_targets c target of
                 None \<Rightarrow> Inl (''unknown target '' @ quoted target)
               | Some t \<Rightarrow>
                   (case dial of
                      Some e \<Rightarrow> Inl (''connect to relay: '' @ e)
                    | None \<Rightarrow>
                        (case listener of
                           Some e \<Rightarrow> Inl (''listen on :'' @ port @ '': '' @ e)
                         | None \<Rightarrow>
                             Inr (\<lparr>ct_targetName = relay_target target t, ct_remoteAddr = remote, ct_token = tg_token t, ct_conn = Some 0,
                                   ct_pendingOpen = Map.empty, ct_activeConns = Map.empty,
                                   ct_locals = (\<lambda>_. \<lparr>nc_written = [], nc_open = True\<rparr>), ct_sent = []\<rparr>,
                                  wsURL (rl_url (cf_relay c))))))"

section \<open>Reconnecting\<close>

text \<open>The pauses of \<open>maintain\<close> after a connection was lost, given how the attempts end, and whether the
  last one connected.\<close>

fun reconnect :: "nat \<Rightarrow> bool list \<Rightarrow> nat list \<times> bool" where
  "reconnect backoff [] = ([], False)"
| "reconnect backoff (up # ds) =
     (if up then ([backoff], True) else (case reconnect (next_backoff backoff) ds of (ps, b) \<Rightarrow> (backoff # ps, b)))"

text \<open>\<open>waitConn\<close>: what \<open>currentConn\<close> and the clock (milliseconds) give at its \<open>i\<close>-th test.\<close>

partial_function (option) wait_conn :: "(nat \<Rightarrow> nat option) \<Rightarrow> (nat \<Rightarrow> int) \<Rightarrow> int \<Rightarrow> nat \<Rightarrow> nat option option" where
  "wait_conn conn clock deadline i =
     (case conn i of
        Some k \<Rightarrow> Some (Some k)
      | None \<Rightarrow> if clock i > deadline then Some None else wait_conn conn clock deadline (Suc i))"

definition waitConn :: "(nat \<Rightarrow> nat option) \<Rightarrow> (nat \<Rightarrow> int) \<Rightarrow> int \<Rightarrow> nat option option" where
  "waitConn conn clock d = wait_conn conn clock (clock 0 + d) 0"

definition tunnelWaitForRelay :: int where "tunnelWaitForRelay = 10000"

section \<open>Steps\<close>

text \<open>The number of connections made so far, and the tunnel. Goroutines of local connections keep
  the relay connection they were opened on, so \<open>k\<close> may have been replaced.\<close>

inductive tunnel_step :: "(nat \<Rightarrow> bytes \<Rightarrow> nat option) \<Rightarrow> nat \<times> client_tunnel \<Rightarrow> nat \<times> client_tunnel \<Rightarrow> bool" for nw where
  Frame: "ct_conn ct = Some k \<Longrightarrow> tunnel_step nw (n, ct) (n, ct_frame nw m ct)"
| Drop: "ct_conn ct = Some k \<Longrightarrow> tunnel_step nw (n, ct) (n, dropConn k ct)"
| Connect: "ct_conn ct = None \<Longrightarrow> tunnel_step nw (n, ct) (Suc n, setConn n ct)"
| Opens: "(\<And>k. conn = Some k \<Longrightarrow> k < n) \<Longrightarrow> tunnel_step nw (n, ct) (n, snd (local_open conn werr l tid ct))"
| Opened: "tunnel_step nw (n, ct) (n, snd (local_opened l tid ct))"
| Reads: "k < n \<Longrightarrow> tunnel_step nw (n, ct) (n, snd (local_read k werr tid data ended ct))"

inductive tunnel_reachable :: "(nat \<Rightarrow> bytes \<Rightarrow> nat option) \<Rightarrow> nat \<times> client_tunnel \<Rightarrow> bool" for nw where
  Starts: "runTunnel f None None target port remote = Inr (ct, url) \<Longrightarrow> tunnel_reachable nw (1, ct)"
| Steps: "tunnel_reachable nw s \<Longrightarrow> tunnel_step nw s s' \<Longrightarrow> tunnel_reachable nw s'"

inductive_cases tunnel_stepE: "tunnel_step nw (n, ct) s'"

section \<open>Lemmas\<close>

lemma reconnect_pauses:
  "reconnect (min 30 (2 ^ i)) (replicate n False @ True # ds) = (map (\<lambda>j. min 30 (2 ^ (i + j))) [0..<Suc n], True)"
proof (induction n arbitrary: i)
  case (Suc n)
  have "next_backoff (min 30 (2 ^ i)) = min 30 (2 ^ Suc i)" by (auto simp: next_backoff_def min_def)
  then have "reconnect (min 30 (2 ^ i)) (replicate (Suc n) False @ True # ds) =
      (min 30 (2 ^ i) # map (\<lambda>j. min 30 (2 ^ (Suc i + j))) [0..<Suc n], True)"
    using Suc [of "Suc i"] by simp
  also have "min 30 (2 ^ i) # map (\<lambda>j. min 30 (2 ^ (Suc i + j))) [0..<Suc n] = map (\<lambda>j. min 30 (2 ^ (i + j))) [0..<Suc (Suc n)]"
    by (subst upt_conv_Cons [of 0 "Suc (Suc n)"]) (simp, simp add: map_Suc_upt [symmetric] del: upt_Suc)
  finally show ?case .
qed simp

text \<open>Nothing but \<open>sendOn\<close> writes to the relay, and only on the current connection.\<close>

lemma closeLocal_fields [simp]:
  "ct_conn (ct_closeLocal l ct) = ct_conn ct" "ct_sent (ct_closeLocal l ct) = ct_sent ct"
  by (simp_all add: ct_closeLocal_def)

lemma closeTunnel_fields [simp]:
  "ct_conn (ct_closeTunnel tid ct) = ct_conn ct" "ct_sent (ct_closeTunnel tid ct) = ct_sent ct"
  by (simp_all add: ct_closeTunnel_def split: option.split)

lemma sendOn_effect:
  "snd (sendOn k werr m ct) = ct \<or> (ct_conn ct = Some k \<and> snd (sendOn k werr m ct) = ct\<lparr>ct_sent := ct_sent ct @ [(k, m)]\<rparr>)"
  by (simp add: sendOn_def split: option.split)

text \<open>The invariant: writes are in the order of the connections, and the current connection is the last one made.\<close>

definition sent_in_order :: "nat \<Rightarrow> client_tunnel \<Rightarrow> bool" where
  "sent_in_order n ct \<longleftrightarrow> sorted (map fst (ct_sent ct)) \<and> (\<forall>x\<in>set (ct_sent ct). fst x < n) \<and> (\<forall>k. ct_conn ct = Some k \<longrightarrow> n = Suc k)"

lemma sent_in_order_fields:
  "ct_conn ct' = ct_conn ct \<Longrightarrow> ct_sent ct' = ct_sent ct \<Longrightarrow> sent_in_order n ct' = sent_in_order n ct"
  by (simp add: sent_in_order_def)

lemma sent_in_order_send:
  assumes "sent_in_order n ct"
  shows "sent_in_order n (snd (sendOn k werr m ct))"
proof -
  have "\<forall>x\<in>set (ct_sent ct). fst x \<le> k" if "ct_conn ct = Some k"
    using assms that by (auto simp: sent_in_order_def less_Suc_eq_le)
  then show ?thesis
    using assms sendOn_effect [of k werr m ct] by (auto simp: sent_in_order_def sorted_append)
qed

lemma ct_frame_fields [simp]: "ct_conn (ct_frame nw m ct) = ct_conn ct" "ct_sent (ct_frame nw m ct) = ct_sent ct"
  by (auto simp: ct_frame_def local_put_def Let_def split: option.splits prod.splits bool.splits if_splits)

lemma local_opened_fields [simp]:
  "ct_conn (snd (local_opened l tid ct)) = ct_conn ct" "ct_sent (snd (local_opened l tid ct)) = ct_sent ct"
  by (simp_all add: local_opened_def Let_def)

lemma sent_in_order_open: "sent_in_order n ct \<Longrightarrow> sent_in_order n (snd (local_open conn werr l tid ct))"
proof (cases conn)
  case None
  then show "sent_in_order n ct \<Longrightarrow> ?thesis" by (simp add: local_open_def sent_in_order_def)
next
  case (Some k)
  let ?ct1 = "ct\<lparr>ct_pendingOpen := (ct_pendingOpen ct)(tid \<mapsto> None)\<rparr>"
  assume "sent_in_order n ct"
  then have "sent_in_order n ?ct1" by (simp add: sent_in_order_def)
  from sent_in_order_send [OF this, of k werr "tunnel_open_msg ct tid"] show ?thesis
    using Some by (auto simp: local_open_def sent_in_order_def split: prod.split option.split)
qed

lemma sent_in_order_read: "sent_in_order n ct \<Longrightarrow> sent_in_order n (snd (local_read k werr tid data ended ct))"
proof -
  assume a: "sent_in_order n ct"
  let ?m = "(tunnel_msg ''tunnel_data'' tid)\<lparr>m_data := b64_enc data\<rparr>"
  define r where "r = (if data = [] then (None, ct) else sendOn k werr ?m ct)"
  have b: "sent_in_order n (snd r)" using a sent_in_order_send [OF a] by (simp add: r_def)
  note c = sent_in_order_send [OF b, of k werr "tunnel_msg ''tunnel_close'' tid"]
  have "snd (local_read k werr tid data ended ct) =
      (let leave = (\<lambda>ct. ct_closeTunnel tid (ct\<lparr>ct_pendingOpen := (ct_pendingOpen ct)(tid := None)\<rparr>))
       in if fst r \<noteq> None then leave (snd r)
          else if ended then leave (snd (sendOn k werr (tunnel_msg ''tunnel_close'' tid) (snd r))) else snd r)"
    by (simp add: local_read_def r_def [symmetric] Let_def split: prod.split)
  then show ?thesis using b c by (simp add: sent_in_order_def Let_def)
qed

lemma tunnel_step_in_order:
  assumes "tunnel_step nw s s'" "sent_in_order (fst s) (snd s)"
  shows "sent_in_order (fst s') (snd s')"
  using assms
proof (cases rule: tunnel_step.cases)
  case (Frame ct k n m)
  then show ?thesis using assms(2) by (auto simp: sent_in_order_def)
next
  case (Drop ct k n)
  then show ?thesis using assms(2) by (auto simp: sent_in_order_def dropConn_def)
next
  case (Connect ct n)
  then show ?thesis using assms(2) by (auto simp: sent_in_order_def setConn_def less_Suc_eq)
next
  case (Opened n ct l tid)
  then show ?thesis using assms(2) by (simp add: sent_in_order_def)
qed (use assms(2) in \<open>simp_all add: sent_in_order_open sent_in_order_read\<close>)

lemma tunnel_starts:
  "runTunnel f dial listener target port remote = Inr (ct, url) \<Longrightarrow> ct_conn ct = Some 0 \<and> ct_sent ct = []"
  by (auto simp: runTunnel_def split: sum.splits option.splits if_splits)

lemma reachable_in_order: "tunnel_reachable nw s \<Longrightarrow> sent_in_order (fst s) (snd s)"
proof (induction rule: tunnel_reachable.induct)
  case (Starts f target port remote ct url)
  then show ?case using tunnel_starts [OF Starts] by (simp add: sent_in_order_def)
next
  case (Steps s s')
  then show ?case using tunnel_step_in_order by blast
qed

section \<open>Properties\<close>

text \<open>
  C21. A tunnel survives its relay connection. Whatever its goroutines do and in whatever order: what
  is written to the relay is in the order of the connections, so that nothing for an old connection
  is ever written on a newer one and nothing on one that has been replaced. When the connection is
  lost, every local connection that was using it is closed and forgotten, and every open that was
  waiting has an answer; and a local connection accepted after the next connect is opened over it.
\<close>

theorem tunnel_survives_reconnect:
  assumes "tunnel_reachable nw (n, ct)"
  shows "sorted (map fst (ct_sent ct)) \<and>
    (\<forall>k. ct_conn ct = Some k \<longrightarrow>
      (let ct1 = dropConn k ct; ct2 = setConn n ct1
       in tunnel_step nw (n, ct) (n, ct1) \<and> tunnel_step nw (n, ct1) (Suc n, ct2) \<and>
          ct_activeConns ct2 = Map.empty \<and> (\<forall>tid l. ct_activeConns ct tid = Some l \<longrightarrow> \<not> nc_open (ct_locals ct2 l)) \<and>
          (\<forall>tid. ct_pendingOpen ct2 tid \<noteq> Some None) \<and>
          (\<forall>m. sendOn k None m ct2 = (Some ''relay connection down'', ct2)) \<and>
          (\<forall>l tid. \<exists>ct3. local_open (ct_conn ct2) None l tid ct2 = (Some n, ct3) \<and> ct_sent ct3 = ct_sent ct @ [(n, tunnel_open_msg ct tid)])))"
proof (intro conjI allI impI)
  have inv: "sent_in_order n ct" using reachable_in_order [OF assms] by simp
  then show "sorted (map fst (ct_sent ct))" by (simp add: sent_in_order_def)
  fix k assume k: "ct_conn ct = Some k"
  then have n: "n = Suc k" using inv by (simp add: sent_in_order_def)
  let ?ct1 = "dropConn k ct"
  let ?ct2 = "setConn n ?ct1"
  have off: "ct_conn ?ct1 = None" by (simp add: dropConn_def k)
  have steps: "tunnel_step nw (n, ct) (n, ?ct1)" "tunnel_step nw (n, ?ct1) (Suc n, ?ct2)"
    using k off by (auto intro: tunnel_step.intros)
  have "ct_activeConns ?ct2 = Map.empty" by (simp add: dropConn_def setConn_def)
  moreover have "\<not> nc_open (ct_locals ?ct2 l)" if "ct_activeConns ct tid = Some l" for tid l
    using that by (auto simp: dropConn_def setConn_def)
  moreover have "ct_pendingOpen ?ct2 tid \<noteq> Some None" for tid
    by (auto simp: dropConn_def setConn_def offer_def split: option.splits)
  moreover have "sendOn k None m ?ct2 = (Some ''relay connection down'', ?ct2)" for m
    by (simp add: sendOn_def setConn_def n)
  moreover have "\<exists>ct3. local_open (ct_conn ?ct2) None l tid ?ct2 = (Some n, ct3) \<and> ct_sent ct3 = ct_sent ct @ [(n, tunnel_open_msg ct tid)]" for l tid
    by (simp add: local_open_def sendOn_def setConn_def dropConn_def tunnel_open_msg_def)
  ultimately show "let ct1 = ?ct1; ct2 = setConn n ct1
       in tunnel_step nw (n, ct) (n, ct1) \<and> tunnel_step nw (n, ct1) (Suc n, ct2) \<and>
          ct_activeConns ct2 = Map.empty \<and> (\<forall>tid l. ct_activeConns ct tid = Some l \<longrightarrow> \<not> nc_open (ct_locals ct2 l)) \<and>
          (\<forall>tid. ct_pendingOpen ct2 tid \<noteq> Some None) \<and>
          (\<forall>m. sendOn k None m ct2 = (Some ''relay connection down'', ct2)) \<and>
          (\<forall>l tid. \<exists>ct3. local_open (ct_conn ct2) None l tid ct2 = (Some n, ct3) \<and> ct_sent ct3 = ct_sent ct @ [(n, tunnel_open_msg ct tid)])"
    using steps unfolding Let_def by blast
qed

text \<open>A tunnel with one connection open when the relay goes.\<close>

theorem tunnel_survives_reconnect_witness:
  "\<exists>ct url ct1. runTunnel demo_file None None ''b'' ''5432'' ''localhost:5432'' = Inr (ct, url) \<and> ct_conn ct = Some 0 \<and>
     local_open (Some 1) None 3 ''t1'' (setConn 1 (dropConn 0 ct)) = (Some 1, ct1) \<and> ct_sent ct1 = ct_sent ct @ [(1, tunnel_open_msg ct ''t1'')]"
proof -
  obtain ct url where r: "runTunnel demo_file None None ''b'' ''5432'' ''localhost:5432'' = Inr (ct, url)"
    by (simp add: runTunnel_def demo_file_def loadConfig_def)
  have c: "ct_conn ct = Some 0" using tunnel_starts [OF r] by simp
  have "tunnel_reachable (\<lambda>_ _. None) (1, ct)" using r by (rule tunnel_reachable.Starts)
  from tunnel_survives_reconnect [OF this] have "\<exists>ct1. local_open (ct_conn (setConn 1 (dropConn 0 ct))) None 3 ''t1'' (setConn 1 (dropConn 0 ct)) = (Some 1, ct1) \<and>
      ct_sent ct1 = ct_sent ct @ [(1, tunnel_open_msg ct ''t1'')]"
    using c unfolding Let_def by blast
  then show ?thesis using r c by (auto simp: setConn_def)
qed

text \<open>
  C22. The waits of a tunnel are bounded. The pauses between attempts to reconnect are 1, 2, 4, 8, 16
  and then 30 seconds, for as many attempts as fail; and the wait of a new local connection for the
  relay ends after at most 101 polls, with the first connection it sees, or without one only when
  there was none at any poll and more than ten seconds have passed.
\<close>

theorem tunnel_waits_are_bounded:
  assumes "\<forall>i. clock (Suc i) \<ge> clock i + 100"
  shows "reconnect 1 (replicate n False @ True # ds) = (map (\<lambda>j. min 30 (2 ^ j)) [0..<Suc n], True) \<and>
    (\<exists>j\<le>101. waitConn conn clock tunnelWaitForRelay = Some (conn j) \<and> (\<forall>i<j. conn i = None) \<and>
      (conn j = None \<longrightarrow> clock j > clock 0 + 10000))"
proof
  show "reconnect 1 (replicate n False @ True # ds) = (map (\<lambda>j. min 30 (2 ^ j)) [0..<Suc n], True)"
    using reconnect_pauses [of 0 n ds] by simp
  have grows: "clock 0 + 100 * int i \<le> clock i" for i
  proof (induction i)
    case (Suc i)
    then show ?case using assms [rule_format, of i] by simp
  qed simp
  have "\<exists>j\<le>101. wait_conn conn clock (clock 0 + 10000) i = Some (conn j) \<and> (\<forall>i<j. conn i = None) \<and> (conn j = None \<longrightarrow> clock j > clock 0 + 10000)"
    if "i \<le> 101" "\<forall>i'<i. conn i' = None" for i
    using that
  proof (induction "101 - i" arbitrary: i)
    case 0
    then have "i = 101" by simp
    moreover have "clock 101 > clock 0 + 10000" using grows [of 101] by simp
    ultimately show ?case using 0(3) by (intro exI [of _ 101]) (subst wait_conn.simps, simp split: option.split)
  next
    case (Suc r)
    show ?case
    proof (cases "conn i = None \<and> \<not> clock i > clock 0 + 10000")
      case True
      then have "wait_conn conn clock (clock 0 + 10000) i = wait_conn conn clock (clock 0 + 10000) (Suc i)" by (subst wait_conn.simps) simp
      moreover have "\<forall>i'<Suc i. conn i' = None" using True Suc(4) by (simp add: less_Suc_eq)
      ultimately show ?thesis using Suc(1) [of "Suc i"] Suc(2,3) by simp
    next
      case False
      then show ?thesis using Suc(3,4) by (intro exI [of _ i]) (subst wait_conn.simps, auto split: option.split)
    qed
  qed
  from this [of 0] show "\<exists>j\<le>101. waitConn conn clock tunnelWaitForRelay = Some (conn j) \<and> (\<forall>i<j. conn i = None) \<and>
      (conn j = None \<longrightarrow> clock j > clock 0 + 10000)"
    by (simp add: waitConn_def tunnelWaitForRelay_def)
qed

theorem tunnel_waits_are_bounded_witness:
  "\<exists>j\<le>(101 :: nat). waitConn (\<lambda>i. if i < 7 then None else Some 1) (\<lambda>i. 100 * int i) tunnelWaitForRelay = Some (if j < 7 then None else Some 1) \<and>
     (\<forall>i<j. (if i < 7 then None else Some 1) = (None :: nat option))"
  using conjunct2 [OF tunnel_waits_are_bounded [of "\<lambda>i. 100 * int i" 0 "[]" "\<lambda>i. if i < 7 then None else Some 1"]] by fastforce

text \<open>
  An answer after the timeout. The goroutine that gave up has written nothing, and the late
  confirmation changes nothing: the target's end of the tunnel is never told and stays open.
\<close>

theorem late_answer_leaks_tunnel:
  assumes "ct_pendingOpen ct tid = Some None" and "m_type m = ''tunnel_opened''" and "m_tunnel_id m = tid"
  shows "\<exists>ct1. local_opened l tid ct = (False, ct1) \<and> ct_sent ct1 = ct_sent ct \<and> ct_pendingOpen (ct_frame nw m ct1) tid = None \<and>
    ct_activeConns (ct_frame nw m ct1) = ct_activeConns ct \<and> ct_sent (ct_frame nw m ct1) = ct_sent ct"
  using assms by (simp add: local_opened_def ct_frame_def ct_closeLocal_def Let_def)

end
