(* ===== verification/Spec2Isabelle.thy ===== *)
theory Spec2Isabelle
  imports RelayAuthority RelayBatch RelayRace RelayReplies RelayLifecycle TransferCopy TransferEdge Archive QueueOrder RelayCopy
    ExecEndToEnd DaemonProps ClientConfig ExitCodes TunnelClient ArchiveTree ClientSession Health Mcp Pairing Versions UpdateProps RestartHelper Services System TunnelRun
begin

text \<open>
  A verification development for remotecmd-cli, a Go program that runs commands, transfers files and
  tunnels connections on remote machines through a websocket relay. File names below are under src/.

  1. The program

  One binary plays four parts. The \<^emph>\<open>client\<close> turns a command line into requests, the \<^emph>\<open>relay\<close> forwards
  each request to the daemon it names and each answer to the connection that asked, the \<^emph>\<open>daemon\<close> on
  the target machine runs commands, receives files and opens connections, and an \<^emph>\<open>updater\<close> replaces
  the binary and restarts what runs it. All of them speak one JSON message type, with binary frames
  behind the chunks of a file. Secrets: the relay's shared secret admits a connection, a daemon's token
  admits a request to that daemon, and a pair code or an activation key introduces a new daemon.

  Each component is a group of definitions over its own state record, in the order of the source; the
  components meet in the messages and in the theories that compose them (section 3).

  2. Theories and what they model

  Shared ground
    Prelude            bytes, Go strings, \<open>strings\<close>, \<open>strconv\<close> and \<open>fmt\<close>, deletion from a map in a loop
    Codecs, Base64     the interface of an encoding (locale \<open>codec\<close>), hexadecimal, big-endian, base64
    Protocol           protocol.go: \<open>message\<close>, constructors of replies, \<open>newID\<close>, \<open>wsURL\<close>

  The relay
    RelayQueue         relay_client.go: a connection's write queue, as bytes and as lists of frames
    QueueOrder         the first refines the second: delivery in order, no header parted from its payload
    ActivationKeys     activation_keys.go: the key store and its cache by file stat
    RelayState         relay.go, relay_client.go: \<open>relay_server\<close> with its tables, connections and wires
    RelayHandlers      relay_handler.go: one definition per message handler
    RelayMulti         relay_multi.go: batches, their fan-out, counting and timers
    RelayTunnel        relay_tunnel.go: tunnel sessions
    RelayServer        relay.go: the connection loop, and the relay as the step relation \<open>relay_step\<close>
    RelayScenario      a relay reached by real events, used by the witnesses
    RelayFrames        which tables each handler leaves alone
    RelayAuth, RelayAuthority      who can make the relay send a privileged frame
    RelayRouting, RelayReplies     request ids, where replies go, how often
    RelayBatch, RelayRace          accounting of batches, and three places where it goes wrong
    RelayLifecycle     pair codes, activation keys, tunnels, what a leaving connection takes along
    RelayAdmin         cli_daemon.go: starting a relay, its status, its keys from the command line

  Files
    Sender             filetransfer_chunk.go, filetransfer_stream.go: chunking, compression, streams
    Reassembly         daemon_filetransfer.go: transfers on stores of objects, handles and files
    ChunkSink          the contract of a place that collects chunks (locale \<open>chunk_sink\<close>)
    Archive, ArchiveTree           unpacking and packing of directories
    TransferRun, TransferCopy, TransferParallel, TransferEdge, FileTransfer
                       a sender joined to a daemon: one stream, many streams, the bad endings
    RelayCopy          the same through the relay's queue
    Copy               filetransfer.go: the whole cp command

  The daemon
    DaemonCommands     daemon.go: a command run buffered or streamed
    Daemon             daemon.go, tunnel_daemon.go: read loop, goroutines as tasks, \<open>daemon_step\<close>
    DaemonProps        the in-flight count, the wait before a restart, pairing retries
    DaemonStart        cli_daemon.go, daemon.go: from \<open>daemon start\<close> to a registered node
    Processes          daemonize_unix.go: background processes and PID files
    Services           systemd.go, schtasks_windows.go: unit files and scheduled tasks

  The client
    Flags, CommandLine main.go and the cli files: Go's flag parser, dispatch, the flags of each command
    Invocation         cli_exec.go, cli_sidecar.go, feedback.go: piped input, requests over HTTP
    ClientConfig       config.go: targets, groups, resolution of names, saving
    Dial               utils.go, cli_config.go: the secret a client presents and what a refusal says
    Client             client.go, cli_exec.go: requests built, replies read, output printed
    ExitCodes          exitcode.go, clierror.go: exit status and error type of a failure
    ClientSession      client_session.go: many calls on one connection
    TunnelClient, TunnelRun        tunnel.go: the client's end of a tunnel, and its life
    Pairing            pair.go, cli_pair_disconnect.go
    Health             health.go: probing targets and the cache of their answers
    Mcp                mcp.go, mcp_tools.go: the MCP server on standard input
    Aliases            alias.go, alias_wrappers.go: the wrapper scripts and their installation
    ExecEndToEnd       client, relay and daemon joined for a command
    System             the same from three command lines, starting with an empty relay

  Updating
    Versions           version.go, daemonversion.go: versions and their order (\<open>instantiation semver\<close>)
    Update, UpdateProps            update.go: choose, download, verify, swap, roll back
    ProcUpdate         procupdate.go: which processes run, and how each is restarted
    RestartHelper      restarthelper.go: the detached helper

  3. State, steps and interfaces

  A struct is a record with the source's fields, a map a partial function, a tagged choice a datatype, a
  failing call a sum or an option, a machine integer a word or an integer with its range. Pointers that
  are shared (\<open>relayClient\<close>, \<open>fileReassembly\<close>, \<open>os.File\<close>) are numbers into a store. What a component
  sends is kept in order (\<open>wire\<close> of a relay connection, \<open>td_sent\<close> of a daemon, \<open>ct_sent\<close> of a tunnel
  client), so statements about messages are statements about those lists.

  Concurrency is a step relation wherever two goroutines can meet: \<open>relay_step\<close> (a handler is one step,
  but the two that let go of the lock in the middle, a chunk waiting for its payload and a fan-out, are
  two), \<open>daemon_step\<close> (each goroutine the read loop starts is a task, run at any later time),
  \<open>tunnel_step\<close>. Invariants are proved by rule induction over the reachable states. A Go map's order of
  iteration is an explicit argument wherever it can be seen.

  The interfaces are locales, each interpreted on the program's own definitions: \<open>codec\<close> (hexadecimal,
  big-endian lengths, base64, the queue's frame pairs), \<open>byte_sink\<close> and \<open>chunk_sink\<close> (the open file and
  the buffer of an archive), \<open>ordered_sender\<close> (the relay's queue).

  4. What the lemmas show

  Authority: a frame that makes a daemon act is written only for an authenticated client that sent the
  daemon's token; without the relay secret there is none; a name changes hands only with its token.
  Routing: a reply reaches the one who asked, under his id, once; pending requests are not overwritten;
  a batch that completes after it was armed reports every target.
  Transfers: what is sent arrives, over one stream, over several in any interleaving, as a file or a
  packed directory, and cp succeeds only when the daemon acknowledged it; streaming equals buffering.
  Commands: output, exit code and duration reach the client's terminal unchanged and in order.
  Tunnels: both directions in order; reconnecting keeps the order and its pauses are bounded.
  Updates: only a verified binary is installed, a failed step changes nothing, some process runs after
  every update, and versions are compared by a linear order.
  Client: arguments reach the call they name, whether typed, through an alias or in a background child; a
  silent standard input never holds a command back;
  the configuration stays well-formed; MCP requests are answered once and only after a valid opening.
  Divergences that modelling showed are lemmas too (RelayRace, TransferEdge, and the lemmas named in the
  component theories); they say what the code does, not what a comment promises.

  5. Bounds, fuel and termination

  Every loop of the source that ends is a total function. \<open>waitIdle\<close> polls 600 times at most, stopping a
  process 10 times, a new local connection of a tunnel looks for its relay connection 101 times; the
  pauses of a reconnecting tunnel double up to 30 seconds. A loop that only ends with its connection (the
  read loops) is a function of the list of frames it is given, so no fuel is needed. \<open>sendFileStreaming\<close>
  recurses on what is left to read. The queue holds 128 entries, a checksum list is read up to 2 ^ 20
  bytes, and the byte lengths of queue entries are 32 bits, a hypothesis where a frame's length matters.

  6. Parameters and hypotheses

  Code outside the repository is an argument: errors of the operating system (\<open>os_env\<close>, \<open>fs_env\<close>,
  \<open>host_env\<close>, \<open>update_env\<close>, \<open>helper_env\<close>), the shell and the network of a daemon (\<open>daemon_env\<close>), gzip, the
  tar format, SHA-256, random bytes, the release server. The hypotheses are their documented behaviour:
  decompressing what was compressed, an archive decoding to its entries, calls that do not fail. Their
  witnesses give concrete functions. A JSON message is the value that is encoded; text that is only
  printed for people is left out.

  7. Not modelled

  Keepalive pings and deadlines of the websockets (they end a connection, which is a step of its own
  here), progress lines, help and guide texts and the JSON help catalogue, the landing page and the bodies of the
  health routes of the relay, starting the TLS listener, build information of the Go runtime, and the thin
  wrappers of system calls (detaching, process flags, signals; the Windows process functions). Two
  goroutines inside one of the source's locked sections are not interleaved, and writes to one websocket
  are atomic, as its mutex makes them. File paths are texts; links are followed only where the source
  looks at them.
\<close>

end
